(* ===== verification/Prelude.thy ===== *)
theory Prelude
  imports Complex_Main "HOL-Library.Char_ord" "HOL-Library.List_Lexorder" "HOL-Library.Sublist"
    "HOL-Library.Multiset"
begin

text \<open>
  Shared vocabulary of the development.

  \<^item> Python exceptions are values: \<open>exn\<close> lists the exception classes the modelled code raises,
    \<open>error\<close> pairs one with its message, and a fallible operation returns \<open>'a result\<close>
    (\<open>Inl\<close> the exception, \<open>Inr\<close> the value).  \<open>rbind\<close> is sequencing, \<open>rfold\<close> the loop
    \<open>for x in xs: s = f(s, x)\<close> that stops at the first exception.
  \<^item> The list idioms of the sources: \<open>next((x for x in xs if p x), None)\<close> is \<open>find_first\<close>,
    \<open>tuple(sorted(set(xs)))\<close> is \<open>sorted_set\<close>, the keys of a dict comprehension in
    insertion order are \<open>keep_first\<close>, its values \<open>dict_get\<close> (the last binding wins).
  \<^item> \<open>str.strip\<close> truthiness and \<open>re.fullmatch\<close> of the identifier patterns.
  \<^item> The locale \<open>append_log\<close>: an operation that either appends an entry with a fresh key or
    leaves the state alone.  The ledger, the order-management fills and the event registry
    all promise it.
  \<^item> The locale \<open>absorbing\<close>: a transition function with absorbing states.  The generic state
    transition and the inbox and outbox machines promise it.
  \<^item> The locales \<open>codec\<close> and \<open>strict_codec\<close>: a printed form and the decoder that reads it back.
    The instrument texts and the JSON bodies of the journal promise it.
\<close>

section \<open>Proof collections\<close>

named_theorems result_simps \<open>rules that open successful runs of fallible code\<close>
named_theorems dec_laws \<open>algebraic laws of rounded decimal arithmetic\<close>

section \<open>Exceptions as values\<close>

datatype exn =
    TypeError | ValueError | PermissionError | AssertionError | KeyError | OverflowError
  | DuplicateEventError
  | InvalidVersionIdentityError | UnknownContractError | UnsupportedVersionError
  | MalformedRepresentationError | CodecFailureError | MissingUpcastPathError
  | UpcastFailureError | InvalidRegistryError
  | LedgerContractError | SimulatedExecutionError | PerformanceTruthError
  | SimulationStateError | ResearchIdentityError | QualificationError | FeatureContractError
  | ResearchGovernanceError | InvalidOperation | FileExistsError
  | MomentumError | TrendError | EvidenceIdentityConflict | LineageValidationError
  | StatisticalAssuranceError | RobustnessAssuranceError | PortfolioConstructionError
  | InsufficientEvidenceError | CalendarLineageValidationError | CalendarFactConflict
  | CalendarCoverageError

datatype error = Err exn string

type_synonym 'a result = "error + 'a"

fun rbind :: "'a result \<Rightarrow> ('a \<Rightarrow> 'b result) \<Rightarrow> 'b result" where
  "rbind (Inl e) f = Inl e"
| "rbind (Inr x) f = f x"

lemma rbind_eq_Inr [simp, result_simps]:
  "rbind r f = Inr y \<longleftrightarrow> (\<exists>x. r = Inr x \<and> f x = Inr y)"
  by (cases r) auto

lemma rbind_eq_Inl [simp]:
  "rbind r f = Inl e \<longleftrightarrow> r = Inl e \<or> (\<exists>x. r = Inr x \<and> f x = Inl e)"
  by (cases r) auto

text \<open>For evaluation the combinators are case distinctions, so that continuations are computed
  on their actual arguments only.\<close>

lemma rbind_case [code_unfold]: "rbind r f = (case r of Inl e \<Rightarrow> Inl e | Inr x \<Rightarrow> f x)"
  by (cases r) auto

lemma rbind_cong [fundef_cong]:
  "r = r' \<Longrightarrow> (\<And>x. r' = Inr x \<Longrightarrow> f x = g x) \<Longrightarrow> rbind r f = rbind r' g"
  by (cases r') auto

text \<open>\<open>if c: raise E(m)\<close> followed by the rest of the body.\<close>

definition raise_if :: "bool \<Rightarrow> exn \<Rightarrow> string \<Rightarrow> 'a result \<Rightarrow> 'a result" where
  "raise_if c x m k = (if c then Inl (Err x m) else k)"

declare raise_if_def [code_unfold]

lemma raise_if_eq_Inr [simp, result_simps]: "raise_if c x m k = Inr y \<longleftrightarrow> \<not> c \<and> k = Inr y"
  by (simp add: raise_if_def)

lemma raise_if_eq_Inl [simp]:
  "raise_if c x m k = Inl e \<longleftrightarrow> (c \<and> e = Err x m) \<or> (\<not> c \<and> k = Inl e)"
  by (auto simp: raise_if_def)

lemma raise_if_simps [simp]:
  "raise_if True x m k = Inl (Err x m)"
  "raise_if False x m k = k"
  by (simp_all add: raise_if_def)

fun rfold :: "('s \<Rightarrow> 'a \<Rightarrow> 's result) \<Rightarrow> 's \<Rightarrow> 'a list \<Rightarrow> 's result" where
  "rfold f s [] = Inr s"
| "rfold f s (x # xs) = rbind (f s x) (\<lambda>s'. rfold f s' xs)"

lemma rfold_append: "rfold f s (xs @ ys) = rbind (rfold f s xs) (\<lambda>s'. rfold f s' ys)"
  by (induction xs arbitrary: s) (auto simp: split: sum.splits, metis rbind.simps sumE)

lemma rfold_snoc:
  "rfold f s (xs @ [x]) = Inr t \<longleftrightarrow> (\<exists>s'. rfold f s xs = Inr s' \<and> f s' x = Inr t)"
  by (simp add: rfold_append)

lemma rfold_invariant:
  assumes "\<And>s x s'. P s \<Longrightarrow> x \<in> set xs \<Longrightarrow> f s x = Inr s' \<Longrightarrow> P s'"
    and "P s" and "rfold f s xs = Inr t"
  shows "P t"
  using assms
proof (induction xs arbitrary: s)
  case (Cons x xs)
  from Cons.prems(3) obtain s' where "f s x = Inr s'" and "rfold f s' xs = Inr t" by auto
  with Cons.prems(1,2) Cons.IH [of s'] show ?case by (metis list.set_intros(1,2))
qed simp

text \<open>Mapping a fallible function over a tuple, left to right.\<close>

fun rmap :: "('a \<Rightarrow> 'b result) \<Rightarrow> 'a list \<Rightarrow> 'b list result" where
  "rmap f [] = Inr []"
| "rmap f (x # xs) = rbind (f x) (\<lambda>y. rbind (rmap f xs) (\<lambda>ys. Inr (y # ys)))"

lemma rmap_length: "rmap f xs = Inr ys \<Longrightarrow> length ys = length xs"
  by (induction xs arbitrary: ys) auto

lemma rmap_set: "rmap f xs = Inr ys \<Longrightarrow> y \<in> set ys \<Longrightarrow> \<exists>x\<in>set xs. f x = Inr y"
  by (induction xs arbitrary: ys) auto

lemma rmap_ok: "(\<exists>ys. rmap f xs = Inr ys) \<longleftrightarrow> (\<forall>x\<in>set xs. \<exists>y. f x = Inr y)"
  by (induction xs) auto

lemma rmap_Inl: "rmap f xs = Inl e \<Longrightarrow> \<exists>x\<in>set xs. f x = Inl e"
  by (induction xs) auto

lemma rfold_Inl: "rfold f s xs = Inl e \<Longrightarrow> \<exists>x\<in>set xs. \<exists>s'. f s' x = Inl e"
  by (induction xs arbitrary: s) auto

section \<open>List idioms of the sources\<close>

fun find_first :: "('a \<Rightarrow> bool) \<Rightarrow> 'a list \<Rightarrow> 'a option" where
  "find_first p [] = None"
| "find_first p (x # xs) = (if p x then Some x else find_first p xs)"

lemma find_first_None: "find_first p xs = None \<longleftrightarrow> (\<forall>x\<in>set xs. \<not> p x)"
  by (induction xs) auto

lemma find_first_SomeD: "find_first p xs = Some x \<Longrightarrow> x \<in> set xs \<and> p x"
  by (induction xs) (auto split: if_splits)

lemma find_first_append:
  "find_first p (xs @ ys) = (case find_first p xs of Some x \<Rightarrow> Some x | None \<Rightarrow> find_first p ys)"
  by (induction xs) auto

lemma find_first_key:
  assumes "distinct (map key xs)" and "x \<in> set xs"
  shows "find_first (\<lambda>y. key y = key x) xs = Some x"
  using assms by (induction xs) (auto simp: rev_image_eqI)

text \<open>\<open>tuple(new if value is old else value for value in xs)\<close> where \<open>old\<close> is the element
  \<open>find_first\<close> returned: object identity singles out the first match.\<close>

fun replace_first :: "('a \<Rightarrow> bool) \<Rightarrow> 'a \<Rightarrow> 'a list \<Rightarrow> 'a list" where
  "replace_first p y [] = []"
| "replace_first p y (x # xs) = (if p x then y # xs else x # replace_first p y xs)"

lemma replace_first_map:
  "key y = k \<Longrightarrow> map key (replace_first (\<lambda>x. key x = k) y xs) = map key xs"
  by (induction xs) auto

lemma set_replace_first_subset: "set (replace_first p y xs) \<subseteq> insert y (set xs)"
  by (induction xs) auto

lemma length_replace_first [simp]: "length (replace_first p y xs) = length xs"
  by (induction xs) auto

lemma find_first_replace_same:
  "key y = k \<Longrightarrow> \<exists>x\<in>set xs. key x = k \<Longrightarrow>
   find_first (\<lambda>x. key x = k) (replace_first (\<lambda>x. key x = k) y xs) = Some y"
  by (induction xs) auto

lemma find_first_replace_other:
  "key y = k \<Longrightarrow> k' \<noteq> k \<Longrightarrow>
   find_first (\<lambda>x. key x = k') (replace_first (\<lambda>x. key x = k) y xs) =
   find_first (\<lambda>x. key x = k') xs"
  by (induction xs) auto

lemma set_replace_first:
  "distinct (map key xs) \<Longrightarrow> key y = k \<Longrightarrow> k \<in> set (map key xs) \<Longrightarrow>
   set (replace_first (\<lambda>x. key x = k) y xs) = insert y {x \<in> set xs. key x \<noteq> k}"
proof (induction xs)
  case (Cons x xs)
  show ?case
  proof (cases "key x = k")
    case True
    with Cons.prems(1) have "\<forall>z\<in>set xs. key z \<noteq> k" by (metis distinct.simps(2) image_eqI list.set_map list.simps(9))
    with True show ?thesis by auto
  next
    case False
    with Cons show ?thesis by auto
  qed
qed simp

text \<open>Evaluation sorts by insertion.\<close>

declare sort_key_by_quicksort_code [code del]
declare sort_key_simps [code]

definition sorted_set :: "'a::linorder list \<Rightarrow> 'a list" where
  "sorted_set xs = sort (remdups xs)"

lemma sorted_set_props [simp]:
  "set (sorted_set xs) = set xs" "distinct (sorted_set xs)" "sorted (sorted_set xs)"
  "sorted_set xs = [] \<longleftrightarrow> xs = []"
  by (simp_all add: sorted_set_def)
     (metis empty_set set_empty set_remdups set_sort)

definition keep_first :: "'a list \<Rightarrow> 'a list" where
  "keep_first xs = rev (remdups (rev xs))"

lemma set_keep_first [simp]: "set (keep_first xs) = set xs"
  by (simp add: keep_first_def)

lemma keep_first_distinct [simp]: "distinct xs \<Longrightarrow> keep_first xs = xs"
  by (simp add: keep_first_def distinct_remdups_id)

text \<open>A dict is the list of its values in insertion order, each with its key: storing under a
  key that is present replaces the value in place.\<close>

definition dict_put :: "('a \<Rightarrow> 'k) \<Rightarrow> 'a \<Rightarrow> 'a list \<Rightarrow> 'a list" where
  "dict_put key x d = (if \<exists>y\<in>set d. key y = key x then replace_first (\<lambda>y. key y = key x) x d
     else d @ [x])"

definition dict_of :: "('a \<Rightarrow> 'k) \<Rightarrow> 'a list \<Rightarrow> 'a list" where
  "dict_of key xs = foldl (\<lambda>d x. dict_put key x d) [] xs"

definition dict_get :: "('a \<Rightarrow> 'k) \<Rightarrow> 'a list \<Rightarrow> 'k \<Rightarrow> 'a option" where
  "dict_get key d k = find_first (\<lambda>x. key x = k) d"

lemma dict_put_distinct: "distinct (map key d) \<Longrightarrow> distinct (map key (dict_put key x d))"
  by (auto simp: dict_put_def replace_first_map)

lemma set_dict_put:
  "distinct (map key d) \<Longrightarrow> set (dict_put key x d) = insert x {y \<in> set d. key y \<noteq> key x}"
proof (cases "\<exists>y\<in>set d. key y = key x")
  case True
  then have "key x \<in> set (map key d)" by (metis image_eqI image_set)
  moreover assume "distinct (map key d)"
  ultimately show ?thesis using True by (simp add: dict_put_def set_replace_first)
next
  case False
  then show ?thesis by (auto simp: dict_put_def)
qed

lemma foldl_dict_put_distinct:
  "distinct (map key d) \<Longrightarrow> distinct (map key (foldl (\<lambda>d x. dict_put key x d) d xs))"
  by (induction xs arbitrary: d) (auto simp: dict_put_distinct)

lemma dict_of_distinct [simp]: "distinct (map key (dict_of key xs))"
  by (simp add: dict_of_def foldl_dict_put_distinct)

lemma foldl_dict_put_id:
  "distinct (map key (d @ xs)) \<Longrightarrow> foldl (\<lambda>d x. dict_put key x d) d xs = d @ xs"
proof (induction xs arbitrary: d)
  case (Cons x xs)
  then have "\<not> (\<exists>y\<in>set d. key y = key x)" by (auto simp: image_iff)
  then have "dict_put key x d = d @ [x]" by (simp add: dict_put_def)
  with Cons.IH [of "d @ [x]"] Cons.prems show ?case by simp
qed simp

lemma dict_of_id: "distinct (map key xs) \<Longrightarrow> dict_of key xs = xs"
  using foldl_dict_put_id [of key "[]" xs] by (simp add: dict_of_def)

lemma set_dict_of_subset: "set (dict_of key xs) \<subseteq> set xs"
proof -
  have "set (foldl (\<lambda>d x. dict_put key x d) d xs) \<subseteq> set d \<union> set xs" for d
  proof (induction xs arbitrary: d)
    case (Cons x xs)
    have "set (dict_put key x d) \<subseteq> insert x (set d)"
      using set_replace_first_subset [of "\<lambda>y. key y = key x" x d] by (simp add: dict_put_def)
    with Cons.IH [of "dict_put key x d"] show ?case by auto
  qed simp
  from this [of "[]"] show ?thesis by (simp add: dict_of_def)
qed

lemma dict_of_keys: "key ` set (dict_of key xs) = key ` set xs"
proof -
  have put: "key ` set (dict_put key x d) = insert (key x) (key ` set d)" for x d
  proof (cases "\<exists>y\<in>set d. key y = key x")
    case True
    then have "key ` set (dict_put key x d) = set (map key (replace_first (\<lambda>y. key y = key x) x d))"
      by (simp add: dict_put_def)
    also have "\<dots> = key ` set d" by (simp add: replace_first_map)
    also have "\<dots> = insert (key x) (key ` set d)" using True by (metis image_eqI insert_absorb)
    finally show ?thesis .
  qed (simp add: dict_put_def)
  have "key ` set (foldl (\<lambda>d x. dict_put key x d) d xs) = key ` set d \<union> key ` set xs" for d
    by (induction xs arbitrary: d) (auto simp: put)
  from this [of "[]"] show ?thesis by (simp add: dict_of_def)
qed


lemma dict_get_SomeD: "dict_get key d k = Some x \<Longrightarrow> x \<in> set d \<and> key x = k"
  by (auto simp: dict_get_def dest: find_first_SomeD)

lemma dict_get_None: "dict_get key d k = None \<longleftrightarrow> (\<forall>x\<in>set d. key x \<noteq> k)"
  by (simp add: dict_get_def find_first_None)

lemma dict_get_unique:
  "distinct (map key d) \<Longrightarrow> x \<in> set d \<Longrightarrow> key x = k \<Longrightarrow> dict_get key d k = Some x"
  unfolding dict_get_def using find_first_key [of key d x] by simp

text \<open>Sums over the values of a dict: the new value replaces the old one.\<close>

lemma sum_list_replace_first:
  fixes f :: "'a \<Rightarrow> 'b::ab_group_add"
  assumes "find_first p xs = Some y"
  shows "sum_list (map f (replace_first p x xs)) = sum_list (map f xs) - f y + f x"
  using assms by (induction xs) (auto split: if_splits simp: algebra_simps)

lemma sum_list_dict_put:
  fixes f :: "'a \<Rightarrow> 'b::ab_group_add"
  shows "sum_list (map f (dict_put key x d)) = sum_list (map f d) + f x
     - (case dict_get key d (key x) of None \<Rightarrow> 0 | Some y \<Rightarrow> f y)"
proof (cases "dict_get key d (key x)")
  case None
  then have "\<not> (\<exists>y\<in>set d. key y = key x)" by (simp add: dict_get_None)
  then have "dict_put key x d = d @ [x]" by (simp add: dict_put_def)
  then show ?thesis by (simp only: None) simp
next
  case (Some y)
  then have "\<exists>y\<in>set d. key y = key x" by (auto dest: dict_get_SomeD)
  then show ?thesis using Some sum_list_replace_first [of "\<lambda>z. key z = key x" d y f x]
    by (simp add: dict_put_def dict_get_def)
qed

lemma sum_list_sort_key [simp]:
  fixes f :: "'a \<Rightarrow> 'b::comm_monoid_add"
  shows "sum_list (map f (sort_key k xs)) = sum_list (map f xs)"
  by (metis mset_map mset_sort sum_mset_sum_list)

lemma count_list_distinct: "distinct xs \<Longrightarrow> x \<in> set xs \<Longrightarrow> count_list xs x = 1"
  by (induction xs) (auto simp: count_list_0_iff)

lemma count_list_one_distinct: "(\<forall>x\<in>set xs. count_list xs x = 1) \<Longrightarrow> distinct xs"
proof (induction xs)
  case (Cons x xs)
  then have "x \<notin> set xs" by (auto simp: count_list_0_iff)
  moreover have "\<forall>y\<in>set xs. count_list xs y = 1"
    using Cons.prems calculation by (auto split: if_splits)
  ultimately show ?case using Cons.IH by simp
qed simp

lemma map_filter_Cons:
  "List.map_filter f (x # xs) = (case f x of None \<Rightarrow> List.map_filter f xs | Some y \<Rightarrow> y # List.map_filter f xs)"
  by (simp add: List.map_filter_def split: option.split)

lemma map_filter_set_iff: "set (List.map_filter f xs) = {y. \<exists>x\<in>set xs. f x = Some y}"
  by (induction xs) (auto simp: map_filter_Cons List.map_filter_def split: option.splits)

lemma map_filter_inj_distinct:
  "distinct xs \<Longrightarrow> distinct (List.map_filter f xs) \<longleftrightarrow>
     (\<forall>x\<in>set xs. \<forall>y\<in>set xs. f x \<noteq> None \<longrightarrow> f x = f y \<longrightarrow> x = y)"
proof (induction xs)
  case (Cons x xs)
  show ?case
  proof (cases "f x")
    case None
    with Cons show ?thesis by (auto simp: map_filter_Cons)
  next
    case (Some z)
    have "z \<notin> set (List.map_filter f xs) \<longleftrightarrow> (\<forall>y\<in>set xs. f y \<noteq> Some z)"
      by (auto simp: map_filter_set_iff)
    moreover have "x \<notin> set xs" using Cons.prems by simp
    ultimately show ?thesis using Cons Some by (auto simp: map_filter_Cons)
  qed
qed (simp add: List.map_filter_def)

lemma sort_key_perm: "mset xs = mset ys \<Longrightarrow> inj_on f (set xs) \<Longrightarrow> sort_key f xs = sort_key f ys"
  using sort_key_inj_key_eq [of xs "sort_key f ys" f] by simp

lemma mset_singleton_iff: "mset xs = mset ys \<Longrightarrow> xs = [v] \<longleftrightarrow> ys = [v]"
  by (metis mset_single_iff_right mset.simps(1) mset.simps(2))

section \<open>Strings\<close>

text \<open>
  A Python \<open>str\<close> is modelled as a list of \<open>char\<close>, each read as a code point below 256.
  \<open>str.strip\<close> removes the characters for which \<open>str.isspace\<close> holds.
\<close>

definition is_space :: "char \<Rightarrow> bool" where
  "is_space c = (let n = of_char c :: nat in
     (9 \<le> n \<and> n \<le> 13) \<or> (28 \<le> n \<and> n \<le> 32) \<or> n = 133 \<or> n = 160)"

definition strip :: "string \<Rightarrow> string" where
  "strip s = rev (dropWhile is_space (rev (dropWhile is_space s)))"

definition blank :: "string \<Rightarrow> bool" where
  "blank s \<longleftrightarrow> strip s = []"

lemma blank_iff: "blank s \<longleftrightarrow> (\<forall>c\<in>set s. is_space c)"
proof
  assume "blank s"
  then have "\<forall>c\<in>set (dropWhile is_space s). is_space c"
    by (simp add: blank_def strip_def)
  moreover have "\<forall>c\<in>set (takeWhile is_space s). is_space c"
    by (auto dest: set_takeWhileD)
  moreover have "set s = set (takeWhile is_space s) \<union> set (dropWhile is_space s)"
    by (metis set_append takeWhile_dropWhile_id)
  ultimately show "\<forall>c\<in>set s. is_space c" by blast
next
  assume "\<forall>c\<in>set s. is_space c"
  then show "blank s" by (auto simp: blank_def strip_def dest: set_dropWhileD)
qed

lemma not_blank_nonempty: "\<not> blank s \<Longrightarrow> s \<noteq> []"
  by (auto simp: blank_iff)

definition in_range :: "char \<Rightarrow> char \<Rightarrow> char \<Rightarrow> bool" where
  "in_range lo hi c \<longleftrightarrow> (of_char lo :: nat) \<le> of_char c \<and> (of_char c :: nat) \<le> of_char hi"

text \<open>Character codes compare faster as binary integers.\<close>

lemma of_char_int_le: "(of_char a :: int) \<le> of_char b \<longleftrightarrow> (of_char a :: nat) \<le> of_char b"
  using of_nat_le_iff [where ?'a = int, of "of_char a" "of_char b"] unfolding of_nat_of_char .

lemma in_range_code [code]:
  "in_range lo hi c \<longleftrightarrow> (of_char lo :: int) \<le> of_char c \<and> (of_char c :: int) \<le> of_char hi"
  by (simp add: in_range_def of_char_int_le)

definition ascii_alnum :: "char \<Rightarrow> bool" where
  "ascii_alnum c \<longleftrightarrow> in_range CHR ''A'' CHR ''Z'' c \<or> in_range CHR ''a'' CHR ''z'' c
     \<or> in_range CHR ''0'' CHR ''9'' c"

text \<open>\<open>[A-Za-z0-9._:-]\<close>\<close>

definition name_char :: "char \<Rightarrow> bool" where
  "name_char c \<longleftrightarrow> ascii_alnum c \<or> c \<in> set ''._:-''"

text \<open>\<open>re.fullmatch(r"[A-Za-z0-9][A-Za-z0-9._:-]{0,63}", s)\<close>\<close>

definition stable_name :: "string \<Rightarrow> bool" where
  "stable_name s = (case s of [] \<Rightarrow> False
     | c # cs \<Rightarrow> ascii_alnum c \<and> length cs \<le> 63 \<and> list_all name_char cs)"

text \<open>\<open>re.fullmatch(prefix + r"[A-Za-z0-9._:-]{1,160}", s)\<close> for a literal prefix.\<close>

definition prefixed_name :: "string \<Rightarrow> string \<Rightarrow> bool" where
  "prefixed_name pre s \<longleftrightarrow> prefix pre s \<and>
     (let t = drop (length pre) s in 1 \<le> length t \<and> length t \<le> 160 \<and> list_all name_char t)"

definition lower_hex :: "char \<Rightarrow> bool" where
  "lower_hex c \<longleftrightarrow> in_range CHR ''0'' CHR ''9'' c \<or> in_range CHR ''a'' CHR ''f'' c"

section \<open>Interfaces shared by several components\<close>

text \<open>
  \<open>step s e\<close> records the entry \<open>e\<close> in the history \<open>log s\<close>; entries are identified by
  \<open>key\<close>.  A successful step either appends an entry whose key is new, or is the
  idempotent repetition of an entry already recorded and changes nothing.
\<close>

locale append_log =
  fixes step :: "'s \<Rightarrow> 'e \<Rightarrow> 's result"
    and log :: "'s \<Rightarrow> 'e list"
    and key :: "'e \<Rightarrow> 'k"
  assumes step_cases:
    "step s e = Inr s' \<Longrightarrow>
       (s' = s \<and> e \<in> set (log s)) \<or> (log s' = log s @ [e] \<and> key e \<notin> key ` set (log s))"
    and step_repeat: "e \<in> set (log s) \<Longrightarrow> distinct (map key (log s)) \<Longrightarrow>
       (\<exists>r. step s e = Inr r) \<Longrightarrow> step s e = Inr s"
begin

lemma step_distinct:
  "step s e = Inr s' \<Longrightarrow> distinct (map key (log s)) \<Longrightarrow> distinct (map key (log s'))"
  using step_cases [of s e s'] by auto

lemma step_prefix: "step s e = Inr s' \<Longrightarrow> \<exists>es. log s' = log s @ es"
  using step_cases [of s e s'] by auto

lemma step_member: "step s e = Inr s' \<Longrightarrow> e \<in> set (log s')"
  using step_cases [of s e s'] by auto

lemma run_distinct:
  "rfold step s es = Inr t \<Longrightarrow> distinct (map key (log s)) \<Longrightarrow> distinct (map key (log t))"
  by (induction es arbitrary: s) (auto dest: step_distinct)

lemma run_prefix: "rfold step s es = Inr t \<Longrightarrow> \<exists>fs. log t = log s @ fs"
proof (induction es arbitrary: s)
  case (Cons e es)
  then obtain s' where "step s e = Inr s'" and "rfold step s' es = Inr t" by auto
  with Cons.IH [of s'] step_prefix [of s e s'] show ?case by auto
qed simp

lemma run_member: "rfold step s es = Inr t \<Longrightarrow> e \<in> set es \<Longrightarrow> e \<in> set (log t)"
proof (induction es arbitrary: s)
  case (Cons x es)
  then obtain s' where s': "step s x = Inr s'" and run: "rfold step s' es = Inr t" by auto
  from run_prefix [OF run] have "set (log s') \<subseteq> set (log t)" by auto
  with Cons.IH [OF run] Cons.prems(2) step_member [OF s'] show ?case by auto
qed simp

lemma run_same_key:
  assumes "rfold step s es = Inr t" and "distinct (map key (log s))"
    and "d \<in> set es" and "e \<in> set es" and "key d = key e"
  shows "d = e"
proof -
  have "distinct (map key (log t))" using assms run_distinct by blast
  moreover have "d \<in> set (log t)" "e \<in> set (log t)" using assms run_member by blast+
  ultimately show ?thesis using assms(5) by (meson distinct_map inj_onD)
qed

end

text \<open>A total transition function whose absorbing states are never left.\<close>

locale absorbing =
  fixes step :: "'s \<Rightarrow> 'a \<Rightarrow> 's"
    and final :: "'s \<Rightarrow> bool"
  assumes final_stays: "final s \<Longrightarrow> step s a = s"
begin

lemma run_final: "final s \<Longrightarrow> foldl step s as = s"
  by (induction as) (simp_all add: final_stays)

lemma run_split_final: "final (foldl step s as) \<Longrightarrow> foldl step s (as @ bs) = foldl step s as"
  by (simp add: run_final)

end

text \<open>A printed form that the decoder reads back; a strict decoder accepts nothing else.\<close>

locale codec =
  fixes encode :: "'a \<Rightarrow> 'b"
    and decode :: "'b \<Rightarrow> 'a result"
    and valid :: "'a \<Rightarrow> bool"
  assumes decode_encode: "valid x \<Longrightarrow> decode (encode x) = Inr x"
begin

lemma encode_inj: "valid x \<Longrightarrow> valid y \<Longrightarrow> encode x = encode y \<longleftrightarrow> x = y"
  by (metis decode_encode sum.inject(2))

lemma rmap_decode: "list_all valid xs \<Longrightarrow> rmap decode (map encode xs) = Inr xs"
  by (induction xs) (simp_all add: decode_encode)

end

locale strict_codec = codec +
  assumes decode_valid: "decode b = Inr x \<Longrightarrow> valid x"
begin

lemma valid_iff_decoded: "valid x \<longleftrightarrow> (\<exists>b. decode b = Inr x)"
  using decode_encode decode_valid by blast

end

end
