(* ===== verification/Decimal.thy ===== *)
theory Decimal
  imports Prelude
begin

text \<open>
  Python's \<open>decimal.Decimal\<close> under the default context, which every modelled module uses:
  precision 28, \<open>ROUND_HALF_EVEN\<close>.  A finite Decimal is modelled by its value, a rational;
  each arithmetic operation computes the exact result and rounds it to 28 significant
  digits.  Comparison, equality, \<open>min\<close> and \<open>max\<close> are exact; unary minus and \<open>abs\<close> round,
  as they do in Python.  The representation of trailing zeros and the sign of zero, which
  only \<open>str\<close> shows, are not modelled, and the exponent range (\<open>Emin\<close>, \<open>Emax\<close>
  of plus or minus 999999) is not bounded.  \<open>decimal\<close> adds the non-finite values, which
  every constructor of the sources rejects.

  The rounding laws are stated as the locale \<open>rounding\<close>, interpreted on \<open>dround\<close>.
\<close>

section \<open>Rounding to 28 significant digits\<close>

fun ndigits :: "nat \<Rightarrow> nat" where
  "ndigits n = (if n < 10 then 1 else Suc (ndigits (n div 10)))"

declare ndigits.simps [simp del]

text \<open>The same count on binary integers, for evaluation.\<close>

function idigits :: "int \<Rightarrow> nat" where
  "idigits n = (if n < 10 then 1 else Suc (idigits (n div 10)))"
  by pat_completeness auto
termination
  by (relation "measure nat") auto

declare idigits.simps [simp del]

lemma ndigits_int [code_unfold]: "ndigits (nat n) = idigits n"
proof (induction n rule: idigits.induct)
  case (1 n)
  show ?case
  proof (cases "n < 10")
    case True
    then have "nat n < 10" by simp
    with True show ?thesis by (simp add: ndigits.simps [of "nat n"] idigits.simps [of n])
  next
    case False
    then have "nat n div 10 = nat (n div 10)" by (simp add: nat_div_distrib)
    moreover have "\<not> nat n < 10" using False by simp
    ultimately show ?thesis
      using 1 False by (simp add: ndigits.simps [of "nat n"] idigits.simps [of n])
  qed
qed

definition pow10 :: "int \<Rightarrow> rat" where
  "pow10 e = (if 0 \<le> e then 10 ^ nat e else 1 / 10 ^ nat (- e))"

text \<open>\<open>Decimal.adjusted()\<close>: the exponent of the most significant digit.\<close>

definition adjusted :: "rat \<Rightarrow> int" where
  "adjusted q =
     (case quotient_of \<bar>q\<bar> of (n, d) \<Rightarrow>
        (let k = int (ndigits (nat n)) - int (ndigits (nat d))
         in if pow10 k \<le> \<bar>q\<bar> then k else k - 1))"

definition round_half_even :: "rat \<Rightarrow> int" where
  "round_half_even x =
     (let f = \<lfloor>x\<rfloor>; r = x - of_int f
      in if r < 1 / 2 then f else if 1 / 2 < r then f + 1 else if even f then f else f + 1)"

definition dround :: "rat \<Rightarrow> rat" where
  "dround q = (if q = 0 then 0
     else (let e = adjusted q - 27 in of_int (round_half_even (q / pow10 e)) * pow10 e))"

datatype decimal = Finite rat | NonFinite

definition dadd :: "rat \<Rightarrow> rat \<Rightarrow> rat" where "dadd x y = dround (x + y)"
definition dsub :: "rat \<Rightarrow> rat \<Rightarrow> rat" where "dsub x y = dround (x - y)"
definition dmul :: "rat \<Rightarrow> rat \<Rightarrow> rat" where "dmul x y = dround (x * y)"
definition ddiv :: "rat \<Rightarrow> rat \<Rightarrow> rat" where "ddiv x y = dround (x / y)"
definition dneg :: "rat \<Rightarrow> rat" where "dneg x = dround (- x)"
definition dabs :: "rat \<Rightarrow> rat" where "dabs x = dround \<bar>x\<bar>"

text \<open>\<open>sum(xs, Decimal(0))\<close>: additions from the left, each rounded.\<close>

definition dsum :: "rat list \<Rightarrow> rat" where
  "dsum xs = foldl dadd 0 xs"

lemmas dec_ops = dadd_def dsub_def dmul_def ddiv_def dneg_def dabs_def

text \<open>A value with at most 28 significant digits.\<close>

definition representable :: "rat \<Rightarrow> bool" where
  "representable q \<longleftrightarrow> (\<exists>c e. \<bar>c\<bar> < 10 ^ 28 \<and> q = of_int c * pow10 e)"

section \<open>Powers of ten and the leading exponent\<close>

lemma pow10_pos [simp]: "0 < pow10 e"
  by (simp add: pow10_def)

lemma pow10_nonzero [simp]: "pow10 e \<noteq> 0"
  using pow10_pos [of e] by linarith

lemma abs_pow10 [simp]: "\<bar>pow10 e\<bar> = pow10 e"
  using pow10_pos [of e] by (simp del: pow10_pos)

lemma pow10_of_nat: "pow10 (int n) = 10 ^ n"
  by (simp add: pow10_def)

lemma pow10_power_int: "pow10 e = power_int 10 e"
  by (auto simp: pow10_def power_int_def inverse_eq_divide power_one_over)

lemma pow10_add: "pow10 (a + b) = pow10 a * pow10 b"
  by (simp add: pow10_power_int power_int_add)

lemma pow10_diff: "pow10 (a - b) = pow10 a / pow10 b"
  by (simp add: pow10_power_int power_int_diff)

lemma pow10_mono: "a \<le> b \<Longrightarrow> pow10 a \<le> pow10 b"
  by (simp add: pow10_power_int power_int_increasing)

lemma pow10_less_iff [simp]: "pow10 a < pow10 b \<longleftrightarrow> a < b"
proof
  show "a < b \<Longrightarrow> pow10 a < pow10 b"
    by (simp add: pow10_power_int power_int_strict_increasing)
  show "pow10 a < pow10 b \<Longrightarrow> a < b"
    using pow10_mono [of b a] by linarith
qed

lemma ndigits_bounds: "0 < n \<Longrightarrow> 10 ^ (ndigits n - 1) \<le> n \<and> n < 10 ^ ndigits n"
proof (induction n rule: ndigits.induct)
  case (1 n)
  show ?case
  proof (cases "n < 10")
    case True
    with 1 show ?thesis by (simp add: ndigits.simps [of n])
  next
    case False
    define m where "m = ndigits (n div 10)"
    from False have "0 < n div 10" by simp
    with 1 False have IH: "10 ^ (m - 1) \<le> n div 10 \<and> n div 10 < 10 ^ m"
      by (simp add: m_def)
    have "0 < m" by (simp add: m_def ndigits.simps [of "n div 10"])
    then have "10 ^ m = 10 * (10::nat) ^ (m - 1)" by (simp add: power_eq_if)
    with IH have "10 ^ m \<le> n \<and> n < 10 * 10 ^ m" by linarith
    with False show ?thesis by (simp add: ndigits.simps [of n] m_def)
  qed
qed

lemma ndigits_pos: "0 < ndigits n"
  by (simp add: ndigits.simps)

lemma adjusted_bounds:
  assumes "q \<noteq> 0"
  shows "pow10 (adjusted q) \<le> \<bar>q\<bar> \<and> \<bar>q\<bar> < pow10 (adjusted q + 1)"
proof -
  obtain n d where nd: "quotient_of \<bar>q\<bar> = (n, d)" by (cases "quotient_of \<bar>q\<bar>") auto
  have d: "0 < d" using nd quotient_of_denom_pos by blast
  have q: "\<bar>q\<bar> = of_int n / of_int d" using nd quotient_of_div by blast
  have n: "0 < n"
  proof -
    have "0 < (of_int n :: rat) / of_int d" using assms q by (metis zero_less_abs_iff)
    then show ?thesis using d by (simp add: zero_less_divide_iff)
  qed
  define a b where "a = ndigits (nat n)" and "b = ndigits (nat d)"
  define k where "k = int a - int b"
  have na: "pow10 (int a - 1) \<le> of_int n" "of_int n < pow10 (int a)"
    using ndigits_bounds [of "nat n"] n ndigits_pos [of "nat n"]
    by (simp_all add: a_def pow10_def nat_diff_distrib of_nat_less_of_nat_power_cancel_iff
        nat_le_iff le_nat_iff nat_less_iff of_nat_le_iff flip: of_int_power)
  have db: "pow10 (int b - 1) \<le> of_int d" "of_int d < pow10 (int b)"
    using ndigits_bounds [of "nat d"] d ndigits_pos [of "nat d"]
    by (simp_all add: b_def pow10_def nat_diff_distrib nat_le_iff le_nat_iff nat_less_iff
        flip: of_int_power)
  have d0: "(0::rat) < of_int d" using d by simp
  have lo: "pow10 (k - 1) \<le> \<bar>q\<bar>"
  proof -
    have "pow10 (k - 1) * of_int d \<le> pow10 (k - 1) * pow10 (int b)"
      using db(2) by (intro mult_left_mono) (auto simp: less_imp_le)
    also have "\<dots> = pow10 (int a - 1)"
      by (simp add: k_def algebra_simps flip: pow10_add)
    also have "\<dots> \<le> of_int n" by (rule na)
    finally show ?thesis using d0 by (simp add: q pos_le_divide_eq)
  qed
  have hi: "\<bar>q\<bar> < pow10 (k + 1)"
  proof -
    have "of_int n < pow10 (int a)" by (rule na)
    also have "\<dots> = pow10 (k + 1) * pow10 (int b - 1)"
      by (simp add: k_def algebra_simps flip: pow10_add)
    also have "\<dots> \<le> pow10 (k + 1) * of_int d"
      using db(1) by (intro mult_left_mono) (auto simp: less_imp_le)
    finally show ?thesis using d0 by (simp add: q pos_divide_less_eq)
  qed
  show ?thesis
    using lo hi by (auto simp: adjusted_def nd Let_def a_def [symmetric] b_def [symmetric] k_def [symmetric])
qed

lemma adjusted_unique:
  assumes "pow10 k \<le> \<bar>q\<bar>" and "\<bar>q\<bar> < pow10 (k + 1)"
  shows "adjusted q = k"
proof -
  have "q \<noteq> 0" using assms(1) pow10_pos [of k] by (auto simp: not_le [symmetric])
  note b = adjusted_bounds [OF this]
  have "pow10 k < pow10 (adjusted q + 1)" using assms(1) b by linarith
  moreover have "pow10 (adjusted q) < pow10 (k + 1)" using assms(2) b by linarith
  ultimately show ?thesis by simp
qed

lemma adjusted_minus [simp]: "adjusted (- q) = adjusted q"
  by (simp add: adjusted_def)

lemma pow10_scale:
  "pow10 k = 10 ^ 27 * pow10 (k - 27)" "pow10 (k + 1) = 10 ^ 28 * pow10 (k - 27)"
proof -
  have "pow10 k = pow10 (27 + (k - 27))" "pow10 (k + 1) = pow10 (28 + (k - 27))"
    by (simp_all add: add.commute)
  moreover have "pow10 27 = 10 ^ 27" "pow10 28 = 10 ^ 28" by (simp_all add: pow10_def)
  ultimately show "pow10 k = 10 ^ 27 * pow10 (k - 27)" "pow10 (k + 1) = 10 ^ 28 * pow10 (k - 27)"
    by (simp_all only: pow10_add)
qed

section \<open>Round half even on integers\<close>

lemma round_half_even_dist: "\<bar>of_int (round_half_even x) - x\<bar> \<le> 1 / 2"
proof -
  have "of_int \<lfloor>x\<rfloor> \<le> x" "x < of_int \<lfloor>x\<rfloor> + 1" by linarith+
  then show ?thesis by (auto simp: round_half_even_def Let_def abs_le_iff)
qed

lemma round_half_even_cases: "round_half_even x = \<lfloor>x\<rfloor> \<or> round_half_even x = \<lfloor>x\<rfloor> + 1"
  by (simp add: round_half_even_def Let_def)

lemma round_half_even_of_int [simp]: "round_half_even (of_int n) = n"
  by (simp add: round_half_even_def)

lemma round_half_even_mono:
  assumes "x \<le> y"
  shows "round_half_even x \<le> round_half_even y"
proof (cases "\<lfloor>x\<rfloor> = \<lfloor>y\<rfloor>")
  case True
  with assms show ?thesis by (simp add: round_half_even_def Let_def)
next
  case False
  with assms have "\<lfloor>x\<rfloor> + 1 \<le> \<lfloor>y\<rfloor>" using floor_mono [OF assms] by simp
  with round_half_even_cases [of x] round_half_even_cases [of y] show ?thesis by auto
qed

lemma round_half_even_minus [simp]: "round_half_even (- x) = - round_half_even x"
proof (cases "x = of_int \<lfloor>x\<rfloor>")
  case True
  then show ?thesis by (metis of_int_minus round_half_even_of_int)
next
  case False
  have "of_int \<lfloor>x\<rfloor> \<le> x" "x < of_int \<lfloor>x\<rfloor> + 1" by linarith+
  with False have "of_int \<lfloor>x\<rfloor> < x" "x < of_int \<lfloor>x\<rfloor> + 1" by linarith+
  then have "\<lfloor>- x\<rfloor> = - \<lfloor>x\<rfloor> - 1" by (intro floor_unique) auto
  then show ?thesis by (auto simp: round_half_even_def Let_def)
qed

section \<open>Laws of the rounding\<close>

lemma dround_0 [simp]: "dround 0 = 0"
  by (simp add: dround_def)

lemma dround_minus: "dround (- q) = - dround q"
  by (simp add: dround_def Let_def)

text \<open>The scaled coefficient of a positive value has 28 digits, before and after rounding.\<close>

lemma coefficient_bounds:
  assumes "0 < q"
  defines "c \<equiv> q / pow10 (adjusted q - 27)"
  shows "10 ^ 27 \<le> c" "c < 10 ^ 28" "10 ^ 27 \<le> round_half_even c" "round_half_even c \<le> 10 ^ 28"
proof -
  define e where "e = adjusted q - 27"
  have b: "pow10 (adjusted q) \<le> q" "q < pow10 (adjusted q + 1)"
    using adjusted_bounds [of q] assms(1) by auto
  have e1: "pow10 (adjusted q) = 10 ^ 27 * pow10 e" and e2: "pow10 (adjusted q + 1) = 10 ^ 28 * pow10 e"
    unfolding e_def by (rule pow10_scale)+
  show lo: "10 ^ 27 \<le> c" using b e1 by (simp add: c_def e_def pos_le_divide_eq)
  show hi: "c < 10 ^ 28" using b e2 by (simp add: c_def e_def pos_divide_less_eq)
  show "10 ^ 27 \<le> round_half_even c"
    using round_half_even_mono [OF lo] round_half_even_of_int [of "10 ^ 27"] by simp
  show "round_half_even c \<le> 10 ^ 28"
    using round_half_even_mono [OF less_imp_le [OF hi]] round_half_even_of_int [of "10 ^ 28"] by simp
qed

lemma dround_pos_bounds:
  assumes "0 < q"
  shows "pow10 (adjusted q) \<le> dround q" "dround q \<le> pow10 (adjusted q + 1)"
proof -
  define e where "e = adjusted q - 27"
  define m where "m = round_half_even (q / pow10 e)"
  have r: "dround q = of_int m * pow10 e"
    using assms by (simp add: dround_def m_def e_def Let_def)
  have m: "10 ^ 27 \<le> m" "m \<le> 10 ^ 28"
    using coefficient_bounds [OF assms] by (simp_all add: m_def e_def)
  have e1: "pow10 (adjusted q) = 10 ^ 27 * pow10 e" and e2: "pow10 (adjusted q + 1) = 10 ^ 28 * pow10 e"
    unfolding e_def by (rule pow10_scale)+
  have "(10 ^ 27 :: rat) \<le> of_int m" "(of_int m :: rat) \<le> 10 ^ 28"
    using m by (metis of_int_le_iff of_int_numeral of_int_power)+
  then show "pow10 (adjusted q) \<le> dround q" "dround q \<le> pow10 (adjusted q + 1)"
    by (simp_all add: r e1 e2)
qed

lemma dround_pos: "0 < q \<Longrightarrow> 0 < dround q"
  using dround_pos_bounds(1) [of q] pow10_pos [of "adjusted q"] by linarith

lemma dround_mono_pos:
  assumes "0 < x" and "x \<le> y"
  shows "dround x \<le> dround y"
proof -
  have bx: "pow10 (adjusted x) \<le> x" "x < pow10 (adjusted x + 1)"
    using adjusted_bounds [of x] assms(1) by auto
  have byy: "pow10 (adjusted y) \<le> y" "y < pow10 (adjusted y + 1)"
    using adjusted_bounds [of y] assms by auto
  have "pow10 (adjusted x) < pow10 (adjusted y + 1)" using bx byy assms by linarith
  then have le: "adjusted x \<le> adjusted y" by simp
  show ?thesis
  proof (cases "adjusted x = adjusted y")
    case True
    have "x / pow10 (adjusted y - 27) \<le> y / pow10 (adjusted y - 27)"
      using assms(2) by (simp add: divide_right_mono less_imp_le)
    from round_half_even_mono [OF this] True assms show ?thesis
      by (simp add: dround_def Let_def)
  next
    case False
    with le have "adjusted x + 1 \<le> adjusted y" by simp
    from pow10_mono [OF this] dround_pos_bounds(2) [OF assms(1)] dround_pos_bounds(1) [of y] assms
    show ?thesis by linarith
  qed
qed

lemma dround_mono: "x \<le> y \<Longrightarrow> dround x \<le> dround y"
proof -
  assume xy: "x \<le> y"
  consider "0 < x" | "y < 0" | "x \<le> 0" "0 \<le> y" by linarith
  then show ?thesis
  proof cases
    case 1
    from this xy show ?thesis by (rule dround_mono_pos)
  next
    case 2
    with xy have "dround (- y) \<le> dround (- x)" by (intro dround_mono_pos) auto
    then show ?thesis by (simp add: dround_minus)
  next
    case 3
    have "dround x \<le> 0" using 3(1) dround_pos [of "- x"] by (cases "x = 0") (auto simp: dround_minus)
    moreover have "0 \<le> dround y" using 3(2) dround_pos [of y] by (cases "y = 0") auto
    ultimately show ?thesis by linarith
  qed
qed

lemma dround_relative_error: "\<bar>dround q - q\<bar> \<le> \<bar>q\<bar> / (2 * 10 ^ 27)"
proof -
  have pos: "\<bar>dround q - q\<bar> \<le> q / (2 * 10 ^ 27)" if "0 < q" for q
  proof -
    define e where "e = adjusted q - 27"
    define m :: rat where "m = of_int (round_half_even (q / pow10 e))"
    have "\<bar>dround q - q\<bar> = \<bar>(m - q / pow10 e) * pow10 e\<bar>"
      using that by (simp add: dround_def m_def e_def Let_def left_diff_distrib)
    also have "\<dots> = \<bar>m - q / pow10 e\<bar> * pow10 e"
      by (simp add: abs_mult)
    also have "\<dots> \<le> 1 / 2 * pow10 e"
      unfolding m_def by (intro mult_right_mono round_half_even_dist) (simp add: less_imp_le)
    finally have "\<bar>dround q - q\<bar> \<le> pow10 e / 2" by simp
    moreover have "pow10 e * 10 ^ 27 \<le> q"
      using coefficient_bounds(1) [OF that] by (simp add: e_def pos_le_divide_eq mult.commute)
    ultimately show ?thesis by simp
  qed
  consider "0 < q" | "q = 0" | "q < 0" by linarith
  then show ?thesis
  proof cases
    case 3
    with pos [of "- q"] show ?thesis by (simp add: dround_minus abs_minus_commute)
  qed (use pos in auto)
qed

lemma dround_representable_id:
  assumes "representable q"
  shows "dround q = q"
proof (cases "q = 0")
  case False
  from assms obtain c e where c: "\<bar>c\<bar> < 10 ^ 28" and q: "q = of_int c * pow10 e"
    by (auto simp: representable_def)
  have c': "(\<bar>of_int c\<bar> :: rat) < 10 ^ 28"
    using c by (metis of_int_abs of_int_less_iff of_int_numeral of_int_power)
  have "pow10 (adjusted q) \<le> \<bar>q\<bar>" using adjusted_bounds [OF False] by simp
  also have "\<bar>q\<bar> < 10 ^ 28 * pow10 e" using c' by (simp add: q abs_mult)
  also have "\<dots> = pow10 (28 + e)" by (simp add: pow10_add) (simp add: pow10_def)
  finally have "adjusted q - 27 \<le> e" by simp
  then obtain n where n: "e = adjusted q - 27 + int n" using zle_iff_zadd by blast
  define u where "u = adjusted q - 27"
  have "pow10 e = pow10 u * 10 ^ n" unfolding n u_def by (simp only: pow10_add pow10_of_nat)
  then have qu: "q = of_int (c * 10 ^ n) * pow10 u" using q by simp
  then have "q / pow10 u = of_int (c * 10 ^ n)" by (metis nonzero_mult_div_cancel_right pow10_nonzero)
  with False have "dround q = of_int (c * 10 ^ n) * pow10 u"
    by (simp only: dround_def u_def [symmetric] Let_def round_half_even_of_int if_False)
  with qu show ?thesis by simp
qed simp

lemma representable_dround: "representable (dround q)"
proof -
  have pos: "representable (dround q)" if "0 < q" for q
  proof -
    define m where "m = round_half_even (q / pow10 (adjusted q - 27))"
    have r: "dround q = of_int m * pow10 (adjusted q - 27)"
      using that by (simp add: dround_def m_def Let_def)
    have m: "10 ^ 27 \<le> m" "m \<le> 10 ^ 28"
      using coefficient_bounds [OF that] by (simp_all add: m_def)
    show ?thesis
    proof (cases "m = 10 ^ 28")
      case True
      have "dround q = of_int 1 * pow10 (adjusted q + 1)" by (simp add: r True pow10_scale(2))
      then show ?thesis unfolding representable_def
        by (intro exI [of _ 1] exI [of _ "adjusted q + 1"]) simp
    next
      case False
      with m have "\<bar>m\<bar> < 10 ^ 28" by simp
      with r show ?thesis unfolding representable_def by blast
    qed
  qed
  have neg: "representable (- x)" if "representable x" for x
    using that unfolding representable_def by (metis abs_minus_cancel minus_mult_left of_int_minus)
  consider "0 < q" | "q = 0" | "q < 0" by linarith
  then show ?thesis
  proof cases
    case 2
    then show ?thesis unfolding representable_def by (intro exI [of _ 0]) simp
  next
    case 3
    with pos [of "- q"] neg [of "dround (- q)"] show ?thesis by (simp add: dround_minus)
  qed (use pos in auto)
qed

section \<open>The interface of rounded arithmetic\<close>

text \<open>
  What the financial code relies on: rounding is monotone, odd and leaves the values it
  produces alone.  Signs, order with respect to exact values and the stability of sums of
  non-negative amounts follow.
\<close>

locale rounding =
  fixes rnd :: "rat \<Rightarrow> rat"
  assumes rnd_mono: "x \<le> y \<Longrightarrow> rnd x \<le> rnd y"
    and rnd_minus: "rnd (- x) = - rnd x"
    and rnd_idem: "rnd (rnd x) = rnd x"
    and rnd_pos: "0 < x \<Longrightarrow> 0 < rnd x"
begin

lemma rnd_zero: "rnd 0 = 0"
  using rnd_minus [of 0] by simp

lemma rnd_nonneg: "0 \<le> x \<Longrightarrow> 0 \<le> rnd x"
  using rnd_mono [of 0 x] by (simp add: rnd_zero)

lemma rnd_neg: "x < 0 \<Longrightarrow> rnd x < 0"
  using rnd_pos [of "- x"] by (simp add: rnd_minus)

lemma rnd_sign [simp]:
  "0 < rnd x \<longleftrightarrow> 0 < x" "rnd x < 0 \<longleftrightarrow> x < 0" "rnd x = 0 \<longleftrightarrow> x = 0"
  "0 \<le> rnd x \<longleftrightarrow> 0 \<le> x" "rnd x \<le> 0 \<longleftrightarrow> x \<le> 0"
proof -
  consider "0 < x" | "x = 0" | "x < 0" by linarith
  then have "(0 < rnd x \<longleftrightarrow> 0 < x) \<and> (rnd x < 0 \<longleftrightarrow> x < 0) \<and> (rnd x = 0 \<longleftrightarrow> x = 0)
      \<and> (0 \<le> rnd x \<longleftrightarrow> 0 \<le> x) \<and> (rnd x \<le> 0 \<longleftrightarrow> x \<le> 0)"
  proof cases
    case 1 with rnd_pos [of x] show ?thesis by auto
  next
    case 2 then show ?thesis by (simp add: rnd_zero)
  next
    case 3 with rnd_neg [of x] show ?thesis by auto
  qed
  then show "0 < rnd x \<longleftrightarrow> 0 < x" "rnd x < 0 \<longleftrightarrow> x < 0" "rnd x = 0 \<longleftrightarrow> x = 0"
    "0 \<le> rnd x \<longleftrightarrow> 0 \<le> x" "rnd x \<le> 0 \<longleftrightarrow> x \<le> 0" by blast+
qed

lemma rnd_le_fixed: "x \<le> y \<Longrightarrow> rnd y = y \<Longrightarrow> rnd x \<le> y"
  using rnd_mono [of x y] by simp

lemma rnd_ge_fixed: "x \<le> y \<Longrightarrow> rnd x = x \<Longrightarrow> x \<le> rnd y"
  using rnd_mono [of x y] by simp

lemma rnd_sum_nonneg: "0 \<le> a \<Longrightarrow> (\<And>x. x \<in> set xs \<Longrightarrow> 0 \<le> x) \<Longrightarrow>
   0 \<le> foldl (\<lambda>s x. rnd (s + x)) a xs"
  by (induction xs arbitrary: a) auto

lemma rnd_add_increases: "rnd a = a \<Longrightarrow> 0 \<le> x \<Longrightarrow> a \<le> rnd (a + x)"
  by (rule rnd_ge_fixed) auto

end

interpretation dec: rounding dround
proof
  show "dround x \<le> dround y" if "x \<le> y" for x y using that by (rule dround_mono)
  show "dround (- x) = - dround x" for x by (rule dround_minus)
  show "dround (dround x) = dround x" for x
    by (intro dround_representable_id representable_dround)
  show "0 < dround x" if "0 < x" for x using that by (rule dround_pos)
qed

lemmas dec_sign [simp] = dec.rnd_sign
lemmas dround_idem [simp] = dec.rnd_idem

section \<open>Laws of the operations\<close>

lemma dadd_0_left [simp]: "dadd 0 x = dround x"
  by (simp add: dadd_def)

lemma dadd_sign [simp]: "0 \<le> x \<Longrightarrow> 0 \<le> y \<Longrightarrow> 0 \<le> dadd x y"
  by (simp add: dadd_def)

lemma dneg_dneg: "dneg (dneg x) = dround x"
  by (simp add: dneg_def dround_minus)

lemma dneg_eq: "dneg x = - dround x"
  by (simp add: dneg_def dround_minus)

lemma dsub_dadd_neg: "dsub x y = dadd x (- y)"
  by (simp add: dsub_def dadd_def)

lemma dround_ops [simp]:
  "dround (dadd x y) = dadd x y" "dround (dsub x y) = dsub x y" "dround (dmul x y) = dmul x y"
  "dround (ddiv x y) = ddiv x y" "dround (dneg x) = dneg x" "dround (dabs x) = dabs x"
  by (simp_all add: dec_ops)

lemma foldl_dadd_rounded: "dround a = a \<Longrightarrow> dround (foldl dadd a xs) = foldl dadd a xs"
  by (induction xs arbitrary: a) auto

lemma dsum_rounded [simp]: "dround (dsum xs) = dsum xs"
  by (simp add: dsum_def foldl_dadd_rounded)

lemma dsum_Nil [simp]: "dsum [] = 0"
  by (simp add: dsum_def)

lemma dsum_snoc: "dsum (xs @ [x]) = dadd (dsum xs) x"
  by (simp add: dsum_def)

lemma dsum_nonneg: "(\<And>x. x \<in> set xs \<Longrightarrow> 0 \<le> x) \<Longrightarrow> 0 \<le> dsum xs"
  using dec.rnd_sum_nonneg [of 0 xs] by (simp add: dsum_def dadd_def [abs_def])

lemma foldl_dadd_pos: "0 < a \<Longrightarrow> (\<And>x. x \<in> set xs \<Longrightarrow> 0 \<le> x) \<Longrightarrow> 0 < foldl dadd a xs"
  by (induction xs arbitrary: a) (auto simp: dadd_def add_pos_nonneg)

text \<open>A sum of positive amounts is positive exactly when there is one.\<close>

lemma dsum_pos_iff:
  assumes "\<And>x. x \<in> set xs \<Longrightarrow> 0 < x"
  shows "0 < dsum xs \<longleftrightarrow> xs \<noteq> []"
proof (cases xs)
  case (Cons x ys)
  with assms have "0 < foldl dadd (dadd 0 x) ys"
    by (intro foldl_dadd_pos) (auto simp: less_imp_le)
  with Cons show ?thesis by (simp add: dsum_def)
qed simp

lemma dadd_exact: "representable (x + y) \<Longrightarrow> dadd x y = x + y"
  by (simp add: dadd_def dround_representable_id)

lemma dsub_exact: "representable (x - y) \<Longrightarrow> dsub x y = x - y"
  by (simp add: dsub_def dround_representable_id)

lemma representable_iff_fixed: "representable q \<longleftrightarrow> dround q = q"
  using dround_representable_id representable_dround by metis

text \<open>Amounts that fit with six or with 27 decimal places evaluate without scaling.\<close>

lemma dround_fits:
  assumes "quotient_of (q * 10 ^ k) = (n, 1)" and "\<bar>n\<bar> < 10 ^ 28"
  shows "dround q = q"
proof -
  have "q * 10 ^ k = of_int n" using quotient_of_div [OF assms(1)] by simp
  then have "q = of_int n * pow10 (- int k)"
    by (cases k) (simp_all add: pow10_def field_simps nat_add_distrib)
  with assms(2) show ?thesis by (intro dround_representable_id) (auto simp: representable_def)
qed

lemma dround_code [code]:
  "dround q = (case quotient_of (q * 10 ^ 6) of (n, d) \<Rightarrow>
     if d = 1 \<and> \<bar>n\<bar> < 10 ^ 28 then q else (case quotient_of (q * 10 ^ 27) of (n, d) \<Rightarrow>
     if d = 1 \<and> \<bar>n\<bar> < 10 ^ 28 then q else if q = 0 then 0
     else of_int (round_half_even (q / pow10 (adjusted q - 27))) * pow10 (adjusted q - 27)))"
  using dround_fits [of q 6] dround_fits [of q 27]
  by (auto simp: dround_def Let_def split: prod.split)

text \<open>Small whole amounts are exact.\<close>

lemma round_half_even_numeral: "round_half_even (numeral n) = numeral n" "round_half_even 1 = 1" "round_half_even 0 = 0"
  using round_half_even_of_int [of "numeral n"] round_half_even_of_int [of 1] round_half_even_of_int [of 0] by simp_all

lemma dround_numeral: "(numeral n :: int) < 10 ^ 28 \<Longrightarrow> dround (numeral n) = numeral n" "dround 1 = 1"
proof -
  have "dround (of_int c) = of_int c" if "\<bar>c\<bar> < 10 ^ 28" for c
  proof (rule dround_representable_id)
    have "of_int c = of_int c * pow10 0" by (simp add: pow10_def)
    with that show "representable (of_int c)" unfolding representable_def by blast
  qed
  from this [of "numeral n"] this [of 1] show "(numeral n :: int) < 10 ^ 28 \<Longrightarrow> dround (numeral n) = numeral n" "dround 1 = 1" by simp_all
qed

lemmas small_amounts = dround_numeral round_half_even_numeral dadd_def dsub_def dmul_def ddiv_def

end
