(* ===== verification/Identity.thy ===== *)
theory Identity
  imports Decimal "HOL-Library.Word"
begin

text \<open>
  The value types of \<^verbatim>\<open>src/src/automated_trading_bot/domain\<close> and the two identity strings the
  research modules use.  A Python \<open>UUID\<close> is its 128-bit integer; a \<open>datetime\<close> is a number of
  microseconds since the epoch together with its UTC offset, and a validated \<open>Timestamp\<close> is
  the number alone.  Type tests (\<open>type(x) is not T\<close>) hold by typing and are not repeated.

  Shown here: the canonical text of an \<open>InstrumentId\<close> parses back to it and nothing else
  parses to it; the guards of the constructors; the test clock never goes backwards.
\<close>

section \<open>UUIDs and their text\<close>

type_synonym uuid = "128 word"

definition hex_digit :: "nat \<Rightarrow> char" where
  "hex_digit n = char_of (if n < 10 then 48 + n else 87 + n)"

fun hex_fixed :: "nat \<Rightarrow> nat \<Rightarrow> string" where
  "hex_fixed 0 n = []"
| "hex_fixed (Suc k) n = hex_fixed k (n div 16) @ [hex_digit (n mod 16)]"

definition uuid_hex :: "uuid \<Rightarrow> string" where
  "uuid_hex u = hex_fixed 32 (unat u)"

text \<open>The same digits from binary integers, for evaluation.\<close>

fun hex_int :: "nat \<Rightarrow> int \<Rightarrow> string" where
  "hex_int 0 n = []"
| "hex_int (Suc k) n = hex_int k (n div 16) @ [hex_digit (nat (n mod 16))]"

lemma hex_fixed_int: "hex_fixed k n = hex_int k (int n)"
  by (induction k arbitrary: n) (simp_all add: nat_mod_distrib zdiv_int)

lemma uuid_hex_code [code]: "uuid_hex u = hex_int 32 (uint u)"
  by (simp add: uuid_hex_def hex_fixed_int)

definition uuid_str :: "uuid \<Rightarrow> string" where
  "uuid_str u = (let h = uuid_hex u in
     take 8 h @ ''-'' @ take 4 (drop 8 h) @ ''-'' @ take 4 (drop 12 h) @ ''-''
     @ take 4 (drop 16 h) @ ''-'' @ drop 20 h)"

text \<open>\<open>UUID.version\<close>: defined for the RFC 4122 variant only (bits 63 and 62 are 1 and 0).\<close>

definition uuid_version :: "uuid \<Rightarrow> nat option" where
  "uuid_version u = (if bit u 63 \<and> \<not> bit u 62 then Some (unat (drop_bit 76 u) mod 16) else None)"

text \<open>The constructor \<open>UUID(text)\<close> of the standard library: drop \<open>urn:\<close> and \<open>uuid:\<close>,
  strip braces, drop hyphens, then 32 hexadecimal digits.\<close>

function remove_all :: "string \<Rightarrow> string \<Rightarrow> string" where
  "remove_all pat s = (case s of [] \<Rightarrow> []
     | c # cs \<Rightarrow> if pat \<noteq> [] \<and> prefix pat s then remove_all pat (drop (length pat) s)
                 else c # remove_all pat cs)"
  by pat_completeness auto
termination
  by (relation "measure (\<lambda>(pat, s). length s)") auto

declare remove_all.simps [simp del]

definition strip_chars :: "char set \<Rightarrow> string \<Rightarrow> string" where
  "strip_chars cs s = rev (dropWhile (\<lambda>c. c \<in> cs) (rev (dropWhile (\<lambda>c. c \<in> cs) s)))"

definition hex_value :: "char \<Rightarrow> nat option" where
  "hex_value c = (let n = of_char c in
     if 48 \<le> n \<and> n \<le> 57 then Some (n - 48)
     else if 97 \<le> n \<and> n \<le> 102 then Some (n - 87)
     else if 65 \<le> n \<and> n \<le> 70 then Some (n - 55) else None)"

fun from_hex :: "nat \<Rightarrow> string \<Rightarrow> nat option" where
  "from_hex acc [] = Some acc"
| "from_hex acc (c # cs) =
     (case hex_value c of None \<Rightarrow> None | Some d \<Rightarrow> from_hex (acc * 16 + d) cs)"

definition uuid_of_string :: "string \<Rightarrow> uuid option" where
  "uuid_of_string s =
     (let h = filter (\<lambda>c. c \<noteq> CHR ''-'')
                (strip_chars {CHR ''{'', CHR ''}''} (remove_all ''uuid:'' (remove_all ''urn:'' s)))
      in if length h \<noteq> 32 then None else map_option of_nat (from_hex 0 h))"

section \<open>Identifiers\<close>

datatype OrderId = OrderId (order_uuid: uuid)
datatype TradeId = TradeId (trade_uuid: uuid)
datatype EventId = EventId (event_uuid: uuid)
datatype CorrelationId = CorrelationId (correlation_uuid: uuid)
datatype CausationId = CausationId (causation_uuid: uuid)
datatype StrategyId = StrategyId (strategy_text: string)
datatype InstrumentId = InstrumentId (instrument_uuid: uuid)
datatype IdempotencyKey = IdempotencyKey (idempotency_text: string)
datatype AggregateId = AggregateId (aggregate_uuid: uuid)
datatype RoundingPolicyId = RoundingPolicyId (policy_text: string)

definition instrument_prefix :: string where
  "instrument_prefix = ''atis:instrument:v1:''"

definition require_uuid4 :: "uuid \<Rightarrow> unit result" where
  "require_uuid4 u =
     raise_if (u = 0 \<or> uuid_version u \<noteq> Some 4) ValueError ''value must be a non-nil RFC UUIDv4''
       (Inr ())"

definition InstrumentId_init :: "uuid \<Rightarrow> InstrumentId result" where
  "InstrumentId_init u = rbind (require_uuid4 u) (\<lambda>_. Inr (InstrumentId u))"

definition InstrumentId_to_string :: "InstrumentId \<Rightarrow> string" where
  "InstrumentId_to_string i = instrument_prefix @ uuid_str (instrument_uuid i)"

definition parse_uuid4 :: "string \<Rightarrow> string \<Rightarrow> uuid result" where
  "parse_uuid4 value pre =
     raise_if (\<not> prefix pre value) ValueError ''value has the wrong or missing identity namespace''
       (case uuid_of_string (drop (length pre) value) of
          None \<Rightarrow> Inl (Err ValueError ''value contains an invalid UUID'')
        | Some parsed \<Rightarrow>
            rbind (require_uuid4 parsed) (\<lambda>_.
              raise_if (value \<noteq> pre @ uuid_str parsed) ValueError ''value is not in canonical form''
                (Inr parsed)))"

definition InstrumentId_parse :: "string \<Rightarrow> InstrumentId result" where
  "InstrumentId_parse value = rbind (parse_uuid4 value instrument_prefix) InstrumentId_init"

definition RoundingPolicyId_init :: "string \<Rightarrow> RoundingPolicyId result" where
  "RoundingPolicyId_init v =
     raise_if (\<not> stable_name v) ValueError ''value must be a canonical rounding-policy token''
       (Inr (RoundingPolicyId v))"

section \<open>Currency, money, quantity\<close>

datatype Currency = Currency (code: string)

definition valid_currency_code :: "string \<Rightarrow> bool" where
  "valid_currency_code s \<longleftrightarrow> length s = 3 \<and> list_all (in_range CHR ''A'' CHR ''Z'') s"

definition Currency_init :: "string \<Rightarrow> Currency result" where
  "Currency_init s =
     raise_if (\<not> valid_currency_code s) ValueError
       ''code must be exactly three ASCII uppercase letters'' (Inr (Currency s))"

fun require_finite :: "exn \<Rightarrow> string \<Rightarrow> decimal \<Rightarrow> rat result" where
  "require_finite x m (Finite q) = Inr q"
| "require_finite x m NonFinite = Inl (Err x m)"

record Money =
  money_amount :: rat
  money_currency :: Currency

definition Money_init :: "decimal \<Rightarrow> Currency \<Rightarrow> Money result" where
  "Money_init amount c =
     rbind (require_finite ValueError ''amount must be finite'' amount)
       (\<lambda>a. Inr \<lparr>money_amount = a, money_currency = c\<rparr>)"

datatype Quantity = Quantity (quantity_value: rat)

definition Quantity_init :: "decimal \<Rightarrow> Quantity result" where
  "Quantity_init v =
     rbind (require_finite ValueError ''value must be finite'' v) (\<lambda>q. Inr (Quantity q))"

section \<open>Timestamps and the clock\<close>

record py_datetime =
  dt_micros :: int
  dt_utcoffset :: "int option"

datatype Timestamp = Timestamp (instant: int)

definition Timestamp_init :: "py_datetime \<Rightarrow> Timestamp result" where
  "Timestamp_init d =
     (case dt_utcoffset d of
        None \<Rightarrow> Inl (Err ValueError ''value must be timezone-aware'')
      | Some off \<Rightarrow> raise_if (off \<noteq> 0) ValueError ''value must have a UTC offset of zero''
                     (Inr (Timestamp (dt_micros d))))"

text \<open>\<open>datetime.max\<close> in UTC: adding a \<open>timedelta\<close> beyond it raises \<open>OverflowError\<close>.\<close>

definition datetime_max :: int where
  "datetime_max = 253402300799999999"

record TestClock =
  clock_current :: Timestamp

definition clock_now :: "TestClock \<Rightarrow> Timestamp" where
  "clock_now c = clock_current c"

definition clock_set :: "TestClock \<Rightarrow> Timestamp \<Rightarrow> TestClock" where
  "clock_set c t = c\<lparr>clock_current := t\<rparr>"

definition clock_advance :: "TestClock \<Rightarrow> int \<Rightarrow> (TestClock \<times> Timestamp) result" where
  "clock_advance c delta =
     raise_if (delta < 0) ValueError ''delta must not be negative''
       (let v = instant (clock_current c) + delta in
        if datetime_max < v then Inl (Err OverflowError ''date value out of range'')
        else Inr (c\<lparr>clock_current := Timestamp v\<rparr>, Timestamp v))"

section \<open>Order vocabulary and operational mode\<close>

datatype OrderSide = BUY | SELL
datatype OrderType = MARKET | LIMIT

datatype OperationalMode =
    NORMAL | DEGRADED | NO_NEW_ORDERS | READ_ONLY | CANCEL_ONLY | STRATEGY_DISABLED
  | INSTRUMENT_DISABLED | BROKER_DISABLED | HALTED

datatype OperationalState = OperationalState (op_mode: OperationalMode)

definition OperationalState_init :: "OperationalMode option \<Rightarrow> OperationalState result" where
  "OperationalState_init given =
     (let mode = (case given of None \<Rightarrow> NO_NEW_ORDERS | Some m \<Rightarrow> m) in
      raise_if (mode \<in> {NORMAL, DEGRADED}) ValueError
        ''operational authorization gate is not implemented'' (Inr (OperationalState mode)))"

section \<open>Digests and research identities\<close>

datatype EvidenceContentDigest = EvidenceContentDigest (digest_text: string)

definition sha256_text :: "string \<Rightarrow> bool" where
  "sha256_text s \<longleftrightarrow> prefix ''sha256:'' s \<and> length s = 71 \<and> list_all lower_hex (drop 7 s)"

definition EvidenceContentDigest_init :: "string \<Rightarrow> EvidenceContentDigest result" where
  "EvidenceContentDigest_init s =
     raise_if (\<not> sha256_text s) ValueError ''value must be a canonical SHA-256 digest''
       (Inr (EvidenceContentDigest s))"

datatype ResearchRunId = ResearchRunId (run_text: string)

definition research_id_text :: "string \<Rightarrow> bool" where
  "research_id_text s \<longleftrightarrow>
     list_ex (\<lambda>kind. let pre = ''atis:research:'' @ kind @ '':v1:''
                in prefix pre s \<and> sha256_text (drop (length pre) s))
       [''project'', ''hypothesis'', ''experiment'', ''run'']"

definition ResearchRunId_init :: "string \<Rightarrow> ResearchRunId result" where
  "ResearchRunId_init s =
     raise_if (\<not> research_id_text s) ResearchIdentityError ''identity is not canonical''
       (Inr (ResearchRunId s))"

section \<open>Hexadecimal text\<close>

lemma hex_digit_value: "n < 16 \<Longrightarrow> hex_value (hex_digit n) = Some n"
  by (auto simp: hex_digit_def hex_value_def)

lemma hex_digit_char: "n < 16 \<Longrightarrow> of_char (hex_digit n) \<in> {48..57} \<union> {97..102::nat}"
  by (auto simp: hex_digit_def)

lemma length_hex_fixed [simp]: "length (hex_fixed k n) = k"
  by (induction k arbitrary: n) auto

lemma set_hex_fixed: "c \<in> set (hex_fixed k n) \<Longrightarrow> of_char c \<in> {48..57} \<union> {97..102::nat}"
proof (induction k arbitrary: n)
  case (Suc k)
  from Suc.prems have "c \<in> set (hex_fixed k (n div 16)) \<or> c = hex_digit (n mod 16)" by auto
  then show ?case using Suc.IH hex_digit_char [of "n mod 16"] by auto
qed simp

lemma from_hex_append:
  "from_hex a (xs @ ys) = (case from_hex a xs of None \<Rightarrow> None | Some b \<Rightarrow> from_hex b ys)"
  by (induction a xs rule: from_hex.induct) (auto split: option.splits)

lemma from_hex_fixed: "n < 16 ^ k \<Longrightarrow> from_hex 0 (hex_fixed k n) = Some n"
proof (induction k arbitrary: n)
  case (Suc k)
  then have "n div 16 < 16 ^ k" by (simp add: less_mult_imp_div_less mult.commute)
  with Suc.IH show ?case
    by (simp add: from_hex_append hex_digit_value mult.commute)
qed simp

lemma hex_fixed_inj: "m < 16 ^ k \<Longrightarrow> n < 16 ^ k \<Longrightarrow> hex_fixed k m = hex_fixed k n \<Longrightarrow> m = n"
  by (metis from_hex_fixed option.inject)

lemma unat_uuid_bound: "unat (u :: uuid) < 16 ^ 32"
  using unsigned_less [of u] by simp

lemma uuid_hex_inj [simp]: "uuid_hex u = uuid_hex v \<longleftrightarrow> u = v"
  using hex_fixed_inj [of "unat u" 32 "unat v"] unat_uuid_bound [of u] unat_uuid_bound [of v]
  by (auto simp: uuid_hex_def word_unat_eq_iff)

lemma uuid_hex_chars:
  "c \<in> set (uuid_hex u) \<Longrightarrow> c \<noteq> CHR ''-'' \<and> c \<noteq> CHR ''{'' \<and> c \<noteq> CHR ''}'' \<and> c \<noteq> CHR ''u''"
  unfolding uuid_hex_def by (drule set_hex_fixed) auto

lemma length_uuid_hex [simp]: "length (uuid_hex u) = 32"
  by (simp add: uuid_hex_def)

section \<open>Parsing is the inverse of printing\<close>

lemma filter_uuid_str: "filter (\<lambda>c. c \<noteq> CHR ''-'') (uuid_str u) = uuid_hex u"
proof -
  define h where "h = uuid_hex u"
  have nd: "c \<noteq> CHR ''-''" if "c \<in> set h" for c using that uuid_hex_chars unfolding h_def by blast
  have keep: "filter (\<lambda>c. c \<noteq> CHR ''-'') xs = xs" if "set xs \<subseteq> set h" for xs
    using that nd by (auto simp: filter_id_conv)
  have "h = take 8 h @ take 4 (drop 8 h) @ take 4 (drop 12 h) @ take 4 (drop 16 h) @ drop 20 h"
    using append_take_drop_id [of 8 h] append_take_drop_id [of 4 "drop 8 h"]
      append_take_drop_id [of 4 "drop 12 h"] append_take_drop_id [of 4 "drop 16 h"] by simp
  moreover have "set (take a (drop b h)) \<subseteq> set h" "set (take a h) \<subseteq> set h" "set (drop b h) \<subseteq> set h"
    for a b by (auto dest: in_set_takeD in_set_dropD)
  ultimately show ?thesis
    by (simp add: uuid_str_def Let_def h_def [symmetric] keep)
qed

lemma uuid_str_chars:
  "c \<in> set (uuid_str u) \<Longrightarrow> c \<noteq> CHR ''{'' \<and> c \<noteq> CHR ''}'' \<and> c \<noteq> CHR ''u''"
proof -
  assume "c \<in> set (uuid_str u)"
  then have "c \<in> set (uuid_hex u) \<or> c = CHR ''-''"
    by (auto simp: uuid_str_def Let_def dest: in_set_takeD in_set_dropD)
  then show ?thesis using uuid_hex_chars by auto
qed

lemma remove_all_id: "p \<notin> set s \<Longrightarrow> remove_all (p # ps) s = s"
  by (induction s) (auto simp: remove_all.simps [of "p # ps"])

lemma strip_chars_id: "\<forall>c\<in>set s. c \<notin> cs \<Longrightarrow> strip_chars cs s = s"
proof -
  have d: "dropWhile (\<lambda>c. c \<in> cs) t = t" if "\<forall>c\<in>set t. c \<notin> cs" for t
    using that by (cases t) auto
  assume "\<forall>c\<in>set s. c \<notin> cs"
  then show ?thesis by (simp add: strip_chars_def d)
qed

lemma uuid_of_string_str: "uuid_of_string (uuid_str u) = Some u"
proof -
  have "remove_all ''uuid:'' (remove_all ''urn:'' (uuid_str u)) = uuid_str u"
    using uuid_str_chars by (metis remove_all_id)
  moreover have "strip_chars {CHR ''{'', CHR ''}''} (uuid_str u) = uuid_str u"
    using uuid_str_chars by (intro strip_chars_id) auto
  moreover have "from_hex 0 (uuid_hex u) = Some (unat u)"
    unfolding uuid_hex_def by (rule from_hex_fixed) (rule unat_uuid_bound)
  ultimately show ?thesis by (simp add: uuid_of_string_def filter_uuid_str)
qed

lemma uuid_str_inj [simp]: "uuid_str u = uuid_str v \<longleftrightarrow> u = v"
  by (metis option.inject uuid_of_string_str)

lemma parse_uuid4_iff:
  "parse_uuid4 s pre = Inr u \<longleftrightarrow> s = pre @ uuid_str u \<and> u \<noteq> 0 \<and> uuid_version u = Some 4"
proof
  assume "parse_uuid4 s pre = Inr u"
  then show "s = pre @ uuid_str u \<and> u \<noteq> 0 \<and> uuid_version u = Some 4"
    by (auto simp: parse_uuid4_def require_uuid4_def split: option.splits)
next
  assume "s = pre @ uuid_str u \<and> u \<noteq> 0 \<and> uuid_version u = Some 4"
  then show "parse_uuid4 s pre = Inr u"
    by (simp add: parse_uuid4_def require_uuid4_def uuid_of_string_str)
qed

lemma InstrumentId_parse_iff:
  "InstrumentId_parse s = Inr i \<longleftrightarrow>
     s = InstrumentId_to_string i \<and> InstrumentId_init (instrument_uuid i) = Inr i"
  by (cases i) (auto simp: InstrumentId_parse_def parse_uuid4_iff InstrumentId_to_string_def
      InstrumentId_init_def require_uuid4_def)

interpretation instrument_text: strict_codec InstrumentId_to_string InstrumentId_parse
  "\<lambda>i. InstrumentId_init (instrument_uuid i) = Inr i"
  by unfold_locales (simp_all add: InstrumentId_parse_iff)

lemma InstrumentId_to_string_inj [simp]:
  "InstrumentId_to_string i = InstrumentId_to_string j \<longleftrightarrow> i = j"
  by (cases i; cases j) (simp add: InstrumentId_to_string_def)

lemma clock_advance_monotone:
  "clock_advance c d = Inr (c', t) \<Longrightarrow>
     clock_now c' = t \<and> instant t = instant (clock_now c) + d \<and> instant (clock_now c) \<le> instant t"
  by (auto simp: clock_advance_def clock_now_def Let_def split: if_splits)

lemma OperationalState_never_active:
  "OperationalState_init m = Inr s \<Longrightarrow> op_mode s \<noteq> NORMAL \<and> op_mode s \<noteq> DEGRADED"
  by (auto simp: OperationalState_init_def Let_def)

section \<open>Properties\<close>

text \<open>The parser of instrument identities accepts a text exactly when it is the canonical text of an
  identity the constructor accepts, and returns that identity: printing and parsing are inverse
  and no identity has two texts.\<close>

theorem instrument_text_round_trip:
  "InstrumentId_parse s = Inr i \<longleftrightarrow>
     s = InstrumentId_to_string i \<and> instrument_uuid i \<noteq> 0 \<and> uuid_version (instrument_uuid i) = Some 4"
  unfolding InstrumentId_parse_iff
  by (cases i) (auto simp: InstrumentId_init_def require_uuid4_def)

end
