(* ===== verification/Versioning.thy ===== *)
theory Versioning
  imports Identity
begin

text \<open>
  \<^verbatim>\<open>domain/versioning.py\<close>: contract identities, the immutable registry of codecs and
  forward-only upcast routes, compatibility and interpretation.  Codecs and transforms are
  supplied by the caller: they are functions of the model's records that may raise.  The
  values they work on are of an arbitrary type \<open>'v\<close>.  The message of
  \<open>UnsupportedVersionError\<close>, the printed form of the identity, is represented by its family.

  The loop of \<open>_path\<close> is fuelled; \<open>path_terminates\<close> shows that the fuel \<open>path\<close> gives it
  is enough for every registry the constructor builds.  \<open>upcast_chain\<close> is the specification
  of a route, and \<open>path_iff_chain\<close> the refinement.
\<close>

type_synonym bytes = "8 word list"

record ContractVersion =
  cv_family :: string
  cv_version :: int

definition valid_identity :: "ContractVersion \<Rightarrow> bool" where
  "valid_identity i \<longleftrightarrow> cv_family i \<noteq> [] \<and> cv_family i = strip (cv_family i) \<and> 1 \<le> cv_version i"

definition ContractVersion_init :: "string \<Rightarrow> int \<Rightarrow> ContractVersion result" where
  "ContractVersion_init fam ver =
     raise_if (fam = [] \<or> fam \<noteq> strip fam) InvalidVersionIdentityError
       ''family must be a nonempty, unpadded string''
       (raise_if (ver < 1) InvalidVersionIdentityError ''version must be a positive integer''
          (Inr \<lparr>cv_family = fam, cv_version = ver\<rparr>))"

definition require_identity :: "ContractVersion \<Rightarrow> ContractVersion result" where
  "require_identity i = ContractVersion_init (cv_family i) (cv_version i)"

record 'v Codec =
  codec_encode :: "'v \<Rightarrow> bytes result"
  codec_decode :: "bytes \<Rightarrow> 'v result"

record 'v VersionDefinition =
  vd_identity :: ContractVersion
  vd_codec :: "'v Codec"

record 'v UpcastDefinition =
  up_source :: ContractVersion
  up_target :: ContractVersion
  up_transform :: "'v \<Rightarrow> 'v result"

datatype Compatibility = SUPPORTED_NATIVE | SUPPORTED_VIA_APPROVED_UPCAST | UNSUPPORTED

record 'v Interpretation =
  in_original :: ContractVersion
  in_target :: ContractVersion
  in_original_bytes :: bytes
  in_value :: 'v
  in_path :: "ContractVersion list"

record 'v VersionRegistry =
  reg_codecs :: "ContractVersion \<rightharpoonup> 'v Codec"
  reg_routes :: "ContractVersion \<rightharpoonup> 'v UpcastDefinition"
  reg_families :: "string set"

section \<open>Construction\<close>

definition add_definition ::
  "'v VersionRegistry \<Rightarrow> 'v VersionDefinition \<Rightarrow> 'v VersionRegistry result" where
  "add_definition r d =
     rbind (require_identity (vd_identity d)) (\<lambda>i.
       raise_if (reg_codecs r i \<noteq> None) InvalidRegistryError ''duplicate contract/version codec''
         (Inr (r\<lparr>reg_codecs := (reg_codecs r)(i \<mapsto> vd_codec d),
                 reg_families := insert (cv_family i) (reg_families r)\<rparr>)))"

definition add_route ::
  "'v VersionRegistry \<Rightarrow> 'v UpcastDefinition \<Rightarrow> 'v VersionRegistry result" where
  "add_route r u =
     rbind (require_identity (up_source u)) (\<lambda>s.
     rbind (require_identity (up_target u)) (\<lambda>t.
       raise_if (reg_codecs r s = None \<or> reg_codecs r t = None) InvalidRegistryError
         ''upcast endpoint is not registered''
       (raise_if (cv_family s \<noteq> cv_family t \<or> cv_version t \<le> cv_version s) InvalidRegistryError
          ''upcast must advance within one family''
       (raise_if (reg_routes r s \<noteq> None) InvalidRegistryError ''ambiguous upcast path''
         (Inr (r\<lparr>reg_routes := (reg_routes r)(s \<mapsto> u)\<rparr>))))))"

definition VersionRegistry_init ::
  "'v VersionDefinition list \<Rightarrow> 'v UpcastDefinition list \<Rightarrow> 'v VersionRegistry result" where
  "VersionRegistry_init defs ups =
     rbind (rfold add_definition
              \<lparr>reg_codecs = Map.empty, reg_routes = Map.empty, reg_families = {}\<rparr> defs) (\<lambda>r.
       raise_if (defs = []) InvalidRegistryError ''registry must contain a version definition''
         (rfold add_route r ups))"

section \<open>Lookup, paths, interpretation\<close>

definition codec_for :: "'v VersionRegistry \<Rightarrow> ContractVersion \<Rightarrow> 'v Codec result" where
  "codec_for r i =
     rbind (require_identity i) (\<lambda>_.
       raise_if (cv_family i \<notin> reg_families r) UnknownContractError (cv_family i)
         (case reg_codecs r i of
            None \<Rightarrow> Inl (Err UnsupportedVersionError (cv_family i))
          | Some c \<Rightarrow> Inr c))"

text \<open>The outer option is the fuel (\<open>None\<close>: the loop was cut off), the inner one is the
  value the method returns.\<close>

fun path_fuel :: "nat \<Rightarrow> 'v VersionRegistry \<Rightarrow> ContractVersion \<Rightarrow> ContractVersion \<Rightarrow>
    'v UpcastDefinition list option option" where
  "path_fuel 0 r current target = None"
| "path_fuel (Suc n) r current target =
     (if current = target then Some (Some [])
      else case reg_routes r current of
             None \<Rightarrow> Some None
           | Some route \<Rightarrow>
               if cv_version target < cv_version (up_target route) then Some None
               else map_option (map_option (Cons route)) (path_fuel n r (up_target route) target))"

definition path_bound :: "ContractVersion \<Rightarrow> ContractVersion \<Rightarrow> nat" where
  "path_bound s t = nat (cv_version t - cv_version s) + 1"

definition path :: "'v VersionRegistry \<Rightarrow> ContractVersion \<Rightarrow> ContractVersion \<Rightarrow>
    'v UpcastDefinition list option" where
  "path r s t = (case path_fuel (path_bound s t) r s t of None \<Rightarrow> None | Some p \<Rightarrow> p)"

definition compatibility ::
  "'v VersionRegistry \<Rightarrow> ContractVersion \<Rightarrow> ContractVersion \<Rightarrow> Compatibility result" where
  "compatibility r s t =
     rbind (codec_for r s) (\<lambda>_. rbind (codec_for r t) (\<lambda>_.
       Inr (if s = t then SUPPORTED_NATIVE
            else if cv_family s \<noteq> cv_family t \<or> cv_version t < cv_version s then UNSUPPORTED
            else if path r s t \<noteq> None then SUPPORTED_VIA_APPROVED_UPCAST else UNSUPPORTED)))"

text \<open>\<open>try: codec.decode(...) except MalformedRepresentationError: raise except Exception: ...\<close>\<close>

definition guarded_decode :: "'v Codec \<Rightarrow> bytes \<Rightarrow> 'v result" where
  "guarded_decode c rep = (case codec_decode c rep of
     Inl (Err MalformedRepresentationError m) \<Rightarrow> Inl (Err MalformedRepresentationError m)
   | Inl _ \<Rightarrow> Inl (Err CodecFailureError ''exact-version decoder failed'')
   | Inr v \<Rightarrow> Inr v)"

definition recast :: "exn \<Rightarrow> string \<Rightarrow> 'a result \<Rightarrow> 'a result" where
  "recast x m r = (case r of Inl _ \<Rightarrow> Inl (Err x m) | Inr v \<Rightarrow> Inr v)"

definition run_upcasts :: "'v \<Rightarrow> 'v UpcastDefinition list \<Rightarrow> 'v result" where
  "run_upcasts v p =
     rfold (\<lambda>v u. recast UpcastFailureError ''approved upcast failed'' (up_transform u v)) v p"

definition interpret_bytes ::
  "'v VersionRegistry \<Rightarrow> ContractVersion \<Rightarrow> bytes \<Rightarrow> ContractVersion \<Rightarrow> 'v Interpretation result" where
  "interpret_bytes r original rep target =
     rbind (codec_for r original) (\<lambda>codec. rbind (codec_for r target) (\<lambda>_.
       raise_if (cv_family original \<noteq> cv_family target \<or> cv_version target < cv_version original)
         MissingUpcastPathError ''no approved forward interpretation path''
       (case path r original target of
          None \<Rightarrow> Inl (Err MissingUpcastPathError ''no approved forward interpretation path'')
        | Some p \<Rightarrow>
            rbind (guarded_decode codec rep) (\<lambda>historical.
            rbind (recast CodecFailureError ''exact-version encoder failed''
                     (codec_encode codec historical)) (\<lambda>canonical.
            raise_if (canonical \<noteq> rep) MalformedRepresentationError
              ''representation is not canonical''
            (rbind (run_upcasts historical p) (\<lambda>value.
               Inr \<lparr>in_original = original, in_target = target, in_original_bytes = rep,
                    in_value = value, in_path = map up_target p\<rparr>)))))))"

section \<open>What the constructor guarantees\<close>

definition registry_ok :: "'v VersionRegistry \<Rightarrow> bool" where
  "registry_ok r \<longleftrightarrow>
     (\<forall>i. reg_codecs r i \<noteq> None \<longrightarrow> valid_identity i \<and> cv_family i \<in> reg_families r) \<and>
     (\<forall>s u. reg_routes r s = Some u \<longrightarrow> up_source u = s \<and>
        reg_codecs r s \<noteq> None \<and> reg_codecs r (up_target u) \<noteq> None \<and>
        cv_family s = cv_family (up_target u) \<and> cv_version s < cv_version (up_target u))"

lemma require_identity_iff [result_simps]: "require_identity i = Inr j \<longleftrightarrow> j = i \<and> valid_identity i"
  by (auto simp: require_identity_def ContractVersion_init_def valid_identity_def)

lemma add_definition_ok: "registry_ok r \<Longrightarrow> add_definition r d = Inr r' \<Longrightarrow> registry_ok r'"
  by (auto simp: registry_ok_def add_definition_def require_identity_iff split: if_splits)

lemma add_route_ok: "registry_ok r \<Longrightarrow> add_route r u = Inr r' \<Longrightarrow> registry_ok r'"
  by (auto simp: registry_ok_def add_route_def require_identity_iff not_le split: if_splits)

lemma VersionRegistry_init_ok:
  assumes "VersionRegistry_init defs ups = Inr r"
  shows "registry_ok r"
proof -
  from assms obtain r0 where
      r0: "rfold add_definition
             \<lparr>reg_codecs = Map.empty, reg_routes = Map.empty, reg_families = {}\<rparr> defs = Inr r0"
    and r: "rfold add_route r0 ups = Inr r"
    by (auto simp: VersionRegistry_init_def)
  have "registry_ok r0"
    by (rule rfold_invariant [OF _ _ r0]) (erule (1) add_definition_ok, simp add: registry_ok_def)
  then show ?thesis
    by (rule rfold_invariant [OF _ _ r, rotated]) (erule (1) add_route_ok)
qed

section \<open>Paths terminate and are the approved chains\<close>

lemma path_fuel_returns:
  assumes "registry_ok r" and "nat (cv_version t - cv_version s) < n"
  shows "\<exists>p. path_fuel n r s t = Some p"
  using assms(2)
proof (induction n arbitrary: s)
  case (Suc n)
  show ?case
  proof (cases "reg_routes r s")
    case None
    then show ?thesis by simp
  next
    case (Some u)
    with assms(1) have inc: "cv_version s < cv_version (up_target u)" by (auto simp: registry_ok_def)
    show ?thesis
    proof (cases "cv_version t < cv_version (up_target u)")
      case False
      with inc Suc.prems have "nat (cv_version t - cv_version (up_target u)) < n" by simp
      then obtain p where "path_fuel n r (up_target u) t = Some p" using Suc.IH by blast
      with Some False show ?thesis by simp
    qed (simp add: Some)
  qed
qed simp

inductive upcast_chain ::
  "'v VersionRegistry \<Rightarrow> ContractVersion \<Rightarrow> 'v UpcastDefinition list \<Rightarrow> ContractVersion \<Rightarrow> bool"
  for r where
  chain_nil: "upcast_chain r s [] s"
| chain_cons: "reg_routes r s = Some u \<Longrightarrow> upcast_chain r (up_target u) us t \<Longrightarrow>
     upcast_chain r s (u # us) t"

inductive_simps upcast_chain_simps [simp]:
  "upcast_chain r s [] t" "upcast_chain r s (u # us) t"

lemma upcast_chain_forward:
  assumes "registry_ok r" and "upcast_chain r s us t"
  shows "cv_version s \<le> cv_version t \<and> (us \<noteq> [] \<longrightarrow> cv_version s < cv_version t)
    \<and> cv_family s = cv_family t"
  using assms(2)
  by (induction rule: upcast_chain.induct) (use assms(1) in \<open>auto simp: registry_ok_def\<close>, force+)

lemma upcast_chain_versions:
  assumes "registry_ok r" and "upcast_chain r s us t"
  shows "sorted_wrt (\<lambda>a b. cv_version a < cv_version b) (s # map up_target us)
    \<and> last (s # map up_target us) = t
    \<and> (\<forall>i\<in>set (map up_target us). cv_family i = cv_family s \<and> reg_codecs r i \<noteq> None)"
  using assms(2)
proof (induction rule: upcast_chain.induct)
  case (chain_cons s u us t)
  from assms(1) chain_cons.hyps(1)
  have u: "cv_family s = cv_family (up_target u)" "cv_version s < cv_version (up_target u)"
    "reg_codecs r (up_target u) \<noteq> None" by (auto simp: registry_ok_def)
  with chain_cons.IH show ?case by (auto simp: less_trans)
qed simp

lemma upcast_chain_unique:
  assumes ok: "registry_ok r"
  shows "upcast_chain r s us t \<Longrightarrow> upcast_chain r s vs t \<Longrightarrow> us = vs"
proof (induction arbitrary: vs rule: upcast_chain.induct)
  case (chain_nil s)
  then show ?case using upcast_chain_forward [OF ok, of s vs s] by auto
next
  case (chain_cons s u us t)
  have "s \<noteq> t"
    using upcast_chain_forward [OF ok, of s "u # us" t] chain_cons.hyps by auto
  with chain_cons.prems obtain w ws where vs: "vs = w # ws" by (cases vs) auto
  with chain_cons.prems chain_cons.hyps(1) have "w = u" and "upcast_chain r (up_target u) ws t"
    by simp_all
  with chain_cons.IH vs show ?case by simp
qed

lemma path_fuel_chain: "path_fuel n r s t = Some (Some p) \<Longrightarrow> upcast_chain r s p t"
  by (induction n arbitrary: s p) (auto split: if_splits option.splits)

lemma chain_path_fuel:
  assumes ok: "registry_ok r"
  shows "upcast_chain r s us t \<Longrightarrow> path_fuel n r s t \<noteq> None \<Longrightarrow> path_fuel n r s t = Some (Some us)"
proof (induction arbitrary: n rule: upcast_chain.induct)
  case (chain_nil s)
  then show ?case by (cases n) auto
next
  case (chain_cons s u us t)
  have ne: "s \<noteq> t"
    using upcast_chain_forward [OF ok, of s "u # us" t] chain_cons.hyps by auto
  have le: "\<not> cv_version t < cv_version (up_target u)"
    using upcast_chain_forward [OF ok chain_cons.hyps(2)] by simp
  from chain_cons.prems obtain m where n: "n = Suc m" by (cases n) auto
  from chain_cons.prems n ne le chain_cons.hyps(1) have "path_fuel m r (up_target u) t \<noteq> None" by simp
  from chain_cons.IH [OF this] n ne le chain_cons.hyps(1) show ?case by simp
qed

lemma path_iff_chain:
  assumes "registry_ok r"
  shows "path r s t = Some p \<longleftrightarrow> upcast_chain r s p t"
proof -
  obtain q where q: "path_fuel (path_bound s t) r s t = Some q"
    using path_fuel_returns [OF assms, of t s "path_bound s t"] by (auto simp: path_bound_def)
  then have "path r s t = q" by (simp add: path_def)
  moreover have "upcast_chain r s p t" if "q = Some p"
    using q that path_fuel_chain by blast
  moreover have "q = Some p" if "upcast_chain r s p t"
    using q chain_path_fuel [OF assms that, of "path_bound s t"] by simp
  ultimately show ?thesis by blast
qed

lemma codec_for_iff:
  "registry_ok r \<Longrightarrow> codec_for r i = Inr c \<longleftrightarrow> reg_codecs r i = Some c"
  by (auto simp: codec_for_def require_identity_iff registry_ok_def split: option.splits)

lemma recast_Inr [simp]: "recast x m r = Inr v \<longleftrightarrow> r = Inr v"
  by (cases r) (auto simp: recast_def)

lemma guarded_decode_Inr [simp]: "guarded_decode c rep = Inr v \<longleftrightarrow> codec_decode c rep = Inr v"
  by (auto simp: guarded_decode_def split: sum.splits error.splits exn.splits)

section \<open>Properties\<close>

text \<open>C36: For every registry the constructor accepts, the search for an upcast route ends within the
  version distance, and it returns a route exactly when the approved routes chain up from the
  source to the target; that chain is unique, stays in the family and only moves to higher
  registered versions.\<close>

theorem path_search_correct:
  assumes "VersionRegistry_init defs ups = Inr r"
  shows "(\<exists>p. path_fuel (path_bound s t) r s t = Some p)
    \<and> (path r s t = Some p \<longleftrightarrow> upcast_chain r s p t)
    \<and> (path r s t = Some p \<longrightarrow>
        sorted_wrt (\<lambda>a b. cv_version a < cv_version b) (s # map up_target p)
        \<and> last (s # map up_target p) = t
        \<and> (\<forall>i\<in>set (map up_target p). cv_family i = cv_family s \<and> reg_codecs r i \<noteq> None))"
proof -
  have ok: "registry_ok r" using assms by (rule VersionRegistry_init_ok)
  moreover have "\<exists>p. path_fuel (path_bound s t) r s t = Some p"
    using ok by (rule path_fuel_returns) (simp add: path_bound_def)
  ultimately show ?thesis using path_iff_chain [OF ok] upcast_chain_versions [OF ok] by blast
qed

text \<open>A successful interpretation keeps the original bytes, which are the canonical encoding of the
  value they decode to, reports a compatible pair of versions, runs exactly the transforms of the
  approved chain in order, and lists the versions it went through.\<close>

theorem interpretation_faithful:
  assumes "VersionRegistry_init defs ups = Inr r" and "interpret_bytes r original rep target = Inr i"
  shows "in_original_bytes i = rep \<and> in_original i = original \<and> in_target i = target
    \<and> (\<exists>codec v p. reg_codecs r original = Some codec \<and> codec_decode codec rep = Inr v
         \<and> codec_encode codec v = Inr rep \<and> upcast_chain r original p target
         \<and> run_upcasts v p = Inr (in_value i) \<and> in_path i = map up_target p)
    \<and> compatibility r original target =
        Inr (if original = target then SUPPORTED_NATIVE else SUPPORTED_VIA_APPROVED_UPCAST)"
proof -
  have ok: "registry_ok r" using assms(1) by (rule VersionRegistry_init_ok)
  from assms(2) obtain codec tc p where c: "codec_for r original = Inr codec" "codec_for r target = Inr tc"
    and fam: "cv_family original = cv_family target" "\<not> cv_version target < cv_version original"
    and p: "path r original target = Some p"
    by (auto simp: interpret_bytes_def split: option.splits)
  have "compatibility r original target =
      Inr (if original = target then SUPPORTED_NATIVE else SUPPORTED_VIA_APPROVED_UPCAST)"
    using c fam p by (simp add: compatibility_def)
  moreover have "upcast_chain r original p target" using p path_iff_chain [OF ok] by simp
  ultimately show ?thesis
    using assms(2) c fam p codec_for_iff [OF ok] by (auto simp: interpret_bytes_def)
qed

section \<open>A sample registry\<close>

text \<open>Two versions of one contract: the codec is the identity on bytes, the transform appends one.\<close>

definition sample_codec :: "bytes Codec" where
  "sample_codec = \<lparr>codec_encode = Inr, codec_decode = Inr\<rparr>"

definition sample_version :: "int \<Rightarrow> ContractVersion" where
  "sample_version n = \<lparr>cv_family = ''c'', cv_version = n\<rparr>"

definition sample_registry :: "bytes VersionRegistry" where
  "sample_registry = \<lparr>reg_codecs = [sample_version 1 \<mapsto> sample_codec, sample_version 2 \<mapsto> sample_codec],
     reg_routes = [sample_version 1 \<mapsto> \<lparr>up_source = sample_version 1, up_target = sample_version 2,
       up_transform = (\<lambda>v. Inr (v @ [1]))\<rparr>], reg_families = {''c''}\<rparr>"

lemma sample_registry_built:
  "VersionRegistry_init [\<lparr>vd_identity = sample_version 1, vd_codec = sample_codec\<rparr>,
      \<lparr>vd_identity = sample_version 2, vd_codec = sample_codec\<rparr>]
    [\<lparr>up_source = sample_version 1, up_target = sample_version 2, up_transform = (\<lambda>v. Inr (v @ [1]))\<rparr>]
   = Inr sample_registry"
  by (simp add: VersionRegistry_init_def add_definition_def add_route_def require_identity_def
      ContractVersion_init_def sample_version_def sample_registry_def strip_def is_space_def raise_if_def)

theorem path_search_correct_witness:
  "\<exists>p. path_fuel (path_bound (sample_version 1) (sample_version 2)) sample_registry
     (sample_version 1) (sample_version 2) = Some p"
  using path_search_correct [OF sample_registry_built] by blast

theorem interpretation_faithful_witness:
  "compatibility sample_registry (sample_version 1) (sample_version 2) = Inr SUPPORTED_VIA_APPROVED_UPCAST"
proof -
  have "interpret_bytes sample_registry (sample_version 1) [5] (sample_version 2) =
      Inr \<lparr>in_original = sample_version 1, in_target = sample_version 2, in_original_bytes = [5],
           in_value = [5, 1], in_path = [sample_version 2]\<rparr>"
    by (simp add: interpret_bytes_def codec_for_def require_identity_def ContractVersion_init_def
        sample_version_def sample_registry_def strip_def is_space_def raise_if_def path_def
        path_bound_def guarded_decode_def sample_codec_def recast_def run_upcasts_def numeral_2_eq_2)
  from interpretation_faithful [OF sample_registry_built this] show ?thesis
    by (simp add: sample_version_def)
qed

end
