(* ===== verification/Contracts.thy ===== *)
theory Contracts
  imports Versioning
begin

text \<open>
  The pure state contracts of \<^verbatim>\<open>domain/\<close>: the generic transition of \<^verbatim>\<open>state_transitions.py\<close>,
  the persistence ports' vocabulary of \<^verbatim>\<open>persistence.py\<close>, optimistic concurrency of
  \<^verbatim>\<open>concurrency.py\<close> and the inbox and outbox machines of \<^verbatim>\<open>delivery.py\<close>.

  Each machine promises the \<open>absorbing\<close> interface: a terminal record is never left.  The
  concurrency part shows that a constructed outcome has exactly one of its four shapes and
  that its token never falls behind the expected one.
\<close>

section \<open>Generic state transitions\<close>

datatype StateId = StateId (state_uuid: uuid)
datatype TransitionActionId = TransitionActionId (action_uuid: uuid)

datatype TransitionState = TS_ACTIVE | TS_TERMINAL | TS_UNKNOWN
datatype TransitionActionKind = TA_APPLY | TA_DUPLICATE
datatype TransitionDisposition =
  TD_APPLIED | TD_ILLEGAL | TD_DUPLICATE | TD_TERMINAL | TD_UNKNOWN

definition TRANSITION_CONTRACT_V1 :: ContractVersion where
  "TRANSITION_CONTRACT_V1 = \<lparr>cv_family = ''state-transition'', cv_version = 1\<rparr>"

record GenericState =
  gs_state_id :: StateId
  gs_status :: TransitionState
  gs_contract :: ContractVersion

record TransitionAction =
  ta_action_id :: TransitionActionId
  ta_kind :: TransitionActionKind
  ta_target :: TransitionState
  ta_contract :: ContractVersion

record TransitionResult =
  tr_previous :: GenericState
  tr_next :: GenericState
  tr_disposition :: TransitionDisposition

definition require_transition_version :: "ContractVersion \<Rightarrow> string \<Rightarrow> unit result" where
  "require_transition_version v subject =
     raise_if (cv_family v \<noteq> cv_family TRANSITION_CONTRACT_V1) UnknownContractError
       (''unknown '' @ subject @ '' contract family: '' @ cv_family v)
     (raise_if (cv_version v \<noteq> cv_version TRANSITION_CONTRACT_V1) UnsupportedVersionError
       (''unsupported '' @ subject @ '' state-transition version'')
     (Inr ()))"

definition unchanged_result :: "GenericState \<Rightarrow> TransitionDisposition \<Rightarrow> TransitionResult" where
  "unchanged_result s d = \<lparr>tr_previous = s, tr_next = s, tr_disposition = d\<rparr>"

definition transition :: "GenericState \<Rightarrow> TransitionAction \<Rightarrow> TransitionResult result" where
  "transition s a =
     rbind (require_transition_version (gs_contract s) ''state'') (\<lambda>_.
     rbind (require_transition_version (ta_contract a) ''action'') (\<lambda>_.
     raise_if (gs_contract s \<noteq> ta_contract a) UnsupportedVersionError
       ''state and action contract versions must match''
     (Inr
       (if gs_status s = TS_UNKNOWN then unchanged_result s TD_UNKNOWN
        else if gs_status s = TS_TERMINAL then unchanged_result s TD_TERMINAL
        else if ta_kind a = TA_DUPLICATE then unchanged_result s TD_DUPLICATE
        else if ta_target a = TS_TERMINAL then
          \<lparr>tr_previous = s,
           tr_next = \<lparr>gs_state_id = gs_state_id s, gs_status = TS_TERMINAL,
                      gs_contract = TRANSITION_CONTRACT_V1\<rparr>,
           tr_disposition = TD_APPLIED\<rparr>
        else unchanged_result s TD_ILLEGAL))))"

section \<open>Persistence vocabulary\<close>

record EventPersistenceRequest =
  epr_contract :: ContractVersion
  epr_representation :: bytes

record TransitionPersistenceRequest =
  tpr_result :: TransitionResult

datatype PersistenceDisposition = PD_SUCCESS | PD_FAILURE | PD_CONFLICT

record PersistenceOutcome =
  po_disposition :: PersistenceDisposition

section \<open>Optimistic concurrency\<close>

datatype ConcurrencyToken = ConcurrencyToken (token_value: int)

text \<open>The dataclass is declared with \<open>order=True\<close>: tokens compare by value.\<close>

instantiation ConcurrencyToken :: linorder
begin

definition less_eq_ConcurrencyToken :: "ConcurrencyToken \<Rightarrow> ConcurrencyToken \<Rightarrow> bool" where
  "less_eq_ConcurrencyToken a b \<longleftrightarrow> token_value a \<le> token_value b"

definition less_ConcurrencyToken :: "ConcurrencyToken \<Rightarrow> ConcurrencyToken \<Rightarrow> bool" where
  "less_ConcurrencyToken a b \<longleftrightarrow> token_value a < token_value b"

instance
  by standard
     (auto simp: less_eq_ConcurrencyToken_def less_ConcurrencyToken_def
       intro: ConcurrencyToken.expand)

end

definition ConcurrencyToken_init :: "int \<Rightarrow> ConcurrencyToken result" where
  "ConcurrencyToken_init v =
     raise_if (v < 0) ValueError ''value must be non-negative'' (Inr (ConcurrencyToken v))"

definition INITIAL_CONCURRENCY_TOKEN :: ConcurrencyToken where
  "INITIAL_CONCURRENCY_TOKEN = ConcurrencyToken 0"

definition advance_concurrency_token :: "ConcurrencyToken \<Rightarrow> ConcurrencyToken result" where
  "advance_concurrency_token t = ConcurrencyToken_init (token_value t + 1)"

datatype CommitCertainty = CC_NOT_COMMITTED | CC_COMMITTED | CC_INDETERMINATE
datatype RetryDisposition = RD_NO_RETRY | RD_SAME_IDENTITY | RD_REEVALUATE | RD_RESOLVE_FIRST
datatype ConcurrencyDisposition = CD_COMMITTED | CD_STALE | CD_FAILED | CD_INDETERMINATE

record ConcurrentTransitionRequest =
  ctr_state_id :: StateId
  ctr_request :: TransitionPersistenceRequest
  ctr_expected :: ConcurrencyToken

definition ConcurrentTransitionRequest_init ::
  "StateId \<Rightarrow> TransitionPersistenceRequest \<Rightarrow> ConcurrencyToken \<Rightarrow> ConcurrentTransitionRequest result" where
  "ConcurrentTransitionRequest_init sid req tok =
     raise_if (gs_state_id (tr_previous (tpr_result req)) \<noteq> sid) ValueError
       ''previous state must match state_id''
     (raise_if (gs_state_id (tr_next (tpr_result req)) \<noteq> sid) ValueError
       ''next state must match state_id''
     (Inr \<lparr>ctr_state_id = sid, ctr_request = req, ctr_expected = tok\<rparr>))"

record ConcurrencyOutcome =
  co_request :: ConcurrentTransitionRequest
  co_persistence :: PersistenceOutcome
  co_disposition :: ConcurrencyDisposition
  co_current :: "ConcurrencyToken option"
  co_certainty :: CommitCertainty
  co_retry :: RetryDisposition

definition is_committed :: "ConcurrencyOutcome \<Rightarrow> bool" where
  "is_committed o1 \<longleftrightarrow>
     co_disposition o1 = CD_COMMITTED
     \<and> po_disposition (co_persistence o1) = PD_SUCCESS
     \<and> co_certainty o1 = CC_COMMITTED
     \<and> (case advance_concurrency_token (ctr_expected (co_request o1)) of
          Inl _ \<Rightarrow> False | Inr t \<Rightarrow> co_current o1 = Some t)
     \<and> co_retry o1 = RD_NO_RETRY"

definition is_stale :: "ConcurrencyOutcome \<Rightarrow> bool" where
  "is_stale o1 \<longleftrightarrow>
     co_disposition o1 = CD_STALE
     \<and> po_disposition (co_persistence o1) = PD_CONFLICT
     \<and> co_certainty o1 = CC_NOT_COMMITTED
     \<and> (case co_current o1 of None \<Rightarrow> False | Some t \<Rightarrow> t > ctr_expected (co_request o1))
     \<and> co_retry o1 = RD_REEVALUATE"

definition is_failed :: "ConcurrencyOutcome \<Rightarrow> bool" where
  "is_failed o1 \<longleftrightarrow>
     co_disposition o1 = CD_FAILED
     \<and> po_disposition (co_persistence o1) = PD_FAILURE
     \<and> co_certainty o1 = CC_NOT_COMMITTED
     \<and> co_current o1 = None
     \<and> co_retry o1 \<in> {RD_NO_RETRY, RD_SAME_IDENTITY}"

definition is_indeterminate :: "ConcurrencyOutcome \<Rightarrow> bool" where
  "is_indeterminate o1 \<longleftrightarrow>
     co_disposition o1 = CD_INDETERMINATE
     \<and> po_disposition (co_persistence o1) = PD_FAILURE
     \<and> co_certainty o1 = CC_INDETERMINATE
     \<and> co_current o1 = None
     \<and> co_retry o1 = RD_RESOLVE_FIRST"

definition ConcurrencyOutcome_init :: "ConcurrencyOutcome \<Rightarrow> ConcurrencyOutcome result" where
  "ConcurrencyOutcome_init o1 =
     raise_if (\<not> (is_committed o1 \<or> is_stale o1 \<or> is_failed o1 \<or> is_indeterminate o1)) ValueError
       ''invalid concurrency outcome combination'' (Inr o1)"

section \<open>Inbox and outbox delivery\<close>

datatype HandlerId = HandlerId (handler_text: string)
datatype HandlerVersion = HandlerVersion (handler_version_text: string)
datatype DestinationId = DestinationId (destination_text: string)

definition require_stable_name :: "string \<Rightarrow> string \<Rightarrow> unit result" where
  "require_stable_name v subject =
     raise_if (\<not> stable_name v) ValueError (subject @ '' must be a stable identifier'') (Inr ())"

definition HandlerId_init :: "string \<Rightarrow> HandlerId result" where
  "HandlerId_init v = rbind (require_stable_name v ''value'') (\<lambda>_. Inr (HandlerId v))"

definition HandlerVersion_init :: "string \<Rightarrow> HandlerVersion result" where
  "HandlerVersion_init v = rbind (require_stable_name v ''value'') (\<lambda>_. Inr (HandlerVersion v))"

definition DestinationId_init :: "string \<Rightarrow> DestinationId result" where
  "DestinationId_init v = rbind (require_stable_name v ''value'') (\<lambda>_. Inr (DestinationId v))"

record InboxIdentity =
  ii_event :: EventId
  ii_handler :: HandlerId

datatype InboxState = IN_PENDING | IN_RETRY | IN_APPLIED | IN_QUARANTINED

record InboxRecord =
  ir_identity :: InboxIdentity
  ir_handler_version :: HandlerVersion
  ir_state :: InboxState

record OutboxIdentity =
  oi_event :: EventId
  oi_destination :: DestinationId

datatype OutboxState = OUT_PENDING | OUT_RETRY | OUT_DELIVERED | OUT_QUARANTINED

record OutboxRecord =
  or_identity :: OutboxIdentity
  or_state :: OutboxState

datatype DeliveryTransitionDisposition = DT_TRANSITIONED | DT_UNCHANGED | DT_ILLEGAL

record InboxTransitionResult =
  itr_previous :: InboxRecord
  itr_next :: InboxRecord
  itr_disposition :: DeliveryTransitionDisposition

record OutboxTransitionResult =
  otr_previous :: OutboxRecord
  otr_next :: OutboxRecord
  otr_disposition :: DeliveryTransitionDisposition

definition transition_inbox :: "InboxRecord \<Rightarrow> InboxState \<Rightarrow> InboxTransitionResult" where
  "transition_inbox r target =
     (if ir_state r \<in> {IN_APPLIED, IN_QUARANTINED} then
        \<lparr>itr_previous = r, itr_next = r, itr_disposition = DT_UNCHANGED\<rparr>
      else if target = IN_PENDING then
        \<lparr>itr_previous = r, itr_next = r, itr_disposition = DT_ILLEGAL\<rparr>
      else if ir_state r = IN_RETRY \<and> target = IN_RETRY then
        \<lparr>itr_previous = r, itr_next = r, itr_disposition = DT_UNCHANGED\<rparr>
      else
        \<lparr>itr_previous = r,
         itr_next = \<lparr>ir_identity = ir_identity r, ir_handler_version = ir_handler_version r,
                     ir_state = target\<rparr>,
         itr_disposition = DT_TRANSITIONED\<rparr>)"

definition transition_outbox :: "OutboxRecord \<Rightarrow> OutboxState \<Rightarrow> OutboxTransitionResult" where
  "transition_outbox r target =
     (if or_state r \<in> {OUT_DELIVERED, OUT_QUARANTINED} then
        \<lparr>otr_previous = r, otr_next = r, otr_disposition = DT_UNCHANGED\<rparr>
      else if target = OUT_PENDING then
        \<lparr>otr_previous = r, otr_next = r, otr_disposition = DT_ILLEGAL\<rparr>
      else if or_state r = OUT_RETRY \<and> target = OUT_RETRY then
        \<lparr>otr_previous = r, otr_next = r, otr_disposition = DT_UNCHANGED\<rparr>
      else
        \<lparr>otr_previous = r,
         otr_next = \<lparr>or_identity = or_identity r, or_state = target\<rparr>,
         otr_disposition = DT_TRANSITIONED\<rparr>)"

section \<open>The machines keep their terminal states\<close>

text \<open>A caller feeds the next state of one transition into the following one; a rejected
  action leaves the state where it was.\<close>

definition transition_next :: "GenericState \<Rightarrow> TransitionAction \<Rightarrow> GenericState" where
  "transition_next s a = (case transition s a of Inl _ \<Rightarrow> s | Inr r \<Rightarrow> tr_next r)"

definition inbox_next :: "InboxRecord \<Rightarrow> InboxState \<Rightarrow> InboxRecord" where
  "inbox_next r t = itr_next (transition_inbox r t)"

definition outbox_next :: "OutboxRecord \<Rightarrow> OutboxState \<Rightarrow> OutboxRecord" where
  "outbox_next r t = otr_next (transition_outbox r t)"

definition transition_final :: "GenericState \<Rightarrow> bool" where
  "transition_final s \<longleftrightarrow> gs_status s \<in> {TS_TERMINAL, TS_UNKNOWN}"

definition inbox_final :: "InboxRecord \<Rightarrow> bool" where
  "inbox_final r \<longleftrightarrow> ir_state r \<in> {IN_APPLIED, IN_QUARANTINED}"

definition outbox_final :: "OutboxRecord \<Rightarrow> bool" where
  "outbox_final r \<longleftrightarrow> or_state r \<in> {OUT_DELIVERED, OUT_QUARANTINED}"

lemma require_transition_version_iff [result_simps]:
  "require_transition_version v s = Inr u \<longleftrightarrow> v = TRANSITION_CONTRACT_V1"
  by (cases v) (auto simp: require_transition_version_def TRANSITION_CONTRACT_V1_def)

lemma transition_Inr:
  "transition s a = Inr r \<Longrightarrow>
     gs_contract s = TRANSITION_CONTRACT_V1 \<and> ta_contract a = TRANSITION_CONTRACT_V1"
  by (auto simp: transition_def require_transition_version_iff)

lemma transition_next_final: "transition_final s \<Longrightarrow> transition_next s a = s"
  by (auto simp: transition_next_def transition_final_def transition_def unchanged_result_def
      split: sum.splits)

lemma transition_result_cases:
  assumes "transition s a = Inr r"
  shows "tr_previous r = s \<and> (tr_next r = s \<or>
    (gs_status s = TS_ACTIVE \<and> tr_disposition r = TD_APPLIED \<and> tr_next r = s\<lparr>gs_status := TS_TERMINAL\<rparr>))"
proof -
  have c: "gs_contract s = TRANSITION_CONTRACT_V1" using transition_Inr [OF assms] by simp
  from assms have "r = unchanged_result s (tr_disposition r) \<or> (gs_status s = TS_ACTIVE \<and>
     r = \<lparr>tr_previous = s, tr_next = \<lparr>gs_state_id = gs_state_id s, gs_status = TS_TERMINAL,
            gs_contract = TRANSITION_CONTRACT_V1\<rparr>, tr_disposition = TD_APPLIED\<rparr>)"
    by (cases "gs_status s") (auto simp: transition_def unchanged_result_def)
  then show ?thesis
  proof
    assume "r = unchanged_result s (tr_disposition r)"
    then have "tr_previous r = s" "tr_next r = s" by (metis TransitionResult.select_convs unchanged_result_def)+
    then show ?thesis by simp
  qed (simp add: c [symmetric])
qed

lemma transition_next_cases:
  "transition_next s a = s \<or>
   (gs_status s = TS_ACTIVE \<and> transition_next s a = s\<lparr>gs_status := TS_TERMINAL\<rparr>)"
  using transition_result_cases [of s a] by (cases "transition s a") (auto simp: transition_next_def)

interpretation generic_machine: absorbing transition_next transition_final
  by standard (rule transition_next_final)

interpretation inbox_machine: absorbing inbox_next inbox_final
  by standard (simp add: inbox_next_def inbox_final_def transition_inbox_def)

interpretation outbox_machine: absorbing outbox_next outbox_final
  by standard (simp add: outbox_next_def outbox_final_def transition_outbox_def)

lemma inbox_identity_kept:
  "ir_identity (inbox_next r t) = ir_identity r \<and> ir_handler_version (inbox_next r t) = ir_handler_version r"
  by (simp add: inbox_next_def transition_inbox_def)

lemma inbox_never_pending:
  "ir_state (inbox_next r t) = IN_PENDING \<Longrightarrow> ir_state r = IN_PENDING"
  by (auto simp: inbox_next_def transition_inbox_def split: if_splits)

lemma advance_token:
  "0 \<le> token_value t \<Longrightarrow> advance_concurrency_token t = Inr (ConcurrencyToken (token_value t + 1))"
  by (simp add: advance_concurrency_token_def ConcurrencyToken_init_def raise_if_def)

section \<open>Properties\<close>

text \<open>An inbox record keeps its identity and handler version through any sequence of transitions,
  never returns to pending once it left it, and once applied or quarantined no further request
  changes it; an outbox record that was delivered or quarantined is likewise never sent again.\<close>

theorem delivery_records_settle:
  "ir_identity (foldl inbox_next r ts) = ir_identity r
   \<and> ir_handler_version (foldl inbox_next r ts) = ir_handler_version r
   \<and> (inbox_final (foldl inbox_next r ts) \<longrightarrow> foldl inbox_next r (ts @ us) = foldl inbox_next r ts)
   \<and> (ir_state (foldl inbox_next r (ts @ us)) = IN_PENDING \<longrightarrow> ir_state (foldl inbox_next r ts) = IN_PENDING)
   \<and> (outbox_final (foldl outbox_next q vs) \<longrightarrow> foldl outbox_next q (vs @ ws) = foldl outbox_next q vs)"
proof -
  have "ir_identity (foldl inbox_next r ts) = ir_identity r
      \<and> ir_handler_version (foldl inbox_next r ts) = ir_handler_version r"
    by (induction ts arbitrary: r) (simp_all add: inbox_identity_kept)
  moreover have "ir_state (foldl inbox_next x us) = IN_PENDING \<Longrightarrow> ir_state x = IN_PENDING" for x
    by (induction us arbitrary: x) (auto dest: inbox_never_pending)
  moreover note inbox_machine.run_split_final [of r ts us] outbox_machine.run_split_final [of q vs ws]
  moreover have "foldl inbox_next r (ts @ us) = foldl inbox_next (foldl inbox_next r ts) us"
    by (rule foldl_append)
  ultimately show ?thesis by metis
qed

theorem delivery_records_settle_witness:
  "\<exists>r. inbox_final r \<and> foldl inbox_next r [IN_RETRY, IN_PENDING] = r"
proof -
  define r where "r = \<lparr>ir_identity = \<lparr>ii_event = EventId 1, ii_handler = HandlerId ''h''\<rparr>,
    ir_handler_version = HandlerVersion ''1'', ir_state = IN_APPLIED\<rparr>"
  have "inbox_final r" by (simp add: r_def inbox_final_def)
  with delivery_records_settle [of r "[]" "[IN_RETRY, IN_PENDING]"] show ?thesis by auto
qed

text \<open>A state machine instance leaves ACTIVE at most once, by an applied transition to TERMINAL that
  keeps its identity and contract; a terminal or unknown state absorbs every action, and a request
  of a foreign contract version changes nothing.\<close>

theorem generic_state_terminates_once:
  "foldl transition_next s as = s
    \<or> (gs_status s = TS_ACTIVE \<and> foldl transition_next s as = s\<lparr>gs_status := TS_TERMINAL\<rparr>)"
proof (induction as rule: rev_induct)
  case (snoc a as)
  then show ?case
  proof
    assume "foldl transition_next s as = s"
    then show ?thesis using transition_next_cases [of s a] by auto
  next
    assume "gs_status s = TS_ACTIVE \<and> foldl transition_next s as = s\<lparr>gs_status := TS_TERMINAL\<rparr>"
    moreover from this have "transition_final (foldl transition_next s as)"
      by (simp add: transition_final_def)
    ultimately show ?thesis using generic_machine.run_split_final [of s as "[a]"] by simp
  qed
qed simp

text \<open>Every outcome the concurrency contract accepts is exactly one of committed, stale, failed and
  indeterminate; a commit advances the expected token by one, staleness shows a larger current
  token, an outcome that may be retried blindly was certainly not committed, and an indeterminate
  one has to be resolved first.\<close>

theorem concurrency_outcome_sound:
  assumes "ConcurrencyOutcome_init x = Inr y" and "0 \<le> token_value (ctr_expected (co_request x))"
  shows "y = x \<and> length (filter (\<lambda>b. b) [is_committed x, is_stale x, is_failed x, is_indeterminate x]) = 1
    \<and> (is_committed x \<longrightarrow> co_current x = Some (ConcurrencyToken (token_value (ctr_expected (co_request x)) + 1)))
    \<and> (is_stale x \<longrightarrow> (\<exists>t. co_current x = Some t \<and> ctr_expected (co_request x) < t))
    \<and> (co_retry x \<in> {RD_SAME_IDENTITY, RD_REEVALUATE} \<longrightarrow> co_certainty x = CC_NOT_COMMITTED)
    \<and> (co_certainty x = CC_INDETERMINATE \<longleftrightarrow> co_retry x = RD_RESOLVE_FIRST)"
proof -
  from assms(1) have "y = x" and "is_committed x \<or> is_stale x \<or> is_failed x \<or> is_indeterminate x"
    by (auto simp: ConcurrencyOutcome_init_def)
  then show ?thesis
    using advance_token [OF assms(2)]
    by (elim disjE) (auto simp: is_committed_def is_stale_def is_failed_def is_indeterminate_def
      split: option.splits)
qed

theorem concurrency_outcome_sound_witness:
  "\<exists>x. is_failed x \<and> co_certainty x = CC_NOT_COMMITTED \<and> \<not> is_committed x"
proof -
  define g where "g = \<lparr>gs_state_id = StateId 1, gs_status = TS_ACTIVE, gs_contract = TRANSITION_CONTRACT_V1\<rparr>"
  define x where "x = \<lparr>co_request = \<lparr>ctr_state_id = StateId 1,
      ctr_request = \<lparr>tpr_result = unchanged_result g TD_DUPLICATE\<rparr>, ctr_expected = ConcurrencyToken 3\<rparr>,
    co_persistence = \<lparr>po_disposition = PD_FAILURE\<rparr>, co_disposition = CD_FAILED, co_current = None,
    co_certainty = CC_NOT_COMMITTED, co_retry = RD_SAME_IDENTITY\<rparr>"
  have f: "is_failed x" by (simp add: x_def is_failed_def)
  have "ConcurrencyOutcome_init x = Inr x" using f by (simp add: ConcurrencyOutcome_init_def)
  from concurrency_outcome_sound [OF this] f show ?thesis
    by (auto simp: x_def is_committed_def)
qed

end
