(* ===== verification/Admission.thy ===== *)
theory Admission
  imports Contracts
begin

text \<open>
  Versioned event and command envelopes, idempotent admission and transaction intents
  (\<^verbatim>\<open>domain/event.py\<close>, \<^verbatim>\<open>event_contracts.py\<close>, \<^verbatim>\<open>command_contracts.py\<close>, \<^verbatim>\<open>idempotency.py\<close>,
  \<^verbatim>\<open>transaction_composition.py\<close>).

  Base64 is modelled byte for byte.  The JSON printer and parser and the ISO form of an instant are
  the record \<open>PyText\<close> of four functions: \<open>json_dumps\<close> with sorted keys, \<open>json_loads\<close>, which yields the
  pairs of every object before \<open>_unique_object\<close> sees them and the nonstandard constants before
  \<open>_reject_constant\<close> does, \<open>iso_text\<close> and \<open>iso_parse\<close>.  What is relied on of them is stated where it is
  used: the text printed for a value reads back as that value.
\<close>

section \<open>Base64\<close>

definition b64_alphabet :: string where
  "b64_alphabet = ''ABCDEFGHIJKLMNOPQRSTUVWXYZabcdefghijklmnopqrstuvwxyz0123456789+/''"

definition b64_char :: "nat \<Rightarrow> char" where
  "b64_char n = b64_alphabet ! n"

fun index_of :: "'a \<Rightarrow> 'a list \<Rightarrow> nat option" where
  "index_of x [] = None"
| "index_of x (y # ys) = (if x = y then Some 0 else map_option Suc (index_of x ys))"

definition b64_value :: "char \<Rightarrow> nat option" where
  "b64_value c = index_of c b64_alphabet"

fun b64encode :: "bytes \<Rightarrow> string" where
  "b64encode [] = []"
| "b64encode [a] = [b64_char (unat a div 4), b64_char (unat a mod 4 * 16), CHR ''='', CHR ''='']"
| "b64encode [a, b] = [b64_char (unat a div 4), b64_char (unat a mod 4 * 16 + unat b div 16),
     b64_char (unat b mod 16 * 4), CHR ''='']"
| "b64encode (a # b # c # xs) = [b64_char (unat a div 4), b64_char (unat a mod 4 * 16 + unat b div 16),
     b64_char (unat b mod 16 * 4 + unat c div 64), b64_char (unat c mod 64)] @ b64encode xs"

text \<open>\<open>b64decode(token, validate=True)\<close>: groups of four characters of the alphabet, the last padded.\<close>

definition b64_last :: "char \<Rightarrow> char \<Rightarrow> char \<Rightarrow> char \<Rightarrow> bytes option" where
  "b64_last x y z w = (case (b64_value x, b64_value y) of
     (Some i, Some j) \<Rightarrow>
       if w = CHR ''='' \<and> z = CHR ''='' then Some [word_of_nat (i * 4 + j div 16)]
       else (case b64_value z of None \<Rightarrow> None
         | Some k \<Rightarrow>
           if w = CHR ''='' then Some [word_of_nat (i * 4 + j div 16), word_of_nat (j mod 16 * 16 + k div 4)]
           else (case b64_value w of None \<Rightarrow> None
             | Some l \<Rightarrow> Some [word_of_nat (i * 4 + j div 16), word_of_nat (j mod 16 * 16 + k div 4),
                             word_of_nat (k mod 4 * 64 + l)]))
   | _ \<Rightarrow> None)"

fun b64decode :: "string \<Rightarrow> bytes option" where
  "b64decode [] = Some []"
| "b64decode (x # y # z # w # rest) =
     (if rest = [] then b64_last x y z w
      else if z = CHR ''='' \<or> w = CHR ''='' then None
      else (case b64_last x y z w of None \<Rightarrow> None
        | Some ds \<Rightarrow> map_option (\<lambda>es. ds @ es) (b64decode rest)))"
| "b64decode _ = None"

section \<open>JSON\<close>

datatype json =
    JNull | JBool bool | JInt int | JFloat rat | JConst string | JStr string
  | JArr "json list" | JObj "(string \<times> json) list"

record PyText =
  json_dumps :: "json \<Rightarrow> bytes"
  json_loads :: "bytes \<Rightarrow> json option"
  iso_text :: "Timestamp \<Rightarrow> string"
  iso_parse :: "string \<Rightarrow> py_datetime option"

text \<open>\<open>_unique_object\<close> and \<open>_reject_constant\<close>, applied while the text is parsed.\<close>

fun json_strict :: "json \<Rightarrow> bool" where
  "json_strict (JConst s) = False"
| "json_strict (JArr vs) = list_all json_strict vs"
| "json_strict (JObj ps) = (distinct (map fst ps) \<and> list_all (\<lambda>p. json_strict (snd p)) ps)"
| "json_strict _ = True"

abbreviation malformed :: "string \<Rightarrow> error" where
  "malformed m \<equiv> Err MalformedRepresentationError m"

definition load_object :: "PyText \<Rightarrow> string \<Rightarrow> bytes \<Rightarrow> json result" where
  "load_object py subject r = (case json_loads py r of
     None \<Rightarrow> Inl (malformed (''invalid '' @ subject @ '' JSON''))
   | Some v \<Rightarrow> raise_if (\<not> json_strict v) MalformedRepresentationError (''invalid '' @ subject @ '' JSON'')
       (case v of JObj ps \<Rightarrow> Inr v
        | _ \<Rightarrow> Inl (malformed (subject @ '' representation must be an object''))))"

definition require_keys :: "json \<Rightarrow> string list \<Rightarrow> string \<Rightarrow> (string \<times> json) list result" where
  "require_keys v expected name = (case v of
     JObj ps \<Rightarrow> raise_if (set (map fst ps) \<noteq> set expected) MalformedRepresentationError
       (''invalid '' @ name @ '' fields'') (Inr ps)
   | _ \<Rightarrow> Inl (malformed (''invalid '' @ name @ '' fields'')))"

definition json_get :: "(string \<times> json) list \<Rightarrow> string \<Rightarrow> json result" where
  "json_get ps k = (case map_of ps k of None \<Rightarrow> Inl (Err KeyError k) | Some v \<Rightarrow> Inr v)"

definition json_str :: "json \<Rightarrow> string \<Rightarrow> string result" where
  "json_str v m = (case v of JStr s \<Rightarrow> Inr s | _ \<Rightarrow> Inl (malformed m))"

definition json_int :: "json \<Rightarrow> string \<Rightarrow> int result" where
  "json_int v m = (case v of JInt i \<Rightarrow> Inr i | _ \<Rightarrow> Inl (malformed m))"

definition canonical_payload :: "json \<Rightarrow> bytes result" where
  "canonical_payload v = (case v of
     JStr token \<Rightarrow> (case b64decode token of
         None \<Rightarrow> Inl (malformed ''invalid Base64 payload'')
       | Some payload \<Rightarrow> raise_if (b64encode payload \<noteq> token) MalformedRepresentationError
           ''noncanonical Base64 payload'' (Inr payload))
   | _ \<Rightarrow> Inl (malformed ''payload must be a Base64 string''))"

text \<open>\<open>except (TypeError, ValueError, KeyError) as error: raise MalformedRepresentationError(m)\<close>\<close>

definition as_malformed :: "string \<Rightarrow> 'a result \<Rightarrow> 'a result" where
  "as_malformed m r = (case r of Inl _ \<Rightarrow> Inl (malformed m) | Inr x \<Rightarrow> Inr x)"

definition version_json :: "ContractVersion \<Rightarrow> json" where
  "version_json c = JObj [(''family'', JStr (cv_family c)), (''version'', JInt (cv_version c))]"

definition read_uuid :: "string \<Rightarrow> uuid result" where
  "read_uuid s = (case uuid_of_string s of
     None \<Rightarrow> Inl (Err ValueError ''badly formed hexadecimal UUID string'') | Some u \<Rightarrow> Inr u)"

text \<open>The \<open>contract_version\<close> member: its types, its construction, and that it is the expected one.\<close>

definition read_version :: "string \<Rightarrow> ContractVersion \<Rightarrow> json \<Rightarrow> json \<Rightarrow> ContractVersion result" where
  "read_version subject expected family version =
     rbind (json_str family (''invalid '' @ subject @ '' contract version types'')) (\<lambda>f.
     rbind (json_int version (''invalid '' @ subject @ '' contract version types'')) (\<lambda>n.
     rbind (as_malformed (''invalid '' @ subject @ '' contract version'') (ContractVersion_init f n)) (\<lambda>c.
       raise_if (c \<noteq> expected) MalformedRepresentationError (''wrong '' @ subject @ '' contract version'')
         (Inr c))))"

section \<open>Event envelopes\<close>

record EventEnvelope =
  ee_event_id :: EventId
  ee_correlation_id :: CorrelationId
  ee_causation_id :: CausationId
  ee_idempotency_key :: IdempotencyKey
  ee_occurred_at :: Timestamp
  ee_schema_version :: int

definition EventEnvelope_init :: "EventEnvelope \<Rightarrow> EventEnvelope result" where
  "EventEnvelope_init e =
     raise_if (ee_schema_version e < 1) ValueError ''schema_version must be at least 1'' (Inr e)"

definition envelope_keys :: "string list" where
  "envelope_keys = [''causation_id'', ''correlation_id'', ''event_id'', ''idempotency_key'', ''occurred_at'',
     ''schema_version'']"

definition EventEnvelope_to_dict :: "PyText \<Rightarrow> EventEnvelope \<Rightarrow> (string \<times> json) list" where
  "EventEnvelope_to_dict py e =
     [(''causation_id'', JStr (uuid_str (causation_uuid (ee_causation_id e)))),
      (''correlation_id'', JStr (uuid_str (correlation_uuid (ee_correlation_id e)))),
      (''event_id'', JStr (uuid_str (event_uuid (ee_event_id e)))),
      (''idempotency_key'', JStr (idempotency_text (ee_idempotency_key e))),
      (''occurred_at'', JStr (iso_text py (ee_occurred_at e))),
      (''schema_version'', JInt (ee_schema_version e))]"

text \<open>\<open>from_dict\<close> on members whose JSON types were checked.\<close>

definition EventEnvelope_from_dict ::
  "PyText \<Rightarrow> string \<Rightarrow> string \<Rightarrow> string \<Rightarrow> string \<Rightarrow> string \<Rightarrow> int \<Rightarrow> EventEnvelope result" where
  "EventEnvelope_from_dict py event_id correlation_id causation_id key occurred_at schema_version =
     rbind (read_uuid event_id) (\<lambda>e. rbind (read_uuid correlation_id) (\<lambda>c. rbind (read_uuid causation_id) (\<lambda>k.
     rbind (case iso_parse py occurred_at of None \<Rightarrow> Inl (Err ValueError ''Invalid isoformat string'')
            | Some d \<Rightarrow> Timestamp_init d) (\<lambda>t.
       EventEnvelope_init \<lparr>ee_event_id = EventId e, ee_correlation_id = CorrelationId c,
         ee_causation_id = CausationId k, ee_idempotency_key = IdempotencyKey key, ee_occurred_at = t,
         ee_schema_version = schema_version\<rparr>))))"

text \<open>\<open>EventRegistry\<close>: the identities seen, in the order of registration.\<close>

definition register :: "EventId list \<Rightarrow> EventId \<Rightarrow> EventId list result" where
  "register seen e = raise_if (e \<in> set seen) DuplicateEventError
     (''duplicate EventId: '' @ uuid_str (event_uuid e)) (Inr (seen @ [e]))"

record VersionedEventEnvelope =
  ve_envelope :: EventEnvelope
  ve_payload :: bytes
  ve_contract_version :: ContractVersion

definition EVENT_ENVELOPE_V1 :: ContractVersion where
  "EVENT_ENVELOPE_V1 = \<lparr>cv_family = ''event-envelope'', cv_version = 1\<rparr>"

definition event_mapping :: "PyText \<Rightarrow> VersionedEventEnvelope \<Rightarrow> json" where
  "event_mapping py v = JObj
     [(''contract_version'', version_json (ve_contract_version v)),
      (''envelope'', JObj (EventEnvelope_to_dict py (ve_envelope v))),
      (''payload'', JStr (b64encode (ve_payload v)))]"

definition encode_event_envelope_v1 :: "PyText \<Rightarrow> VersionedEventEnvelope \<Rightarrow> bytes result" where
  "encode_event_envelope_v1 py v =
     raise_if (ve_contract_version v \<noteq> EVENT_ENVELOPE_V1) ValueError
       ''event codec requires event-envelope version 1'' (Inr (json_dumps py (event_mapping py v)))"

definition read_envelope :: "PyText \<Rightarrow> (string \<times> json) list \<Rightarrow> json \<Rightarrow> (EventEnvelope \<times> bytes) result" where
  "read_envelope py envelope payload_json =
     (let text = (\<lambda>k. rbind (json_get envelope k) (\<lambda>v. json_str v (''invalid EventEnvelope '' @ k @ '' type''))) in
      rbind (text ''event_id'') (\<lambda>e. rbind (text ''correlation_id'') (\<lambda>c.
      rbind (text ''causation_id'') (\<lambda>k. rbind (text ''idempotency_key'') (\<lambda>i.
      rbind (text ''occurred_at'') (\<lambda>t.
      rbind (json_get envelope ''schema_version'') (\<lambda>v.
      rbind (json_int v ''invalid EventEnvelope schema_version type'') (\<lambda>n.
      rbind (canonical_payload payload_json) (\<lambda>payload.
      rbind (as_malformed ''invalid EventEnvelope value'' (EventEnvelope_from_dict py e c k i t n)) (\<lambda>x.
        Inr (x, payload)))))))))))"

definition decode_event_envelope_v1 :: "PyText \<Rightarrow> bytes \<Rightarrow> VersionedEventEnvelope result" where
  "decode_event_envelope_v1 py r =
     rbind (load_object py ''event'' r) (\<lambda>v.
     rbind (require_keys v [''contract_version'', ''envelope'', ''payload''] ''event'') (\<lambda>root.
     rbind (json_get root ''contract_version'') (\<lambda>vj.
     rbind (require_keys vj [''family'', ''version''] ''contract version'') (\<lambda>version.
     rbind (json_get root ''envelope'') (\<lambda>ej.
     rbind (require_keys ej envelope_keys ''EventEnvelope'') (\<lambda>envelope.
     rbind (json_get version ''family'') (\<lambda>fj. rbind (json_get version ''version'') (\<lambda>nj.
     rbind (read_version ''event'' EVENT_ENVELOPE_V1 fj nj) (\<lambda>identity.
     rbind (json_get root ''payload'') (\<lambda>pj.
     rbind (read_envelope py envelope pj) (\<lambda>(predecessor, payload).
       let value = \<lparr>ve_envelope = predecessor, ve_payload = payload, ve_contract_version = identity\<rparr> in
       rbind (encode_event_envelope_v1 py value) (\<lambda>r'.
         raise_if (r' \<noteq> r) MalformedRepresentationError ''event representation is not canonical''
           (Inr value)))))))))))))"

definition EVENT_ENVELOPE_V1_DEFINITION :: "PyText \<Rightarrow> VersionedEventEnvelope VersionDefinition" where
  "EVENT_ENVELOPE_V1_DEFINITION py = \<lparr>vd_identity = EVENT_ENVELOPE_V1,
     vd_codec = \<lparr>codec_encode = encode_event_envelope_v1 py, codec_decode = decode_event_envelope_v1 py\<rparr>\<rparr>"

section \<open>Command envelopes\<close>

datatype CommandId = CommandId (command_uuid: uuid)

record VersionedCommandEnvelope =
  vc_command_id :: CommandId
  vc_correlation_id :: CorrelationId
  vc_causation_id :: CausationId
  vc_idempotency_key :: IdempotencyKey
  vc_payload :: bytes
  vc_contract_version :: ContractVersion

definition COMMAND_ENVELOPE_V1 :: ContractVersion where
  "COMMAND_ENVELOPE_V1 = \<lparr>cv_family = ''command-envelope'', cv_version = 1\<rparr>"

definition command_keys :: "string list" where
  "command_keys = [''causation_id'', ''command_id'', ''contract_version'', ''correlation_id'',
     ''idempotency_key'', ''payload'']"

definition command_mapping :: "VersionedCommandEnvelope \<Rightarrow> json" where
  "command_mapping v = JObj
     [(''causation_id'', JStr (uuid_str (causation_uuid (vc_causation_id v)))),
      (''command_id'', JStr (uuid_str (command_uuid (vc_command_id v)))),
      (''contract_version'', version_json (vc_contract_version v)),
      (''correlation_id'', JStr (uuid_str (correlation_uuid (vc_correlation_id v)))),
      (''idempotency_key'', JStr (idempotency_text (vc_idempotency_key v))),
      (''payload'', JStr (b64encode (vc_payload v)))]"

definition encode_command_envelope_v1 :: "PyText \<Rightarrow> VersionedCommandEnvelope \<Rightarrow> bytes result" where
  "encode_command_envelope_v1 py v =
     raise_if (vc_contract_version v \<noteq> COMMAND_ENVELOPE_V1) ValueError
       ''command codec requires command-envelope version 1'' (Inr (json_dumps py (command_mapping v)))"

definition read_command ::
  "string \<Rightarrow> string \<Rightarrow> string \<Rightarrow> string \<Rightarrow> bytes \<Rightarrow> ContractVersion \<Rightarrow> VersionedCommandEnvelope result" where
  "read_command command_id correlation_id causation_id key payload identity =
     rbind (read_uuid command_id) (\<lambda>m. rbind (read_uuid correlation_id) (\<lambda>c. rbind (read_uuid causation_id) (\<lambda>k.
       Inr \<lparr>vc_command_id = CommandId m, vc_correlation_id = CorrelationId c, vc_causation_id = CausationId k,
            vc_idempotency_key = IdempotencyKey key, vc_payload = payload, vc_contract_version = identity\<rparr>)))"

definition decode_command_envelope_v1 :: "PyText \<Rightarrow> bytes \<Rightarrow> VersionedCommandEnvelope result" where
  "decode_command_envelope_v1 py r =
     rbind (load_object py ''command'' r) (\<lambda>v.
     rbind (require_keys v command_keys ''command'') (\<lambda>root.
     rbind (json_get root ''contract_version'') (\<lambda>vj.
     rbind (require_keys vj [''family'', ''version''] ''contract version'') (\<lambda>version.
     rbind (json_get version ''family'') (\<lambda>fj. rbind (json_get version ''version'') (\<lambda>nj.
     rbind (json_str fj ''invalid command contract version types'') (\<lambda>_.
     rbind (json_int nj ''invalid command contract version types'') (\<lambda>_.
     let text = (\<lambda>k. rbind (json_get root k) (\<lambda>x. json_str x (''invalid command '' @ k @ '' type''))) in
     rbind (text ''causation_id'') (\<lambda>k. rbind (text ''command_id'') (\<lambda>m.
     rbind (text ''correlation_id'') (\<lambda>c. rbind (text ''idempotency_key'') (\<lambda>i.
     rbind (read_version ''command'' COMMAND_ENVELOPE_V1 fj nj) (\<lambda>identity.
     rbind (json_get root ''payload'') (\<lambda>pj. rbind (canonical_payload pj) (\<lambda>payload.
     rbind (as_malformed ''invalid command value'' (read_command m c k i payload identity)) (\<lambda>value.
     rbind (encode_command_envelope_v1 py value) (\<lambda>r'.
       raise_if (r' \<noteq> r) MalformedRepresentationError ''command representation is not canonical''
         (Inr value))))))))))))))))))"

definition COMMAND_ENVELOPE_V1_DEFINITION :: "PyText \<Rightarrow> VersionedCommandEnvelope VersionDefinition" where
  "COMMAND_ENVELOPE_V1_DEFINITION py = \<lparr>vd_identity = COMMAND_ENVELOPE_V1,
     vd_codec = \<lparr>codec_encode = encode_command_envelope_v1 py, codec_decode = decode_command_envelope_v1 py\<rparr>\<rparr>"

section \<open>Idempotent admission\<close>

datatype OperationScope = OperationScope (scope_text: string)

definition OperationScope_init :: "string \<Rightarrow> OperationScope result" where
  "OperationScope_init v = rbind (require_stable_name v ''value'') (\<lambda>_. Inr (OperationScope v))"

datatype ContentFingerprint = ContentFingerprint (fingerprint_bytes: bytes)

definition ContentFingerprint_init :: "bytes \<Rightarrow> ContentFingerprint result" where
  "ContentFingerprint_init v =
     raise_if (length v \<noteq> 32) ValueError ''value must be a 32-byte SHA-256 digest'' (Inr (ContentFingerprint v))"

definition fingerprint_content :: "(bytes \<Rightarrow> bytes) \<Rightarrow> bytes \<Rightarrow> ContentFingerprint result" where
  "fingerprint_content sha r = ContentFingerprint_init (sha r)"

record IdempotencyRecord =
  id_operation_scope :: OperationScope
  id_idempotency_key :: IdempotencyKey
  id_canonical_bytes :: bytes
  id_content_fingerprint :: ContentFingerprint

definition IdempotencyRecord_init :: "(bytes \<Rightarrow> bytes) \<Rightarrow> IdempotencyRecord \<Rightarrow> IdempotencyRecord result" where
  "IdempotencyRecord_init sha r =
     rbind (fingerprint_content sha (id_canonical_bytes r)) (\<lambda>f.
       raise_if (id_content_fingerprint r \<noteq> f) ValueError
         ''content_fingerprint must match canonical_bytes'' (Inr r))"

datatype IdempotencyDisposition = ID_NEW | ID_EXACT_DUPLICATE | ID_CONFLICTING_REUSE

definition adjudicate_idempotency ::
  "IdempotencyRecord \<Rightarrow> IdempotencyRecord option \<Rightarrow> IdempotencyDisposition result" where
  "adjudicate_idempotency candidate established = (case established of
     None \<Rightarrow> Inr ID_NEW
   | Some e \<Rightarrow>
       raise_if (id_operation_scope candidate \<noteq> id_operation_scope e
           \<or> id_idempotency_key candidate \<noteq> id_idempotency_key e) ValueError
         ''records must have the same scoped idempotency key''
       (if id_content_fingerprint candidate = id_content_fingerprint e
           \<and> id_canonical_bytes candidate = id_canonical_bytes e
        then Inr ID_EXACT_DUPLICATE else Inr ID_CONFLICTING_REUSE))"

record EventAdmission =
  ea_event :: VersionedEventEnvelope
  ea_persistence_request :: EventPersistenceRequest
  ea_idempotency_record :: IdempotencyRecord

definition EventAdmission_init ::
  "VersionedEventEnvelope \<Rightarrow> EventPersistenceRequest \<Rightarrow> IdempotencyRecord \<Rightarrow> EventAdmission result" where
  "EventAdmission_init event request r =
     raise_if (ve_contract_version event \<noteq> epr_contract request) ValueError
       ''event and persistence contract versions must match''
     (raise_if (ee_idempotency_key (ve_envelope event) \<noteq> id_idempotency_key r) ValueError
       ''event and idempotency record keys must match''
     (raise_if (epr_representation request \<noteq> id_canonical_bytes r) ValueError
       ''persistence representation must match canonical_bytes''
     (Inr \<lparr>ea_event = event, ea_persistence_request = request, ea_idempotency_record = r\<rparr>)))"

datatype EventAdmissionDisposition = EA_NEW | EA_EXACT_DUPLICATE | EA_CONFLICTING_EVENT

definition admission_event_id :: "EventAdmission \<Rightarrow> EventId" where
  "admission_event_id a = ee_event_id (ve_envelope (ea_event a))"

definition adjudicate_event :: "EventAdmission \<Rightarrow> EventAdmission option \<Rightarrow> EventAdmissionDisposition result" where
  "adjudicate_event candidate established = (case established of
     None \<Rightarrow> Inr EA_NEW
   | Some e \<Rightarrow>
       raise_if (admission_event_id candidate \<noteq> admission_event_id e) ValueError
         ''event admissions must have the same EventId''
       (if ve_contract_version (ea_event candidate) = ve_contract_version (ea_event e)
           \<and> epr_representation (ea_persistence_request candidate) = epr_representation (ea_persistence_request e)
        then Inr EA_EXACT_DUPLICATE else Inr EA_CONFLICTING_EVENT))"

record CommandAdmission =
  ca_command :: VersionedCommandEnvelope
  ca_idempotency_record :: IdempotencyRecord

definition CommandAdmission_init :: "VersionedCommandEnvelope \<Rightarrow> IdempotencyRecord \<Rightarrow> CommandAdmission result" where
  "CommandAdmission_init command r =
     raise_if (vc_idempotency_key command \<noteq> id_idempotency_key r) ValueError
       ''command and idempotency record keys must match''
       (Inr \<lparr>ca_command = command, ca_idempotency_record = r\<rparr>)"

section \<open>Transaction intents\<close>

definition require_outbox :: "OutboxRecord list \<Rightarrow> unit result" where
  "require_outbox outbox =
     raise_if (\<not> distinct (map or_identity outbox)) ValueError ''outbox identities must be unique''
     (raise_if (\<exists>r\<in>set outbox. or_state r \<noteq> OUT_PENDING) ValueError ''outbox records must start PENDING''
     (Inr ()))"

definition require_outbox_events :: "EventAdmission list \<Rightarrow> OutboxRecord list \<Rightarrow> unit result" where
  "require_outbox_events events outbox =
     raise_if (\<exists>r\<in>set outbox. oi_event (or_identity r) \<notin> set (map admission_event_id events)) ValueError
       ''every outbox EventId must belong to an included event'' (Inr ())"

record ProducerTransactionIntent =
  pi_transition :: ConcurrentTransitionRequest
  pi_events :: "EventAdmission list"
  pi_outbox :: "OutboxRecord list"

definition ProducerTransactionIntent_init ::
  "ConcurrentTransitionRequest \<Rightarrow> EventAdmission list \<Rightarrow> OutboxRecord list \<Rightarrow> ProducerTransactionIntent result" where
  "ProducerTransactionIntent_init t events outbox =
     raise_if (events = []) ValueError ''events must not be empty''
     (rbind (require_outbox outbox) (\<lambda>_. rbind (require_outbox_events events outbox) (\<lambda>_.
        Inr \<lparr>pi_transition = t, pi_events = events, pi_outbox = outbox\<rparr>)))"

record ConsumerTransactionIntent =
  ci_inbox_transition :: InboxTransitionResult
  ci_transition :: ConcurrentTransitionRequest
  ci_outgoing_events :: "EventAdmission list"
  ci_outbox :: "OutboxRecord list"

definition ConsumerTransactionIntent_init ::
  "InboxTransitionResult \<Rightarrow> ConcurrentTransitionRequest \<Rightarrow> EventAdmission list \<Rightarrow> OutboxRecord list \<Rightarrow>
   ConsumerTransactionIntent result" where
  "ConsumerTransactionIntent_init inbox t events outbox =
     raise_if (itr_disposition inbox \<noteq> DT_TRANSITIONED \<or> ir_state (itr_next inbox) \<noteq> IN_APPLIED) ValueError
       ''inbox_transition must transition to APPLIED''
     (rbind (require_outbox outbox) (\<lambda>_. rbind (require_outbox_events events outbox) (\<lambda>_.
        Inr \<lparr>ci_inbox_transition = inbox, ci_transition = t, ci_outgoing_events = events,
             ci_outbox = outbox\<rparr>)))"

section \<open>Base64 round trip\<close>

lemma b64_value_char: "n < 64 \<Longrightarrow> b64_value (b64_char n) = Some n"
proof -
  have "list_all (\<lambda>n. b64_value (b64_char n) = Some n) [0..<64]" by code_simp
  then show "n < 64 \<Longrightarrow> b64_value (b64_char n) = Some n" by (simp add: list_all_iff)
qed

lemma b64_char_pad: "n < 64 \<Longrightarrow> b64_char n \<noteq> CHR ''=''"
proof -
  have "list_all (\<lambda>n. b64_char n \<noteq> CHR ''='') [0..<64]" by code_simp
  then show "n < 64 \<Longrightarrow> b64_char n \<noteq> CHR ''=''" by (simp add: list_all_iff)
qed

lemma byte_parts:
  fixes a b :: "8 word"
  shows "unat a div 4 < 64" "unat a mod 4 * 16 < 64" "unat a mod 16 * 4 < 64" "unat a mod 64 < 64"
    "unat a mod 4 * 16 + unat b div 16 < 64" "unat a mod 16 * 4 + unat b div 64 < 64"
proof -
  have "unat a < 256" "unat b < 256" using unsigned_less [of a, where ?'a = nat] unsigned_less [of b, where ?'a = nat] by simp_all
  then have "unat a div 4 < 64" "unat b div 16 < 16" "unat b div 64 < 4" by auto
  moreover have "unat a mod 4 < 4" "unat a mod 16 < 16" "unat a mod 64 < 64" by simp_all
  ultimately show "unat a div 4 < 64" "unat a mod 4 * 16 < 64" "unat a mod 16 * 4 < 64" "unat a mod 64 < 64"
    "unat a mod 4 * 16 + unat b div 16 < 64" "unat a mod 16 * 4 + unat b div 64 < 64"
    by linarith+
qed

lemma b64_last_encode:
  "b64_last (b64_char (unat a div 4)) (b64_char (unat a mod 4 * 16)) CHR ''='' CHR ''='' = Some [a]"
  "b64_last (b64_char (unat a div 4)) (b64_char (unat a mod 4 * 16 + unat b div 16))
     (b64_char (unat b mod 16 * 4)) CHR ''='' = Some [a, b]"
  "b64_last (b64_char (unat a div 4)) (b64_char (unat a mod 4 * 16 + unat b div 16))
     (b64_char (unat b mod 16 * 4 + unat c div 64)) (b64_char (unat c mod 64)) = Some [a, b, c]"
proof -
  have lt: "unat a < 256" "unat b < 256" "unat c < 256"
    using unsigned_less [of a, where ?'a = nat] unsigned_less [of b, where ?'a = nat] unsigned_less [of c, where ?'a = nat] by simp_all
  then have q: "unat b div 16 < 16" "unat c div 64 < 4" by auto
  note simps = b64_last_def b64_value_char byte_parts b64_char_pad
  show "b64_last (b64_char (unat a div 4)) (b64_char (unat a mod 4 * 16)) CHR ''='' CHR ''='' = Some [a]"
    by (simp add: simps del: of_nat_add of_nat_mult)
  show "b64_last (b64_char (unat a div 4)) (b64_char (unat a mod 4 * 16 + unat b div 16))
     (b64_char (unat b mod 16 * 4)) CHR ''='' = Some [a, b]"
    using q by (simp add: simps del: of_nat_add of_nat_mult)
  show "b64_last (b64_char (unat a div 4)) (b64_char (unat a mod 4 * 16 + unat b div 16))
     (b64_char (unat b mod 16 * 4 + unat c div 64)) (b64_char (unat c mod 64)) = Some [a, b, c]"
    using q by (simp add: simps del: of_nat_add of_nat_mult)
qed

lemma b64_round_trip: "b64decode (b64encode xs) = Some xs"
  by (induction xs rule: b64encode.induct) (auto simp: b64_last_encode byte_parts b64_char_pad)

lemma canonical_payload_Inr: "canonical_payload v = Inr p \<longleftrightarrow> v = JStr (b64encode p)"
  by (auto simp: canonical_payload_def b64_round_trip split: json.splits option.splits)

section \<open>Canonical envelopes\<close>

lemma EVENT_ENVELOPE_V1_valid: "ContractVersion_init ''event-envelope'' 1 = Inr EVENT_ENVELOPE_V1"
  "ContractVersion_init ''command-envelope'' 1 = Inr COMMAND_ENVELOPE_V1"
  by code_simp+

lemma read_uuid_str [simp]: "read_uuid (uuid_str u) = Inr u"
  by (simp add: read_uuid_def uuid_of_string_str)

lemma mapping_strict: "json_strict (event_mapping py v)" "json_strict (command_mapping c)"
  by (simp_all add: event_mapping_def EventEnvelope_to_dict_def version_json_def command_mapping_def)

lemma read_version_printed:
  "read_version ''event'' EVENT_ENVELOPE_V1 (JStr ''event-envelope'') (JInt 1) = Inr EVENT_ENVELOPE_V1"
  "read_version ''command'' COMMAND_ENVELOPE_V1 (JStr ''command-envelope'') (JInt 1) = Inr COMMAND_ENVELOPE_V1"
  by (simp_all add: read_version_def json_str_def json_int_def as_malformed_def EVENT_ENVELOPE_V1_valid)

lemma json_get_hit [simp]:
  "json_get ((k, v) # ps) k = Inr v" "k \<noteq> k' \<Longrightarrow> json_get ((k, v) # ps) k' = json_get ps k'"
  by (simp_all add: json_get_def)

lemma json_typed [simp]: "json_str (JStr s) m = Inr s" "json_int (JInt i) m = Inr i"
  by (simp_all add: json_str_def json_int_def)

lemma read_envelope_printed:
  assumes "EventEnvelope_init e = Inr e"
    and "iso_parse py (iso_text py (ee_occurred_at e)) = Some \<lparr>dt_micros = instant (ee_occurred_at e), dt_utcoffset = Some 0\<rparr>"
  shows "read_envelope py (EventEnvelope_to_dict py e) (JStr (b64encode p)) = Inr (e, p)"
proof -
  have "EventEnvelope_from_dict py (uuid_str (event_uuid (ee_event_id e)))
      (uuid_str (correlation_uuid (ee_correlation_id e))) (uuid_str (causation_uuid (ee_causation_id e)))
      (idempotency_text (ee_idempotency_key e)) (iso_text py (ee_occurred_at e)) (ee_schema_version e) = Inr e"
    using assms by (cases e) (simp add: EventEnvelope_from_dict_def Timestamp_init_def)
  moreover have "canonical_payload (JStr (b64encode p)) = Inr p" by (simp add: canonical_payload_Inr)
  ultimately show ?thesis
    by (simp add: read_envelope_def EventEnvelope_to_dict_def as_malformed_def)
qed

lemma decode_event_printed:
  assumes "ve_contract_version v = EVENT_ENVELOPE_V1" and "EventEnvelope_init (ve_envelope v) = Inr (ve_envelope v)"
    and "json_loads py (json_dumps py (event_mapping py v)) = Some (event_mapping py v)"
    and "iso_parse py (iso_text py (ee_occurred_at (ve_envelope v))) =
      Some \<lparr>dt_micros = instant (ee_occurred_at (ve_envelope v)), dt_utcoffset = Some 0\<rparr>"
  shows "decode_event_envelope_v1 py (json_dumps py (event_mapping py v)) = Inr v"
proof -
  have v1: "cv_family EVENT_ENVELOPE_V1 = ''event-envelope''" "cv_version EVENT_ENVELOPE_V1 = 1"
    by (simp_all add: EVENT_ENVELOPE_V1_def)
  have "load_object py ''event'' (json_dumps py (event_mapping py v)) = Inr (event_mapping py v)"
    using assms(3) mapping_strict(1) [of py v] by (simp add: load_object_def event_mapping_def)
  moreover have "encode_event_envelope_v1 py \<lparr>ve_envelope = ve_envelope v, ve_payload = ve_payload v,
      ve_contract_version = EVENT_ENVELOPE_V1\<rparr> = Inr (json_dumps py (event_mapping py v))"
    using assms(1) by (cases v) (simp add: encode_event_envelope_v1_def)
  moreover have "require_keys (JObj (EventEnvelope_to_dict py (ve_envelope v))) envelope_keys ''EventEnvelope'' =
      Inr (EventEnvelope_to_dict py (ve_envelope v))"
    by (simp add: require_keys_def EventEnvelope_to_dict_def envelope_keys_def)
  moreover note read_envelope_printed [OF assms(2,4), of "ve_payload v"]
  ultimately show ?thesis
    by (simp add: decode_event_envelope_v1_def event_mapping_def version_json_def require_keys_def
        assms(1) v1 read_version_printed Let_def)
qed

lemma decode_command_printed:
  assumes "vc_contract_version v = COMMAND_ENVELOPE_V1"
    and "json_loads py (json_dumps py (command_mapping v)) = Some (command_mapping v)"
  shows "decode_command_envelope_v1 py (json_dumps py (command_mapping v)) = Inr v"
proof -
  have v1: "cv_family COMMAND_ENVELOPE_V1 = ''command-envelope''" "cv_version COMMAND_ENVELOPE_V1 = 1"
    by (simp_all add: COMMAND_ENVELOPE_V1_def)
  have "load_object py ''command'' (json_dumps py (command_mapping v)) = Inr (command_mapping v)"
    using assms(2) mapping_strict(2) [of v] by (simp add: load_object_def command_mapping_def)
  moreover have "encode_command_envelope_v1 py v = Inr (json_dumps py (command_mapping v))"
    using assms(1) by (simp add: encode_command_envelope_v1_def)
  moreover have "read_command (uuid_str (command_uuid (vc_command_id v))) (uuid_str (correlation_uuid (vc_correlation_id v)))
      (uuid_str (causation_uuid (vc_causation_id v))) (idempotency_text (vc_idempotency_key v)) (vc_payload v)
      COMMAND_ENVELOPE_V1 = Inr v"
    using assms(1) by (simp add: read_command_def)
  moreover have "canonical_payload (JStr (b64encode (vc_payload v))) = Inr (vc_payload v)"
    by (simp add: canonical_payload_Inr)
  ultimately show ?thesis
    by (simp add: decode_command_envelope_v1_def command_mapping_def version_json_def require_keys_def
        command_keys_def assms(1) v1 read_version_printed as_malformed_def Let_def)
qed

lemma decode_event_encodes: "decode_event_envelope_v1 py r = Inr v \<Longrightarrow> encode_event_envelope_v1 py v = Inr r"
  by (auto simp: decode_event_envelope_v1_def Let_def)

lemma decode_command_encodes: "decode_command_envelope_v1 py r = Inr v \<Longrightarrow> encode_command_envelope_v1 py v = Inr r"
  by (auto simp: decode_command_envelope_v1_def Let_def)

section \<open>The registry of events\<close>

interpretation event_registry: append_log register "\<lambda>s. s" "\<lambda>e. e"
  by unfold_locales (auto simp: register_def)

section \<open>Consumers along a serialized history\<close>

text \<open>The positions of a serialized history of one inbox record, in which every transition starts from the
  record the previous one left, at which a consumer intent can be built from the transition.\<close>

definition consumer_positions :: "InboxRecord \<Rightarrow> InboxState list \<Rightarrow> nat set" where
  "consumer_positions r ts = {k. k < length ts \<and> (\<exists>tr es ob ci.
     ConsumerTransactionIntent_init (transition_inbox (foldl inbox_next r (take k ts)) (ts ! k)) tr es ob = Inr ci)}"

lemma ConsumerTransactionIntent_transition:
  "\<not> isl (ConsumerTransactionIntent_init (transition_inbox r t) tr es ob) \<longleftrightarrow>
     \<not> inbox_final r \<and> t = IN_APPLIED \<and> distinct (map or_identity ob) \<and> list_all (\<lambda>x. or_state x = OUT_PENDING) ob
     \<and> oi_event ` or_identity ` set ob \<subseteq> admission_event_id ` set es"
  by (auto simp: ConsumerTransactionIntent_init_def transition_inbox_def inbox_final_def require_outbox_def
      require_outbox_events_def raise_if_def list_all_iff image_subset_iff)

lemma consumer_positions_iff:
  "k \<in> consumer_positions r ts \<longleftrightarrow> k < length ts \<and> \<not> inbox_final (foldl inbox_next r (take k ts)) \<and> ts ! k = IN_APPLIED"
proof -
  have "(\<exists>tr es ob ci. ConsumerTransactionIntent_init (transition_inbox x t) tr es ob = Inr ci) \<longleftrightarrow>
      \<not> inbox_final x \<and> t = IN_APPLIED" for x t
  proof -
    have "(\<exists>tr es ob ci. ConsumerTransactionIntent_init (transition_inbox x t) tr es ob = Inr ci) \<longleftrightarrow>
        (\<exists>tr es ob. \<not> isl (ConsumerTransactionIntent_init (transition_inbox x t) tr es ob))"
      by (metis isl_def obj_sumE sum.disc(2))
    also have "\<dots> \<longleftrightarrow> \<not> inbox_final x \<and> t = IN_APPLIED"
      unfolding ConsumerTransactionIntent_transition by (auto intro!: exI [of _ "[]"])
    finally show ?thesis .
  qed
  then show ?thesis by (simp add: consumer_positions_def)
qed

lemma consumer_positions_final: "inbox_final r \<Longrightarrow> consumer_positions r ts = {}"
  by (auto simp: consumer_positions_iff inbox_machine.run_final)

lemma consumer_positions_Cons:
  "consumer_positions r (t # ts) =
     (if \<not> inbox_final r \<and> t = IN_APPLIED then {0} else {}) \<union> Suc ` consumer_positions (inbox_next r t) ts"
proof (rule set_eqI)
  fix k
  show "k \<in> consumer_positions r (t # ts) \<longleftrightarrow> k \<in> (if \<not> inbox_final r \<and> t = IN_APPLIED then {0} else {})
      \<union> Suc ` consumer_positions (inbox_next r t) ts"
    by (cases k) (auto simp: consumer_positions_iff)
qed

lemma consumer_positions_card:
  "card (consumer_positions r ts) =
     (if \<not> inbox_final r \<and> ir_state (foldl inbox_next r ts) = IN_APPLIED then 1 else 0)"
proof (induction ts arbitrary: r)
  case Nil
  then show ?case by (auto simp: consumer_positions_def inbox_final_def)
next
  case (Cons t ts)
  show ?case
  proof (cases "inbox_final r \<or> t = IN_APPLIED")
    case True
    show ?thesis
    proof (cases "inbox_final r")
      case False
      with True have "inbox_final (inbox_next r t)" "ir_state (inbox_next r t) = IN_APPLIED"
        by (auto simp: inbox_next_def transition_inbox_def inbox_final_def)
      with False True show ?thesis
        by (simp add: consumer_positions_Cons consumer_positions_final inbox_machine.run_final)
    qed (simp add: consumer_positions_final)
  next
    case False
    then have "inbox_final (inbox_next r t) \<Longrightarrow> ir_state (inbox_next r t) \<noteq> IN_APPLIED"
      by (auto simp: inbox_next_def transition_inbox_def inbox_final_def split: if_splits)
    then have "inbox_final (inbox_next r t) \<Longrightarrow> ir_state (foldl inbox_next (inbox_next r t) ts) \<noteq> IN_APPLIED"
      by (simp add: inbox_machine.run_final)
    with False show ?thesis
      using Cons.IH [of "inbox_next r t"] by (auto simp: consumer_positions_Cons card_image)
  qed
qed

text \<open>The constructor alone does not exclude concurrent attempts: from one pending record two consumers can
  each build an intent, and only a store that serializes the record's transitions lets one of them through.\<close>

lemma concurrent_consumers_accepted:
  assumes "ir_state r = IN_PENDING"
  shows "\<not> isl (ConsumerTransactionIntent_init (transition_inbox r IN_APPLIED) tr es [])
    \<and> \<not> isl (ConsumerTransactionIntent_init (transition_inbox r IN_APPLIED) tr' es' [])"
  using assms by (simp add: ConsumerTransactionIntent_transition inbox_final_def)

section \<open>Properties\<close>

text \<open>C37: Event and command envelopes have exactly one byte representation: given that the JSON and ISO
  texts printed for an envelope read back as printed, the decoders accept a representation exactly
  when it is the encoding of the envelope they return, including its Base64 payload.\<close>

theorem envelope_codecs_canonical:
  assumes "EventEnvelope_init (ve_envelope v) = Inr (ve_envelope v)"
    and "json_loads py (json_dumps py (event_mapping py v)) = Some (event_mapping py v)"
    and "json_loads py (json_dumps py (command_mapping c)) = Some (command_mapping c)"
    and "iso_parse py (iso_text py (ee_occurred_at (ve_envelope v))) =
      Some \<lparr>dt_micros = instant (ee_occurred_at (ve_envelope v)), dt_utcoffset = Some 0\<rparr>"
  shows "(decode_event_envelope_v1 py r = Inr v \<longleftrightarrow> encode_event_envelope_v1 py v = Inr r)
    \<and> (decode_command_envelope_v1 py r = Inr c \<longleftrightarrow> encode_command_envelope_v1 py c = Inr r)"
proof -
  have "decode_event_envelope_v1 py r = Inr v" if "encode_event_envelope_v1 py v = Inr r"
    using that decode_event_printed [OF _ assms(1,2,4)] by (auto simp: encode_event_envelope_v1_def)
  moreover have "decode_command_envelope_v1 py r = Inr c" if "encode_command_envelope_v1 py c = Inr r"
    using that decode_command_printed [OF _ assms(3)] by (auto simp: encode_command_envelope_v1_def)
  ultimately show ?thesis using decode_event_encodes decode_command_encodes by blast
qed

text \<open>Adjudication of admitted records decides by content alone, whatever the digest function: nothing
  established is NEW, the same scoped key with the same bytes is an exact duplicate, with other bytes
  a conflict, and another key is an error; likewise for events by identity, contract version and bytes.\<close>

theorem admission_decided_by_content:
  assumes "IdempotencyRecord_init sha x = Inr x" and "IdempotencyRecord_init sha y = Inr y"
  shows "adjudicate_idempotency x None = Inr ID_NEW
    \<and> (adjudicate_idempotency x (Some y) = Inr ID_EXACT_DUPLICATE \<longleftrightarrow> x = y)
    \<and> (adjudicate_idempotency x (Some y) = Inr ID_CONFLICTING_REUSE \<longleftrightarrow>
         id_operation_scope x = id_operation_scope y \<and> id_idempotency_key x = id_idempotency_key y
         \<and> id_canonical_bytes x \<noteq> id_canonical_bytes y)
    \<and> (isl (adjudicate_idempotency x (Some y)) \<longleftrightarrow>
         (id_operation_scope x, id_idempotency_key x) \<noteq> (id_operation_scope y, id_idempotency_key y))
    \<and> adjudicate_event a None = Inr EA_NEW
    \<and> (adjudicate_event a (Some b) = Inr EA_EXACT_DUPLICATE \<longleftrightarrow> admission_event_id a = admission_event_id b
         \<and> ve_contract_version (ea_event a) = ve_contract_version (ea_event b)
         \<and> epr_representation (ea_persistence_request a) = epr_representation (ea_persistence_request b))"
proof -
  have "id_content_fingerprint x = ContentFingerprint (sha (id_canonical_bytes x))"
    "id_content_fingerprint y = ContentFingerprint (sha (id_canonical_bytes y))"
    using assms by (auto simp: IdempotencyRecord_init_def fingerprint_content_def ContentFingerprint_init_def)
  then have "adjudicate_idempotency x (Some y) = Inr ID_EXACT_DUPLICATE \<longleftrightarrow> x = y"
    "adjudicate_idempotency x (Some y) = Inr ID_CONFLICTING_REUSE \<longleftrightarrow>
         id_operation_scope x = id_operation_scope y \<and> id_idempotency_key x = id_idempotency_key y
         \<and> id_canonical_bytes x \<noteq> id_canonical_bytes y"
    "isl (adjudicate_idempotency x (Some y)) \<longleftrightarrow>
         (id_operation_scope x, id_idempotency_key x) \<noteq> (id_operation_scope y, id_idempotency_key y)"
    by (cases x; cases y; auto simp: adjudicate_idempotency_def)+
  then show ?thesis by (auto simp: adjudicate_idempotency_def adjudicate_event_def)
qed

text \<open>C38: Consumer transactions along one serialized history: an intent is accepted exactly for a
  transition of a PENDING or RETRY record to APPLIED whose outbox holds distinct pending records of events of
  the same transaction; when each transition of a record starts from the record the previous one
  left, at most one position of the history admits an intent, and one does exactly when the history
  ends APPLIED.  The statement is about the results of \<open>transition_inbox\<close> and sequential histories:
  concurrent attempts on the same record have to be serialized by the store.\<close>

theorem consumer_applies_once:
  "(\<not> isl (ConsumerTransactionIntent_init (transition_inbox r t) tr es ob) \<longleftrightarrow>
      ir_state r \<in> {IN_PENDING, IN_RETRY} \<and> t = IN_APPLIED
      \<and> distinct (map or_identity ob) \<and> list_all (\<lambda>x. or_state x = OUT_PENDING) ob
      \<and> oi_event ` or_identity ` set ob \<subseteq> admission_event_id ` set es)
    \<and> card (consumer_positions r ts) \<le> 1
    \<and> (card (consumer_positions r ts) = 1 \<longleftrightarrow>
        ir_state r \<in> {IN_PENDING, IN_RETRY} \<and> ir_state (foldl inbox_next r ts) = IN_APPLIED)"
proof -
  have "\<not> inbox_final r \<longleftrightarrow> ir_state r \<in> {IN_PENDING, IN_RETRY}"
    by (cases "ir_state r") (simp_all add: inbox_final_def)
  then show ?thesis by (simp add: ConsumerTransactionIntent_transition consumer_positions_card)
qed

section \<open>Samples\<close>

definition ad_envelope :: EventEnvelope where
  "ad_envelope = \<lparr>ee_event_id = EventId 1, ee_correlation_id = CorrelationId 2, ee_causation_id = CausationId 3,
     ee_idempotency_key = IdempotencyKey ''key'', ee_occurred_at = Timestamp 5, ee_schema_version = 1\<rparr>"

definition ad_event :: VersionedEventEnvelope where
  "ad_event = \<lparr>ve_envelope = ad_envelope, ve_payload = [1, 2], ve_contract_version = EVENT_ENVELOPE_V1\<rparr>"

definition ad_command :: VersionedCommandEnvelope where
  "ad_command = \<lparr>vc_command_id = CommandId 1, vc_correlation_id = CorrelationId 2, vc_causation_id = CausationId 3,
     vc_idempotency_key = IdempotencyKey ''key'', vc_payload = [7], vc_contract_version = COMMAND_ENVELOPE_V1\<rparr>"

text \<open>A stand-in for the JSON library that knows the two texts.\<close>

definition ad_text :: PyText where
  "ad_text = \<lparr>json_dumps = (\<lambda>v. if v = command_mapping ad_command then [2] else [1]),
     json_loads = (\<lambda>r. if r = [2] then Some (command_mapping ad_command)
       else Some (event_mapping \<lparr>json_dumps = (\<lambda>_. []), json_loads = (\<lambda>_. None), iso_text = (\<lambda>_. ''t''),
         iso_parse = (\<lambda>_. None)\<rparr> ad_event)),
     iso_text = (\<lambda>_. ''t''), iso_parse = (\<lambda>_. Some \<lparr>dt_micros = 5, dt_utcoffset = Some 0\<rparr>)\<rparr>"

theorem envelope_codecs_canonical_witness:
  "decode_event_envelope_v1 ad_text [1] = Inr ad_event \<and> decode_command_envelope_v1 ad_text [2] = Inr ad_command"
proof -
  have ne: "event_mapping ad_text ad_event \<noteq> command_mapping ad_command"
    by (simp add: event_mapping_def command_mapping_def)
  have 1: "EventEnvelope_init (ve_envelope ad_event) = Inr (ve_envelope ad_event)"
    by (simp add: ad_event_def ad_envelope_def EventEnvelope_init_def)
  have 2: "json_loads ad_text (json_dumps ad_text (event_mapping ad_text ad_event)) = Some (event_mapping ad_text ad_event)"
    using ne by (simp add: ad_text_def event_mapping_def EventEnvelope_to_dict_def)
  have 3: "json_loads ad_text (json_dumps ad_text (command_mapping ad_command)) = Some (command_mapping ad_command)"
    by (simp add: ad_text_def)
  have 4: "iso_parse ad_text (iso_text ad_text (ee_occurred_at (ve_envelope ad_event))) =
      Some \<lparr>dt_micros = instant (ee_occurred_at (ve_envelope ad_event)), dt_utcoffset = Some 0\<rparr>"
    by (simp add: ad_text_def ad_event_def ad_envelope_def)
  have "encode_event_envelope_v1 ad_text ad_event = Inr [1]"
    using ne by (simp add: encode_event_envelope_v1_def ad_event_def [THEN arg_cong, of ve_contract_version])
       (simp add: ad_text_def)
  moreover have "encode_command_envelope_v1 ad_text ad_command = Inr [2]"
    by (simp add: encode_command_envelope_v1_def ad_command_def [THEN arg_cong, of vc_contract_version])
       (simp add: ad_text_def)
  ultimately show ?thesis
    using envelope_codecs_canonical [OF 1 2 3 4, of "[1]"] envelope_codecs_canonical [OF 1 2 3 4, of "[2]"] by blast
qed

definition ad_record :: "bytes \<Rightarrow> IdempotencyRecord" where
  "ad_record b = \<lparr>id_operation_scope = OperationScope ''scope'', id_idempotency_key = IdempotencyKey ''key'',
     id_canonical_bytes = b, id_content_fingerprint = ContentFingerprint (replicate 32 0)\<rparr>"

text \<open>Even a constant digest function does not blur two contents.\<close>

theorem admission_decided_by_content_witness:
  "adjudicate_idempotency (ad_record [1]) (Some (ad_record [2])) = Inr ID_CONFLICTING_REUSE"
proof -
  have "IdempotencyRecord_init (\<lambda>_. replicate 32 0) (ad_record b) = Inr (ad_record b)" for b
    by (simp add: IdempotencyRecord_init_def fingerprint_content_def ContentFingerprint_init_def ad_record_def)
  from admission_decided_by_content [OF this [of "[1]"] this [of "[2]"]] show ?thesis
    by (simp add: ad_record_def)
qed

definition ad_inbox :: InboxRecord where
  "ad_inbox = \<lparr>ir_identity = \<lparr>ii_event = EventId 1, ii_handler = HandlerId ''h''\<rparr>,
     ir_handler_version = HandlerVersion ''1'', ir_state = IN_PENDING\<rparr>"

text \<open>A pending record is retried and then applied; a second application is refused.\<close>

theorem consumer_applies_once_witness:
  "card (consumer_positions ad_inbox [IN_RETRY, IN_APPLIED, IN_APPLIED]) = 1"
proof -
  have "ir_state ad_inbox \<in> {IN_PENDING, IN_RETRY}"
    "ir_state (foldl inbox_next ad_inbox [IN_RETRY, IN_APPLIED, IN_APPLIED]) = IN_APPLIED" by code_simp+
  with consumer_applies_once [of ad_inbox] show ?thesis by blast
qed

end
