(* ===== verification/Ledger.thy ===== *)
theory Ledger
  imports Identity
begin

text \<open>
  \<^verbatim>\<open>research/simulation_ledger.py\<close>: financial events, their shape rules, and the ledger that
  derives cash, positions and profit from an append-only history of them.

  \<open>FinancialEvent_init\<close> and \<open>validate_shape\<close> are the constructor and its checks,
  \<open>ledger_transition\<close> is \<open>_transition\<close>, \<open>ledger_apply\<close> is \<open>SimulationLedger.apply\<close> and
  \<open>ledger_replay\<close> is \<open>SimulationLedger.replay\<close>.  All amounts go through the rounded
  operations of theory \<open>Decimal\<close>.

  The invariant \<open>ledger_ok\<close> holds in every reachable ledger.  It is stated with the
  \<open>append_log\<close> interface, which the ledger promises, and gives the replay theorem, the
  absence of short positions and the consistency of the summary fields.  \<open>books_balance\<close>
  is the double-entry identity that exact arithmetic keeps.
\<close>

section \<open>Events\<close>

datatype FinancialEventKind = OPENING_CASH | CASH_ADJUSTMENT | TRADE | MARK | CASH_DIVIDEND | SPLIT

primrec kind_value :: "FinancialEventKind \<Rightarrow> string" where
  "kind_value OPENING_CASH = ''OPENING_CASH''"
| "kind_value CASH_ADJUSTMENT = ''CASH_ADJUSTMENT''"
| "kind_value TRADE = ''TRADE''"
| "kind_value MARK = ''MARK''"
| "kind_value CASH_DIVIDEND = ''CASH_DIVIDEND''"
| "kind_value SPLIT = ''SPLIT''"

datatype LedgerEventId = LedgerEventId (event_text: string)
datatype ActionVersionId = ActionVersionId (action_text: string)

definition event_prefix :: string where
  "event_prefix = ''atis:simulation-ledger-event:v1:''"

definition LedgerEventId_init :: "string \<Rightarrow> LedgerEventId result" where
  "LedgerEventId_init v =
     raise_if (\<not> prefixed_name event_prefix v) LedgerContractError ''event_id is not canonical''
       (Inr (LedgerEventId v))"

text \<open>The record is generic in its amounts: the constructor's arguments are Decimals that may be
  non-finite (\<open>decimal\<close>), a constructed event holds finite values (\<open>rat\<close>).\<close>

record 'd FinancialEventOf =
  ev_event_id :: LedgerEventId
  ev_sequence :: int
  ev_occurred_at :: Timestamp
  ev_kind :: FinancialEventKind
  ev_research_run_id :: ResearchRunId
  ev_evidence_digest :: EvidenceContentDigest
  ev_currency :: "Currency option"
  ev_instrument_id :: "InstrumentId option"
  ev_quantity :: "'d option"
  ev_unit_amount :: "'d option"
  ev_cash_delta :: "'d option"
  ev_action :: "ActionVersionId option"

type_synonym FinancialEvent = "rat FinancialEventOf"

definition finite_field :: "string \<Rightarrow> decimal option \<Rightarrow> rat option result" where
  "finite_field name v = (case v of None \<Rightarrow> Inr None
     | Some d \<Rightarrow> rbind (require_finite LedgerContractError (name @ '' must be finite'') d)
                    (\<lambda>q. Inr (Some q)))"

definition require_action :: "FinancialEvent \<Rightarrow> 'a result \<Rightarrow> 'a result" where
  "require_action e k = raise_if (ev_action e = None) LedgerContractError
     (kind_value (ev_kind e) @ '' requires corporate-action attribution'') k"

definition forbid :: "FinancialEvent \<Rightarrow> bool \<Rightarrow> bool \<Rightarrow> bool \<Rightarrow> bool \<Rightarrow> unit result" where
  "forbid e quantity unit_amount cash_delta action =
     raise_if ((quantity \<and> ev_quantity e \<noteq> None) \<or> (unit_amount \<and> ev_unit_amount e \<noteq> None)
         \<or> (cash_delta \<and> ev_cash_delta e \<noteq> None) \<or> (action \<and> ev_action e \<noteq> None))
       LedgerContractError (kind_value (ev_kind e) @ '' forbids present fields'') (Inr ())"

definition currency_shape :: "FinancialEvent \<Rightarrow> 'a result \<Rightarrow> 'a result" where
  "currency_shape e k =
     (if ev_kind e \<in> {OPENING_CASH, CASH_ADJUSTMENT, TRADE, MARK, CASH_DIVIDEND}
      then raise_if (ev_currency e = None) LedgerContractError
             (kind_value (ev_kind e) @ '' requires explicit currency'') k
      else raise_if (ev_currency e \<noteq> None) LedgerContractError
             (kind_value (ev_kind e) @ '' forbids currency'') k)"

definition instrument_shape :: "FinancialEvent \<Rightarrow> 'a result \<Rightarrow> 'a result" where
  "instrument_shape e k =
     (if ev_kind e \<in> {TRADE, MARK, CASH_DIVIDEND, SPLIT}
      then raise_if (ev_instrument_id e = None) LedgerContractError
             (kind_value (ev_kind e) @ '' requires instrument_id'') k
      else raise_if (ev_instrument_id e \<noteq> None) LedgerContractError
             (kind_value (ev_kind e) @ '' forbids instrument_id'') k)"

definition lacks :: "(rat \<Rightarrow> bool) \<Rightarrow> rat option \<Rightarrow> bool" where
  "lacks bad v = (case v of None \<Rightarrow> True | Some q \<Rightarrow> bad q)"

definition amount_shape :: "FinancialEvent \<Rightarrow> unit result" where
  "amount_shape e = (case ev_kind e of
     OPENING_CASH \<Rightarrow>
       raise_if (lacks (\<lambda>q. q = 0) (ev_cash_delta e)) LedgerContractError
         (kind_value (ev_kind e) @ '' requires nonzero cash_delta'') (forbid e True True False True)
   | CASH_ADJUSTMENT \<Rightarrow>
       raise_if (lacks (\<lambda>q. q = 0) (ev_cash_delta e)) LedgerContractError
         (kind_value (ev_kind e) @ '' requires nonzero cash_delta'') (forbid e True True False True)
   | TRADE \<Rightarrow>
       raise_if (lacks (\<lambda>q. q = 0) (ev_quantity e)) LedgerContractError
         ''TRADE requires nonzero quantity''
       (raise_if (lacks (\<lambda>q. q \<le> 0) (ev_unit_amount e)) LedgerContractError
         ''TRADE requires positive unit_amount'' (forbid e False False True True))
   | MARK \<Rightarrow>
       raise_if (lacks (\<lambda>q. q < 0) (ev_unit_amount e)) LedgerContractError
         ''MARK requires nonnegative unit_amount'' (forbid e True False True True)
   | CASH_DIVIDEND \<Rightarrow>
       raise_if (lacks (\<lambda>q. q < 0) (ev_unit_amount e)) LedgerContractError
         ''CASH_DIVIDEND requires nonnegative unit_amount''
         (require_action e (forbid e True False True False))
   | SPLIT \<Rightarrow>
       raise_if (lacks (\<lambda>q. q \<le> 0) (ev_quantity e)) LedgerContractError
         ''SPLIT requires a positive factor in quantity''
         (require_action e (forbid e False True True False)))"

definition validate_shape :: "FinancialEvent \<Rightarrow> unit result" where
  "validate_shape e = currency_shape e (instrument_shape e (amount_shape e))"

definition FinancialEvent_init :: "decimal FinancialEventOf \<Rightarrow> FinancialEvent result" where
  "FinancialEvent_init a =
     raise_if (ev_sequence a < 1) LedgerContractError ''sequence must be a positive integer''
     (rbind (finite_field ''quantity'' (ev_quantity a)) (\<lambda>q.
      rbind (finite_field ''unit_amount'' (ev_unit_amount a)) (\<lambda>u.
      rbind (finite_field ''cash_delta'' (ev_cash_delta a)) (\<lambda>c.
        let e = \<lparr>ev_event_id = ev_event_id a, ev_sequence = ev_sequence a,
                 ev_occurred_at = ev_occurred_at a, ev_kind = ev_kind a,
                 ev_research_run_id = ev_research_run_id a,
                 ev_evidence_digest = ev_evidence_digest a, ev_currency = ev_currency a,
                 ev_instrument_id = ev_instrument_id a, ev_quantity = q, ev_unit_amount = u,
                 ev_cash_delta = c, ev_action = ev_action a\<rparr>
        in rbind (validate_shape e) (\<lambda>_. Inr e)))))"

section \<open>Positions and ledger state\<close>

record PositionState =
  pos_instrument_id :: InstrumentId
  pos_quantity :: rat
  pos_cost_basis :: rat
  pos_mark_price :: rat
  pos_realised_pnl :: rat

definition market_value :: "PositionState \<Rightarrow> rat" where
  "market_value p = dmul (pos_quantity p) (pos_mark_price p)"

definition unrealised_pnl :: "PositionState \<Rightarrow> rat" where
  "unrealised_pnl p = dsub (market_value p) (pos_cost_basis p)"

record LedgerState =
  ls_currency :: Currency
  ls_cash :: rat
  ls_positions :: "PositionState list"
  ls_realised_pnl :: rat
  ls_unrealised_pnl :: rat
  ls_portfolio_value :: rat

definition position :: "LedgerState \<Rightarrow> InstrumentId \<Rightarrow> PositionState option" where
  "position s i = find_first (\<lambda>p. pos_instrument_id p = i) (ls_positions s)"

record SimulationLedger =
  lg_currency :: Currency
  lg_events :: "FinancialEvent list"
  lg_state :: LedgerState
  lg_authority :: string

definition SIMULATION_ONLY_AUTHORITY :: string where
  "SIMULATION_ONLY_AUTHORITY = ''RESEARCH_SIMULATION_ONLY_NO_TRADING_AUTHORITY''"

definition ledger_empty :: "Currency \<Rightarrow> SimulationLedger" where
  "ledger_empty c = \<lparr>lg_currency = c, lg_events = [],
     lg_state = \<lparr>ls_currency = c, ls_cash = 0, ls_positions = [], ls_realised_pnl = 0,
                 ls_unrealised_pnl = 0, ls_portfolio_value = 0\<rparr>,
     lg_authority = SIMULATION_ONLY_AUTHORITY\<rparr>"

section \<open>The transition\<close>

text \<open>\<open>assert x is not None\<close>\<close>

definition require_some :: "'a option \<Rightarrow> ('a \<Rightarrow> 'b result) \<Rightarrow> 'b result" where
  "require_some v k = (case v of None \<Rightarrow> Inl (Err AssertionError []) | Some x \<Rightarrow> k x)"

declare require_some_def [code_unfold]

lemma require_some_Inr [simp, result_simps]:
  "require_some v k = Inr y \<longleftrightarrow> (\<exists>x. v = Some x \<and> k x = Inr y)"
  by (cases v) (auto simp: require_some_def)

text \<open>The position a trade produces, from the old one (or the fresh one at the trade's price).\<close>

definition trade_position :: "PositionState \<Rightarrow> InstrumentId \<Rightarrow> rat \<Rightarrow> rat \<Rightarrow> PositionState result" where
  "trade_position old i quantity unit_amount =
     (let new_quantity = dadd (pos_quantity old) quantity in
      raise_if (new_quantity < 0) LedgerContractError
        ''trade would create an unsupported short position''
      (if 0 < quantity then
         Inr \<lparr>pos_instrument_id = i, pos_quantity = new_quantity,
              pos_cost_basis = (if new_quantity = 0 then 0
                else dadd (pos_cost_basis old) (dmul quantity unit_amount)),
              pos_mark_price = unit_amount, pos_realised_pnl = pos_realised_pnl old\<rparr>
       else
         raise_if (pos_quantity old = 0) LedgerContractError ''cannot sell an empty position''
         (let sold = dneg quantity;
              average_cost = ddiv (pos_cost_basis old) (pos_quantity old)
          in Inr \<lparr>pos_instrument_id = i, pos_quantity = new_quantity,
                  pos_cost_basis = (if new_quantity = 0 then 0
                    else dsub (pos_cost_basis old) (dmul average_cost sold)),
                  pos_mark_price = unit_amount,
                  pos_realised_pnl = dadd (pos_realised_pnl old)
                    (dmul (dsub unit_amount average_cost) sold)\<rparr>)))"

definition held_position ::
  "PositionState list \<Rightarrow> InstrumentId \<Rightarrow> string \<Rightarrow> PositionState result" where
  "held_position positions i msg = (case dict_get pos_instrument_id positions i of
     None \<Rightarrow> Inl (Err LedgerContractError msg)
   | Some old \<Rightarrow> raise_if (pos_quantity old = 0) LedgerContractError msg (Inr old))"

definition put_position :: "PositionState \<Rightarrow> PositionState list \<Rightarrow> PositionState list" where
  "put_position p ps = dict_put pos_instrument_id p ps"

text \<open>\<open>old = positions.get(i)\<close>, or the empty position at the trade's price.\<close>

definition old_position :: "PositionState list \<Rightarrow> InstrumentId \<Rightarrow> rat \<Rightarrow> PositionState" where
  "old_position positions i u = (case dict_get pos_instrument_id positions i of Some p \<Rightarrow> p
     | None \<Rightarrow> \<lparr>pos_instrument_id = i, pos_quantity = 0, pos_cost_basis = 0,
                pos_mark_price = u, pos_realised_pnl = 0\<rparr>)"

text \<open>The branches on the event's kind: the new cash and the new positions.\<close>

definition ledger_effect ::
  "rat \<Rightarrow> PositionState list \<Rightarrow> FinancialEvent \<Rightarrow> (rat \<times> PositionState list) result" where
  "ledger_effect cash positions e = (case ev_kind e of
     OPENING_CASH \<Rightarrow> require_some (ev_cash_delta e) (\<lambda>d. Inr (dadd cash d, positions))
   | CASH_ADJUSTMENT \<Rightarrow> require_some (ev_cash_delta e) (\<lambda>d. Inr (dadd cash d, positions))
   | TRADE \<Rightarrow>
       require_some (ev_instrument_id e) (\<lambda>i.
       require_some (ev_quantity e) (\<lambda>q.
       require_some (ev_unit_amount e) (\<lambda>u.
         rbind (trade_position (old_position positions i u) i q u) (\<lambda>p.
           Inr (dsub cash (dmul q u), put_position p positions)))))
   | MARK \<Rightarrow>
       require_some (ev_instrument_id e) (\<lambda>i.
       require_some (ev_unit_amount e) (\<lambda>u.
         rbind (held_position positions i ''cannot mark an unknown or empty position'') (\<lambda>old.
           Inr (cash, put_position (old\<lparr>pos_mark_price := u\<rparr>) positions))))
   | CASH_DIVIDEND \<Rightarrow>
       require_some (ev_instrument_id e) (\<lambda>i.
       require_some (ev_unit_amount e) (\<lambda>u.
         rbind (held_position positions i
                  ''cannot pay a dividend on an unknown or empty position'') (\<lambda>old.
           let income = dmul (pos_quantity old) u
           in Inr (dadd cash income,
                   put_position (old\<lparr>pos_realised_pnl := dadd (pos_realised_pnl old) income\<rparr>)
                     positions))))
   | SPLIT \<Rightarrow>
       require_some (ev_instrument_id e) (\<lambda>i.
       require_some (ev_quantity e) (\<lambda>f.
         rbind (held_position positions i ''cannot split an unknown or empty position'') (\<lambda>old.
           Inr (cash, put_position
             (old\<lparr>pos_quantity := dmul (pos_quantity old) f,
                  pos_mark_price := ddiv (pos_mark_price old) f\<rparr>) positions)))))"

text \<open>The derived state after the branches: positions ordered by instrument text, totals, and
  the portfolio value with the code's final check of it.\<close>

definition position_key :: "PositionState \<Rightarrow> string" where
  "position_key p = InstrumentId_to_string (pos_instrument_id p)"

definition ledger_summary :: "Currency \<Rightarrow> rat \<Rightarrow> PositionState list \<Rightarrow> LedgerState result" where
  "ledger_summary c cash positions =
     (let ordered = sort_key position_key positions;
          mv = dsum (map market_value ordered);
          portfolio_value = dadd cash mv
      in raise_if (portfolio_value \<noteq> dadd cash mv) LedgerContractError
           ''portfolio value does not reconcile''
         (Inr \<lparr>ls_currency = c, ls_cash = cash, ls_positions = ordered,
               ls_realised_pnl = dsum (map pos_realised_pnl ordered),
               ls_unrealised_pnl = dsum (map unrealised_pnl ordered),
               ls_portfolio_value = portfolio_value\<rparr>))"

lemmas ledger_summary_code [code] = ledger_summary_def [unfolded Let_def]

definition ledger_transition :: "LedgerState \<Rightarrow> FinancialEvent \<Rightarrow> LedgerState result" where
  "ledger_transition s e =
     rbind (ledger_effect (ls_cash s) (dict_of pos_instrument_id (ls_positions s)) e)
       (\<lambda>(cash, positions). ledger_summary (ls_currency s) cash positions)"

definition ledger_apply :: "SimulationLedger \<Rightarrow> FinancialEvent \<Rightarrow> SimulationLedger result" where
  "ledger_apply l e =
     raise_if (ev_currency e \<noteq> None \<and> ev_currency e \<noteq> Some (lg_currency l)) LedgerContractError
       ''event currency does not match ledger currency''
     (case find_first (\<lambda>x. ev_event_id x = ev_event_id e) (lg_events l) of
        Some existing \<Rightarrow>
          if existing = e then Inr l
          else Inl (Err LedgerContractError ''event_id conflicts with immutable history'')
      | None \<Rightarrow>
          raise_if (ev_sequence e \<noteq> int (length (lg_events l)) + 1) LedgerContractError
            ''event sequence is not contiguous''
          (raise_if (lg_events l = [] \<and> ev_kind e \<noteq> OPENING_CASH) LedgerContractError
            ''first event must establish attributable opening cash''
          (raise_if (lg_events l \<noteq> [] \<and> ev_kind e = OPENING_CASH) LedgerContractError
            ''opening cash may be established only once''
          (rbind (ledger_transition (lg_state l) e) (\<lambda>s.
             Inr \<lparr>lg_currency = lg_currency l, lg_events = lg_events l @ [e], lg_state = s,
                  lg_authority = SIMULATION_ONLY_AUTHORITY\<rparr>)))))"

definition ledger_replay :: "Currency \<Rightarrow> FinancialEvent list \<Rightarrow> SimulationLedger result" where
  "ledger_replay c es = rfold ledger_apply (ledger_empty c) es"

section \<open>Well-formed events\<close>

text \<open>What every constructed event satisfies.\<close>

definition event_wf :: "FinancialEvent \<Rightarrow> bool" where
  "event_wf e \<longleftrightarrow> 1 \<le> ev_sequence e \<and> validate_shape e = Inr ()"

lemma FinancialEvent_init_wf: "FinancialEvent_init a = Inr e \<Longrightarrow> event_wf e"
  by (auto simp: FinancialEvent_init_def event_wf_def Let_def)

lemma shape_kind:
  assumes "event_wf e"
  shows "ev_kind e \<in> {OPENING_CASH, CASH_ADJUSTMENT} \<Longrightarrow> \<exists>d. ev_cash_delta e = Some d \<and> d \<noteq> 0"
    and "ev_kind e = TRADE \<Longrightarrow> \<exists>i q u. ev_instrument_id e = Some i \<and> ev_quantity e = Some q \<and> q \<noteq> 0
           \<and> ev_unit_amount e = Some u \<and> 0 < u \<and> ev_cash_delta e = None"
    and "ev_kind e = MARK \<Longrightarrow> \<exists>i u. ev_instrument_id e = Some i \<and> ev_unit_amount e = Some u \<and> 0 \<le> u
           \<and> ev_cash_delta e = None"
    and "ev_kind e = CASH_DIVIDEND \<Longrightarrow> \<exists>i u. ev_instrument_id e = Some i \<and> ev_unit_amount e = Some u
           \<and> 0 \<le> u \<and> ev_cash_delta e = None"
    and "ev_kind e = SPLIT \<Longrightarrow> \<exists>i f. ev_instrument_id e = Some i \<and> ev_quantity e = Some f \<and> 0 < f
           \<and> ev_cash_delta e = None"
  using assms
  by (auto simp: event_wf_def validate_shape_def currency_shape_def instrument_shape_def
      amount_shape_def lacks_def forbid_def require_action_def split: option.splits)

section \<open>The position invariant\<close>

definition position_ok :: "PositionState \<Rightarrow> bool" where
  "position_ok p \<longleftrightarrow> 0 \<le> pos_quantity p \<and> 0 \<le> pos_mark_price p
     \<and> (pos_quantity p = 0 \<longrightarrow> pos_cost_basis p = 0)"

definition positions_ok :: "PositionState list \<Rightarrow> bool" where
  "positions_ok ps \<longleftrightarrow> distinct (map pos_instrument_id ps) \<and> (\<forall>p\<in>set ps. position_ok p)"

lemma positions_ok_put: "positions_ok ps \<Longrightarrow> position_ok p \<Longrightarrow> positions_ok (put_position p ps)"
  by (auto simp: positions_ok_def put_position_def dict_put_distinct set_dict_put)

lemma trade_position_Inr:
  assumes "trade_position old i q u = Inr p" and "position_ok old" and "0 < u"
  shows "position_ok p \<and> pos_instrument_id p = i \<and> pos_quantity p = dadd (pos_quantity old) q"
  using assms
  by (auto simp: trade_position_def position_ok_def Let_def less_imp_le split: if_splits)

lemma held_position_Inr:
  "held_position ps i m = Inr p \<longleftrightarrow> dict_get pos_instrument_id ps i = Some p \<and> pos_quantity p \<noteq> 0
     \<and> pos_instrument_id p = i"
  by (auto simp: held_position_def dest: dict_get_SomeD split: option.splits)

lemma positions_ok_get: "positions_ok ps \<Longrightarrow> dict_get pos_instrument_id ps i = Some p \<Longrightarrow> position_ok p"
  by (auto simp: positions_ok_def dest: dict_get_SomeD)

lemma ledger_effect_ok:
  assumes wf: "event_wf e" and ok: "positions_ok ps" and eff: "ledger_effect cash ps e = Inr (cash', ps')"
  shows "positions_ok ps'"
proof (cases "ev_kind e")
  case TRADE
  with shape_kind(2) [OF wf] obtain i q u where e: "ev_instrument_id e = Some i"
    "ev_quantity e = Some q" "ev_unit_amount e = Some u" "0 < u" by blast
  have "position_ok (old_position ps i u)"
    using positions_ok_get [OF ok] e by (auto simp: old_position_def position_ok_def split: option.splits)
  moreover from eff TRADE e obtain p where "trade_position (old_position ps i u) i q u = Inr p"
      "ps' = put_position p ps"
    by (auto simp: ledger_effect_def)
  ultimately show ?thesis using trade_position_Inr e positions_ok_put [OF ok] by blast
next
  case MARK
  with shape_kind(3) [OF wf] eff positions_ok_get [OF ok] show ?thesis
    by (auto simp: ledger_effect_def held_position_Inr position_ok_def intro!: positions_ok_put [OF ok])
next
  case CASH_DIVIDEND
  with shape_kind(4) [OF wf] eff positions_ok_get [OF ok] show ?thesis
    by (auto simp: ledger_effect_def held_position_Inr position_ok_def Let_def
        intro!: positions_ok_put [OF ok])
next
  case SPLIT
  with shape_kind(5) [OF wf] eff positions_ok_get [OF ok] show ?thesis
    by (auto simp: ledger_effect_def held_position_Inr position_ok_def dec_ops
        intro!: positions_ok_put [OF ok])
qed (use eff ok in \<open>auto simp: ledger_effect_def\<close>)

section \<open>The state invariant\<close>

definition state_ok :: "LedgerState \<Rightarrow> bool" where
  "state_ok s \<longleftrightarrow> positions_ok (ls_positions s)
     \<and> sorted (map position_key (ls_positions s))
     \<and> ls_realised_pnl s = dsum (map pos_realised_pnl (ls_positions s))
     \<and> ls_unrealised_pnl s = dsum (map unrealised_pnl (ls_positions s))
     \<and> ls_portfolio_value s = dadd (ls_cash s) (dsum (map market_value (ls_positions s)))"

lemma positions_ok_sort: "positions_ok ps \<Longrightarrow> positions_ok (sort_key k ps)"
  unfolding positions_ok_def by (metis distinct_map distinct_sort set_sort)

lemma ledger_summary_ok:
  "positions_ok ps \<Longrightarrow> ledger_summary c cash ps = Inr s \<Longrightarrow>
     state_ok s \<and> ls_currency s = c \<and> ls_cash s = cash"
  by (auto simp: ledger_summary_def state_ok_def Let_def positions_ok_sort)

lemma state_ok_dict: "state_ok s \<Longrightarrow> dict_of pos_instrument_id (ls_positions s) = ls_positions s"
  by (simp add: state_ok_def positions_ok_def dict_of_id)

lemma ledger_transition_ok:
  assumes "state_ok s" and "event_wf e" and "ledger_transition s e = Inr s'"
  shows "state_ok s' \<and> ls_currency s' = ls_currency s"
proof -
  from assms(3) obtain cash ps where
      eff: "ledger_effect (ls_cash s) (ls_positions s) e = Inr (cash, ps)"
    and sum: "ledger_summary (ls_currency s) cash ps = Inr s'"
    by (auto simp: ledger_transition_def state_ok_dict [OF assms(1)])
  have "positions_ok ps"
    using ledger_effect_ok [OF assms(2) _ eff] assms(1) by (simp add: state_ok_def)
  from ledger_summary_ok [OF this sum] show ?thesis by simp
qed

section \<open>The ledger invariant\<close>

definition opening_first :: "FinancialEvent list \<Rightarrow> bool" where
  "opening_first es \<longleftrightarrow> (es \<noteq> [] \<longrightarrow> ev_kind (hd es) = OPENING_CASH
     \<and> (\<forall>e\<in>set (tl es). ev_kind e \<noteq> OPENING_CASH))"

definition ledger_ok :: "SimulationLedger \<Rightarrow> bool" where
  "ledger_ok l \<longleftrightarrow> state_ok (lg_state l) \<and> ls_currency (lg_state l) = lg_currency l
     \<and> distinct (map ev_event_id (lg_events l))
     \<and> map ev_sequence (lg_events l) = map (\<lambda>n. int n + 1) [0..<length (lg_events l)]
     \<and> (\<forall>e\<in>set (lg_events l). event_wf e) \<and> opening_first (lg_events l)
     \<and> lg_authority l = SIMULATION_ONLY_AUTHORITY"

lemma ledger_ok_empty: "ledger_ok (ledger_empty c)"
  by (simp add: ledger_ok_def ledger_empty_def state_ok_def positions_ok_def opening_first_def)

lemma ledger_apply_cases:
  assumes "ledger_apply l e = Inr l'"
  shows "(l' = l \<and> e \<in> set (lg_events l)) \<or>
    (ev_event_id e \<notin> ev_event_id ` set (lg_events l)
     \<and> ev_sequence e = int (length (lg_events l)) + 1
     \<and> (lg_events l = [] \<longleftrightarrow> ev_kind e = OPENING_CASH)
     \<and> ledger_transition (lg_state l) e = Inr (lg_state l')
     \<and> lg_events l' = lg_events l @ [e] \<and> lg_currency l' = lg_currency l
     \<and> lg_authority l' = SIMULATION_ONLY_AUTHORITY)"
proof (cases "find_first (\<lambda>x. ev_event_id x = ev_event_id e) (lg_events l)")
  case None
  then have "ev_event_id e \<notin> ev_event_id ` set (lg_events l)" by (auto simp: find_first_None)
  with assms None show ?thesis by (auto simp: ledger_apply_def)
next
  case (Some x)
  with assms find_first_SomeD [OF Some] show ?thesis
    by (auto simp: ledger_apply_def split: if_splits)
qed

lemma ledger_apply_ok:
  assumes "ledger_ok l" and "event_wf e" and "ledger_apply l e = Inr l'"
  shows "ledger_ok l'"
  using ledger_apply_cases [OF assms(3)]
proof
  assume new: "ev_event_id e \<notin> ev_event_id ` set (lg_events l)
     \<and> ev_sequence e = int (length (lg_events l)) + 1
     \<and> (lg_events l = [] \<longleftrightarrow> ev_kind e = OPENING_CASH)
     \<and> ledger_transition (lg_state l) e = Inr (lg_state l')
     \<and> lg_events l' = lg_events l @ [e] \<and> lg_currency l' = lg_currency l
     \<and> lg_authority l' = SIMULATION_ONLY_AUTHORITY"
  have "state_ok (lg_state l') \<and> ls_currency (lg_state l') = lg_currency l'"
    using ledger_transition_ok [of "lg_state l" e "lg_state l'"] assms new
    by (simp add: ledger_ok_def)
  moreover have "opening_first (lg_events l')"
    using assms(1) new by (cases "lg_events l") (auto simp: ledger_ok_def opening_first_def)
  ultimately show ?thesis using assms new by (auto simp: ledger_ok_def)
qed (use assms in simp)

interpretation ledger_log: append_log ledger_apply lg_events ev_event_id
proof
  show "(l' = l \<and> e \<in> set (lg_events l)) \<or>
      (lg_events l' = lg_events l @ [e] \<and> ev_event_id e \<notin> ev_event_id ` set (lg_events l))"
    if "ledger_apply l e = Inr l'" for l e l'
    using ledger_apply_cases [OF that] by blast
  show "ledger_apply l e = Inr l" if "e \<in> set (lg_events l)"
    "distinct (map ev_event_id (lg_events l))" "\<exists>r. ledger_apply l e = Inr r" for l e
    using that find_first_key [of ev_event_id "lg_events l" e] by (auto simp: ledger_apply_def)
qed

inductive ledger_reach :: "Currency \<Rightarrow> SimulationLedger \<Rightarrow> bool" for c where
  reach_empty: "ledger_reach c (ledger_empty c)"
| reach_apply: "ledger_reach c l \<Longrightarrow> event_wf e \<Longrightarrow> ledger_apply l e = Inr l' \<Longrightarrow> ledger_reach c l'"

lemma ledger_reach_ok: "ledger_reach c l \<Longrightarrow> ledger_ok l \<and> lg_currency l = c"
proof (induction rule: ledger_reach.induct)
  case (reach_apply l e l')
  then show ?case using ledger_apply_ok [of l e l'] ledger_apply_cases [of l e l'] by auto
qed (simp add: ledger_ok_empty, simp add: ledger_empty_def)

lemma ledger_replay_reach:
  assumes "\<forall>e\<in>set es. event_wf e" and "ledger_replay c es = Inr l"
  shows "ledger_reach c l"
  using assms(2) unfolding ledger_replay_def
  by (rule rfold_invariant [of "ledger_reach c" es ledger_apply "ledger_empty c", rotated 2])
     (use assms(1) in \<open>auto intro: ledger_reach.intros\<close>)

lemma ledger_reach_replay: "ledger_reach c l \<Longrightarrow> ledger_replay c (lg_events l) = Inr l"
proof (induction rule: ledger_reach.induct)
  case reach_empty
  show ?case by (simp add: ledger_replay_def ledger_empty_def)
next
  case (reach_apply l e l')
  from ledger_apply_cases [OF reach_apply.hyps(3)] show ?case
  proof
    assume "l' = l \<and> e \<in> set (lg_events l)"
    with reach_apply.IH show ?thesis by simp
  next
    assume "ev_event_id e \<notin> ev_event_id ` set (lg_events l)
     \<and> ev_sequence e = int (length (lg_events l)) + 1
     \<and> (lg_events l = [] \<longleftrightarrow> ev_kind e = OPENING_CASH)
     \<and> ledger_transition (lg_state l) e = Inr (lg_state l')
     \<and> lg_events l' = lg_events l @ [e] \<and> lg_currency l' = lg_currency l
     \<and> lg_authority l' = SIMULATION_ONLY_AUTHORITY"
    then have "lg_events l' = lg_events l @ [e]" by blast
    with reach_apply show ?thesis by (simp add: ledger_replay_def rfold_append)
  qed
qed

section \<open>Double entry\<close>

text \<open>
  \<open>exact_effect\<close> says that none of the rounded operations of a transition changes its exact
  result.  Under it, every event moves value between cash and cost basis and books the
  difference as realised profit: \<open>book\<close> changes only by the event's external cash.
\<close>

definition exact :: "rat \<Rightarrow> bool" where
  "exact x \<longleftrightarrow> dround x = x"

definition exact_trade :: "rat \<Rightarrow> PositionState \<Rightarrow> rat \<Rightarrow> rat \<Rightarrow> bool" where
  "exact_trade cash old q u \<longleftrightarrow>
     exact (pos_quantity old + q) \<and> exact (q * u) \<and> exact (cash - q * u) \<and>
     (if 0 < q then exact (pos_cost_basis old + q * u)
      else let avg = pos_cost_basis old / pos_quantity old in
           exact q \<and> exact avg \<and> exact (avg * - q) \<and> exact (pos_cost_basis old - avg * - q)
           \<and> exact (u - avg) \<and> exact ((u - avg) * - q)
           \<and> exact (pos_realised_pnl old + (u - avg) * - q))"

definition exact_effect :: "rat \<Rightarrow> PositionState list \<Rightarrow> FinancialEvent \<Rightarrow> bool" where
  "exact_effect cash ps e = (case ev_kind e of
     OPENING_CASH \<Rightarrow> (case ev_cash_delta e of None \<Rightarrow> False | Some d \<Rightarrow> exact (cash + d))
   | CASH_ADJUSTMENT \<Rightarrow> (case ev_cash_delta e of None \<Rightarrow> False | Some d \<Rightarrow> exact (cash + d))
   | TRADE \<Rightarrow> (case (ev_instrument_id e, ev_quantity e, ev_unit_amount e) of
       (Some i, Some q, Some u) \<Rightarrow>
         exact_trade cash (old_position ps i u) q u
     | _ \<Rightarrow> False)
   | CASH_DIVIDEND \<Rightarrow> (case (ev_instrument_id e, ev_unit_amount e) of
       (Some i, Some u) \<Rightarrow> (case dict_get pos_instrument_id ps i of None \<Rightarrow> False
         | Some old \<Rightarrow> exact (pos_quantity old * u) \<and> exact (cash + pos_quantity old * u)
             \<and> exact (pos_realised_pnl old + pos_quantity old * u))
     | _ \<Rightarrow> False)
   | _ \<Rightarrow> True)"

definition book :: "rat \<Rightarrow> PositionState list \<Rightarrow> rat" where
  "book cash ps = cash + (\<Sum>p\<leftarrow>ps. pos_cost_basis p - pos_realised_pnl p)"

definition external_cash :: "FinancialEvent \<Rightarrow> rat" where
  "external_cash e = (case ev_cash_delta e of None \<Rightarrow> 0 | Some d \<Rightarrow> d)"

lemma book_put:
  "book cash (put_position p ps) = book cash ps + (pos_cost_basis p - pos_realised_pnl p)
     - (case dict_get pos_instrument_id ps (pos_instrument_id p) of None \<Rightarrow> 0
        | Some old \<Rightarrow> pos_cost_basis old - pos_realised_pnl old)"
  by (simp add: book_def put_position_def sum_list_dict_put)

lemma book_cash: "book (cash + d) ps = book cash ps + d" "book (cash - d) ps = book cash ps - d"
  by (simp_all add: book_def)

lemma trade_position_book:
  assumes "trade_position old i q u = Inr p" and "exact_trade cash old q u" and "q \<noteq> 0"
    and "position_ok old"
  shows "pos_cost_basis p - pos_realised_pnl p = pos_cost_basis old - pos_realised_pnl old + q * u
    \<and> pos_instrument_id p = i"
proof (cases "0 < q")
  case True
  then have "dadd (pos_quantity old) q \<noteq> 0"
    using assms(4) by (simp add: dadd_def position_ok_def)
  with True assms show ?thesis
    by (auto simp: trade_position_def exact_trade_def exact_def dec_ops Let_def)
next
  case False
  define a where "a = pos_cost_basis old / pos_quantity old"
  have ex: "dround (pos_quantity old + q) = pos_quantity old + q" "dround (- q) = - q" "dround a = a"
    "dround (a * - q) = a * - q" "dround (pos_cost_basis old - a * - q) = pos_cost_basis old - a * - q"
    "dround (u - a) = u - a" "dround ((u - a) * - q) = (u - a) * - q"
    "dround (pos_realised_pnl old + (u - a) * - q) = pos_realised_pnl old + (u - a) * - q"
    using assms(2) False by (auto simp: exact_trade_def exact_def a_def Let_def dround_minus)
  have held: "pos_quantity old \<noteq> 0"
    using assms(1) False by (auto simp: trade_position_def Let_def split: if_splits)
  then have aq: "a * pos_quantity old = pos_cost_basis old" by (simp add: a_def)
  have p: "p = \<lparr>pos_instrument_id = i, pos_quantity = pos_quantity old + q,
      pos_cost_basis = (if pos_quantity old + q = 0 then 0 else pos_cost_basis old - a * - q),
      pos_mark_price = u, pos_realised_pnl = pos_realised_pnl old + (u - a) * - q\<rparr>"
    using assms(1) False held ex
    by (auto simp: trade_position_def dec_ops Let_def a_def [symmetric])
  show ?thesis
  proof (cases "pos_quantity old + q = 0")
    case True
    then have "pos_quantity old = - q" by simp
    with p aq show ?thesis by (simp add: algebra_simps)
  next
    case False
    with p show ?thesis by (simp add: algebra_simps)
  qed
qed

lemma ledger_effect_book:
  assumes wf: "event_wf e" and ok: "positions_ok ps" and ex: "exact_effect cash ps e"
    and eff: "ledger_effect cash ps e = Inr (cash', ps')"
  shows "book cash' ps' = book cash ps + external_cash e"
proof (cases "ev_kind e")
  case TRADE
  with shape_kind(2) [OF wf] obtain i q u where e: "ev_instrument_id e = Some i"
    "ev_quantity e = Some q" "q \<noteq> 0" "ev_unit_amount e = Some u" "0 < u" "ev_cash_delta e = None"
    by blast
  define old where "old = old_position ps i u"
  have old: "position_ok old"
    using positions_ok_get [OF ok] e by (auto simp: old_def old_position_def position_ok_def split: option.splits)
  from eff TRADE e obtain p where p: "trade_position old i q u = Inr p" "ps' = put_position p ps"
      "cash' = dsub cash (dmul q u)"
    by (auto simp: ledger_effect_def old_def)
  from ex TRADE e have ext: "exact_trade cash old q u" by (simp add: exact_effect_def old_def)
  then have cash: "cash' = cash - q * u" using p(3) by (simp add: exact_trade_def exact_def dec_ops)
  from trade_position_book [OF p(1) ext e(3) old]
  have v: "pos_cost_basis p - pos_realised_pnl p = pos_cost_basis old - pos_realised_pnl old + q * u"
    and i: "pos_instrument_id p = i" by simp_all
  have "(case dict_get pos_instrument_id ps i of None \<Rightarrow> 0
      | Some x \<Rightarrow> pos_cost_basis x - pos_realised_pnl x) = pos_cost_basis old - pos_realised_pnl old"
    by (simp add: old_def old_position_def split: option.splits)
  then show ?thesis
    using e by (simp add: p(2) cash book_cash book_put i v external_cash_def)
next
  case MARK
  with shape_kind(3) [OF wf] eff show ?thesis
    by (auto simp: ledger_effect_def held_position_Inr book_put external_cash_def)
next
  case CASH_DIVIDEND
  with shape_kind(4) [OF wf] eff ex show ?thesis
    by (auto simp: ledger_effect_def held_position_Inr book_put book_cash external_cash_def
        exact_effect_def exact_def dec_ops Let_def)
next
  case SPLIT
  with shape_kind(5) [OF wf] eff show ?thesis
    by (auto simp: ledger_effect_def held_position_Inr book_put external_cash_def)
qed (use eff ex in \<open>auto simp: ledger_effect_def exact_effect_def exact_def dec_ops book_cash
  external_cash_def split: option.splits\<close>)

lemma book_summary: "ledger_summary c cash ps = Inr s \<Longrightarrow> book (ls_cash s) (ls_positions s) = book cash ps"
  by (auto simp: ledger_summary_def book_def Let_def)

inductive exact_reach :: "Currency \<Rightarrow> SimulationLedger \<Rightarrow> bool" for c where
  exact_empty: "exact_reach c (ledger_empty c)"
| exact_apply: "exact_reach c l \<Longrightarrow> event_wf e \<Longrightarrow>
     exact_effect (ls_cash (lg_state l)) (ls_positions (lg_state l)) e \<Longrightarrow>
     ledger_apply l e = Inr l' \<Longrightarrow> exact_reach c l'"

lemma exact_reach_reach: "exact_reach c l \<Longrightarrow> ledger_reach c l"
  by (induction rule: exact_reach.induct) (auto intro: ledger_reach.intros)

definition external_total :: "SimulationLedger \<Rightarrow> rat" where
  "external_total l = (\<Sum>e\<leftarrow>lg_events l. external_cash e)"

lemma exact_reach_book:
  "exact_reach c l \<Longrightarrow> book (ls_cash (lg_state l)) (ls_positions (lg_state l)) = external_total l"
proof (induction rule: exact_reach.induct)
  case exact_empty
  show ?case by (simp add: ledger_empty_def book_def external_total_def)
next
  case (exact_apply l e l')
  have ok: "ledger_ok l" using ledger_reach_ok [OF exact_reach_reach [OF exact_apply.hyps(1)]] by simp
  show ?case
  proof (cases "l' = l")
    case True
    with exact_apply.IH show ?thesis by simp
  next
    case False
    with ledger_apply_cases [OF exact_apply.hyps(4)]
    have tr: "ledger_transition (lg_state l) e = Inr (lg_state l')" "lg_events l' = lg_events l @ [e]"
      by blast+
    have sok: "state_ok (lg_state l)" using ok by (simp add: ledger_ok_def)
    from tr(1) obtain cash ps where
        eff: "ledger_effect (ls_cash (lg_state l)) (ls_positions (lg_state l)) e = Inr (cash, ps)"
      and sum: "ledger_summary (ls_currency (lg_state l)) cash ps = Inr (lg_state l')"
      by (auto simp: ledger_transition_def state_ok_dict [OF sok])
    have "positions_ok (ls_positions (lg_state l))" using sok by (simp add: state_ok_def)
    from ledger_effect_book [OF exact_apply.hyps(2) this exact_apply.hyps(3) eff]
    show ?thesis by (simp add: book_summary [OF sum] exact_apply.IH external_total_def tr(2))
  qed
qed

section \<open>Properties of the ledger\<close>

text \<open>C5: In every ledger that events can build there are no short positions: every position has a
  non-negative quantity and mark, an empty position has no cost basis, each instrument has one
  position, and profit and portfolio value are the rounded sums over the positions and cash.\<close>

theorem ledger_state_consistent:
  assumes "ledger_reach c l"
  shows "(\<forall>p\<in>set (ls_positions (lg_state l)). 0 \<le> pos_quantity p \<and> 0 \<le> pos_mark_price p
       \<and> (pos_quantity p = 0 \<longrightarrow> pos_cost_basis p = 0))
    \<and> distinct (map pos_instrument_id (ls_positions (lg_state l)))
    \<and> ls_realised_pnl (lg_state l) = dsum (map pos_realised_pnl (ls_positions (lg_state l)))
    \<and> ls_unrealised_pnl (lg_state l) = dsum (map unrealised_pnl (ls_positions (lg_state l)))
    \<and> ls_portfolio_value (lg_state l) =
        dadd (ls_cash (lg_state l)) (dsum (map market_value (ls_positions (lg_state l))))"
  using ledger_reach_ok [OF assms]
  by (auto simp: ledger_ok_def state_ok_def positions_ok_def position_ok_def)

text \<open>The history of every such ledger has unique event identities, the sequence numbers 1, 2, ... in
  order, well-formed events, and opening cash as its first event and nowhere else.\<close>

theorem ledger_history_contiguous:
  assumes "ledger_reach c l"
  shows "distinct (map ev_event_id (lg_events l))
    \<and> map ev_sequence (lg_events l) = map (\<lambda>n. int n + 1) [0..<length (lg_events l)]
    \<and> (\<forall>e\<in>set (lg_events l). validate_shape e = Inr ())
    \<and> (\<forall>k < length (lg_events l). ev_kind (lg_events l ! k) = OPENING_CASH \<longleftrightarrow> k = 0)"
proof -
  have ok: "ledger_ok l" using ledger_reach_ok [OF assms] by simp
  have "ev_kind (lg_events l ! k) = OPENING_CASH \<longleftrightarrow> k = 0" if "k < length (lg_events l)" for k
    using that ok by (cases "lg_events l"; cases k) (auto simp: ledger_ok_def opening_first_def)
  with ok show ?thesis by (auto simp: ledger_ok_def event_wf_def)
qed

text \<open>C6: Replaying the recorded events of a ledger rebuilds exactly that ledger: the events determine
  cash, positions and profit.\<close>

theorem ledger_replay_identity:
  assumes "ledger_reach c l"
  shows "ledger_replay c (lg_events l) = Inr l"
  using assms by (rule ledger_reach_replay)

text \<open>Applying a recorded event again changes nothing, and an event that reuses a recorded identity
  with different content is refused.\<close>

theorem ledger_apply_idempotent:
  assumes "ledger_reach c l" and "e \<in> set (lg_events l)"
    and "ev_currency e = None \<or> ev_currency e = Some c"
    and "ev_event_id e' = ev_event_id e" and "ev_currency e' = ev_currency e" and "e' \<noteq> e"
  shows "ledger_apply l e = Inr l \<and>
    ledger_apply l e' = Inl (Err LedgerContractError ''event_id conflicts with immutable history'')"
proof -
  have ok: "ledger_ok l" and c: "lg_currency l = c" using ledger_reach_ok [OF assms(1)] by simp_all
  then have "find_first (\<lambda>x. ev_event_id x = ev_event_id e) (lg_events l) = Some e"
    using assms(2) by (intro find_first_key) (auto simp: ledger_ok_def)
  with assms(3-6) c show ?thesis by (auto simp: ledger_apply_def)
qed

text \<open>C7: As long as no operation has to round, the books balance: cash and the cost of the open
  positions together are the money paid in plus the profit realised.\<close>

theorem ledger_books_balance:
  assumes "exact_reach c l"
  shows "ls_cash (lg_state l) + (\<Sum>p\<leftarrow>ls_positions (lg_state l). pos_cost_basis p) =
    (\<Sum>e\<leftarrow>lg_events l. case ev_cash_delta e of None \<Rightarrow> 0 | Some d \<Rightarrow> d)
    + (\<Sum>p\<leftarrow>ls_positions (lg_state l). pos_realised_pnl p)"
  using exact_reach_book [OF assms]
  by (simp add: book_def external_total_def external_cash_def sum_list_subtractf algebra_simps)

section \<open>A sample ledger\<close>

definition sample_event ::
  "string \<Rightarrow> int \<Rightarrow> FinancialEventKind \<Rightarrow> InstrumentId option \<Rightarrow> rat option \<Rightarrow> rat option \<Rightarrow>
   rat option \<Rightarrow> FinancialEvent" where
  "sample_event n k kind i q u d = \<lparr>ev_event_id = LedgerEventId (event_prefix @ n),
     ev_sequence = k, ev_occurred_at = Timestamp k, ev_kind = kind,
     ev_research_run_id = ResearchRunId ''run'', ev_evidence_digest = EvidenceContentDigest ''d'',
     ev_currency = Some (Currency ''USD''), ev_instrument_id = i, ev_quantity = q,
     ev_unit_amount = u, ev_cash_delta = d, ev_action = None\<rparr>"

definition sample_events :: "FinancialEvent list" where
  "sample_events = (let i = Some (InstrumentId 0x40008000000000000001) in
     [sample_event ''open'' 1 OPENING_CASH None None None (Some 1000),
      sample_event ''buy'' 2 TRADE i (Some 10) (Some 20) None,
      sample_event ''sell'' 3 TRADE i (Some (- 4)) (Some 25) None])"

definition sample_usd :: Currency where
  "sample_usd = Currency ''USD''"

definition sample_books :: SimulationLedger where
  "sample_books = \<lparr>lg_currency = sample_usd, lg_events = sample_events,
     lg_state = \<lparr>ls_currency = sample_usd, ls_cash = 900,
       ls_positions = [\<lparr>pos_instrument_id = InstrumentId 0x40008000000000000001, pos_quantity = 6,
         pos_cost_basis = 120, pos_mark_price = 25, pos_realised_pnl = 20\<rparr>],
       ls_realised_pnl = 20, ls_unrealised_pnl = 30, ls_portfolio_value = 1050\<rparr>,
     lg_authority = SIMULATION_ONLY_AUTHORITY\<rparr>"

fun exact_run :: "SimulationLedger \<Rightarrow> FinancialEvent list \<Rightarrow> bool" where
  "exact_run l [] = True"
| "exact_run l (e # es) = (event_wf e
     \<and> exact_effect (ls_cash (lg_state l)) (ls_positions (lg_state l)) e
     \<and> (case ledger_apply l e of Inl _ \<Rightarrow> False | Inr l' \<Rightarrow> exact_run l' es))"

lemma exact_run_reach:
  "exact_run l es \<Longrightarrow> exact_reach c l \<Longrightarrow> rfold ledger_apply l es = Inr l' \<Longrightarrow> exact_reach c l'"
proof (induction es arbitrary: l)
  case (Cons e es)
  then obtain k where "ledger_apply l e = Inr k" "rfold ledger_apply k es = Inr l'" by auto
  with Cons show ?case using exact_apply [of c l e k] by auto
qed simp

lemma sample_exact: "exact_reach sample_usd sample_books"
proof -
  have "exact_run (ledger_empty sample_usd) sample_events" by code_simp
  moreover have "rfold ledger_apply (ledger_empty sample_usd) sample_events = Inr sample_books"
    by code_simp
  ultimately show ?thesis using exact_run_reach exact_empty by blast
qed

lemmas sample_reach_books = exact_reach_reach [OF sample_exact]

theorem ledger_state_consistent_witness:
  "ls_portfolio_value (lg_state sample_books) = dadd 900 (dsum [dmul 6 25])"
  using ledger_state_consistent [OF sample_reach_books] by (simp add: sample_books_def market_value_def)

theorem ledger_history_contiguous_witness:
  "distinct (map ev_event_id sample_events)
    \<and> map ev_sequence sample_events = map (\<lambda>n. int n + 1) [0..<length sample_events]"
  using ledger_history_contiguous [OF sample_reach_books] by (simp add: sample_books_def)

theorem ledger_replay_identity_witness: "ledger_replay sample_usd sample_events = Inr sample_books"
  using ledger_replay_identity [OF sample_reach_books] by (simp add: sample_books_def)

theorem ledger_apply_idempotent_witness:
  "ledger_apply sample_books (hd sample_events) = Inr sample_books"
proof -
  let ?e = "hd sample_events"
  have "?e \<in> set (lg_events sample_books)"
    by (simp add: sample_books_def sample_events_def Let_def)
  moreover have "ev_currency ?e = Some sample_usd"
    by (simp add: sample_events_def sample_event_def sample_usd_def Let_def)
  moreover have "ev_cash_delta ?e = Some 1000"
    by (simp add: sample_events_def sample_event_def Let_def)
  then have "ev_cash_delta (?e\<lparr>ev_cash_delta := Some 5\<rparr>) \<noteq> ev_cash_delta ?e" by simp
  then have "?e\<lparr>ev_cash_delta := Some 5\<rparr> \<noteq> ?e" by metis
  ultimately show ?thesis
    using ledger_apply_idempotent [OF sample_reach_books, of ?e "?e\<lparr>ev_cash_delta := Some 5\<rparr>"] by simp
qed

theorem ledger_books_balance_witness:
  "ls_cash (lg_state sample_books) + 120 = (1000 :: rat) + 20"
  using ledger_books_balance [OF sample_exact]
  by (simp add: sample_books_def sample_events_def sample_event_def)

end
