(* ===== verification/Qualification.thy ===== *)
theory Qualification
  imports Identity "HOL-Library.Product_Lexorder"
begin

text \<open>
  \<^verbatim>\<open>research/dataset_qualification.py\<close> and \<^verbatim>\<open>research/pit_features.py\<close>: the ladder of dataset
  qualifications with its claim ceilings, and the point-in-time assessment of a decision input.

  Dates are day numbers; \<open>day_of\<close> is \<open>Timestamp.value.date()\<close>.  The content digests that name a
  qualification, a feature and an observation are SHA-256 over canonical JSON: they are
  parameters (functions from the digested body to the digest's text).  Text is Latin-1, on
  which NFC normalisation is the identity.

  \<open>ladder\<close> is the specification of a chain of qualifications; every chain that
  \<open>qualify_dataset\<close> issues climbs it one level at a time from G1.  An eligible decision
  input uses nothing that was not known at the decision time.
\<close>

section \<open>Assessment vocabulary\<close>

datatype AssessmentState = PASS | RESTRICTED | FAIL | UNKNOWN | NOT_APPLICABLE

datatype QualificationLevel = G0 | G1 | G2 | G3

primrec level_index :: "QualificationLevel \<Rightarrow> nat" where
  "level_index G0 = 0" | "level_index G1 = 1" | "level_index G2 = 2" | "level_index G3 = 3"

datatype ClaimCeiling =
  CONTRACT_ONLY | ENGINEERING_ONLY | EXPLORATORY_RESEARCH | ECONOMIC_VALIDATION

primrec claim_index :: "ClaimCeiling \<Rightarrow> nat" where
  "claim_index CONTRACT_ONLY = 0"
| "claim_index ENGINEERING_ONLY = 1"
| "claim_index EXPLORATORY_RESEARCH = 2"
| "claim_index ECONOMIC_VALIDATION = 3"

datatype QualificationLifecycle = CURRENT | INVALIDATED | SUPERSEDED

definition DIMENSIONS :: "string list" where
  "DIMENSIONS = [''Q01_IDENTITY'', ''Q02_PROVENANCE'', ''Q03_COVERAGE'',
     ''Q04_QUALITY_QUARANTINE'', ''Q05_CURRENTNESS'', ''Q06_INSTRUMENT_CALENDAR'',
     ''Q07_PIT_KNOWLEDGE_TIME'', ''Q08_SURVIVORSHIP_HISTORICAL_UNIVERSE'',
     ''Q09_CORPORATE_ACTIONS'', ''Q10_DELISTING_TERMINAL_TREATMENT'']"

primrec CEILINGS :: "QualificationLevel \<Rightarrow> ClaimCeiling" where
  "CEILINGS G0 = CONTRACT_ONLY"
| "CEILINGS G1 = ENGINEERING_ONLY"
| "CEILINGS G2 = EXPLORATORY_RESEARCH"
| "CEILINGS G3 = ECONOMIC_VALIDATION"

text \<open>\<open>[A-Za-z0-9][A-Za-z0-9._:/-]{0,254}\<close>\<close>

definition identity_text :: "string \<Rightarrow> bool" where
  "identity_text s = (case s of [] \<Rightarrow> False
     | c # cs \<Rightarrow> ascii_alnum c \<and> length cs \<le> 254 \<and> list_all (\<lambda>c. name_char c \<or> c = CHR ''/'') cs)"

definition require_text :: "exn \<Rightarrow> string \<Rightarrow> string \<Rightarrow> string result" where
  "require_text x name v =
     raise_if (\<not> identity_text v) x (name @ '' must be a canonical attributable identity'') (Inr v)"

definition require_digest :: "exn \<Rightarrow> string \<Rightarrow> string \<Rightarrow> string result" where
  "require_digest x name v =
     rbind (require_text x name v) (\<lambda>v.
       raise_if (\<not> sha256_text v) x (name @ '' must be SHA-256'') (Inr v))"

definition descriptive_text :: "string \<Rightarrow> string \<Rightarrow> string result" where
  "descriptive_text name v =
     raise_if (v = [] \<or> v \<noteq> strip v) QualificationError (name @ '' must be nonempty canonical text'')
       (Inr v)"

record QualificationPolicy =
  qp_policy_id :: string
  qp_version :: string
  qp_evidence_ref :: string

definition QualificationPolicy_init :: "string \<Rightarrow> string \<Rightarrow> string \<Rightarrow> QualificationPolicy result" where
  "QualificationPolicy_init p v e =
     rbind (require_text QualificationError ''policy_id'' p) (\<lambda>_.
     rbind (require_text QualificationError ''version'' v) (\<lambda>_.
     rbind (require_text QualificationError ''evidence_ref'' e) (\<lambda>_.
       Inr \<lparr>qp_policy_id = p, qp_version = v, qp_evidence_ref = e\<rparr>)))"

record DimensionAssessment =
  da_dimension :: string
  da_state :: AssessmentState
  da_evidence_refs :: "string list"
  da_reasons :: "string list"

definition DimensionAssessment_init ::
  "string \<Rightarrow> AssessmentState \<Rightarrow> string list \<Rightarrow> string list \<Rightarrow> DimensionAssessment result" where
  "DimensionAssessment_init d s refs reasons =
     raise_if (d \<notin> set DIMENSIONS) QualificationError ''unknown qualification dimension''
     (raise_if (refs = [] \<or> \<not> distinct refs) QualificationError
        ''assessment evidence must be a nonempty unique tuple''
     (rbind (rmap (require_text QualificationError ''evidence_ref'') refs) (\<lambda>_.
        raise_if (s \<noteq> PASS \<and> reasons = []) QualificationError
          ''non-PASS assessment requires reasons''
          (Inr \<lparr>da_dimension = d, da_state = s, da_evidence_refs = refs, da_reasons = reasons\<rparr>))))"

record EligibleCoverage =
  cov_start :: int
  cov_end :: int

definition EligibleCoverage_init :: "int \<Rightarrow> int \<Rightarrow> EligibleCoverage result" where
  "EligibleCoverage_init s e =
     raise_if (e < s) QualificationError ''coverage start exceeds end''
       (Inr \<lparr>cov_start = s, cov_end = e\<rparr>)"

record DatasetQualification =
  dq_qualification_id :: string
  dq_dataset_id :: string
  dq_dataset_version :: string
  dq_manifest_digest :: string
  dq_provenance_digest :: string
  dq_policy :: QualificationPolicy
  dq_level :: QualificationLevel
  dq_claim_ceiling :: ClaimCeiling
  dq_assessments :: "DimensionAssessment list"
  dq_coverage :: EligibleCoverage
  dq_limitations :: "string list"
  dq_predecessor :: "string option"
  dq_lifecycle :: QualificationLifecycle
  dq_invalidation_reasons :: "string list"
  dq_superseded_by :: "string option"

section \<open>Qualification\<close>

record QualificationBody =
  qb_assessments :: "DimensionAssessment list"
  qb_coverage :: EligibleCoverage
  qb_dataset_id :: string
  qb_dataset_version :: string
  qb_level :: QualificationLevel
  qb_limitations :: "string list"
  qb_manifest_digest :: string
  qb_policy :: "string \<times> string"
  qb_predecessor :: "string option"
  qb_provenance_digest :: string

fun dimension_index :: "string list \<Rightarrow> string \<Rightarrow> nat" where
  "dimension_index [] d = 0"
| "dimension_index (x # xs) d = (if x = d then 0 else Suc (dimension_index xs d))"

definition check_predecessor ::
  "string \<Rightarrow> string \<Rightarrow> QualificationLevel \<Rightarrow> DatasetQualification option \<Rightarrow> string option result" where
  "check_predecessor dataset_id dataset_version level predecessor =
     (case predecessor of
        None \<Rightarrow> raise_if (level \<noteq> G1) QualificationError
                  ''qualification level skipping is prohibited'' (Inr None)
      | Some p \<Rightarrow>
          raise_if (dq_lifecycle p \<noteq> CURRENT) QualificationError ''current predecessor required''
          (raise_if (dq_dataset_id p \<noteq> dataset_id \<or> dq_dataset_version p \<noteq> dataset_version)
             QualificationError ''predecessor dataset substitution''
          (raise_if (Suc (level_index (dq_level p)) \<noteq> level_index level) QualificationError
             ''qualification level skipping is prohibited''
             (Inr (Some (dq_qualification_id p))))))"

definition material_count :: "QualificationLevel \<Rightarrow> nat" where
  "material_count level = (if level = G1 then 6 else 10)"

definition check_material :: "DimensionAssessment \<Rightarrow> unit result" where
  "check_material a =
     raise_if (da_state a \<in> {FAIL, UNKNOWN}) QualificationError
       (''material '' @ (if da_state a = FAIL then ''FAIL'' else ''UNKNOWN'') @ '' prohibits qualification'')
     (raise_if (da_state a = NOT_APPLICABLE) QualificationError
       ''material dimension cannot be NOT_APPLICABLE'' (Inr ()))"

definition check_assessments ::
  "QualificationLevel \<Rightarrow> string list \<Rightarrow> DimensionAssessment list \<Rightarrow> unit result" where
  "check_assessments level limitations ordered =
     rbind (rmap check_material (take (material_count level) ordered)) (\<lambda>_.
       raise_if (level = G3 \<and> (\<exists>a\<in>set ordered. da_state a \<noteq> PASS)) QualificationError
         ''G3 requires all dimensions PASS''
       (raise_if ((\<exists>a\<in>set (take (material_count level) ordered). da_state a = RESTRICTED)
           \<and> limitations = []) QualificationError ''restricted qualification requires limitations''
       (raise_if (\<not> distinct limitations) QualificationError ''limitations must be a unique tuple''
       (rbind (rmap (descriptive_text ''limitation'') limitations) (\<lambda>_. Inr ())))))"

definition qualify_dataset ::
  "(QualificationBody \<Rightarrow> string) \<Rightarrow> string \<Rightarrow> string \<Rightarrow> string \<Rightarrow> string \<Rightarrow> QualificationPolicy \<Rightarrow>
   QualificationLevel \<Rightarrow> DimensionAssessment list \<Rightarrow> EligibleCoverage \<Rightarrow> string list \<Rightarrow>
   DatasetQualification option \<Rightarrow> DatasetQualification result" where
  "qualify_dataset digest dataset_id dataset_version manifest_digest provenance_digest policy level
       assessments coverage limitations predecessor =
     rbind (require_text QualificationError ''dataset_id'' dataset_id) (\<lambda>_.
     rbind (require_text QualificationError ''dataset_version'' dataset_version) (\<lambda>_.
     rbind (require_digest QualificationError ''manifest_digest'' manifest_digest) (\<lambda>_.
     rbind (require_digest QualificationError ''provenance_digest'' provenance_digest) (\<lambda>_.
     raise_if (level = G0) QualificationError
       ''G0 is the contract state, not a dataset qualification''
     (rbind (check_predecessor dataset_id dataset_version level predecessor) (\<lambda>predecessor_id.
      raise_if (set (map da_dimension assessments) \<noteq> set DIMENSIONS
          \<or> length assessments \<noteq> length DIMENSIONS) QualificationError
        ''exactly ten unique dimension assessments are required''
      (let ordered = sort_key (\<lambda>a. dimension_index DIMENSIONS (da_dimension a)) assessments in
       rbind (check_assessments level limitations ordered) (\<lambda>_.
         Inr \<lparr>dq_qualification_id = ''atis:research:dataset-qualification:v1:'' @ digest
                \<lparr>qb_assessments = ordered, qb_coverage = coverage, qb_dataset_id = dataset_id,
                 qb_dataset_version = dataset_version, qb_level = level,
                 qb_limitations = limitations, qb_manifest_digest = manifest_digest,
                 qb_policy = (qp_policy_id policy, qp_version policy),
                 qb_predecessor = predecessor_id, qb_provenance_digest = provenance_digest\<rparr>,
              dq_dataset_id = dataset_id, dq_dataset_version = dataset_version,
              dq_manifest_digest = manifest_digest, dq_provenance_digest = provenance_digest,
              dq_policy = policy, dq_level = level, dq_claim_ceiling = CEILINGS level,
              dq_assessments = ordered, dq_coverage = coverage, dq_limitations = limitations,
              dq_predecessor = predecessor_id, dq_lifecycle = CURRENT,
              dq_invalidation_reasons = [], dq_superseded_by = None\<rparr>))))))))"

definition invalidate_qualification ::
  "DatasetQualification \<Rightarrow> string list \<Rightarrow> DatasetQualification result" where
  "invalidate_qualification v reasons =
     raise_if (dq_lifecycle v \<noteq> CURRENT) QualificationError
       ''only a current qualification can be invalidated''
     (raise_if (reasons = []) QualificationError ''invalidation reasons required''
       (Inr (v\<lparr>dq_lifecycle := INVALIDATED, dq_invalidation_reasons := reasons,
               dq_superseded_by := None\<rparr>)))"

definition supersede_qualification ::
  "DatasetQualification \<Rightarrow> DatasetQualification \<Rightarrow> DatasetQualification result" where
  "supersede_qualification v successor =
     raise_if (dq_lifecycle v \<noteq> CURRENT \<or> dq_predecessor successor \<noteq> Some (dq_qualification_id v))
       QualificationError ''invalid supersession''
       (Inr (v\<lparr>dq_lifecycle := SUPERSEDED, dq_invalidation_reasons := [],
               dq_superseded_by := Some (dq_qualification_id successor)\<rparr>))"

definition permits_claim :: "DatasetQualification \<Rightarrow> ClaimCeiling \<Rightarrow> bool" where
  "permits_claim v requested \<longleftrightarrow>
     dq_lifecycle v = CURRENT \<and> claim_index requested \<le> claim_index (dq_claim_ceiling v)"

section \<open>Point-in-time features\<close>

datatype MissingDataPolicy = REJECT | EXPLICIT_MISSING
datatype AvailabilityPolicy = AT_KNOWLEDGE | AFTER_EVENT
datatype InputState = VALID | MISSING | STALE | CONFLICTING | INVALID
datatype EligibilityState = ELIGIBLE | INELIGIBLE

primrec input_state_value :: "InputState \<Rightarrow> string" where
  "input_state_value VALID = ''VALID''"
| "input_state_value MISSING = ''MISSING''"
| "input_state_value STALE = ''STALE''"
| "input_state_value CONFLICTING = ''CONFLICTING''"
| "input_state_value INVALID = ''INVALID''"

definition day_of :: "Timestamp \<Rightarrow> int" where
  "day_of t = instant t div 86400000000"

record FeatureBody =
  fb_version :: string
  fb_algorithm_id :: string
  fb_configuration_digest :: string
  fb_required_inputs :: "string list"
  fb_lookback :: int
  fb_minimum_history :: int
  fb_missing_data_policy :: MissingDataPolicy
  fb_availability_policy :: AvailabilityPolicy
  fb_output_semantics :: string

record FeatureDefinition =
  fd_feature_id :: string
  fd_body :: FeatureBody

definition require_feature_digest :: "string \<Rightarrow> string \<Rightarrow> string result" where
  "require_feature_digest name v =
     raise_if (\<not> sha256_text v) FeatureContractError (name @ '' must be a SHA-256 digest'') (Inr v)"

definition FeatureDefinition_create ::
  "(FeatureBody \<Rightarrow> string) \<Rightarrow> FeatureBody \<Rightarrow> FeatureDefinition result" where
  "FeatureDefinition_create digest b =
     rbind (require_text FeatureContractError ''version'' (fb_version b)) (\<lambda>_.
     rbind (require_text FeatureContractError ''algorithm_id'' (fb_algorithm_id b)) (\<lambda>_.
     rbind (require_feature_digest ''configuration_digest'' (fb_configuration_digest b)) (\<lambda>_.
     rbind (require_text FeatureContractError ''output_semantics'' (fb_output_semantics b)) (\<lambda>_.
     raise_if (fb_required_inputs b = [] \<or> \<not> distinct (fb_required_inputs b)) FeatureContractError
       ''required_inputs must be a nonempty unique tuple''
     (rbind (rmap (require_text FeatureContractError ''required_input'') (fb_required_inputs b)) (\<lambda>_.
      raise_if (fb_lookback b < 1 \<or> fb_minimum_history b < 1 \<or> fb_lookback b < fb_minimum_history b)
        FeatureContractError ''invalid lookback or minimum history''
        (Inr \<lparr>fd_feature_id = ''atis:research:feature:v1:'' @ digest b, fd_body = b\<rparr>)))))))"

record PitInput =
  pi_input_id :: string
  pi_input_kind :: string
  pi_dataset_id :: string
  pi_source_identity :: string
  pi_evidence_digest :: string
  pi_event_time :: Timestamp
  pi_knowledge_time :: "Timestamp option"
  pi_state :: InputState
  pi_retrospective_correction :: bool

definition PitInput_init :: "PitInput \<Rightarrow> PitInput result" where
  "PitInput_init p =
     rbind (rmap (require_text FeatureContractError ''identity'')
              [pi_input_id p, pi_input_kind p, pi_dataset_id p, pi_source_identity p]) (\<lambda>_.
     rbind (require_feature_digest ''evidence_digest'' (pi_evidence_digest p)) (\<lambda>_. Inr p))"

record FeatureObservation =
  fo_observation_id :: string
  fo_feature_id :: string
  fo_instrument_id :: InstrumentId
  fo_listing_id :: string
  fo_dataset_id :: string
  fo_qualification_id :: string
  fo_input_ids :: "string list"
  fo_input_window_start :: Timestamp
  fo_input_window_end :: Timestamp
  fo_available_at :: Timestamp
  fo_value_digest :: string
  fo_evidence_digest :: string

text \<open>The body digested for an observation: available time, dataset, feature, the ordered inputs,
  instrument, listing, qualification and value digest.  Of an input it holds the evidence digest, the event
  time, the identity, the knowledge time, the source and the state.  \<open>digest dom body\<close> is \<open>_derive\<close>.\<close>

type_synonym input_body = "string \<times> Timestamp \<times> string \<times> Timestamp option \<times> string \<times> InputState"

type_synonym observation_body =
  "Timestamp \<times> string \<times> string \<times> input_body list \<times> InstrumentId \<times> string \<times> string \<times> string"

definition observation_input :: "PitInput \<Rightarrow> input_body" where
  "observation_input v = (pi_evidence_digest v, pi_event_time v, pi_input_id v, pi_knowledge_time v,
     pi_source_identity v, pi_state v)"

text \<open>The sort key is the fixed-width text of the event time, whose order is that of the instants
  (for years with four digits).\<close>

definition order_inputs :: "PitInput list \<Rightarrow> PitInput list" where
  "order_inputs = sort_key (\<lambda>v. (instant (pi_event_time v), pi_input_id v))"

definition create_feature_observation ::
  "(string \<Rightarrow> observation_body \<Rightarrow> string) \<Rightarrow> FeatureDefinition \<Rightarrow> InstrumentId \<Rightarrow> string \<Rightarrow>
   DatasetQualification \<Rightarrow> PitInput list \<Rightarrow> Timestamp \<Rightarrow> string \<Rightarrow> FeatureObservation result" where
  "create_feature_observation digest fdef instrument listing q inputs available_at value_digest =
     raise_if (inputs = []) FeatureContractError ''inputs must be a nonempty tuple''
     (raise_if (\<not> distinct (map pi_input_id inputs)) FeatureContractError ''duplicate input identity''
     (raise_if (\<exists>v\<in>set inputs. pi_dataset_id v \<noteq> dq_dataset_id q) FeatureContractError
        ''dataset substitution''
     (rbind (require_feature_digest ''value_digest'' value_digest) (\<lambda>_.
        let ordered = order_inputs inputs;
            body = (available_at, dq_dataset_id q, fd_feature_id fdef, map observation_input ordered, instrument, listing,
                    dq_qualification_id q, value_digest)
        in Inr \<lparr>fo_observation_id = ''atis:research:feature-observation:v1:''
                  @ digest ''ATIS-S4-03-FEATURE-OBSERVATION-V1'' body,
                fo_feature_id = fd_feature_id fdef, fo_instrument_id = instrument,
                fo_listing_id = listing, fo_dataset_id = dq_dataset_id q,
                fo_qualification_id = dq_qualification_id q,
                fo_input_ids = map pi_input_id ordered,
                fo_input_window_start = pi_event_time (hd ordered),
                fo_input_window_end = pi_event_time (last ordered),
                fo_available_at = available_at, fo_value_digest = value_digest,
                fo_evidence_digest = digest ''ATIS-S4-03-FEATURE-OBSERVATION-EVIDENCE-V1'' body\<rparr>))))"

record DecisionInputEligibility =
  el_state :: EligibilityState
  el_reasons :: "string list"
  el_observation_id :: string
  el_decision_time :: Timestamp
  el_requested_claim :: ClaimCeiling

text \<open>The reasons one input contributes, in the order of the loop body.\<close>

definition input_reasons :: "Timestamp \<Rightarrow> bool \<Rightarrow> PitInput \<Rightarrow> string list" where
  "input_reasons decision_time causal v =
     (case pi_knowledge_time v of
        None \<Rightarrow> [''UNKNOWN_KNOWLEDGE_TIME'']
      | Some k \<Rightarrow> if instant decision_time < instant k then [''FUTURE_KNOWLEDGE''] else [])
     @ (if pi_state v \<noteq> VALID then [''INPUT_'' @ input_state_value (pi_state v)] else [])
     @ (if pi_retrospective_correction v \<and> (case pi_knowledge_time v of None \<Rightarrow> True
          | Some k \<Rightarrow> instant decision_time < instant k)
        then [''RETROSPECTIVE_CORRECTION_NOT_KNOWN''] else [])
     @ (if pi_event_time v = decision_time \<and> \<not> causal then [''UNSUPPORTED_SAME_INSTANT_USE''] else [])"

definition decision_reasons ::
  "FeatureDefinition \<Rightarrow> FeatureObservation \<Rightarrow> DatasetQualification \<Rightarrow> PitInput list \<Rightarrow> Timestamp \<Rightarrow>
   ClaimCeiling \<Rightarrow> bool \<Rightarrow> string list" where
  "decision_reasons fdef ob q inputs decision_time claim causal =
     (if fo_feature_id ob \<noteq> fd_feature_id fdef then [''FEATURE_DEFINITION_SUBSTITUTION''] else [])
     @ (if fo_dataset_id ob \<noteq> dq_dataset_id q then [''DATASET_SUBSTITUTION''] else [])
     @ (if fo_qualification_id ob \<noteq> dq_qualification_id q then [''QUALIFICATION_SUBSTITUTION''] else [])
     @ (if dq_lifecycle q \<noteq> CURRENT then [''QUALIFICATION_NOT_CURRENT''] else [])
     @ (if claim = CONTRACT_ONLY \<or> \<not> permits_claim q claim then [''CLAIM_NOT_PERMITTED''] else [])
     @ (if \<not> (cov_start (dq_coverage q) \<le> day_of (fo_input_window_start ob)
             \<and> day_of (fo_input_window_end ob) \<le> cov_end (dq_coverage q))
        then [''OUTSIDE_QUALIFICATION_COVERAGE''] else [])
     @ (if instant decision_time < instant (fo_available_at ob) then [''FEATURE_AFTER_DECISION''] else [])
     @ (if int (length inputs) < fb_minimum_history (fd_body fdef) then [''INSUFFICIENT_HISTORY''] else [])
     @ (if sort (map pi_input_id inputs) \<noteq> sort (fo_input_ids ob)
        then [''INPUT_LINEAGE_SUBSTITUTION''] else [])
     @ concat (map (input_reasons decision_time causal) inputs)"

definition assess_decision_input ::
  "FeatureDefinition \<Rightarrow> FeatureObservation \<Rightarrow> DatasetQualification \<Rightarrow> PitInput list \<Rightarrow> Timestamp \<Rightarrow>
   ClaimCeiling \<Rightarrow> bool \<Rightarrow> DecisionInputEligibility" where
  "assess_decision_input fdef ob q inputs decision_time claim causal =
     (let canonical = sorted_set (decision_reasons fdef ob q inputs decision_time claim causal)
      in \<lparr>el_state = (if canonical \<noteq> [] then INELIGIBLE else ELIGIBLE), el_reasons = canonical,
          el_observation_id = fo_observation_id ob, el_decision_time = decision_time,
          el_requested_claim = claim\<rparr>)"

section \<open>The ladder\<close>

lemma dimensions_distinct: "distinct DIMENSIONS"
  by (simp add: DIMENSIONS_def)

lemma dimension_index_inj: "inj_on (dimension_index ds) (set ds)"
proof -
  have "dimension_index ds d < length ds \<and> ds ! dimension_index ds d = d" if "d \<in> set ds" for d
    using that by (induction ds) auto
  then show ?thesis by (metis inj_onI)
qed

lemma dimension_index_sorted: "distinct ds \<Longrightarrow> sorted (map (dimension_index ds) ds)"
proof -
  assume d: "distinct ds"
  have "dimension_index ds (ds ! i) = i" if "i < length ds" for i
    using that d by (induction ds arbitrary: i) (auto simp: nth_Cons' )
  then have "map (dimension_index ds) ds = [0..<length ds]"
    by (intro nth_equalityI) auto
  then show ?thesis by simp
qed

lemma map_sort_key: "map f (sort_key (\<lambda>x. g (f x)) xs) = sort_key g (map f xs)"
proof (induction xs)
  case (Cons x xs)
  have "map f (insort_key (\<lambda>x. g (f x)) y ys) = insort_key g (f y) (map f ys)" for y ys
    by (induction ys) auto
  with Cons show ?case by simp
qed simp

lemma ordered_dimensions:
  assumes "set (map da_dimension as) = set DIMENSIONS" and "length as = length DIMENSIONS"
  shows "map da_dimension (sort_key (\<lambda>a. dimension_index DIMENSIONS (da_dimension a)) as) = DIMENSIONS"
proof -
  have "distinct (map da_dimension as)"
    using assms dimensions_distinct by (metis card_distinct distinct_card length_map)
  then have "mset (map da_dimension as) = mset DIMENSIONS"
    using assms(1) dimensions_distinct set_eq_iff_mset_eq_distinct by blast
  then have "sort_key (dimension_index DIMENSIONS) (map da_dimension as) = DIMENSIONS"
    by (rule sort_key_inj_key_eq)
       (simp_all only: assms(1) dimension_index_inj dimension_index_sorted [OF dimensions_distinct])
  then show ?thesis by (simp only: map_sort_key)
qed

text \<open>What a level asks of the ten assessments.\<close>

definition level_satisfied :: "QualificationLevel \<Rightarrow> DimensionAssessment list \<Rightarrow> bool" where
  "level_satisfied level as \<longleftrightarrow> map da_dimension as = DIMENSIONS
     \<and> (\<forall>a\<in>set (take (material_count level) as). da_state a \<in> {PASS, RESTRICTED})
     \<and> (level = G3 \<longrightarrow> (\<forall>a\<in>set as. da_state a = PASS))"

lemma rmap_unit: "rmap f xs = Inr ys \<Longrightarrow> x \<in> set xs \<Longrightarrow> \<exists>y. f x = Inr y"
  by (induction xs arbitrary: ys) auto

lemma check_material_Inr: "check_material a = Inr u \<longleftrightarrow> da_state a \<in> {PASS, RESTRICTED}"
  by (cases "da_state a") (auto simp: check_material_def)

lemma check_assessments_Inr:
  assumes "check_assessments level lims as = Inr u"
  shows "(\<forall>a\<in>set (take (material_count level) as). da_state a \<in> {PASS, RESTRICTED})
    \<and> (level = G3 \<longrightarrow> (\<forall>a\<in>set as. da_state a = PASS))
    \<and> ((\<exists>a\<in>set (take (material_count level) as). da_state a = RESTRICTED) \<longrightarrow> lims \<noteq> [])"
proof -
  from assms obtain us where "rmap check_material (take (material_count level) as) = Inr us"
    by (auto simp: check_assessments_def)
  from rmap_unit [OF this] have "\<forall>a\<in>set (take (material_count level) as). da_state a \<in> {PASS, RESTRICTED}"
    by (auto simp: check_material_Inr)
  with assms show ?thesis by (auto simp: check_assessments_def)
qed

lemma qualify_dataset_Inr:
  assumes "qualify_dataset dg i v md pd pol level as cov lims pre = Inr q"
  shows "dq_level q = level \<and> level \<noteq> G0 \<and> dq_claim_ceiling q = CEILINGS level \<and> dq_dataset_id q = i
    \<and> dq_dataset_version q = v \<and> dq_lifecycle q = CURRENT \<and> level_satisfied level (dq_assessments q)
    \<and> check_predecessor i v level pre = Inr (dq_predecessor q)"
proof -
  define ordered where "ordered = sort_key (\<lambda>a. dimension_index DIMENSIONS (da_dimension a)) as"
  from assms obtain u where chk: "check_assessments level lims ordered = Inr u"
    and dims: "set (map da_dimension as) = set DIMENSIONS" "length as = length DIMENSIONS"
    and ord: "dq_assessments q = ordered"
    by (auto simp: qualify_dataset_def ordered_def Let_def)
  have "level_satisfied level ordered"
    using check_assessments_Inr [OF chk] ordered_dimensions [OF dims]
    by (simp add: level_satisfied_def ordered_def)
  with assms ord show ?thesis by (auto simp: qualify_dataset_def Let_def)
qed

text \<open>Chains of issued qualifications, the newest first.\<close>

inductive issued :: "(QualificationBody \<Rightarrow> string) \<Rightarrow> DatasetQualification list \<Rightarrow> bool" for dg where
  issue_first: "qualify_dataset dg i v md pd pol level as cov lims None = Inr q \<Longrightarrow> issued dg [q]"
| issue_next: "issued dg (p # ps) \<Longrightarrow>
    qualify_dataset dg i v md pd pol level as cov lims (Some p) = Inr q \<Longrightarrow> issued dg (q # p # ps)"

text \<open>The specification: levels count down to G1, the dataset stays the same, each step names the
  one below it, and every member meets its level.\<close>

fun ladder :: "DatasetQualification list \<Rightarrow> bool" where
  "ladder [] = False"
| "ladder [q] = (dq_level q = G1 \<and> dq_predecessor q = None \<and> level_satisfied G1 (dq_assessments q)
     \<and> dq_claim_ceiling q = ENGINEERING_ONLY \<and> dq_lifecycle q = CURRENT)"
| "ladder (q # p # ps) = (level_index (dq_level q) = Suc (level_index (dq_level p))
     \<and> dq_dataset_id q = dq_dataset_id p \<and> dq_dataset_version q = dq_dataset_version p
     \<and> dq_predecessor q = Some (dq_qualification_id p) \<and> level_satisfied (dq_level q) (dq_assessments q)
     \<and> dq_claim_ceiling q = CEILINGS (dq_level q) \<and> dq_lifecycle q = CURRENT \<and> ladder (p # ps))"

lemma ladder_height: "ladder (q # qs) \<Longrightarrow> level_index (dq_level q) = length (q # qs)"
  by (induction "q # qs" arbitrary: q qs rule: ladder.induct) auto

lemma ladder_top: "ladder (q # qs) \<Longrightarrow> level_satisfied (dq_level q) (dq_assessments q)
    \<and> dq_claim_ceiling q = CEILINGS (dq_level q)"
  by (cases qs) auto

lemma claim_level: "claim_index (CEILINGS l) = level_index l"
  by (cases l) auto

lemma issued_ladder: "issued dg qs \<Longrightarrow> ladder qs"
proof (induction rule: issued.induct)
  case (issue_first i v md pd pol level as cov lims q)
  from qualify_dataset_Inr [OF this] show ?case by (auto simp: check_predecessor_def)
next
  case (issue_next p ps i v md pd pol level as cov lims q)
  from qualify_dataset_Inr [OF issue_next.hyps(2)] issue_next.IH show ?case
    by (auto simp: check_predecessor_def)
qed

lemma input_reasons_Nil:
  "input_reasons t causal v = [] \<longleftrightarrow> pi_state v = VALID \<and> (pi_event_time v = t \<longrightarrow> causal)
     \<and> (\<exists>k. pi_knowledge_time v = Some k \<and> instant k \<le> instant t)"
  by (cases "pi_knowledge_time v") (auto simp: input_reasons_def not_less)

text \<open>An assessed input is eligible when no reason stands against it.\<close>

lemma eligible_conditions:
  "el_state (assess_decision_input fdef ob q inputs t claim causal) = ELIGIBLE \<longleftrightarrow>
     fo_feature_id ob = fd_feature_id fdef \<and> fo_dataset_id ob = dq_dataset_id q
   \<and> fo_qualification_id ob = dq_qualification_id q
   \<and> claim \<noteq> CONTRACT_ONLY \<and> permits_claim q claim
   \<and> cov_start (dq_coverage q) \<le> day_of (fo_input_window_start ob)
   \<and> day_of (fo_input_window_end ob) \<le> cov_end (dq_coverage q)
   \<and> instant (fo_available_at ob) \<le> instant t
   \<and> fb_minimum_history (fd_body fdef) \<le> int (length inputs)
   \<and> mset (map pi_input_id inputs) = mset (fo_input_ids ob)
   \<and> (\<forall>v\<in>set inputs. pi_state v = VALID \<and> (pi_event_time v = t \<longrightarrow> causal)
        \<and> (\<exists>k. pi_knowledge_time v = Some k \<and> instant k \<le> instant t))"
proof -
  have inputs: "concat (map (input_reasons t causal) inputs) = [] \<longleftrightarrow>
      (\<forall>v\<in>set inputs. pi_state v = VALID \<and> (pi_event_time v = t \<longrightarrow> causal)
        \<and> (\<exists>k. pi_knowledge_time v = Some k \<and> instant k \<le> instant t))"
    by (simp add: input_reasons_Nil)
  have lineage: "sort (map pi_input_id inputs) = sort (fo_input_ids ob) \<longleftrightarrow>
      mset (map pi_input_id inputs) = mset (fo_input_ids ob)"
    by (metis mset_sort properties_for_sort sorted_sort)
  have "el_state (assess_decision_input fdef ob q inputs t claim causal) = ELIGIBLE \<longleftrightarrow>
      decision_reasons fdef ob q inputs t claim causal = []"
    by (simp add: assess_decision_input_def Let_def)
  then show ?thesis
    unfolding decision_reasons_def append_is_Nil_conv inputs lineage
    by (auto simp: permits_claim_def not_less not_le)
qed

lemmas qualify_dataset_code [code] = qualify_dataset_def [unfolded Let_def]

section \<open>Properties\<close>

text \<open>C35: Every qualification issued by qualify_dataset, starting from no predecessor and then from the
  previously issued one, refines the ladder: one level at a time from G1, always the same dataset
  and version, each record naming its predecessor, its ten dimensions in canonical order and
  meeting the level, with the claim ceiling of the level.\<close>

theorem issued_climbs_ladder:
  assumes "issued dg qs"
  shows "ladder qs"
  using assms by (rule issued_ladder)

text \<open>A claim that an issued qualification permits never exceeds the height of its ladder, and an
  economic-validation claim needs the three levels G1 to G3 and a PASS in every one of the ten
  dimensions.\<close>

theorem claims_bounded_by_ladder:
  assumes "issued dg (q # qs)" and "permits_claim q claim"
  shows "claim_index claim \<le> length (q # qs) \<and>
    (claim = ECONOMIC_VALIDATION \<longrightarrow> length (q # qs) = 3 \<and> map da_dimension (dq_assessments q) = DIMENSIONS
       \<and> (\<forall>a\<in>set (dq_assessments q). da_state a = PASS))"
proof -
  have l: "ladder (q # qs)" using assms(1) by (rule issued_ladder)
  note top = ladder_top [OF l] and height = ladder_height [OF l]
  have le: "claim_index claim \<le> level_index (dq_level q)"
    using assms(2) top by (simp add: permits_claim_def claim_level)
  have "dq_level q = G3" if "claim = ECONOMIC_VALIDATION"
    using le that by (cases "dq_level q") auto
  then show ?thesis using le top height by (auto simp: level_satisfied_def)
qed


text \<open>A decision input is eligible exactly when the observation, its feature, dataset and
  qualification belong together, the qualification is current, covers the input window and permits
  the (non-contract) claim, the observation was available and every input valid and known by the
  decision time, the history is long enough, the lineage agrees, and no input of the very same
  instant is used without a causal order.\<close>

theorem eligible_iff_point_in_time:
  "el_state (assess_decision_input fdef ob q inputs t claim causal) = ELIGIBLE \<longleftrightarrow>
     fo_feature_id ob = fd_feature_id fdef \<and> fo_dataset_id ob = dq_dataset_id q
   \<and> fo_qualification_id ob = dq_qualification_id q
   \<and> claim \<noteq> CONTRACT_ONLY \<and> permits_claim q claim
   \<and> cov_start (dq_coverage q) \<le> day_of (fo_input_window_start ob)
   \<and> day_of (fo_input_window_end ob) \<le> cov_end (dq_coverage q)
   \<and> instant (fo_available_at ob) \<le> instant t
   \<and> fb_minimum_history (fd_body fdef) \<le> int (length inputs)
   \<and> mset (map pi_input_id inputs) = mset (fo_input_ids ob)
   \<and> (\<forall>v\<in>set inputs. pi_state v = VALID \<and> (pi_event_time v = t \<longrightarrow> causal)
        \<and> (\<exists>k. pi_knowledge_time v = Some k \<and> instant k \<le> instant t))"
  by (rule eligible_conditions)

text \<open>Once a qualification is invalidated or superseded it permits no claim, can be neither
  invalidated nor superseded again, and can carry no further level.\<close>

theorem retired_qualification_is_final:
  assumes "invalidate_qualification q reasons = Inr r \<or> supersede_qualification q s = Inr r"
  shows "\<not> permits_claim r claim \<and> isl (invalidate_qualification r reasons')
    \<and> isl (supersede_qualification r s')
    \<and> isl (qualify_dataset dg i v md pd pol level as cov lims (Some r))"
proof -
  have "dq_lifecycle r \<noteq> CURRENT"
    using assms by (auto simp: invalidate_qualification_def supersede_qualification_def)
  moreover have "isl (qualify_dataset dg i v md pd pol level as cov lims (Some r))"
  proof (rule ccontr)
    assume "\<not> ?thesis"
    then obtain q' where "qualify_dataset dg i v md pd pol level as cov lims (Some r) = Inr q'"
      by (metis isl_def sumE)
    from qualify_dataset_Inr [OF this] calculation show False by (auto simp: check_predecessor_def)
  qed
  ultimately show ?thesis
    by (simp add: permits_claim_def invalidate_qualification_def supersede_qualification_def)
qed

section \<open>A sample dataset\<close>

definition sample_assessments :: "DimensionAssessment list" where
  "sample_assessments = map (\<lambda>d. \<lparr>da_dimension = d, da_state = PASS, da_evidence_refs = [''e''],
     da_reasons = []\<rparr>) DIMENSIONS"

definition sample_sha :: string where
  "sample_sha = ''sha256:'' @ replicate 64 CHR ''0''"

definition sample_policy :: QualificationPolicy where
  "sample_policy = \<lparr>qp_policy_id = ''p'', qp_version = ''1'', qp_evidence_ref = ''e''\<rparr>"

definition sample_qualify ::
  "QualificationLevel \<Rightarrow> DatasetQualification option \<Rightarrow> DatasetQualification result" where
  "sample_qualify level pre = qualify_dataset (\<lambda>b. ''x'') ''ds'' ''1'' sample_sha sample_sha
     sample_policy level sample_assessments \<lparr>cov_start = 0, cov_end = 9\<rparr> [] pre"

definition sample_q :: "QualificationLevel \<Rightarrow> DatasetQualification" where
  "sample_q level = \<lparr>dq_qualification_id = ''atis:research:dataset-qualification:v1:x'',
     dq_dataset_id = ''ds'', dq_dataset_version = ''1'', dq_manifest_digest = sample_sha,
     dq_provenance_digest = sample_sha, dq_policy = sample_policy, dq_level = level,
     dq_claim_ceiling = CEILINGS level, dq_assessments = sample_assessments,
     dq_coverage = \<lparr>cov_start = 0, cov_end = 9\<rparr>, dq_limitations = [],
     dq_predecessor = (if level = G1 then None else Some ''atis:research:dataset-qualification:v1:x''),
     dq_lifecycle = CURRENT, dq_invalidation_reasons = [], dq_superseded_by = None\<rparr>"

lemma sample_issued: "issued (\<lambda>b. ''x'') [sample_q G3, sample_q G2, sample_q G1]"
proof -
  have 1: "sample_qualify G1 None = Inr (sample_q G1)" by code_simp
  have 2: "sample_qualify G2 (Some (sample_q G1)) = Inr (sample_q G2)" by code_simp
  have 3: "sample_qualify G3 (Some (sample_q G2)) = Inr (sample_q G3)" by code_simp
  show ?thesis
    using issue_next [OF issue_next [OF issue_first [OF 1 [unfolded sample_qualify_def]]
      2 [unfolded sample_qualify_def]] 3 [unfolded sample_qualify_def]] .
qed

theorem issued_climbs_ladder_witness: "ladder [sample_q G3, sample_q G2, sample_q G1]"
  using issued_climbs_ladder [OF sample_issued] .

theorem claims_bounded_by_ladder_witness:
  "permits_claim (sample_q G3) ECONOMIC_VALIDATION
    \<and> list_all (\<lambda>a. da_state a = PASS) (dq_assessments (sample_q G3))"
proof -
  have "permits_claim (sample_q G3) ECONOMIC_VALIDATION" by code_simp
  with claims_bounded_by_ladder [OF sample_issued this] show ?thesis by (simp add: list_all_iff)
qed

theorem retired_qualification_is_final_witness:
  "\<not> permits_claim ((sample_q G1)\<lparr>dq_lifecycle := INVALIDATED, dq_invalidation_reasons := [''bad'']\<rparr>)
     ENGINEERING_ONLY"
proof -
  have "invalidate_qualification (sample_q G1) [''bad''] =
      Inr ((sample_q G1)\<lparr>dq_lifecycle := INVALIDATED, dq_invalidation_reasons := [''bad'']\<rparr>)"
    by (simp add: invalidate_qualification_def sample_q_def)
  then show ?thesis using retired_qualification_is_final by blast
qed

definition sample_input :: PitInput where
  "sample_input = \<lparr>pi_input_id = ''i'', pi_input_kind = ''close'', pi_dataset_id = ''ds'',
     pi_source_identity = ''s'', pi_evidence_digest = sample_sha, pi_event_time = Timestamp 10,
     pi_knowledge_time = Some (Timestamp 20), pi_state = VALID, pi_retrospective_correction = False\<rparr>"

definition sample_feature :: FeatureDefinition where
  "sample_feature = \<lparr>fd_feature_id = ''f'', fd_body = \<lparr>fb_version = ''1'', fb_algorithm_id = ''a'',
     fb_configuration_digest = sample_sha, fb_required_inputs = [''close''], fb_lookback = 1,
     fb_minimum_history = 1, fb_missing_data_policy = REJECT, fb_availability_policy = AT_KNOWLEDGE,
     fb_output_semantics = ''o''\<rparr>\<rparr>"

definition sample_observation :: FeatureObservation where
  "sample_observation = \<lparr>fo_observation_id = ''ob'', fo_feature_id = ''f'',
     fo_instrument_id = InstrumentId 1, fo_listing_id = ''l'', fo_dataset_id = ''ds'',
     fo_qualification_id = ''atis:research:dataset-qualification:v1:x'', fo_input_ids = [''i''],
     fo_input_window_start = Timestamp 10, fo_input_window_end = Timestamp 10,
     fo_available_at = Timestamp 30, fo_value_digest = sample_sha, fo_evidence_digest = sample_sha\<rparr>"

theorem eligible_iff_point_in_time_witness:
  "el_state (assess_decision_input sample_feature sample_observation (sample_q G3) [sample_input]
     (Timestamp 40) ECONOMIC_VALIDATION False) = ELIGIBLE"
  unfolding eligible_iff_point_in_time
  by (simp add: sample_feature_def sample_observation_def sample_q_def sample_input_def
      permits_claim_def day_of_def)

end
