(* ===== verification/Execution.thy ===== *)
theory Execution
  imports Ledger Qualification
begin

text \<open>
  \<^verbatim>\<open>research/simulated_execution.py\<close>: cost models, simulated orders, execution snapshots, the
  simulated order-management system and the posting of a fill to the ledger.

  The operations of \<open>SimulatedOms\<close> are \<open>oms_submit\<close>, \<open>oms_cancel\<close>, \<open>oms_mark_unfilled\<close>,
  \<open>oms_execute\<close> and \<open>oms_apply_fill\<close>.  Identities of orders and fills are derived from
  SHA-256 over canonical JSON; \<open>fill_digest\<close> and \<open>order_digest\<close> (the first sixteen digest bytes
  of the body) are parameters, and \<open>uuid_from_digest\<close> is the bit surgery \<open>_uuid\<close> does on them.

  \<open>oms_ok\<close> is the invariant of every reachable system: order identities are unique, the filled
  quantity of an order is the rounded sum of its fills and never exceeds the order, statuses
  agree with it, and the attempts record every fill once, in order.  The fills promise the
  \<open>append_log\<close> interface.
\<close>

section \<open>Vocabulary\<close>

datatype OrderStatus =
  ACCEPTED | REJECTED | CANCELLED | UNFILLED | PARTIALLY_FILLED | FULLY_FILLED

datatype ExecutionInputState = AVAILABLE | UNAVAILABLE | INPUT_UNKNOWN

primrec input_value :: "ExecutionInputState \<Rightarrow> string" where
  "input_value AVAILABLE = ''AVAILABLE''"
| "input_value UNAVAILABLE = ''UNAVAILABLE''"
| "input_value INPUT_UNKNOWN = ''UNKNOWN''"

datatype CostScenario = EC0 | EC1 | EC2 | EC3
datatype CostProvenance = OBSERVED | MODELLED | PROXY
datatype CostComponent =
  COMMISSION_FEES | BID_ASK_SPREAD | SLIPPAGE | MARKET_IMPACT | ADDITIONAL_FRICTION

definition all_components :: "CostComponent list" where
  "all_components = [COMMISSION_FEES, BID_ASK_SPREAD, SLIPPAGE, MARKET_IMPACT, ADDITIONAL_FRICTION]"

definition SIMULATED_EXECUTION_AUTHORITY :: string where
  "SIMULATED_EXECUTION_AUTHORITY = ''RESEARCH_SIMULATION_ONLY_NO_LIVE_TRADING_AUTHORITY''"

definition cost_model_prefix :: string where
  "cost_model_prefix = ''atis:simulation-cost-model:v1:''"

definition finite_positive :: "string \<Rightarrow> bool \<Rightarrow> decimal \<Rightarrow> rat result" where
  "finite_positive name positive d = (case d of
     NonFinite \<Rightarrow> Inl (Err SimulatedExecutionError (name @ '' must be finite''))
   | Finite q \<Rightarrow> raise_if (positive \<and> q \<le> 0) SimulatedExecutionError
       (name @ '' must be positive and finite'') (Inr q))"

text \<open>\<open>_uuid\<close>: sixteen digest bytes, version nibble 5 in byte 6, variant bits 10 in byte 8.\<close>

definition uuid_bytes :: "8 word list \<Rightarrow> 8 word list" where
  "uuid_bytes raw = raw[6 := or (and (raw ! 6) 0x0F) 0x50, 8 := or (and (raw ! 8) 0x3F) 0x80]"

definition uuid_from_digest :: "8 word list \<Rightarrow> uuid" where
  "uuid_from_digest raw = word_rcat (uuid_bytes raw)"

section \<open>Costs\<close>

record CostRate =
  cr_component :: CostComponent
  cr_basis_points :: rat
  cr_provenance :: CostProvenance
  cr_evidence_digest :: EvidenceContentDigest

definition CostRate_init ::
  "CostComponent \<Rightarrow> decimal \<Rightarrow> CostProvenance \<Rightarrow> EvidenceContentDigest \<Rightarrow> CostRate result" where
  "CostRate_init c bps p d =
     rbind (finite_positive ''basis_points'' False bps) (\<lambda>b.
       raise_if (b < 0) SimulatedExecutionError ''basis_points cannot be negative''
         (Inr \<lparr>cr_component = c, cr_basis_points = b, cr_provenance = p, cr_evidence_digest = d\<rparr>))"

record CostBreakdown =
  cb_commission_fees :: rat
  cb_bid_ask_spread :: rat
  cb_slippage :: rat
  cb_market_impact :: rat
  cb_additional_friction :: rat

definition cost_fields :: "CostBreakdown \<Rightarrow> rat list" where
  "cost_fields c = [cb_commission_fees c, cb_bid_ask_spread c, cb_slippage c, cb_market_impact c,
     cb_additional_friction c]"

definition validate_cost_breakdown :: "CostBreakdown \<Rightarrow> unit result" where
  "validate_cost_breakdown c =
     raise_if (\<exists>v\<in>set (cost_fields c). v < 0) SimulatedExecutionError ''cost cannot be negative'' (Inr ())"

definition cost_total :: "CostBreakdown \<Rightarrow> rat" where
  "cost_total c = dadd (dadd (dadd (dadd (cb_commission_fees c) (cb_bid_ask_spread c))
     (cb_slippage c)) (cb_market_impact c)) (cb_additional_friction c)"

definition validate_cost_binding :: "string \<Rightarrow> unit result" where
  "validate_cost_binding model_id =
     raise_if (\<not> prefixed_name cost_model_prefix model_id) SimulatedExecutionError
       ''cost_model_id is not canonical'' (Inr ())"

record ExecutionCostModel =
  cm_model_id :: string
  cm_scenario :: CostScenario
  cm_rates :: "CostRate list"
  cm_diagnostic_only :: bool

definition ExecutionCostModel_init ::
  "string \<Rightarrow> CostScenario \<Rightarrow> CostRate list \<Rightarrow> bool \<Rightarrow> ExecutionCostModel result" where
  "ExecutionCostModel_init model_id scenario rates diagnostic =
     rbind (validate_cost_binding model_id) (\<lambda>_.
     raise_if (set (map cr_component rates) \<noteq> set all_components) SimulatedExecutionError
       ''cost model requires every cost component exactly once''
     (raise_if (length rates \<noteq> length all_components) SimulatedExecutionError
       ''cost model contains duplicate components''
     (let all_zero = (\<forall>r\<in>set rates. cr_basis_points r = 0) in
      raise_if (scenario = EC0 \<and> (\<not> diagnostic \<or> \<not> all_zero)) SimulatedExecutionError
        ''EC0 must be zero-cost and diagnostic-only''
      (raise_if (scenario \<noteq> EC0 \<and> (diagnostic \<or> all_zero)) SimulatedExecutionError
        ''EC1-EC3 must be non-diagnostic with explicit cost''
        (Inr \<lparr>cm_model_id = model_id, cm_scenario = scenario, cm_rates = rates,
              cm_diagnostic_only = diagnostic\<rparr>)))))"

text \<open>\<open>values[component]\<close>: the last rate of the component wins, a missing one is a \<open>KeyError\<close>.\<close>

definition component_cost :: "CostRate list \<Rightarrow> rat \<Rightarrow> CostComponent \<Rightarrow> rat result" where
  "component_cost rates notional c =
     (case dict_get cr_component (dict_of cr_component rates) c of
        None \<Rightarrow> Inl (Err KeyError [])
      | Some r \<Rightarrow> Inr (ddiv (dmul notional (cr_basis_points r)) 10000))"

definition calculate_costs :: "ExecutionCostModel \<Rightarrow> rat \<Rightarrow> rat \<Rightarrow> CostBreakdown result" where
  "calculate_costs m quantity price =
     rbind (finite_positive ''quantity'' True (Finite quantity)) (\<lambda>_.
     rbind (finite_positive ''price'' True (Finite price)) (\<lambda>_.
     let notional = dmul quantity price in
     rbind (component_cost (cm_rates m) notional COMMISSION_FEES) (\<lambda>c1.
     rbind (component_cost (cm_rates m) notional BID_ASK_SPREAD) (\<lambda>c2.
     rbind (component_cost (cm_rates m) notional SLIPPAGE) (\<lambda>c3.
     rbind (component_cost (cm_rates m) notional MARKET_IMPACT) (\<lambda>c4.
     rbind (component_cost (cm_rates m) notional ADDITIONAL_FRICTION) (\<lambda>c5.
       let cb = \<lparr>cb_commission_fees = c1, cb_bid_ask_spread = c2, cb_slippage = c3,
                 cb_market_impact = c4, cb_additional_friction = c5\<rparr>
       in rbind (validate_cost_breakdown cb) (\<lambda>_. Inr cb))))))))"

section \<open>Orders\<close>

record SimulatedOrder =
  so_order_id :: OrderId
  so_instrument_id :: InstrumentId
  so_side :: OrderSide
  so_quantity :: rat
  so_currency :: Currency
  so_release_at :: Timestamp
  so_research_run_id :: ResearchRunId
  so_evidence_digest :: EvidenceContentDigest
  so_eligibility_state :: EligibilityState
  so_eligibility_reasons :: "string list"
  so_eligibility_observation_id :: string
  so_decision_time :: Timestamp

definition SimulatedOrder_init :: "SimulatedOrder \<Rightarrow> SimulatedOrder result" where
  "SimulatedOrder_init ord =
     rbind (finite_positive ''quantity'' True (Finite (so_quantity ord))) (\<lambda>_.
       raise_if (so_eligibility_observation_id ord = []) SimulatedExecutionError
         ''eligibility observation identity is required'' (Inr ord))"

record OrderBody =
  ob_currency :: string
  ob_decision_time :: Timestamp
  ob_evidence_digest :: string
  ob_instrument_id :: string
  ob_observation_id :: string
  ob_quantity :: rat
  ob_release_at :: Timestamp
  ob_research_run_id :: string
  ob_side :: OrderSide

definition create_order ::
  "(OrderBody \<Rightarrow> 8 word list) \<Rightarrow> InstrumentId \<Rightarrow> OrderSide \<Rightarrow> decimal \<Rightarrow> Currency \<Rightarrow> Timestamp \<Rightarrow>
   ResearchRunId \<Rightarrow> EvidenceContentDigest \<Rightarrow> DecisionInputEligibility \<Rightarrow> SimulatedOrder result" where
  "create_order order_digest instrument side quantity currency release_at run evidence el =
     rbind (finite_positive ''quantity'' True quantity) (\<lambda>q.
       let body = \<lparr>ob_currency = code currency, ob_decision_time = el_decision_time el,
                   ob_evidence_digest = digest_text evidence,
                   ob_instrument_id = InstrumentId_to_string instrument,
                   ob_observation_id = el_observation_id el, ob_quantity = q,
                   ob_release_at = release_at, ob_research_run_id = run_text run, ob_side = side\<rparr>
       in SimulatedOrder_init
            \<lparr>so_order_id = OrderId (uuid_from_digest (order_digest body)),
             so_instrument_id = instrument, so_side = side, so_quantity = q,
             so_currency = currency, so_release_at = release_at, so_research_run_id = run,
             so_evidence_digest = evidence, so_eligibility_state = el_state el,
             so_eligibility_reasons = el_reasons el,
             so_eligibility_observation_id = el_observation_id el,
             so_decision_time = el_decision_time el\<rparr>)"

record OrderRecord =
  rec_order :: SimulatedOrder
  rec_status :: OrderStatus
  rec_filled_quantity :: rat
  rec_reasons :: "string list"

definition remaining_quantity :: "OrderRecord \<Rightarrow> rat" where
  "remaining_quantity r = dsub (so_quantity (rec_order r)) (rec_filled_quantity r)"

abbreviation rec_order_id :: "OrderRecord \<Rightarrow> OrderId" where
  "rec_order_id r \<equiv> so_order_id (rec_order r)"

section \<open>Snapshots, fills, attempts\<close>

record ExecutionSnapshot =
  sn_execution_at :: Timestamp
  sn_price :: "rat option"
  sn_price_available_at :: "Timestamp option"
  sn_security_state :: ExecutionInputState
  sn_liquidity_state :: ExecutionInputState
  sn_available_quantity :: "rat option"
  sn_currency :: "Currency option"
  sn_evidence_digest :: "EvidenceContentDigest option"

definition ExecutionSnapshot_init :: "ExecutionSnapshot \<Rightarrow> ExecutionSnapshot result" where
  "ExecutionSnapshot_init s = (case sn_price s of
     None \<Rightarrow> Inr s
   | Some p \<Rightarrow> rbind (finite_positive ''price'' True (Finite p)) (\<lambda>_. Inr s))"

record SimulatedFill =
  fi_fill_id :: TradeId
  fi_order_id :: OrderId
  fi_instrument_id :: InstrumentId
  fi_side :: OrderSide
  fi_quantity :: rat
  fi_execution_price :: rat
  fi_execution_at :: Timestamp
  fi_currency :: Currency
  fi_execution_evidence :: EvidenceContentDigest
  fi_cost_model_id :: string
  fi_cost_scenario :: CostScenario
  fi_costs :: CostBreakdown
  fi_research_run_id :: ResearchRunId

definition validate_fill_payload :: "SimulatedFill \<Rightarrow> unit result" where
  "validate_fill_payload f =
     rbind (finite_positive ''fill quantity'' True (Finite (fi_quantity f))) (\<lambda>_.
     rbind (finite_positive ''execution_price'' True (Finite (fi_execution_price f))) (\<lambda>_.
     rbind (validate_cost_binding (fi_cost_model_id f)) (\<lambda>_.
       validate_cost_breakdown (fi_costs f))))"

definition SimulatedFill_init :: "SimulatedFill \<Rightarrow> SimulatedFill result" where
  "SimulatedFill_init f =
     rbind (finite_positive ''quantity'' True (Finite (fi_quantity f))) (\<lambda>_.
     rbind (finite_positive ''execution_price'' True (Finite (fi_execution_price f))) (\<lambda>_.
     rbind (validate_cost_binding (fi_cost_model_id f)) (\<lambda>_.
     rbind (validate_cost_breakdown (fi_costs f)) (\<lambda>_. Inr f))))"

record ExecutionAttempt =
  at_order_id :: OrderId
  at_requested_quantity :: rat
  at_outcome :: OrderStatus
  at_reasons :: "string list"
  at_fill_id :: "TradeId option"

record FillBody =
  fbo_cost_model_id :: string
  fbo_evidence_digest :: string
  fbo_execution_at :: Timestamp
  fbo_execution_price :: rat
  fbo_fill_sequence :: nat
  fbo_order_id :: string
  fbo_quantity :: rat

section \<open>The simulated order-management system\<close>

record SimulatedOms =
  oms_orders :: "OrderRecord list"
  oms_fills :: "SimulatedFill list"
  oms_attempts :: "ExecutionAttempt list"
  oms_authority :: string

definition oms_empty :: SimulatedOms where
  "oms_empty = \<lparr>oms_orders = [], oms_fills = [], oms_attempts = [],
     oms_authority = SIMULATED_EXECUTION_AUTHORITY\<rparr>"

definition TERMINAL_STATUS :: "OrderStatus set" where
  "TERMINAL_STATUS = {REJECTED, CANCELLED, UNFILLED, FULLY_FILLED}"

definition oms_order :: "SimulatedOms \<Rightarrow> OrderId \<Rightarrow> OrderRecord option" where
  "oms_order m i = find_first (\<lambda>r. rec_order_id r = i) (oms_orders m)"

definition oms_submit :: "SimulatedOms \<Rightarrow> SimulatedOrder \<Rightarrow> SimulatedOms result" where
  "oms_submit m ord = (case oms_order m (so_order_id ord) of
     Some existing \<Rightarrow>
       if rec_order existing = ord then Inr m
       else Inl (Err SimulatedExecutionError ''order identity conflicts with immutable history'')
   | None \<Rightarrow>
       let reasons = so_eligibility_reasons ord
             @ (if so_eligibility_state ord \<noteq> ELIGIBLE then [''INELIGIBLE_DECISION_INPUT''] else [])
             @ (if instant (so_release_at ord) \<le> instant (so_decision_time ord)
                then [''ORDER_RELEASE_NOT_AFTER_DECISION''] else []);
           canonical = sorted_set reasons;
           status = (if canonical \<noteq> [] then REJECTED else ACCEPTED)
       in Inr (m\<lparr>oms_orders := oms_orders m @ [\<lparr>rec_order = ord, rec_status = status,
                   rec_filled_quantity = 0, rec_reasons = canonical\<rparr>]\<rparr>))"

definition oms_active :: "SimulatedOms \<Rightarrow> OrderId \<Rightarrow> OrderRecord result" where
  "oms_active m i = (case oms_order m i of
     None \<Rightarrow> Inl (Err SimulatedExecutionError ''order does not exist'')
   | Some r \<Rightarrow> raise_if (rec_status r \<in> TERMINAL_STATUS) SimulatedExecutionError
       ''terminal order accepts no transition or fill'' (Inr r))"

definition oms_replace_order :: "SimulatedOms \<Rightarrow> OrderRecord \<Rightarrow> OrderRecord \<Rightarrow> SimulatedOms" where
  "oms_replace_order m old new =
     m\<lparr>oms_orders := replace_first (\<lambda>r. rec_order_id r = rec_order_id old) new (oms_orders m)\<rparr>"

definition oms_cancel :: "SimulatedOms \<Rightarrow> OrderId \<Rightarrow> SimulatedOms result" where
  "oms_cancel m i =
     rbind (oms_active m i) (\<lambda>r. Inr (oms_replace_order m r (r\<lparr>rec_status := CANCELLED\<rparr>)))"

definition oms_mark_unfilled :: "SimulatedOms \<Rightarrow> OrderId \<Rightarrow> string \<Rightarrow> SimulatedOms result" where
  "oms_mark_unfilled m i reason =
     rbind (oms_active m i) (\<lambda>r.
     raise_if (blank reason) SimulatedExecutionError ''unfilled reason must be explicit''
     (raise_if (rec_filled_quantity r \<noteq> 0) SimulatedExecutionError
        ''UNFILLED requires zero executed quantity; cancel partial orders''
     (let updated = r\<lparr>rec_status := UNFILLED, rec_reasons := [reason]\<rparr>;
          attempt = \<lparr>at_order_id = i, at_requested_quantity = remaining_quantity r,
                     at_outcome = UNFILLED, at_reasons = [reason], at_fill_id = None\<rparr>
      in Inr ((oms_replace_order m r updated)\<lparr>oms_attempts := oms_attempts m @ [attempt]\<rparr>))))"

definition execution_reasons :: "SimulatedOrder \<Rightarrow> ExecutionSnapshot \<Rightarrow> string list" where
  "execution_reasons ord s = sorted_set (
     (case (sn_price s, sn_price_available_at s) of
        (Some _, Some t) \<Rightarrow> if instant (sn_execution_at s) < instant t
                              then [''PRICE_NOT_AVAILABLE_AT_EXECUTION''] else []
      | _ \<Rightarrow> [''PRICE_UNAVAILABLE''])
     @ (if sn_security_state s \<noteq> AVAILABLE then [''SECURITY_'' @ input_value (sn_security_state s)] else [])
     @ (if sn_liquidity_state s \<noteq> AVAILABLE then [''LIQUIDITY_'' @ input_value (sn_liquidity_state s)] else [])
     @ (if lacks (\<lambda>q. q \<le> 0) (sn_available_quantity s) then [''LIQUIDITY_QUANTITY_INVALID''] else [])
     @ (if instant (sn_execution_at s) \<le> instant (so_release_at ord)
        then [''EXECUTION_NOT_AFTER_RELEASE''] else [])
     @ (case sn_currency s of None \<Rightarrow> [''CURRENCY_UNKNOWN'']
        | Some c \<Rightarrow> if c \<noteq> so_currency ord then [''CURRENCY_MISMATCH''] else [])
     @ (if sn_evidence_digest s = None then [''EXECUTION_EVIDENCE_MISSING''] else []))"

definition oms_apply_fill ::
  "SimulatedOms \<Rightarrow> SimulatedFill \<Rightarrow> rat option \<Rightarrow> SimulatedOms result" where
  "oms_apply_fill m f requested_quantity =
     rbind (validate_fill_payload f) (\<lambda>_.
     case find_first (\<lambda>x. fi_fill_id x = fi_fill_id f) (oms_fills m) of
       Some existing \<Rightarrow>
         if existing = f then Inr m
         else Inl (Err SimulatedExecutionError ''fill identity conflicts with immutable history'')
     | None \<Rightarrow>
         rbind (oms_active m (fi_order_id f)) (\<lambda>r.
         raise_if (fi_instrument_id f \<noteq> so_instrument_id (rec_order r) \<or> fi_side f \<noteq> so_side (rec_order r))
           SimulatedExecutionError ''fill does not match its order''
         (raise_if (fi_currency f \<noteq> so_currency (rec_order r)) SimulatedExecutionError
           ''fill currency does not match order currency''
         (raise_if (fi_research_run_id f \<noteq> so_research_run_id (rec_order r)) SimulatedExecutionError
           ''fill research attribution does not match order''
         (raise_if (instant (fi_execution_at f) \<le> instant (so_release_at (rec_order r)))
           SimulatedExecutionError ''fill execution must be after order release''
         (let cumulative = dadd (rec_filled_quantity r) (fi_quantity f) in
          raise_if (so_quantity (rec_order r) < cumulative) SimulatedExecutionError
            ''fill would overfill order''
          (let status = (if cumulative = so_quantity (rec_order r) then FULLY_FILLED else PARTIALLY_FILLED);
               updated = r\<lparr>rec_status := status, rec_filled_quantity := cumulative, rec_reasons := []\<rparr>;
               requested = (case requested_quantity of None \<Rightarrow> fi_quantity f | Some q \<Rightarrow> q)
           in rbind (finite_positive ''requested_quantity'' True (Finite requested)) (\<lambda>_.
              raise_if (requested < fi_quantity f) SimulatedExecutionError
                ''requested quantity cannot be below fill quantity''
              (raise_if (remaining_quantity r < requested) SimulatedExecutionError
                ''requested quantity exceeds remaining quantity''
              (let attempt = \<lparr>at_order_id = fi_order_id f, at_requested_quantity = requested,
                              at_outcome = status, at_reasons = [], at_fill_id = Some (fi_fill_id f)\<rparr>
               in Inr ((oms_replace_order m r updated)
                        \<lparr>oms_fills := oms_fills m @ [f],
                         oms_attempts := oms_attempts m @ [attempt]\<rparr>)))))))))))"

text \<open>The fill \<open>execute\<close> builds once no reason stands against it.\<close>

definition execution_fill ::
  "(FillBody \<Rightarrow> 8 word list) \<Rightarrow> SimulatedOms \<Rightarrow> OrderRecord \<Rightarrow> OrderId \<Rightarrow> rat \<Rightarrow> rat \<Rightarrow> Currency \<Rightarrow>
   EvidenceContentDigest \<Rightarrow> ExecutionSnapshot \<Rightarrow> ExecutionCostModel \<Rightarrow> SimulatedFill result" where
  "execution_fill fill_digest m r i quantity price currency evidence s model =
     rbind (calculate_costs model quantity price) (\<lambda>costs.
       let body = \<lparr>fbo_cost_model_id = cm_model_id model, fbo_evidence_digest = digest_text evidence,
                   fbo_execution_at = sn_execution_at s, fbo_execution_price = price,
                   fbo_fill_sequence = length (oms_fills m) + 1, fbo_order_id = uuid_str (order_uuid i),
                   fbo_quantity = quantity\<rparr>
       in SimulatedFill_init
            \<lparr>fi_fill_id = TradeId (uuid_from_digest (fill_digest body)), fi_order_id = i,
             fi_instrument_id = so_instrument_id (rec_order r), fi_side = so_side (rec_order r),
             fi_quantity = quantity, fi_execution_price = price,
             fi_execution_at = sn_execution_at s, fi_currency = currency,
             fi_execution_evidence = evidence, fi_cost_model_id = cm_model_id model,
             fi_cost_scenario = cm_scenario model, fi_costs = costs,
             fi_research_run_id = so_research_run_id (rec_order r)\<rparr>)"

definition oms_execute ::
  "(FillBody \<Rightarrow> 8 word list) \<Rightarrow> SimulatedOms \<Rightarrow> OrderId \<Rightarrow> decimal \<Rightarrow> ExecutionSnapshot \<Rightarrow>
   ExecutionCostModel \<Rightarrow> SimulatedOms result" where
  "oms_execute fill_digest m i requested s model =
     rbind (oms_active m i) (\<lambda>r.
     rbind (finite_positive ''requested_quantity'' True requested) (\<lambda>rq.
     raise_if (remaining_quantity r < rq) SimulatedExecutionError ''requested fill would overfill order''
     (let reasons = execution_reasons (rec_order r) s in
      if reasons \<noteq> [] then
        let next_oms = (if rec_filled_quantity r = 0
              then oms_replace_order m r (r\<lparr>rec_status := UNFILLED, rec_reasons := reasons\<rparr>) else m);
            attempt = \<lparr>at_order_id = i, at_requested_quantity = rq, at_outcome = UNFILLED,
                       at_reasons = reasons, at_fill_id = None\<rparr>
        in Inr (next_oms\<lparr>oms_attempts := oms_attempts m @ [attempt]\<rparr>)
      else
        require_some (sn_available_quantity s) (\<lambda>available.
        require_some (sn_price s) (\<lambda>price.
        require_some (sn_currency s) (\<lambda>currency.
        require_some (sn_evidence_digest s) (\<lambda>evidence.
          let fill_quantity = min rq available in
          if fill_quantity \<le> 0 then oms_mark_unfilled m i ''NO_AVAILABLE_LIQUIDITY''
          else rbind (execution_fill fill_digest m r i fill_quantity price currency evidence s model)
                 (\<lambda>f. oms_apply_fill m f (Some rq)))))))))"

section \<open>Posting to the ledger\<close>

definition fill_event_prefix :: string where
  "fill_event_prefix = ''atis:simulation-ledger-event:v1:fill-''"

definition unit_amount_of :: "SimulatedFill \<Rightarrow> rat" where
  "unit_amount_of f = (let per_unit_cost = ddiv (cost_total (fi_costs f)) (fi_quantity f) in
     if fi_side f = BUY then dadd (fi_execution_price f) per_unit_cost
     else dsub (fi_execution_price f) per_unit_cost)"

definition signed_quantity :: "SimulatedFill \<Rightarrow> rat" where
  "signed_quantity f = (if fi_side f = BUY then fi_quantity f else dneg (fi_quantity f))"

definition post_fill_to_ledger :: "SimulationLedger \<Rightarrow> SimulatedFill \<Rightarrow> SimulationLedger result" where
  "post_fill_to_ledger l f =
     raise_if (fi_currency f \<noteq> lg_currency l) SimulatedExecutionError
       ''fill currency does not match ledger currency''
     (raise_if (unit_amount_of f \<le> 0) SimulatedExecutionError
       ''cost-adjusted execution price must remain positive''
     (rbind (LedgerEventId_init (fill_event_prefix @ uuid_hex (trade_uuid (fi_fill_id f)))) (\<lambda>eid.
      rbind (FinancialEvent_init
        \<lparr>ev_event_id = eid, ev_sequence = int (length (lg_events l)) + 1,
         ev_occurred_at = fi_execution_at f, ev_kind = TRADE,
         ev_research_run_id = fi_research_run_id f, ev_evidence_digest = fi_execution_evidence f,
         ev_currency = Some (fi_currency f), ev_instrument_id = Some (fi_instrument_id f),
         ev_quantity = Some (Finite (signed_quantity f)),
         ev_unit_amount = Some (Finite (unit_amount_of f)), ev_cash_delta = None,
         ev_action = None\<rparr>) (\<lambda>e. ledger_apply l e))))"

section \<open>The order-management invariant\<close>

lemma finite_positive_Inr [simp]:
  "finite_positive n pos d = Inr q \<longleftrightarrow> d = Finite q \<and> (pos \<longrightarrow> 0 < q)"
  by (auto simp: finite_positive_def split: decimal.splits)

lemma validate_cost_breakdown_Inr:
  "validate_cost_breakdown c = Inr u \<longleftrightarrow> (\<forall>v\<in>set (cost_fields c). 0 \<le> v)"
  by (auto simp: validate_cost_breakdown_def not_less)

text \<open>The quantity the fills of a history execute for one order, summed as the code sums it.\<close>

definition filled_of :: "SimulatedFill list \<Rightarrow> OrderId \<Rightarrow> rat" where
  "filled_of fs i = dsum (map fi_quantity (filter (\<lambda>f. fi_order_id f = i) fs))"

lemma filled_of_simps [simp]:
  "filled_of [] i = 0"
  "filled_of (fs @ [f]) i =
     (if fi_order_id f = i then dadd (filled_of fs i) (fi_quantity f) else filled_of fs i)"
  by (simp_all add: filled_of_def dsum_snoc)

lemma filled_of_absent: "\<forall>f\<in>set fs. fi_order_id f \<noteq> i \<Longrightarrow> filled_of fs i = 0"
  by (simp add: filled_of_def filter_empty_conv)

text \<open>What a recorded fill has in common with its order.\<close>

definition fill_matches :: "SimulatedFill \<Rightarrow> SimulatedOrder \<Rightarrow> bool" where
  "fill_matches f ord \<longleftrightarrow> fi_order_id f = so_order_id ord \<and> fi_instrument_id f = so_instrument_id ord
     \<and> fi_side f = so_side ord \<and> fi_currency f = so_currency ord
     \<and> fi_research_run_id f = so_research_run_id ord
     \<and> instant (so_release_at ord) < instant (fi_execution_at f)"

text \<open>\<open>attempts_trace ords fs as\<close>: the attempts \<open>as\<close> account for the fills \<open>fs\<close>, one by one and
  in order, each attempt within the quantity its order still had open.\<close>

inductive attempts_trace ::
  "SimulatedOrder list \<Rightarrow> SimulatedFill list \<Rightarrow> ExecutionAttempt list \<Rightarrow> bool" for ords where
  trace_nil: "attempts_trace ords [] []"
| trace_miss: "attempts_trace ords fs as \<Longrightarrow> ord \<in> set ords \<Longrightarrow> so_order_id ord = at_order_id a \<Longrightarrow>
     at_outcome a = UNFILLED \<Longrightarrow> at_fill_id a = None \<Longrightarrow> at_reasons a \<noteq> [] \<Longrightarrow>
     \<forall>x\<in>set (at_reasons a). \<not> blank x \<Longrightarrow> 0 < at_requested_quantity a \<Longrightarrow>
     at_requested_quantity a \<le> dsub (so_quantity ord) (filled_of fs (at_order_id a)) \<Longrightarrow>
     attempts_trace ords fs (as @ [a])"
| trace_fill: "attempts_trace ords fs as \<Longrightarrow> ord \<in> set ords \<Longrightarrow> so_order_id ord = at_order_id a \<Longrightarrow>
     fill_matches f ord \<Longrightarrow> validate_fill_payload f = Inr () \<Longrightarrow>
     fi_fill_id f \<notin> fi_fill_id ` set fs \<Longrightarrow> at_fill_id a = Some (fi_fill_id f) \<Longrightarrow>
     at_reasons a = [] \<Longrightarrow> fi_quantity f \<le> at_requested_quantity a \<Longrightarrow>
     at_requested_quantity a \<le> dsub (so_quantity ord) (filled_of fs (at_order_id a)) \<Longrightarrow>
     dadd (filled_of fs (at_order_id a)) (fi_quantity f) \<le> so_quantity ord \<Longrightarrow>
     at_outcome a = (if dadd (filled_of fs (at_order_id a)) (fi_quantity f) = so_quantity ord
       then FULLY_FILLED else PARTIALLY_FILLED) \<Longrightarrow>
     attempts_trace ords (fs @ [f]) (as @ [a])"

lemma attempts_trace_mono:
  "attempts_trace ords fs as \<Longrightarrow> set ords \<subseteq> set ords' \<Longrightarrow> attempts_trace ords' fs as"
proof (induction rule: attempts_trace.induct)
  case trace_nil
  show ?case by (rule attempts_trace.trace_nil)
next
  case (trace_miss fs as ord a)
  show ?case
    by (rule attempts_trace.trace_miss [of ords' fs as ord]) (use trace_miss in auto)
next
  case (trace_fill fs as ord a f)
  show ?case
    by (rule attempts_trace.trace_fill [of ords' fs as ord]) (use trace_fill in auto)
qed

lemma attempts_trace_fills:
  "attempts_trace ords fs as \<Longrightarrow> distinct (map fi_fill_id fs)
     \<and> (\<forall>f\<in>set fs. validate_fill_payload f = Inr () \<and> (\<exists>ord\<in>set ords. fill_matches f ord))"
  by (induction rule: attempts_trace.induct) auto

definition record_ok :: "SimulatedFill list \<Rightarrow> OrderRecord \<Rightarrow> bool" where
  "record_ok fs r \<longleftrightarrow> 0 < so_quantity (rec_order r)
     \<and> rec_filled_quantity r = filled_of fs (rec_order_id r)
     \<and> 0 \<le> rec_filled_quantity r \<and> rec_filled_quantity r \<le> so_quantity (rec_order r)
     \<and> (if rec_filled_quantity r = 0 then rec_status r \<in> {ACCEPTED, REJECTED, CANCELLED, UNFILLED}
        else if rec_filled_quantity r = so_quantity (rec_order r) then rec_status r = FULLY_FILLED
        else rec_status r \<in> {PARTIALLY_FILLED, CANCELLED})"

definition oms_ok :: "SimulatedOms \<Rightarrow> bool" where
  "oms_ok m \<longleftrightarrow> distinct (map rec_order_id (oms_orders m))
     \<and> (\<forall>r\<in>set (oms_orders m). record_ok (oms_fills m) r)
     \<and> attempts_trace (map rec_order (oms_orders m)) (oms_fills m) (oms_attempts m)
     \<and> oms_authority m = SIMULATED_EXECUTION_AUTHORITY"

lemma oms_ok_empty: "oms_ok oms_empty"
  by (simp add: oms_ok_def oms_empty_def attempts_trace.trace_nil)

lemma oms_active_Inr:
  "oms_active m i = Inr r \<Longrightarrow> r \<in> set (oms_orders m) \<and> rec_order_id r = i \<and> rec_status r \<notin> TERMINAL_STATUS"
  by (auto simp: oms_active_def oms_order_def dest: find_first_SomeD split: option.splits)

text \<open>Replacing an order's record leaves the immutable orders alone.\<close>

lemma map_rec_order_replace:
  assumes "distinct (map rec_order_id rs)" and "r \<in> set rs" and "rec_order r' = rec_order r"
  shows "map rec_order (replace_first (\<lambda>x. rec_order_id x = rec_order_id r) r' rs) = map rec_order rs"
  using assms by (induction rs) (auto simp: rev_image_eqI)

lemma record_replaced:
  assumes "distinct (map rec_order_id rs)" and "r \<in> set rs" and "rec_order r' = rec_order r"
    and "\<forall>x\<in>set rs. rec_order_id x \<noteq> rec_order_id r \<longrightarrow> record_ok fs x" and "record_ok fs r'"
  shows "\<forall>x\<in>set (replace_first (\<lambda>x. rec_order_id x = rec_order_id r) r' rs). record_ok fs x"
  using set_replace_first [of rec_order_id rs r' "rec_order_id r"] assms by auto

lemma oms_ok_replace:
  assumes ok: "oms_ok m" and r: "r \<in> set (oms_orders m)" and same: "rec_order r' = rec_order r"
    and rec: "record_ok fs r'"
    and others: "\<And>x. x \<in> set (oms_orders m) \<Longrightarrow> rec_order_id x \<noteq> rec_order_id r \<Longrightarrow> record_ok fs x"
    and trace: "attempts_trace (map rec_order (oms_orders m)) fs as"
  shows "oms_ok ((oms_replace_order m r r')\<lparr>oms_fills := fs, oms_attempts := as\<rparr>)"
  using assms map_rec_order_replace [of "oms_orders m" r r']
    record_replaced [of "oms_orders m" r r' fs]
    replace_first_map [of rec_order_id r' "rec_order_id r" "oms_orders m"]
  by (auto simp: oms_ok_def oms_replace_order_def)

lemma oms_submit_ok:
  assumes ok: "oms_ok m" and pos: "0 < so_quantity ord" and run: "oms_submit m ord = Inr m'"
  shows "oms_ok m'"
proof (cases "oms_order m (so_order_id ord)")
  case (Some r)
  with run ok show ?thesis by (auto simp: oms_submit_def split: if_splits)
next
  case None
  then have new: "\<forall>r\<in>set (oms_orders m). rec_order_id r \<noteq> so_order_id ord"
    by (simp add: oms_order_def find_first_None)
  from run None obtain rs st where m': "m' = m\<lparr>oms_orders := oms_orders m
      @ [\<lparr>rec_order = ord, rec_status = st, rec_filled_quantity = 0, rec_reasons = rs\<rparr>]\<rparr>"
    and st: "st \<in> {REJECTED, ACCEPTED}"
    by (auto simp: oms_submit_def Let_def)
  have tr: "attempts_trace (map rec_order (oms_orders m)) (oms_fills m) (oms_attempts m)"
    using ok by (simp add: oms_ok_def)
  have "filled_of (oms_fills m) (so_order_id ord) = 0"
    using attempts_trace_fills [OF tr] new by (intro filled_of_absent) (auto simp: fill_matches_def)
  with pos st have "record_ok (oms_fills m)
      \<lparr>rec_order = ord, rec_status = st, rec_filled_quantity = 0, rec_reasons = rs\<rparr>"
    by (auto simp: record_ok_def)
  moreover have "attempts_trace (map rec_order (oms_orders m) @ [ord]) (oms_fills m) (oms_attempts m)"
    by (rule attempts_trace_mono [OF tr]) auto
  ultimately show ?thesis using ok new by (auto simp: oms_ok_def m')
qed

lemma not_terminal: "st \<notin> TERMINAL_STATUS \<longleftrightarrow> st \<in> {ACCEPTED, PARTIALLY_FILLED}"
  by (cases st) (auto simp: TERMINAL_STATUS_def)

lemma oms_cancel_ok:
  assumes ok: "oms_ok m" and run: "oms_cancel m i = Inr m'"
  shows "oms_ok m'"
proof -
  from run obtain r where act: "oms_active m i = Inr r"
    and m': "m' = oms_replace_order m r (r\<lparr>rec_status := CANCELLED\<rparr>)"
    by (auto simp: oms_cancel_def)
  note r = oms_active_Inr [OF act]
  then have "record_ok (oms_fills m) r" using ok by (simp add: oms_ok_def)
  then have "record_ok (oms_fills m) (r\<lparr>rec_status := CANCELLED\<rparr>)"
    using r by (auto simp: record_ok_def not_terminal split: if_splits)
  from oms_ok_replace [OF ok _ _ this, of r "oms_attempts m"] ok r show ?thesis
    by (simp add: m' oms_ok_def oms_replace_order_def)
qed

text \<open>An attempt without a fill, on a record that has none.\<close>

lemma oms_unfilled_ok:
  assumes ok: "oms_ok m" and act: "oms_active m i = Inr r" and q: "0 < q" "q \<le> remaining_quantity r"
    and xs: "xs \<noteq> []" "\<forall>x\<in>set xs. \<not> blank x"
    and a: "a = \<lparr>at_order_id = i, at_requested_quantity = q, at_outcome = UNFILLED,
      at_reasons = xs, at_fill_id = None\<rparr>"
  shows "oms_ok (m\<lparr>oms_attempts := oms_attempts m @ [a]\<rparr>)"
    and "rec_filled_quantity r = 0 \<Longrightarrow>
      oms_ok ((oms_replace_order m r (r\<lparr>rec_status := UNFILLED, rec_reasons := xs\<rparr>))
        \<lparr>oms_attempts := oms_attempts m @ [a]\<rparr>)"
proof -
  note r = oms_active_Inr [OF act]
  with ok have rok: "record_ok (oms_fills m) r" by (simp add: oms_ok_def)
  have tr: "attempts_trace (map rec_order (oms_orders m)) (oms_fills m) (oms_attempts m @ [a])"
    by (rule attempts_trace.trace_miss [of _ _ _ "rec_order r"])
       (use ok r q xs rok in \<open>auto simp: a oms_ok_def remaining_quantity_def record_ok_def\<close>)
  show "oms_ok (m\<lparr>oms_attempts := oms_attempts m @ [a]\<rparr>)"
    using ok tr by (simp add: oms_ok_def)
  assume "rec_filled_quantity r = 0"
  with rok have "record_ok (oms_fills m) (r\<lparr>rec_status := UNFILLED, rec_reasons := xs\<rparr>)"
    by (simp add: record_ok_def)
  from oms_ok_replace [OF ok _ _ this _ tr, of r] ok r
  show "oms_ok ((oms_replace_order m r (r\<lparr>rec_status := UNFILLED, rec_reasons := xs\<rparr>))
        \<lparr>oms_attempts := oms_attempts m @ [a]\<rparr>)"
    by (simp add: oms_ok_def oms_replace_order_def)
qed

lemma oms_mark_unfilled_ok:
  assumes ok: "oms_ok m" and run: "oms_mark_unfilled m i reason = Inr m'"
  shows "oms_ok m'"
proof -
  from run obtain r where act: "oms_active m i = Inr r" and reason: "\<not> blank reason"
    and none: "rec_filled_quantity r = 0"
    and m': "m' = (oms_replace_order m r (r\<lparr>rec_status := UNFILLED, rec_reasons := [reason]\<rparr>))
      \<lparr>oms_attempts := oms_attempts m @ [\<lparr>at_order_id = i, at_requested_quantity = remaining_quantity r,
         at_outcome = UNFILLED, at_reasons = [reason], at_fill_id = None\<rparr>]\<rparr>"
    by (auto simp: oms_mark_unfilled_def Let_def)
  have "0 < so_quantity (rec_order r)"
    using ok oms_active_Inr [OF act] by (auto simp: oms_ok_def record_ok_def)
  then have "0 < remaining_quantity r" by (simp add: remaining_quantity_def none dsub_def)
  from oms_unfilled_ok(2) [OF ok act this order_refl, of "[reason]"] reason none
  show ?thesis by (simp add: m')
qed

lemma execution_reason_text: "x \<in> set (execution_reasons ord s) \<Longrightarrow> \<not> blank x"
proof -
  have "\<forall>x\<in>set (execution_reasons ord s). CHR ''I'' \<in> set x \<or> CHR ''E'' \<in> set x"
    unfolding execution_reasons_def sorted_set_props set_append ball_Un
    by (intro conjI) (simp split: option.split | simp)+
  moreover assume "x \<in> set (execution_reasons ord s)"
  ultimately show ?thesis by (force simp: blank_iff is_space_def)
qed

text \<open>The record, the attempt and the system after a fill is recorded.\<close>

definition filled_record :: "OrderRecord \<Rightarrow> SimulatedFill \<Rightarrow> OrderRecord" where
  "filled_record r f = (let cum = dadd (rec_filled_quantity r) (fi_quantity f) in
     r\<lparr>rec_status := (if cum = so_quantity (rec_order r) then FULLY_FILLED else PARTIALLY_FILLED),
       rec_filled_quantity := cum, rec_reasons := []\<rparr>)"

definition fill_recorded :: "SimulatedOms \<Rightarrow> OrderRecord \<Rightarrow> SimulatedFill \<Rightarrow> rat \<Rightarrow> SimulatedOms" where
  "fill_recorded m r f q = (oms_replace_order m r (filled_record r f))
     \<lparr>oms_fills := oms_fills m @ [f],
      oms_attempts := oms_attempts m @ [\<lparr>at_order_id = fi_order_id f, at_requested_quantity = q,
        at_outcome = rec_status (filled_record r f), at_reasons = [],
        at_fill_id = Some (fi_fill_id f)\<rparr>]\<rparr>"

definition fill_allowed :: "SimulatedOms \<Rightarrow> OrderRecord \<Rightarrow> SimulatedFill \<Rightarrow> rat \<Rightarrow> bool" where
  "fill_allowed m r f q \<longleftrightarrow> validate_fill_payload f = Inr ()
     \<and> fi_fill_id f \<notin> fi_fill_id ` set (oms_fills m)
     \<and> oms_active m (fi_order_id f) = Inr r \<and> fill_matches f (rec_order r)
     \<and> dadd (rec_filled_quantity r) (fi_quantity f) \<le> so_quantity (rec_order r)
     \<and> fi_quantity f \<le> q \<and> q \<le> remaining_quantity r"

lemma fill_recorded_history:
  "oms_fills (fill_recorded m r f q) = oms_fills m @ [f]"
  "oms_attempts (fill_recorded m r f q) = oms_attempts m @ [\<lparr>at_order_id = fi_order_id f,
     at_requested_quantity = q, at_outcome = rec_status (filled_record r f), at_reasons = [],
     at_fill_id = Some (fi_fill_id f)\<rparr>]"
  by (simp_all add: fill_recorded_def)

lemma oms_apply_fill_cases:
  assumes "oms_apply_fill m f req = Inr m'"
  shows "(m' = m \<and> f \<in> set (oms_fills m)) \<or>
    (\<exists>r q. fill_allowed m r f q \<and> q = (case req of None \<Rightarrow> fi_quantity f | Some q \<Rightarrow> q)
       \<and> m' = fill_recorded m r f q)"
proof (cases "find_first (\<lambda>x. fi_fill_id x = fi_fill_id f) (oms_fills m)")
  case (Some x)
  with assms find_first_SomeD [OF Some] show ?thesis
    by (auto simp: oms_apply_fill_def split: if_splits)
next
  case None
  then have "fi_fill_id f \<notin> fi_fill_id ` set (oms_fills m)" by (auto simp: find_first_None)
  moreover from assms None obtain r where "oms_active m (fi_order_id f) = Inr r"
    by (auto simp: oms_apply_fill_def)
  ultimately show ?thesis using assms None oms_active_Inr [of m "fi_order_id f" r]
    by (intro disjI2 exI [of _ r] exI [of _ "case req of None \<Rightarrow> fi_quantity f | Some q \<Rightarrow> q"])
       (auto simp: oms_apply_fill_def fill_matches_def fill_allowed_def fill_recorded_def
         filled_record_def Let_def not_less not_le)
qed

lemma fill_recorded_ok:
  assumes ok: "oms_ok m" and allowed: "fill_allowed m r f q"
  shows "oms_ok (fill_recorded m r f q)"
proof -
  have act: "oms_active m (fi_order_id f) = Inr r" using allowed by (simp add: fill_allowed_def)
  note r = oms_active_Inr [OF act]
  with ok have rok: "record_ok (oms_fills m) r" by (simp add: oms_ok_def)
  have pos: "0 < fi_quantity f"
    using allowed by (simp add: fill_allowed_def validate_fill_payload_def)
  have tr: "attempts_trace (map rec_order (oms_orders m)) (oms_fills m @ [f])
      (oms_attempts (fill_recorded m r f q))"
    unfolding fill_recorded_history
    by (rule attempts_trace.trace_fill [of _ _ _ "rec_order r"])
       (use ok r rok allowed in \<open>auto simp: oms_ok_def remaining_quantity_def record_ok_def
         fill_allowed_def filled_record_def Let_def\<close>)
  have "0 < dadd (rec_filled_quantity r) (fi_quantity f)"
    using pos rok by (simp add: dadd_def record_ok_def)
  then have "record_ok (oms_fills m @ [f]) (filled_record r f)"
    using rok r allowed by (auto simp: record_ok_def filled_record_def fill_allowed_def Let_def)
  moreover have "record_ok (oms_fills m @ [f]) x"
    if "x \<in> set (oms_orders m)" "rec_order_id x \<noteq> rec_order_id r" for x
    using that ok r by (auto simp: oms_ok_def record_ok_def)
  moreover have "rec_order (filled_record r f) = rec_order r"
    by (simp add: filled_record_def Let_def)
  ultimately have "oms_ok ((oms_replace_order m r (filled_record r f))
      \<lparr>oms_fills := oms_fills m @ [f], oms_attempts := oms_attempts (fill_recorded m r f q)\<rparr>)"
    using r by (intro oms_ok_replace [OF ok _ _ _ _ tr]) auto
  then show ?thesis by (simp add: fill_recorded_def)
qed

lemma oms_apply_fill_ok:
  assumes "oms_ok m" and "oms_apply_fill m f req = Inr m'"
  shows "oms_ok m'"
  using oms_apply_fill_cases [OF assms(2)] fill_recorded_ok [OF assms(1)] assms(1) by blast

interpretation oms_log: append_log "\<lambda>m f. oms_apply_fill m f None" oms_fills fi_fill_id
proof
  show "(m' = m \<and> f \<in> set (oms_fills m)) \<or>
      (oms_fills m' = oms_fills m @ [f] \<and> fi_fill_id f \<notin> fi_fill_id ` set (oms_fills m))"
    if "oms_apply_fill m f None = Inr m'" for m f m'
    using oms_apply_fill_cases [OF that] by (auto simp: fill_allowed_def fill_recorded_def)
  show "oms_apply_fill m f None = Inr m" if "f \<in> set (oms_fills m)"
    "distinct (map fi_fill_id (oms_fills m))" "\<exists>r. oms_apply_fill m f None = Inr r" for m f
    using that find_first_key [of fi_fill_id "oms_fills m" f] by (auto simp: oms_apply_fill_def)
qed

lemma oms_execute_cases:
  assumes "oms_execute dg m i req s model = Inr m'"
  obtains (unfilled) r rq where "oms_active m i = Inr r" "req = Finite rq" "0 < rq"
      "rq \<le> remaining_quantity r" "execution_reasons (rec_order r) s \<noteq> []"
      "m' = (if rec_filled_quantity r = 0
          then oms_replace_order m r
            (r\<lparr>rec_status := UNFILLED, rec_reasons := execution_reasons (rec_order r) s\<rparr>) else m)
        \<lparr>oms_attempts := oms_attempts m @ [\<lparr>at_order_id = i, at_requested_quantity = rq,
          at_outcome = UNFILLED, at_reasons = execution_reasons (rec_order r) s,
          at_fill_id = None\<rparr>]\<rparr>"
    | (marked) "oms_mark_unfilled m i ''NO_AVAILABLE_LIQUIDITY'' = Inr m'"
    | (fill) r rq av price cur evd f where "oms_active m i = Inr r" "req = Finite rq" "0 < rq"
      "rq \<le> remaining_quantity r" "execution_reasons (rec_order r) s = []"
      "sn_available_quantity s = Some av" "sn_price s = Some price" "0 < min rq av"
      "execution_fill dg m r i (min rq av) price cur evd s model = Inr f"
      "oms_apply_fill m f (Some rq) = Inr m'"
proof -
  from assms obtain r rq where act: "oms_active m i = Inr r" "req = Finite rq" "0 < rq"
      "rq \<le> remaining_quantity r"
    by (auto simp: oms_execute_def not_less)
  show ?thesis
  proof (cases "execution_reasons (rec_order r) s = []")
    case False
    with assms act show ?thesis by (intro unfilled) (auto simp: oms_execute_def Let_def)
  next
    case True
    with assms act obtain av price cur evd where opts: "sn_available_quantity s = Some av"
        "sn_price s = Some price" and rest:
        "(if min rq av \<le> 0 then oms_mark_unfilled m i ''NO_AVAILABLE_LIQUIDITY''
          else rbind (execution_fill dg m r i (min rq av) price cur evd s model)
                 (\<lambda>f. oms_apply_fill m f (Some rq))) = Inr m'"
      by (auto simp: oms_execute_def Let_def)
    show ?thesis
    proof (cases "min rq av \<le> 0")
      case True
      with rest show ?thesis by (intro marked) simp
    next
      case False
      with rest obtain f where "execution_fill dg m r i (min rq av) price cur evd s model = Inr f"
          "oms_apply_fill m f (Some rq) = Inr m'"
        by auto
      with act opts True False show ?thesis by (intro fill) auto
    qed
  qed
qed

lemma oms_execute_ok:
  assumes ok: "oms_ok m" and run: "oms_execute dg m i req s model = Inr m'"
  shows "oms_ok m'"
  using run
proof (cases rule: oms_execute_cases)
  case (unfilled r rq)
  then show ?thesis
    using oms_unfilled_ok [OF ok unfilled(1,3,4,5) _ refl] execution_reason_text by simp
next
  case marked
  with ok show ?thesis by (rule oms_mark_unfilled_ok)
next
  case fill
  then show ?thesis using oms_apply_fill_ok [OF ok] by blast
qed

section \<open>Reachable systems\<close>

inductive oms_step :: "SimulatedOms \<Rightarrow> SimulatedOms \<Rightarrow> bool" where
  step_submit: "SimulatedOrder_init ord = Inr ord \<Longrightarrow> oms_submit m ord = Inr m' \<Longrightarrow> oms_step m m'"
| step_cancel: "oms_cancel m i = Inr m' \<Longrightarrow> oms_step m m'"
| step_unfilled: "oms_mark_unfilled m i reason = Inr m' \<Longrightarrow> oms_step m m'"
| step_execute: "oms_execute dg m i req s model = Inr m' \<Longrightarrow> oms_step m m'"
| step_fill: "oms_apply_fill m f req = Inr m' \<Longrightarrow> oms_step m m'"

inductive oms_reach :: "SimulatedOms \<Rightarrow> bool" where
  reach_empty: "oms_reach oms_empty"
| reach_step: "oms_reach m \<Longrightarrow> oms_step m m' \<Longrightarrow> oms_reach m'"

lemma oms_step_ok: "oms_step m m' \<Longrightarrow> oms_ok m \<Longrightarrow> oms_ok m'"
proof (induction rule: oms_step.induct)
  case (step_submit ord m m')
  then have "0 < so_quantity ord" by (simp add: SimulatedOrder_init_def)
  with step_submit show ?case using oms_submit_ok by blast
qed (auto intro: oms_cancel_ok oms_mark_unfilled_ok oms_execute_ok oms_apply_fill_ok)

lemma oms_reach_ok: "oms_reach m \<Longrightarrow> oms_ok m"
  by (induction rule: oms_reach.induct) (auto intro: oms_ok_empty oms_step_ok)

text \<open>Every step either appends admitted or rejected orders and attempts (\<open>oms_extend\<close>), or rewrites the record of
  one active order and extends the histories of fills and attempts (\<open>oms_touch\<close>).\<close>

definition admitted :: "OrderRecord \<Rightarrow> bool" where
  "admitted r \<longleftrightarrow> rec_status r = REJECTED
     \<or> (so_eligibility_state (rec_order r) = ELIGIBLE \<and> so_eligibility_reasons (rec_order r) = []
        \<and> instant (so_decision_time (rec_order r)) < instant (so_release_at (rec_order r)))"

definition oms_extend :: "SimulatedOms \<Rightarrow> SimulatedOms \<Rightarrow> bool" where
  "oms_extend m m' \<longleftrightarrow> (\<exists>rs as. oms_orders m' = oms_orders m @ rs \<and> (\<forall>r\<in>set rs. admitted r)
     \<and> oms_fills m' = oms_fills m \<and> oms_attempts m' = oms_attempts m @ as)"

definition oms_touch :: "SimulatedOms \<Rightarrow> SimulatedOms \<Rightarrow> bool" where
  "oms_touch m m' \<longleftrightarrow> (\<exists>i r r' fs as. oms_active m i = Inr r \<and> rec_order r' = rec_order r
     \<and> oms_orders m' = replace_first (\<lambda>x. rec_order_id x = rec_order_id r) r' (oms_orders m)
     \<and> (\<forall>f\<in>set fs. fi_order_id f = rec_order_id r)
     \<and> oms_fills m' = oms_fills m @ fs \<and> oms_attempts m' = oms_attempts m @ as)"

lemma oms_touchI:
  "oms_active m i = Inr r \<Longrightarrow> rec_order r' = rec_order r \<Longrightarrow>
   oms_orders m' = oms_orders (oms_replace_order m r r') \<Longrightarrow> oms_fills m' = oms_fills m @ fs \<Longrightarrow>
   \<forall>f\<in>set fs. fi_order_id f = rec_order_id r \<Longrightarrow> oms_attempts m' = oms_attempts m @ as \<Longrightarrow> oms_touch m m'"
  by (auto simp: oms_touch_def oms_replace_order_def)

lemma oms_mark_unfilled_touch:
  assumes "oms_mark_unfilled m i reason = Inr m'"
  shows "oms_touch m m'"
proof -
  from assms obtain r a where "oms_active m i = Inr r" and
    "m' = (oms_replace_order m r (r\<lparr>rec_status := UNFILLED, rec_reasons := [reason]\<rparr>))
      \<lparr>oms_attempts := oms_attempts m @ [a]\<rparr>"
    by (auto simp: oms_mark_unfilled_def Let_def)
  then show ?thesis
    using oms_touchI [of m i r "r\<lparr>rec_status := UNFILLED, rec_reasons := [reason]\<rparr>" m' "[]" "[a]"]
    by (simp add: oms_replace_order_def)
qed

lemma oms_apply_fill_touch:
  assumes "oms_apply_fill m f q = Inr m'"
  shows "m' = m \<or> oms_touch m m'"
  using oms_apply_fill_cases [OF assms]
proof
  assume "\<exists>r q'. fill_allowed m r f q' \<and> q' = (case q of None \<Rightarrow> fi_quantity f | Some q \<Rightarrow> q)
       \<and> m' = fill_recorded m r f q'"
  then obtain r q' where "oms_active m (fi_order_id f) = Inr r" and m': "m' = fill_recorded m r f q'"
    by (auto simp: fill_allowed_def)
  then show ?thesis
    using oms_active_Inr [of m "fi_order_id f" r]
    by (intro disjI2 oms_touchI [of m _ r "filled_record r f"])
       (auto simp: fill_recorded_history, simp_all add: fill_recorded_def filled_record_def Let_def)
qed simp

lemma oms_step_shape:
  assumes "oms_step m m'"
  shows "oms_extend m m' \<or> oms_touch m m'"
  using assms
proof (cases rule: oms_step.cases)
  case (step_submit ord)
  then show ?thesis
    by (auto simp: oms_submit_def oms_extend_def admitted_def Let_def not_le
        split: option.splits if_splits)
next
  case (step_cancel i)
  then obtain r where "oms_active m i = Inr r"
    and "m' = oms_replace_order m r (r\<lparr>rec_status := CANCELLED\<rparr>)"
    by (auto simp: oms_cancel_def)
  then show ?thesis
    using oms_touchI [of m i r "r\<lparr>rec_status := CANCELLED\<rparr>" m' "[]" "[]"]
    by (simp add: oms_replace_order_def)
next
  case (step_unfilled i reason)
  then show ?thesis using oms_mark_unfilled_touch by blast
next
  case (step_fill f req)
  then show ?thesis using oms_apply_fill_touch [of m f req m'] by (auto simp: oms_extend_def)
next
  case (step_execute dg i req s model)
  then show ?thesis
  proof (cases rule: oms_execute_cases)
    case (unfilled r rq)
    then show ?thesis
      using oms_touchI [of m i r
        "r\<lparr>rec_status := UNFILLED, rec_reasons := execution_reasons (rec_order r) s\<rparr>" m' "[]"]
      by (auto simp: oms_extend_def oms_replace_order_def)
  next
    case (fill r rq av price cur evd f)
    then show ?thesis using oms_apply_fill_touch [of m f "Some rq" m'] by (auto simp: oms_extend_def)
  qed (use oms_mark_unfilled_touch in blast)
qed

lemma oms_step_history:
  assumes "oms_step m m'" and "oms_ok m"
  shows "prefix (oms_fills m) (oms_fills m') \<and> prefix (oms_attempts m) (oms_attempts m')
    \<and> prefix (map rec_order (oms_orders m)) (map rec_order (oms_orders m'))"
  using oms_step_shape [OF assms(1)] assms(2)
  by (auto simp: oms_extend_def oms_touch_def oms_ok_def map_rec_order_replace dest!: oms_active_Inr)

lemma oms_step_terminal:
  assumes step: "oms_step m m'" and ok: "oms_ok m" and r: "r \<in> set (oms_orders m)"
    and fin: "rec_status r \<in> TERMINAL_STATUS"
  shows "r \<in> set (oms_orders m') \<and>
    filter (\<lambda>f. fi_order_id f = rec_order_id r) (oms_fills m') =
    filter (\<lambda>f. fi_order_id f = rec_order_id r) (oms_fills m)"
  using oms_step_shape [OF step]
proof
  assume "oms_touch m m'"
  then obtain i r0 r' fs where act: "oms_active m i = Inr r0" and same: "rec_order r' = rec_order r0"
    and m': "oms_orders m' = replace_first (\<lambda>x. rec_order_id x = rec_order_id r0) r' (oms_orders m)"
    and fs: "oms_fills m' = oms_fills m @ fs" "\<forall>f\<in>set fs. fi_order_id f = rec_order_id r0"
    by (auto simp: oms_touch_def)
  note r0 = oms_active_Inr [OF act]
  have d: "distinct (map rec_order_id (oms_orders m))" using ok by (simp add: oms_ok_def)
  then have ne: "rec_order_id r \<noteq> rec_order_id r0"
    using r r0 fin by (metis (no_types, lifting) distinct_map inj_onD)
  moreover have "rec_order_id r0 \<in> set (map rec_order_id (oms_orders m))" using r0 by auto
  ultimately have "r \<in> set (oms_orders m')"
    using r m' set_replace_first [OF d, of r' "rec_order_id r0"] same by simp
  moreover have "filter (\<lambda>f. fi_order_id f = rec_order_id r) fs = []"
    using fs(2) ne by (simp add: filter_empty_conv)
  ultimately show ?thesis using fs(1) by simp
qed (use r in \<open>auto simp: oms_extend_def\<close>)

text \<open>Only an order that is not rejected is ever rewritten, so every record that is not rejected
  belongs to an eligible order released after its decision.\<close>

lemma oms_step_admitted:
  assumes step: "oms_step m m'" and adm: "\<forall>r\<in>set (oms_orders m). admitted r"
  shows "\<forall>r\<in>set (oms_orders m'). admitted r"
  using oms_step_shape [OF step]
proof
  assume "oms_touch m m'"
  then obtain i r0 r' where act: "oms_active m i = Inr r0" and same: "rec_order r' = rec_order r0"
    and m': "oms_orders m' = replace_first (\<lambda>x. rec_order_id x = rec_order_id r0) r' (oms_orders m)"
    by (auto simp: oms_touch_def)
  note r0 = oms_active_Inr [OF act]
  have "admitted r'"
    using r0 adm same by (auto simp: admitted_def TERMINAL_STATUS_def)
  moreover have "set (oms_orders m') \<subseteq> insert r' (set (oms_orders m))"
    unfolding m' by (rule set_replace_first_subset)
  ultimately show ?thesis using adm by blast
qed (use adm in \<open>auto simp: oms_extend_def\<close>)

lemma oms_reach_admitted: "oms_reach m \<Longrightarrow> r \<in> set (oms_orders m) \<Longrightarrow> admitted r"
proof (induction arbitrary: r rule: oms_reach.induct)
  case (reach_step m m')
  then show ?case using oms_step_admitted [of m m'] by blast
qed (simp add: oms_empty_def)

text \<open>An order with a fill has executed a positive quantity, so it was not rejected.\<close>

lemma filled_order_admitted:
  assumes reach: "oms_reach m" and f: "f \<in> set (oms_fills m)"
  obtains r where "r \<in> set (oms_orders m)" "fill_matches f (rec_order r)" "admitted r"
    "rec_status r \<noteq> REJECTED"
proof -
  have ok: "oms_ok m" using reach by (rule oms_reach_ok)
  then have fills: "\<forall>x\<in>set (oms_fills m). validate_fill_payload x = Inr ()
      \<and> (\<exists>ord\<in>set (map rec_order (oms_orders m)). fill_matches x ord)"
    unfolding oms_ok_def by (metis attempts_trace_fills)
  then obtain r where r: "r \<in> set (oms_orders m)" "fill_matches f (rec_order r)" using f by auto
  have "0 < filled_of (oms_fills m) (rec_order_id r)"
    unfolding filled_of_def using f r fills
    by (subst dsum_pos_iff) (auto simp: fill_matches_def validate_fill_payload_def filter_empty_conv)
  then have "rec_status r \<noteq> REJECTED"
    using ok r(1) by (auto simp: oms_ok_def record_ok_def split: if_splits)
  with r oms_reach_admitted [OF reach r(1)] show ?thesis by (rule that)
qed

inductive oms_run :: "SimulatedOms \<Rightarrow> SimulatedOms \<Rightarrow> bool" for m where
  run_refl: "oms_run m m"
| run_step: "oms_run m m' \<Longrightarrow> oms_step m' m'' \<Longrightarrow> oms_run m m''"

lemma oms_run_reach: "oms_run m m' \<Longrightarrow> oms_reach m \<Longrightarrow> oms_reach m'"
  by (induction rule: oms_run.induct) (auto intro: oms_reach.reach_step)

section \<open>Costs and posting\<close>

lemma component_cost_Inr:
  assumes "component_cost rates n c = Inr v"
  shows "\<exists>r\<in>set rates. cr_component r = c \<and> v = ddiv (dmul n (cr_basis_points r)) 10000"
  using assms set_dict_of_subset [of cr_component rates]
  by (auto simp: component_cost_def dest!: dict_get_SomeD split: option.splits)

lemma component_cost_exists:
  assumes "c \<in> cr_component ` set rates"
  shows "\<exists>v. component_cost rates n c = Inr v"
proof -
  have "cr_component ` set rates = cr_component ` set (dict_of cr_component rates)"
    by (rule dict_of_keys [symmetric])
  with assms have "dict_get cr_component (dict_of cr_component rates) c \<noteq> None"
    by (auto simp: dict_get_None)
  then show ?thesis by (auto simp: component_cost_def)
qed

definition valid_cost_model :: "ExecutionCostModel \<Rightarrow> bool" where
  "valid_cost_model m \<longleftrightarrow> (\<forall>r\<in>set (cm_rates m). 0 \<le> cr_basis_points r) \<and>
     ExecutionCostModel_init (cm_model_id m) (cm_scenario m) (cm_rates m) (cm_diagnostic_only m) = Inr m"

lemma component_cost_sign:
  assumes "component_cost (cm_rates m) n c = Inr v" and "valid_cost_model m" and "0 < n"
  shows "0 \<le> v" and "cm_scenario m = EC0 \<Longrightarrow> v = 0"
  using component_cost_Inr [OF assms(1)] assms(2,3)
  by (auto simp: valid_cost_model_def dec_ops ExecutionCostModel_init_def Let_def)

lemma cost_total_nonneg: "validate_cost_breakdown c = Inr u \<Longrightarrow> 0 \<le> cost_total c"
  by (simp add: validate_cost_breakdown_Inr cost_fields_def cost_total_def)

lemma calculate_costs_total:
  assumes m: "valid_cost_model m" and q: "0 < q" and p: "0 < p"
  shows "\<exists>c. calculate_costs m q p = Inr c \<and> validate_cost_breakdown c = Inr ()
    \<and> (cm_scenario m = EC0 \<longrightarrow> cost_total c = 0)"
proof -
  define n where "n = dmul q p"
  have n: "0 < n" using q p by (simp add: n_def dmul_def)
  have "\<exists>v. component_cost (cm_rates m) n c = Inr v" for c
    using m by (intro component_cost_exists)
      (cases c; auto simp: valid_cost_model_def ExecutionCostModel_init_def all_components_def Let_def)
  then obtain v where v: "component_cost (cm_rates m) n c = Inr (v c)" for c by metis
  note sign = component_cost_sign [OF v m n]
  then show ?thesis
    using q p by (auto simp: calculate_costs_def n_def [symmetric] v validate_cost_breakdown_Inr
      cost_fields_def cost_total_def sign Let_def)
qed

lemma fill_event_id: "LedgerEventId_init (fill_event_prefix @ uuid_hex u) =
    Inr (LedgerEventId (fill_event_prefix @ uuid_hex u))"
proof -
  have "list_all name_char (uuid_hex u)"
    unfolding uuid_hex_def list_all_iff
    by (auto dest!: set_hex_fixed simp: name_char_def ascii_alnum_def in_range_def)
  then show ?thesis
    by (simp add: LedgerEventId_init_def prefixed_name_def fill_event_prefix_def event_prefix_def
        name_char_def ascii_alnum_def in_range_def)
qed

definition fill_event :: "SimulationLedger \<Rightarrow> SimulatedFill \<Rightarrow> FinancialEvent" where
  "fill_event l f = \<lparr>ev_event_id = LedgerEventId (fill_event_prefix @ uuid_hex (trade_uuid (fi_fill_id f))),
     ev_sequence = int (length (lg_events l)) + 1,
     ev_occurred_at = fi_execution_at f, ev_kind = TRADE,
     ev_research_run_id = fi_research_run_id f, ev_evidence_digest = fi_execution_evidence f,
     ev_currency = Some (fi_currency f), ev_instrument_id = Some (fi_instrument_id f),
     ev_quantity = Some (signed_quantity f), ev_unit_amount = Some (unit_amount_of f),
     ev_cash_delta = None, ev_action = None\<rparr>"

lemma post_fill_Inr:
  "post_fill_to_ledger l f = Inr l' \<longleftrightarrow> fi_currency f = lg_currency l \<and> 0 < unit_amount_of f
     \<and> event_wf (fill_event l f) \<and> ledger_apply l (fill_event l f) = Inr l'"
  by (auto simp: post_fill_to_ledger_def fill_event_id FinancialEvent_init_def finite_field_def
      fill_event_def event_wf_def not_le Let_def)

lemma fill_event_fresh: "ledger_ok l \<Longrightarrow> fill_event l f \<notin> set (lg_events l)"
proof
  assume "ledger_ok l" and "fill_event l f \<in> set (lg_events l)"
  then have "int (length (lg_events l)) + 1 \<in> set (map ev_sequence (lg_events l))"
    by (force simp: fill_event_def)
  with \<open>ledger_ok l\<close> show False by (auto simp: ledger_ok_def)
qed

lemma post_fill_appends:
  assumes "ledger_ok l" and "post_fill_to_ledger l f = Inr l'"
  shows "lg_events l' = lg_events l @ [fill_event l f]"
  using assms fill_event_fresh [of l f] ledger_apply_cases [of l "fill_event l f" l']
  by (auto simp: post_fill_Inr)

lemma unit_amount_side:
  assumes "validate_fill_payload f = Inr ()"
  shows "fi_side f = BUY \<Longrightarrow> dround (fi_execution_price f) \<le> unit_amount_of f"
    and "fi_side f = SELL \<Longrightarrow> unit_amount_of f \<le> dround (fi_execution_price f)"
proof -
  have "0 \<le> ddiv (cost_total (fi_costs f)) (fi_quantity f)"
    using assms cost_total_nonneg [of "fi_costs f"]
    by (auto simp: validate_fill_payload_def ddiv_def validate_cost_binding_def)
  then show "fi_side f = BUY \<Longrightarrow> dround (fi_execution_price f) \<le> unit_amount_of f"
    and "fi_side f = SELL \<Longrightarrow> unit_amount_of f \<le> dround (fi_execution_price f)"
    by (auto simp: unit_amount_of_def dadd_def dsub_def Let_def intro: dround_mono)
qed

section \<open>A sample order\<close>

definition sample_instrument :: InstrumentId where
  "sample_instrument = InstrumentId 0x40008000000000000001"

definition sample_order :: SimulatedOrder where
  "sample_order = \<lparr>so_order_id = OrderId 7, so_instrument_id = sample_instrument, so_side = BUY,
     so_quantity = 10, so_currency = Currency ''USD'', so_release_at = Timestamp 200,
     so_research_run_id = ResearchRunId ''run'', so_evidence_digest = EvidenceContentDigest ''d'',
     so_eligibility_state = ELIGIBLE, so_eligibility_reasons = [],
     so_eligibility_observation_id = ''obs'', so_decision_time = Timestamp 100\<rparr>"

definition sample_costs :: CostBreakdown where
  "sample_costs = \<lparr>cb_commission_fees = 1, cb_bid_ask_spread = 0, cb_slippage = 0,
     cb_market_impact = 0, cb_additional_friction = 0\<rparr>"

definition sample_fill :: SimulatedFill where
  "sample_fill = \<lparr>fi_fill_id = TradeId 9, fi_order_id = OrderId 7,
     fi_instrument_id = sample_instrument, fi_side = BUY, fi_quantity = 4, fi_execution_price = 25,
     fi_execution_at = Timestamp 300, fi_currency = Currency ''USD'',
     fi_execution_evidence = EvidenceContentDigest ''e'',
     fi_cost_model_id = ''atis:simulation-cost-model:v1:m'', fi_cost_scenario = EC1,
     fi_costs = sample_costs, fi_research_run_id = ResearchRunId ''run''\<rparr>"

definition sample_record :: OrderRecord where
  "sample_record = \<lparr>rec_order = sample_order, rec_status = PARTIALLY_FILLED,
     rec_filled_quantity = 4, rec_reasons = []\<rparr>"

definition sample_oms :: SimulatedOms where
  "sample_oms = \<lparr>oms_orders = [sample_record], oms_fills = [sample_fill],
     oms_attempts = [\<lparr>at_order_id = OrderId 7, at_requested_quantity = 5,
       at_outcome = PARTIALLY_FILLED, at_reasons = [], at_fill_id = Some (TradeId 9)\<rparr>],
     oms_authority = SIMULATED_EXECUTION_AUTHORITY\<rparr>"

definition sample_closed :: SimulatedOms where
  "sample_closed = sample_oms\<lparr>oms_orders := [sample_record\<lparr>rec_status := CANCELLED\<rparr>]\<rparr>"

lemmas sample_defs = sample_order_def sample_fill_def sample_costs_def sample_record_def
  sample_oms_def sample_closed_def

definition sample_start :: SimulatedOms where
  "sample_start = oms_empty\<lparr>oms_orders := [\<lparr>rec_order = sample_order, rec_status = ACCEPTED,
     rec_filled_quantity = 0, rec_reasons = []\<rparr>]\<rparr>"

lemma execution_reasons_Nil:
  "execution_reasons ord s = [] \<longleftrightarrow> (\<exists>p t. sn_price s = Some p \<and> sn_price_available_at s = Some t
       \<and> instant t \<le> instant (sn_execution_at s))
     \<and> sn_security_state s = AVAILABLE \<and> sn_liquidity_state s = AVAILABLE
     \<and> (\<exists>q. sn_available_quantity s = Some q \<and> 0 < q)
     \<and> instant (so_release_at ord) < instant (sn_execution_at s)
     \<and> sn_currency s = Some (so_currency ord) \<and> (\<exists>d. sn_evidence_digest s = Some d)"
  unfolding execution_reasons_def sorted_set_props append_is_Nil_conv
  by (intro arg_cong2 [where f = "(\<and>)"]) (auto simp: lacks_def split: option.split)

lemma oms_apply_fill_allowed:
  assumes "fill_allowed m r f q" and "0 < q"
  shows "oms_apply_fill m f (Some q) = Inr (fill_recorded m r f q)"
proof -
  have "find_first (\<lambda>x. fi_fill_id x = fi_fill_id f) (oms_fills m) = None"
    using assms(1) unfolding fill_allowed_def find_first_None by (metis imageI)
  with assms show ?thesis
    by (auto simp: oms_apply_fill_def fill_allowed_def fill_matches_def fill_recorded_def
        filled_record_def finite_positive_def Let_def raise_if_def)
qed

lemma sample_steps:
  "oms_step oms_empty sample_start" "oms_step sample_start sample_oms" "oms_step sample_oms sample_closed"
proof -
  have 1: "SimulatedOrder_init sample_order = Inr sample_order" by code_simp
  have 2: "oms_submit oms_empty sample_order = Inr sample_start" by code_simp
  have 3: "oms_apply_fill sample_start sample_fill (Some 5) = Inr sample_oms" by code_simp
  have 4: "oms_cancel sample_oms (OrderId 7) = Inr sample_closed" by code_simp
  show "oms_step oms_empty sample_start" by (rule step_submit [OF 1 2])
  show "oms_step sample_start sample_oms" by (rule step_fill [OF 3])
  show "oms_step sample_oms sample_closed" by (rule step_cancel [OF 4])
qed

lemma sample_reach: "oms_reach sample_start" "oms_reach sample_oms" "oms_reach sample_closed"
  using sample_steps oms_reach.intros by blast+

lemma sample_run: "oms_run sample_start sample_oms" "oms_run sample_closed sample_closed"
  using oms_run.run_step [OF oms_run.run_refl sample_steps(2)] oms_run.run_refl by blast+


lemma post_fill_eq:
  "fi_currency f = lg_currency l \<Longrightarrow> 0 < unit_amount_of f \<Longrightarrow> event_wf (fill_event l f) \<Longrightarrow>
   post_fill_to_ledger l f = ledger_apply l (fill_event l f)"
  by (auto simp: post_fill_to_ledger_def fill_event_id FinancialEvent_init_def finite_field_def
      fill_event_def event_wf_def not_le Let_def raise_if_def)

lemma fill_event_wf: "event_wf (fill_event l f) \<longleftrightarrow> event_wf (fill_event l' f)"
  by (simp add: event_wf_def fill_event_def validate_shape_def currency_shape_def
      instrument_shape_def amount_shape_def forbid_def)

definition sample_opening :: FinancialEvent where
  "sample_opening = \<lparr>ev_event_id = LedgerEventId ''atis:simulation-ledger-event:v1:open'',
     ev_sequence = 1, ev_occurred_at = Timestamp 0, ev_kind = OPENING_CASH,
     ev_research_run_id = ResearchRunId ''run'', ev_evidence_digest = EvidenceContentDigest ''d'',
     ev_currency = Some (Currency ''USD''), ev_instrument_id = None, ev_quantity = None,
     ev_unit_amount = None, ev_cash_delta = Some 1000, ev_action = None\<rparr>"

definition sample_ledger :: SimulationLedger where
  "sample_ledger = \<lparr>lg_currency = Currency ''USD'', lg_events = [sample_opening],
     lg_state = \<lparr>ls_currency = Currency ''USD'', ls_cash = 1000, ls_positions = [],
       ls_realised_pnl = 0, ls_unrealised_pnl = 0, ls_portfolio_value = 1000\<rparr>,
     lg_authority = SIMULATION_ONLY_AUTHORITY\<rparr>"

section \<open>Properties of the order-management system\<close>

text \<open>C3: In every reachable order-management system an order's filled quantity is the rounded sum of
  its recorded fills, lies between zero and the ordered quantity, and decides the status: nothing
  filled means accepted, rejected, cancelled or unfilled; completely filled means fully filled;
  anything between is partially filled or cancelled.\<close>

theorem order_fill_accounting:
  assumes "oms_reach m" and "r \<in> set (oms_orders m)"
  shows "rec_filled_quantity r =
      dsum (map fi_quantity (filter (\<lambda>f. fi_order_id f = rec_order_id r) (oms_fills m)))
    \<and> 0 \<le> rec_filled_quantity r \<and> rec_filled_quantity r \<le> so_quantity (rec_order r)
    \<and> rec_status r \<in> (if rec_filled_quantity r = 0 then {ACCEPTED, REJECTED, CANCELLED, UNFILLED}
        else if rec_filled_quantity r = so_quantity (rec_order r) then {FULLY_FILLED}
        else {PARTIALLY_FILLED, CANCELLED})"
  using oms_reach_ok [OF assms(1)] assms(2)
  by (auto simp: oms_ok_def record_ok_def filled_of_def)

theorem order_fill_accounting_witness:
  "rec_filled_quantity sample_record = dsum [4] \<and> rec_status sample_record \<in> {PARTIALLY_FILLED, CANCELLED}"
  using order_fill_accounting [OF sample_reach(2), of sample_record] by (simp add: sample_defs)

text \<open>In every reachable system the attempts name every fill exactly once and in the order the
  fills were recorded, fill identities are unique, and every fill agrees with its order on
  instrument, side, currency and research run, executes after the order's release and has a
  positive quantity and price and no negative cost.\<close>

theorem fills_audited:
  assumes "oms_reach m"
  shows "List.map_filter at_fill_id (oms_attempts m) = map fi_fill_id (oms_fills m)
    \<and> distinct (map fi_fill_id (oms_fills m))
    \<and> (\<forall>f\<in>set (oms_fills m). validate_fill_payload f = Inr ()
         \<and> (\<exists>r\<in>set (oms_orders m). fill_matches f (rec_order r)))"
proof -
  have tr: "attempts_trace (map rec_order (oms_orders m)) (oms_fills m) (oms_attempts m)"
    using oms_reach_ok [OF assms] by (simp add: oms_ok_def)
  then have "List.map_filter at_fill_id (oms_attempts m) = map fi_fill_id (oms_fills m)"
    by (induction rule: attempts_trace.induct) (auto simp: List.map_filter_def)
  with attempts_trace_fills [OF tr] show ?thesis by auto
qed

theorem fills_audited_witness:
  "List.map_filter at_fill_id (oms_attempts sample_oms) = [TradeId 9]
    \<and> validate_fill_payload sample_fill = Inr ()"
  using fills_audited [OF sample_reach(2)] by (simp add: sample_defs)

text \<open>Whatever operations follow, the histories of fills and attempts only grow at their ends, and
  the submitted orders keep their content and position; only status, filled quantity and reasons
  of a record change.\<close>

theorem history_immutable:
  assumes "oms_reach m" and "oms_run m m'"
  shows "prefix (oms_fills m) (oms_fills m') \<and> prefix (oms_attempts m) (oms_attempts m')
    \<and> prefix (map rec_order (oms_orders m)) (map rec_order (oms_orders m'))"
  using assms(2)
proof (induction rule: oms_run.induct)
  case (run_step m' m'')
  have "oms_ok m'" using oms_reach_ok oms_run_reach run_step.hyps(1) assms(1) by blast
  from oms_step_history [OF run_step.hyps(2) this] run_step.IH show ?case
    by (meson prefix_order.trans)
qed simp

theorem history_immutable_witness: "prefix (oms_fills sample_start) (oms_fills sample_oms)"
  using history_immutable [OF sample_reach(1) sample_run(1)] by simp

text \<open>C32: An order that was rejected, cancelled, left unfilled or completely filled stays exactly as it
  is under every later operation, and no fill is ever added to it.\<close>

theorem terminal_order_final:
  assumes "oms_reach m" and "oms_run m m'" and "r \<in> set (oms_orders m)"
    and "rec_status r \<in> TERMINAL_STATUS"
  shows "r \<in> set (oms_orders m')
    \<and> filter (\<lambda>f. fi_order_id f = rec_order_id r) (oms_fills m') =
      filter (\<lambda>f. fi_order_id f = rec_order_id r) (oms_fills m)"
  using assms(2)
proof (induction rule: oms_run.induct)
  case (run_step m' m'')
  have "oms_ok m'" using oms_reach_ok oms_run_reach run_step.hyps(1) assms(1) by blast
  from oms_step_terminal [OF run_step.hyps(2) this _ assms(4)] run_step.IH show ?case by simp
qed (simp add: assms(3))

theorem terminal_order_final_witness:
  "sample_record\<lparr>rec_status := CANCELLED\<rparr> \<in> set (oms_orders sample_closed)"
  using terminal_order_final [OF sample_reach(3) sample_run(2),
      of "sample_record\<lparr>rec_status := CANCELLED\<rparr>"]
  by (simp add: sample_closed_def TERMINAL_STATUS_def)

text \<open>Executing an active order for a positive quantity within its open remainder, against a snapshot
  nothing speaks against and with a valid cost model, records exactly one fill of the smaller of
  the requested and the available quantity at the snapshot's price, provided the fill's identity
  is new and the rounded total stays within the order.\<close>

theorem execute_records_fill:
  assumes act: "oms_active m i = Inr r" and rq: "0 < rq" "rq \<le> remaining_quantity r"
    and ok: "execution_reasons (rec_order r) s = []" and snap: "ExecutionSnapshot_init s = Inr s"
    and model: "valid_cost_model model"
    and fresh: "\<forall>b. TradeId (uuid_from_digest (dg b)) \<notin> fi_fill_id ` set (oms_fills m)"
    and total: "\<forall>av. sn_available_quantity s = Some av \<longrightarrow>
      dadd (rec_filled_quantity r) (min rq av) \<le> so_quantity (rec_order r)"
  shows "\<exists>m' f av. oms_execute dg m i (Finite rq) s model = Inr m' \<and> oms_fills m' = oms_fills m @ [f]
    \<and> sn_available_quantity s = Some av \<and> fi_quantity f = min rq av
    \<and> sn_price s = Some (fi_execution_price f) \<and> fi_order_id f = i"
proof -
  from ok obtain price av evd where s: "sn_price s = Some price" "sn_available_quantity s = Some av"
      "0 < av" "sn_currency s = Some (so_currency (rec_order r))" "sn_evidence_digest s = Some evd"
      "instant (so_release_at (rec_order r)) < instant (sn_execution_at s)"
    by (auto simp: execution_reasons_Nil)
  define q where "q = min rq av"
  have q: "0 < q" "q \<le> rq" using rq s by (auto simp: q_def)
  have price: "0 < price" using snap s by (simp add: ExecutionSnapshot_init_def)
  from calculate_costs_total [OF model q(1) price] obtain c where
    c: "calculate_costs model q price = Inr c" "validate_cost_breakdown c = Inr ()" by blast
  have id: "validate_cost_binding (cm_model_id model) = Inr ()"
    using model by (auto simp: valid_cost_model_def ExecutionCostModel_init_def)
  obtain f where f: "execution_fill dg m r i q price (so_currency (rec_order r)) evd s model = Inr f"
    and fields: "fi_quantity f = q" "fi_execution_price f = price" "fi_order_id f = i"
      "fi_costs f = c" "fi_cost_model_id f = cm_model_id model"
      "fi_instrument_id f = so_instrument_id (rec_order r)" "fi_side f = so_side (rec_order r)"
      "fi_currency f = so_currency (rec_order r)" "fi_execution_at f = sn_execution_at s"
      "fi_research_run_id f = so_research_run_id (rec_order r)"
      "\<exists>b. fi_fill_id f = TradeId (uuid_from_digest (dg b))"
    using c q price id by (auto simp: execution_fill_def SimulatedFill_init_def Let_def)
  have "fi_fill_id f \<notin> fi_fill_id ` set (oms_fills m)" using fresh fields(11) by metis
  then have "fill_allowed m r f rq"
    using fields c id act rq q price s total oms_active_Inr [OF act]
    by (auto simp: fill_allowed_def validate_fill_payload_def fill_matches_def q_def [symmetric])
  then have "oms_apply_fill m f (Some rq) = Inr (fill_recorded m r f rq)"
    using rq(1) by (rule oms_apply_fill_allowed)
  then have "oms_execute dg m i (Finite rq) s model = Inr (fill_recorded m r f rq)"
    using act rq ok s q f by (simp add: oms_execute_def q_def [symmetric] require_some_def Let_def)
  then show ?thesis using s fields by (auto simp: fill_recorded_history q_def)
qed

definition sample_model :: ExecutionCostModel where
  "sample_model = \<lparr>cm_model_id = ''atis:simulation-cost-model:v1:m'', cm_scenario = EC1,
     cm_rates = map (\<lambda>c. \<lparr>cr_component = c, cr_basis_points = 100, cr_provenance = MODELLED,
       cr_evidence_digest = EvidenceContentDigest ''d''\<rparr>) all_components,
     cm_diagnostic_only = False\<rparr>"

definition sample_snapshot :: ExecutionSnapshot where
  "sample_snapshot = \<lparr>sn_execution_at = Timestamp 400, sn_price = Some 30,
     sn_price_available_at = Some (Timestamp 350), sn_security_state = AVAILABLE,
     sn_liquidity_state = AVAILABLE, sn_available_quantity = Some 3,
     sn_currency = Some (Currency ''USD''), sn_evidence_digest = Some (EvidenceContentDigest ''x'')\<rparr>"

theorem execute_records_fill_witness:
  "\<exists>m' f. oms_execute (\<lambda>b. replicate 16 1) sample_oms (OrderId 7) (Finite 6) sample_snapshot sample_model
      = Inr m' \<and> oms_fills m' = [sample_fill, f] \<and> fi_quantity f = 3 \<and> fi_execution_price f = 30"
proof -
  have act: "oms_active sample_oms (OrderId 7) = Inr sample_record" by code_simp
  have rem: "6 \<le> remaining_quantity sample_record" by code_simp
  have ok: "execution_reasons (rec_order sample_record) sample_snapshot = []" by code_simp
  have snap: "ExecutionSnapshot_init sample_snapshot = Inr sample_snapshot" by code_simp
  have model: "valid_cost_model sample_model" by code_simp
  have "uuid_from_digest (replicate 16 1) \<noteq> 9" by code_simp
  then have fresh: "\<forall>b. TradeId (uuid_from_digest ((\<lambda>b. replicate 16 1) (b :: FillBody)))
      \<notin> fi_fill_id ` set (oms_fills sample_oms)"
    by (simp add: sample_oms_def sample_fill_def)
  have "dadd (rec_filled_quantity sample_record) 3 \<le> so_quantity (rec_order sample_record)" by code_simp
  then have "\<forall>av. sn_available_quantity sample_snapshot = Some av \<longrightarrow>
      dadd (rec_filled_quantity sample_record) (min 6 av) \<le> so_quantity (rec_order sample_record)"
    by (simp add: sample_snapshot_def)
  from execute_records_fill [OF act _ rem ok snap model fresh this] show ?thesis
    by (auto simp: sample_snapshot_def sample_oms_def)
qed

text \<open>With a valid cost model every positive quantity and price gets a cost breakdown whose five
  components are the basis points of the notional and none negative, and the diagnostic scenario
  EC0 costs nothing.\<close>

theorem costs_calculated:
  assumes "valid_cost_model m" and "0 < q" and "0 < p"
  shows "\<exists>c. calculate_costs m q p = Inr c \<and> (\<forall>v\<in>set (cost_fields c). 0 \<le> v
      \<and> (\<exists>r\<in>set (cm_rates m). v = ddiv (dmul (dmul q p) (cr_basis_points r)) 10000))
    \<and> 0 \<le> cost_total c \<and> (cm_scenario m = EC0 \<longrightarrow> cost_total c = 0)"
proof -
  from calculate_costs_total [OF assms] obtain c where c: "calculate_costs m q p = Inr c"
      "validate_cost_breakdown c = Inr ()" "cm_scenario m = EC0 \<longrightarrow> cost_total c = 0"
    by blast
  have "\<exists>k. component_cost (cm_rates m) (dmul q p) k = Inr v" if "v \<in> set (cost_fields c)" for v
    using c(1) that by (auto simp: calculate_costs_def cost_fields_def Let_def)
  then have "\<exists>r\<in>set (cm_rates m). v = ddiv (dmul (dmul q p) (cr_basis_points r)) 10000"
    if "v \<in> set (cost_fields c)" for v
    using that component_cost_Inr by blast
  then show ?thesis
    using c cost_total_nonneg [OF c(2)] by (auto simp: validate_cost_breakdown_Inr)
qed

theorem costs_calculated_witness:
  "\<exists>c. calculate_costs sample_model 4 25 = Inr c \<and> 0 \<le> cost_total c"
proof -
  have "valid_cost_model sample_model" by code_simp
  from costs_calculated [OF this, of 4 25] show ?thesis by auto
qed

text \<open>Posting a fill to a reachable ledger appends one trade event: the instrument and currency of
  the fill, its quantity signed by the side, and the execution price moved by the unit cost, never
  in the trader's favour.  Posting the same fill again always fails.\<close>

theorem fill_posted_once:
  assumes "ledger_reach c l" and "validate_fill_payload f = Inr ()" and "post_fill_to_ledger l f = Inr l'"
  shows "lg_events l' = lg_events l @ [fill_event l f]
    \<and> (if fi_side f = BUY then dround (fi_execution_price f) \<le> unit_amount_of f
       else unit_amount_of f \<le> dround (fi_execution_price f))
    \<and> post_fill_to_ledger l' f =
        Inl (Err LedgerContractError ''event_id conflicts with immutable history'')"
proof -
  have ok: "ledger_ok l" "ledger_ok l'"
    using ledger_reach_ok [OF assms(1)] assms(3) ledger_apply_ok by (auto simp: post_fill_Inr)
  note app = post_fill_appends [OF ok(1) assms(3)]
  have cur: "lg_currency l' = lg_currency l"
    using assms(3) ledger_apply_cases [of l "fill_event l f" l'] by (auto simp: post_fill_Inr)
  have "find_first (\<lambda>x. ev_event_id x = ev_event_id (fill_event l' f)) (lg_events l') \<noteq> None"
    by (auto simp: find_first_None app fill_event_def)
  then obtain x where x: "find_first (\<lambda>x. ev_event_id x = ev_event_id (fill_event l' f)) (lg_events l')
      = Some x" by blast
  then have "x \<noteq> fill_event l' f"
    using find_first_SomeD [OF x] fill_event_fresh [OF ok(2)] by auto
  then have "ledger_apply l' (fill_event l' f) =
      Inl (Err LedgerContractError ''event_id conflicts with immutable history'')"
    using x cur assms(3) by (simp add: ledger_apply_def post_fill_Inr fill_event_def)
  moreover have "post_fill_to_ledger l' f = ledger_apply l' (fill_event l' f)"
    using assms(3) cur by (intro post_fill_eq) (auto simp: post_fill_Inr fill_event_wf [of l' f l])
  ultimately show ?thesis using app unit_amount_side [OF assms(2)] by (cases "fi_side f") auto
qed

lemma sample_ledger_reach: "ledger_reach (Currency ''USD'') sample_ledger"
proof -
  have "event_wf sample_opening" by code_simp
  moreover have "ledger_apply (ledger_empty (Currency ''USD'')) sample_opening = Inr sample_ledger"
    by code_simp
  ultimately show ?thesis using ledger_reach.intros by blast
qed

theorem fill_posted_once_witness:
  "\<exists>l'. post_fill_to_ledger sample_ledger sample_fill = Inr l'
    \<and> post_fill_to_ledger l' sample_fill =
        Inl (Err LedgerContractError ''event_id conflicts with immutable history'')"
proof -
  have "event_wf (fill_event sample_ledger sample_fill)" "0 < unit_amount_of sample_fill" by code_simp+
  moreover have "\<not> isl (ledger_apply sample_ledger (fill_event sample_ledger sample_fill))" by code_simp
  ultimately have "\<not> isl (post_fill_to_ledger sample_ledger sample_fill)"
    using post_fill_eq [of sample_fill sample_ledger] by (simp add: sample_fill_def sample_ledger_def)
  then obtain l' where l': "post_fill_to_ledger sample_ledger sample_fill = Inr l'"
    by (metis isl_def sumE)
  have "validate_fill_payload sample_fill = Inr ()" by code_simp
  from fill_posted_once [OF sample_ledger_reach this l'] l' show ?thesis by blast
qed

end
