(* ===== verification/Civil.thy ===== *)
theory Civil
  imports Prelude
begin

text \<open>
  \<open>datetime.date\<close>: a date is its day number from 1970-01-01, \<open>year_of\<close>, \<open>month_of\<close> and \<open>day_of_month\<close> are
  those of the proleptic Gregorian calendar, and \<open>iso_date\<close> is the text of \<open>isoformat\<close>.  The dates of
  Python end at 9999-12-31.
\<close>

section \<open>Years, months and days\<close>

definition leap :: "int \<Rightarrow> bool" where
  "leap y \<longleftrightarrow> y mod 4 = 0 \<and> (y mod 100 \<noteq> 0 \<or> y mod 400 = 0)"

text \<open>Days before the first of January of a year, counted from 0001-01-01.\<close>

definition days_before_year :: "int \<Rightarrow> int" where
  "days_before_year y = (y - 1) * 365 + (y - 1) div 4 - (y - 1) div 100 + (y - 1) div 400"

definition month_lengths :: "int \<Rightarrow> int list" where
  "month_lengths y = [31, if leap y then 29 else 28, 31, 30, 31, 30, 31, 31, 30, 31, 30, 31]"

definition epoch_offset :: int where
  "epoch_offset = 719162"

definition year_of :: "int \<Rightarrow> int" where
  "year_of z = (let n = z + epoch_offset; y = n * 400 div 146097 + 1 in
     if days_before_year (y + 1) \<le> n then y + 1 else if n < days_before_year y then y - 1 else y)"

fun month_in :: "int list \<Rightarrow> int \<Rightarrow> int \<Rightarrow> int" where
  "month_in [] k r = k"
| "month_in (l # ls) k r = (if r < l then k else month_in ls (k + 1) (r - l))"

definition month_of :: "int \<Rightarrow> int" where
  "month_of z = month_in (month_lengths (year_of z)) 1 (z + epoch_offset - days_before_year (year_of z))"

definition day_of_month :: "int \<Rightarrow> int" where
  "day_of_month z = z + epoch_offset - days_before_year (year_of z)
     - sum_list (take (nat (month_of z - 1)) (month_lengths (year_of z))) + 1"

text \<open>Decimal digits, padded to a width.\<close>

definition digit_char :: "int \<Rightarrow> char" where
  "digit_char d = char_of (48 + nat (d mod 10))"

fun digits_of :: "nat \<Rightarrow> int \<Rightarrow> string" where
  "digits_of 0 n = []"
| "digits_of (Suc w) n = digits_of w (n div 10) @ [digit_char n]"

definition iso_date :: "int \<Rightarrow> string" where
  "iso_date z = digits_of 4 (year_of z) @ ''-'' @ digits_of 2 (month_of z) @ ''-'' @ digits_of 2 (day_of_month z)"

text \<open>Microseconds of a day, and \<open>datetime.min\<close>: arithmetic below it raises \<open>OverflowError\<close>.\<close>

definition day_micros :: int where
  "day_micros = 86400000000"

definition datetime_min :: int where
  "datetime_min = - 62135596800000000"

section \<open>The year and the month of a day\<close>

lemma days_before_year_bounds:
  "400 * days_before_year y \<le> 146097 * (y - 1) + 400" "146097 * (y - 1) - 1200 < 400 * days_before_year y"
proof -
  define x where "x = y - 1"
  have "4 * (x div 4) \<le> x" "x - 3 \<le> 4 * (x div 4)" "100 * (x div 100) \<le> x" "x - 99 \<le> 100 * (x div 100)"
    "400 * (x div 400) \<le> x" "x - 399 \<le> 400 * (x div 400)" by presburger+
  moreover have d: "days_before_year y = x * 365 + x div 4 - x div 100 + x div 400"
    by (simp add: days_before_year_def x_def)
  ultimately have "400 * days_before_year y \<le> 146097 * x + 400 \<and> 146097 * x - 1200 < 400 * days_before_year y"
    by linarith
  then show "400 * days_before_year y \<le> 146097 * (y - 1) + 400"
    and "146097 * (y - 1) - 1200 < 400 * days_before_year y" by (simp_all add: x_def)
qed

lemma div_pred: "0 < k \<Longrightarrow> y div k = (y - 1) div k + (if y mod k = 0 then 1 else 0)" for y k :: int
proof -
  assume k: "0 < k"
  define q r where "q = y div k" and "r = y mod k"
  have y: "y = k * q + r" and r: "0 \<le> r" "r < k" using k by (simp_all add: q_def r_def)
  show ?thesis
  proof (cases "r = 0")
    case True
    have "(y - 1) div k = q - 1"
      by (rule int_div_pos_eq [where r = "k - 1"]) (use k in \<open>simp_all add: y True algebra_simps\<close>)
    with True show ?thesis by (simp add: q_def r_def)
  next
    case False
    have "(y - 1) div k = q"
      by (rule int_div_pos_eq [where r = "r - 1"]) (use k r False in \<open>simp_all add: y algebra_simps\<close>)
    with False show ?thesis by (simp add: q_def r_def)
  qed
qed

lemma days_before_year_Suc: "days_before_year (y + 1) = days_before_year y + sum_list (month_lengths y)"
proof -
  define a b c where "a \<longleftrightarrow> y mod 4 = 0" and "b \<longleftrightarrow> y mod 100 = 0" and "c \<longleftrightarrow> y mod 400 = 0"
  have "c \<Longrightarrow> b" "b \<Longrightarrow> a"
    using dvd_trans [of 100 400 y] dvd_trans [of 4 100 y] by (simp_all add: a_def b_def c_def mod_eq_0_iff_dvd)
  moreover have "leap y \<longleftrightarrow> a \<and> (\<not> b \<or> c)" by (simp add: leap_def a_def b_def c_def)
  ultimately have "sum_list (month_lengths y) = 365 + (if a then 1 else 0) - (if b then 1 else 0) + (if c then 1 else 0)"
    by (cases a; cases b; cases c) (simp_all add: month_lengths_def)
  moreover have "days_before_year (y + 1) = y * 365 + y div 4 - y div 100 + y div 400"
    by (simp add: days_before_year_def)
  moreover have "y div 4 = (y - 1) div 4 + (if a then 1 else 0)" "y div 100 = (y - 1) div 100 + (if b then 1 else 0)"
    "y div 400 = (y - 1) div 400 + (if c then 1 else 0)"
    unfolding a_def b_def c_def by (rule div_pred, simp)+
  moreover have "days_before_year y = y * 365 - 365 + (y - 1) div 4 - (y - 1) div 100 + (y - 1) div 400"
    by (simp add: days_before_year_def algebra_simps)
  ultimately show ?thesis by (simp only:)
qed

lemma year_of_correct:
  "days_before_year (year_of z) \<le> z + epoch_offset" "z + epoch_offset < days_before_year (year_of z + 1)"
proof -
  define n where "n = z + epoch_offset"
  define y where "y = n * 400 div 146097 + 1"
  have y: "146097 * (y - 1) \<le> 400 * n" "400 * n < 146097 * y" by (simp_all add: y_def)
  note b = days_before_year_bounds [of "y - 1"] days_before_year_bounds [of "y + 2"]
  have "days_before_year (y - 1) \<le> n" using y b by (simp add: algebra_simps)
  moreover have "n < days_before_year (y + 2)" using y b by (simp add: algebra_simps)
  moreover have "year_of z = (if days_before_year (y + 1) \<le> n then y + 1 else if n < days_before_year y then y - 1 else y)"
    unfolding year_of_def Let_def n_def [symmetric] y_def [symmetric] ..
  ultimately have "days_before_year (year_of z) \<le> n \<and> n < days_before_year (year_of z + 1)"
    by (auto simp: add.commute)
  then show "days_before_year (year_of z) \<le> z + epoch_offset" "z + epoch_offset < days_before_year (year_of z + 1)"
    by (simp_all add: n_def)
qed

lemma month_in_range: "0 \<le> r \<Longrightarrow> r < sum_list ls \<Longrightarrow> k \<le> month_in ls k r \<and> month_in ls k r < k + int (length ls)"
proof (induction ls arbitrary: k r)
  case (Cons l ls)
  show ?case
  proof (cases "r < l")
    case False
    with Cons.IH [of "r - l" "k + 1"] Cons.prems show ?thesis by simp
  qed simp
qed simp

lemma month_of_range: "1 \<le> month_of z \<and> month_of z \<le> 12"
proof -
  define r where "r = z + epoch_offset - days_before_year (year_of z)"
  have "0 \<le> r" "r < sum_list (month_lengths (year_of z))"
    using year_of_correct [of z] by (simp_all add: r_def days_before_year_Suc)
  from month_in_range [OF this, of 1] show ?thesis
    by (simp add: month_of_def r_def [symmetric] month_lengths_def)
qed

end
