(* ===== verification/Strategies.thy ===== *)
theory Strategies
  imports Execution Civil "HOL-Library.Product_Lexorder"
begin

text \<open>
  The research strategies MOM-001 and TREND-001 (\<^verbatim>\<open>research/momentum_strategy.py\<close>,
  \<^verbatim>\<open>research/trend_strategy.py\<close>): validation of their inputs, ranking, allocation of whole
  shares, and the intents that move a ledger's holdings to the targets.

  A calendar date is its day number from 1970-01-01, as in the coverage of a qualification;
  \<open>year_of\<close> and \<open>month_of\<close> are those of the proleptic Gregorian calendar of \<open>datetime.date\<close>.
  The two modules declare the same class \<open>TotalReturnEndpoint\<close>, which is one record here, and a
  research run enters by its identity.
\<close>

section \<open>Months\<close>

definition month_shift :: "int \<times> int \<Rightarrow> int \<Rightarrow> int \<times> int" where
  "month_shift ym months = (let absolute = fst ym * 12 + snd ym - 1 + months in
     (absolute div 12, absolute mod 12 + 1))"

text \<open>The month of the decision day; \<open>replace(day=1)\<close> keeps it.\<close>

definition anchor_month :: "Timestamp \<Rightarrow> int \<times> int" where
  "anchor_month t = (year_of (day_of t), month_of (day_of t))"

section \<open>Inputs\<close>

record TotalReturnEndpoint =
  te_instrument_id :: InstrumentId
  te_month_end :: int
  te_total_return_index :: decimal
  te_available_at :: Timestamp
  te_dataset_id :: string
  te_dataset_version :: string
  te_eligibility :: DecisionInputEligibility

definition RESEARCH_ONLY :: string where
  "RESEARCH_ONLY = ''RESEARCH_ONLY_NO_EDGE_TRADING_OR_CAPITAL_AUTHORITY''"

definition all_scenarios :: "CostScenario list" where
  "all_scenarios = [EC0, EC1, EC2, EC3]"

section \<open>MOM-001\<close>

record MomentumCandidate =
  mc_instrument_id :: InstrumentId
  mc_start :: TotalReturnEndpoint
  mc_end :: TotalReturnEndpoint
  mc_execution_price :: decimal

record MomentumTarget =
  mt_instrument_id :: InstrumentId
  mt_rank :: nat
  mt_signal :: rat
  mt_weight :: rat
  mt_execution_price :: rat
  mt_whole_shares :: int
  mt_allocated_cash :: rat

record MomentumPortfolio =
  mp_strategy_id :: string
  mp_research_run_id :: string
  mp_decision_time :: Timestamp
  mp_release_time :: Timestamp
  mp_fill_time :: Timestamp
  mp_eligible_count :: nat
  mp_selected_count :: int
  mp_targets :: "MomentumTarget list"
  mp_residual_cash :: rat
  mp_cost_scenarios :: "CostScenario list"
  mp_fixture_minimum_applied :: bool
  mp_economic_edge :: string
  mp_authority :: string

definition momentum_signal_months :: "Timestamp \<Rightarrow> (int \<times> int) \<times> (int \<times> int)" where
  "momentum_signal_months decision_time =
     (month_shift (anchor_month decision_time) (- 13), month_shift (anchor_month decision_time) (- 2))"

definition valid_decimal :: "decimal \<Rightarrow> string \<Rightarrow> rat result" where
  "valid_decimal v name = (case v of
     NonFinite \<Rightarrow> Inl (Err MomentumError (name @ '' must be a finite Decimal''))
   | Finite q \<Rightarrow> raise_if (q \<le> 0) MomentumError (name @ '' must be positive'') (Inr q))"

definition validate_momentum_endpoint ::
  "TotalReturnEndpoint \<Rightarrow> int \<times> int \<Rightarrow> MomentumCandidate \<Rightarrow> DatasetQualification \<Rightarrow> Timestamp \<Rightarrow> rat result" where
  "validate_momentum_endpoint v expected_month candidate q decision_time =
     raise_if (te_instrument_id v \<noteq> mc_instrument_id candidate) MomentumError ''endpoint instrument substitution''
     (raise_if ((year_of (te_month_end v), month_of (te_month_end v)) \<noteq> expected_month) MomentumError
       ''endpoint is outside the canonical 12-1 month window''
     (raise_if (te_dataset_id v \<noteq> dq_dataset_id q \<or> te_dataset_version v \<noteq> dq_dataset_version q) MomentumError
       ''endpoint dataset substitution''
     (rbind (valid_decimal (te_total_return_index v) ''total_return_index'') (\<lambda>index.
     raise_if (instant decision_time < instant (te_available_at v)) MomentumError ''future-known endpoint''
     (raise_if (el_state (te_eligibility v) \<noteq> ELIGIBLE) MomentumError ''PIT-ineligible endpoint''
     (raise_if (el_decision_time (te_eligibility v) \<noteq> decision_time) MomentumError
       ''endpoint decision-time substitution''
     (raise_if (\<not> (cov_start (dq_coverage q) \<le> te_month_end v \<and> te_month_end v \<le> cov_end (dq_coverage q)))
       MomentumError ''endpoint outside qualified coverage'' (Inr index))))))))"

record MomentumScore =
  ms_candidate :: MomentumCandidate
  ms_signal :: rat
  ms_price :: rat

definition momentum_score ::
  "DatasetQualification \<Rightarrow> Timestamp \<Rightarrow> MomentumCandidate \<Rightarrow> MomentumScore result" where
  "momentum_score q decision_time c =
     rbind (validate_momentum_endpoint (mc_start c) (fst (momentum_signal_months decision_time)) c q decision_time) (\<lambda>s.
     rbind (validate_momentum_endpoint (mc_end c) (snd (momentum_signal_months decision_time)) c q decision_time) (\<lambda>e.
     rbind (valid_decimal (mc_execution_price c) ''execution_price'') (\<lambda>price.
       Inr \<lparr>ms_candidate = c, ms_signal = dsub (ddiv e s) 1, ms_price = price\<rparr>)))"

definition momentum_key :: "MomentumScore \<Rightarrow> rat \<times> string" where
  "momentum_key s = (dneg (ms_signal s), InstrumentId_to_string (mc_instrument_id (ms_candidate s)))"

text \<open>\<open>int(x.to_integral_value(rounding=ROUND_FLOOR))\<close> is the exact floor.\<close>

definition selected_count_of :: "nat \<Rightarrow> int" where
  "selected_count_of n = \<lfloor>dmul (1 / 5) (of_nat n)\<rfloor>"

definition whole_shares_of :: "rat \<Rightarrow> rat \<Rightarrow> int" where
  "whole_shares_of cash price = \<lfloor>ddiv cash price\<rfloor>"

definition momentum_target :: "rat \<Rightarrow> rat \<Rightarrow> nat \<times> MomentumScore \<Rightarrow> MomentumTarget" where
  "momentum_target weight cash_per_name = (\<lambda>(rank, s).
     \<lparr>mt_instrument_id = mc_instrument_id (ms_candidate s), mt_rank = rank, mt_signal = ms_signal s,
      mt_weight = weight, mt_execution_price = ms_price s,
      mt_whole_shares = whole_shares_of cash_per_name (ms_price s),
      mt_allocated_cash = dmul (ms_price s) (of_int (whole_shares_of cash_per_name (ms_price s)))\<rparr>)"

definition momentum_allocate ::
  "string \<Rightarrow> Timestamp \<Rightarrow> Timestamp \<Rightarrow> Timestamp \<Rightarrow> rat \<Rightarrow> bool \<Rightarrow> MomentumScore list \<Rightarrow> MomentumPortfolio result" where
  "momentum_allocate run decision_time release_time fill_time capital fixture_minimum scored =
     (let selected_count = selected_count_of (length scored);
          ranked = sort_key momentum_key scored in
      raise_if (selected_count < 1) MomentumError ''top-20-percent floor selects no securities''
      (let weight = ddiv 1 (of_int selected_count);
           cash_per_name = ddiv capital (of_int selected_count);
           targets = map (momentum_target weight cash_per_name)
             (List.enumerate 1 (take (nat selected_count) ranked)) in
       raise_if (\<exists>t\<in>set targets. mt_whole_shares t \<le> 0) MomentumError ''capital cannot fund a selected whole share''
       (Inr \<lparr>mp_strategy_id = ''MOM-001'', mp_research_run_id = run, mp_decision_time = decision_time,
            mp_release_time = release_time, mp_fill_time = fill_time, mp_eligible_count = length scored,
            mp_selected_count = selected_count, mp_targets = targets,
            mp_residual_cash = dsub capital (dsum (map mt_allocated_cash targets)),
            mp_cost_scenarios = all_scenarios, mp_fixture_minimum_applied = fixture_minimum,
            mp_economic_edge = ''NOT_ESTABLISHED'', mp_authority = RESEARCH_ONLY\<rparr>)))"

definition construct_momentum_portfolio ::
  "MomentumCandidate list \<Rightarrow> DatasetQualification \<Rightarrow> ResearchRunId \<Rightarrow> Timestamp \<Rightarrow> Timestamp \<Rightarrow> Timestamp \<Rightarrow>
   decimal \<Rightarrow> bool \<Rightarrow> MomentumPortfolio result" where
  "construct_momentum_portfolio candidates q run decision_time release_time fill_time capital fixture_minimum =
     raise_if (candidates = []) MomentumError ''nonempty candidate tuple required''
     (raise_if (dq_lifecycle q \<noteq> CURRENT \<or> \<not> permits_claim q ENGINEERING_ONLY) MomentumError
       ''current engineering-qualified dataset required''
     (raise_if (\<not> (instant decision_time < instant release_time \<and> instant release_time < instant fill_time))
       MomentumError ''require decision < release < fill''
     (rbind (valid_decimal capital ''hypothetical_capital'') (\<lambda>cash.
     raise_if (fixture_minimum \<and> length candidates < 20) MomentumError
       ''engineering fixture requires at least 20 securities''
     (raise_if (\<not> distinct (map mc_instrument_id candidates)) MomentumError ''duplicate instrument''
     (rbind (rmap (momentum_score q decision_time) candidates) (\<lambda>scored.
        momentum_allocate (run_text run) decision_time release_time fill_time cash fixture_minimum scored)))))))"

section \<open>TREND-001\<close>

datatype AssetClass = EQUITY | ETF

record TrendCandidate =
  tn_instrument_id :: InstrumentId
  tn_asset_class :: AssetClass
  tn_start :: TotalReturnEndpoint
  tn_end :: TotalReturnEndpoint
  tn_execution_price :: decimal

record TrendTarget =
  tt_instrument_id :: InstrumentId
  tt_asset_class :: AssetClass
  tt_signal :: rat
  tt_weight :: rat
  tt_execution_price :: rat
  tt_whole_shares :: int
  tt_allocated_cash :: rat

record TrendPortfolio =
  tp_strategy_id :: string
  tp_research_run_id :: string
  tp_decision_time :: Timestamp
  tp_release_time :: Timestamp
  tp_fill_time :: Timestamp
  tp_equity_count :: nat
  tp_etf_count :: nat
  tp_positive_count :: nat
  tp_classifications :: "(InstrumentId \<times> AssetClass) list"
  tp_targets :: "TrendTarget list"
  tp_residual_cash :: rat
  tp_cost_scenarios :: "CostScenario list"
  tp_economic_edge :: string
  tp_authority :: string

record TrendIntent =
  ti_instrument_id :: InstrumentId
  ti_asset_class :: AssetClass
  ti_side :: OrderSide
  ti_quantity :: rat
  ti_current_quantity :: rat
  ti_target_quantity :: rat
  ti_reason :: string

text \<open>\<open>date(year, month, monthrange(year, month)[1])\<close>; years below 1 are a \<open>ValueError\<close>.\<close>

definition month_end :: "int \<times> int \<Rightarrow> int result" where
  "month_end ym = raise_if (fst ym < 1) ValueError ''year is out of range''
     (Inr (days_before_year (fst ym) + sum_list (take (nat (snd ym)) (month_lengths (fst ym))) - 1 - epoch_offset))"

definition trend_signal_months :: "Timestamp \<Rightarrow> (int \<times> int) result" where
  "trend_signal_months decision_time =
     rbind (month_end (month_shift (anchor_month decision_time) (- 13))) (\<lambda>s.
     rbind (month_end (month_shift (anchor_month decision_time) (- 1))) (\<lambda>e. Inr (s, e)))"

definition positive_decimal :: "decimal \<Rightarrow> string \<Rightarrow> rat result" where
  "positive_decimal v name = (case v of
     NonFinite \<Rightarrow> Inl (Err TrendError (name @ '' must be a positive finite Decimal''))
   | Finite q \<Rightarrow> raise_if (q \<le> 0) TrendError (name @ '' must be a positive finite Decimal'') (Inr q))"

definition validate_trend_endpoint ::
  "TotalReturnEndpoint \<Rightarrow> int \<Rightarrow> TrendCandidate \<Rightarrow> DatasetQualification \<Rightarrow> Timestamp \<Rightarrow> rat result" where
  "validate_trend_endpoint v expected_month_end candidate q decision_time =
     raise_if (te_instrument_id v \<noteq> tn_instrument_id candidate) TrendError ''endpoint instrument substitution''
     (raise_if (te_month_end v \<noteq> expected_month_end) TrendError
       ''endpoint is outside the canonical completed-month window''
     (raise_if (te_dataset_id v \<noteq> dq_dataset_id q \<or> te_dataset_version v \<noteq> dq_dataset_version q) TrendError
       ''endpoint dataset substitution''
     (rbind (positive_decimal (te_total_return_index v) ''total_return_index'') (\<lambda>index.
     raise_if (instant decision_time < instant (te_available_at v)) TrendError ''future-known endpoint''
     (raise_if (el_state (te_eligibility v) \<noteq> ELIGIBLE) TrendError ''PIT-ineligible endpoint''
     (raise_if (el_decision_time (te_eligibility v) \<noteq> decision_time) TrendError
       ''endpoint decision-time substitution''
     (raise_if (\<not> (cov_start (dq_coverage q) \<le> te_month_end v \<and> te_month_end v \<le> cov_end (dq_coverage q)))
       TrendError ''endpoint outside qualified coverage'' (Inr index))))))))"

record TrendScore =
  ts_candidate :: TrendCandidate
  ts_signal :: rat
  ts_price :: rat

definition trend_score ::
  "DatasetQualification \<Rightarrow> Timestamp \<Rightarrow> int \<times> int \<Rightarrow> TrendCandidate \<Rightarrow> TrendScore result" where
  "trend_score q decision_time months c =
     rbind (validate_trend_endpoint (tn_start c) (fst months) c q decision_time) (\<lambda>s.
     rbind (validate_trend_endpoint (tn_end c) (snd months) c q decision_time) (\<lambda>e.
     rbind (positive_decimal (tn_execution_price c) ''execution_price'') (\<lambda>price.
       Inr \<lparr>ts_candidate = c, ts_signal = dsub (ddiv e s) 1, ts_price = price\<rparr>)))"

definition trend_key :: "TrendScore \<Rightarrow> string" where
  "trend_key s = InstrumentId_to_string (tn_instrument_id (ts_candidate s))"

definition trend_target :: "rat \<Rightarrow> rat \<Rightarrow> TrendScore \<Rightarrow> TrendTarget result" where
  "trend_target weight cash_per_asset s =
     (let shares = whole_shares_of cash_per_asset (ts_price s) in
      raise_if (shares \<le> 0) TrendError ''capital cannot fund a positive-signal whole share''
      (Inr \<lparr>tt_instrument_id = tn_instrument_id (ts_candidate s), tt_asset_class = tn_asset_class (ts_candidate s),
           tt_signal = ts_signal s, tt_weight = weight, tt_execution_price = ts_price s,
           tt_whole_shares = shares, tt_allocated_cash = dmul (ts_price s) (of_int shares)\<rparr>))"

definition trend_targets :: "rat \<Rightarrow> TrendScore list \<Rightarrow> TrendTarget list result" where
  "trend_targets capital positives =
     (if positives \<noteq> []
      then rmap (trend_target (ddiv 1 (of_nat (length positives))) (ddiv capital (of_nat (length positives)))) positives
      else Inr [])"

definition classification_key :: "InstrumentId \<times> AssetClass \<Rightarrow> string" where
  "classification_key x = InstrumentId_to_string (fst x)"

definition construct_trend_portfolio ::
  "TrendCandidate list \<Rightarrow> DatasetQualification \<Rightarrow> ResearchRunId \<Rightarrow> Timestamp \<Rightarrow> Timestamp \<Rightarrow> Timestamp \<Rightarrow>
   decimal \<Rightarrow> TrendPortfolio result" where
  "construct_trend_portfolio candidates q run decision_time release_time fill_time capital =
     raise_if (candidates = []) TrendError ''nonempty candidate tuple required''
     (raise_if (dq_lifecycle q \<noteq> CURRENT \<or> \<not> permits_claim q ENGINEERING_ONLY) TrendError
       ''current engineering-qualified dataset required''
     (raise_if (\<not> (instant decision_time < instant release_time \<and> instant release_time < instant fill_time))
       TrendError ''require decision < release < fill''
     (rbind (positive_decimal capital ''hypothetical_capital'') (\<lambda>cash.
     raise_if (\<not> distinct (map tn_instrument_id candidates)) TrendError ''duplicate instrument''
     (rbind (trend_signal_months decision_time) (\<lambda>months.
      rbind (rmap (trend_score q decision_time months) candidates) (\<lambda>scored.
      let positives = sort_key trend_key (filter (\<lambda>s. 0 < ts_signal s) scored) in
      rbind (trend_targets cash positives) (\<lambda>targets.
        Inr \<lparr>tp_strategy_id = ''TREND-001'', tp_research_run_id = run_text run, tp_decision_time = decision_time,
             tp_release_time = release_time, tp_fill_time = fill_time,
             tp_equity_count = length (filter (\<lambda>c. tn_asset_class c = EQUITY) candidates),
             tp_etf_count = length (filter (\<lambda>c. tn_asset_class c = ETF) candidates),
             tp_positive_count = length positives,
             tp_classifications = sort_key classification_key
               (map (\<lambda>c. (tn_instrument_id c, tn_asset_class c)) candidates),
             tp_targets = targets, tp_residual_cash = dsub cash (dsum (map tt_allocated_cash targets)),
             tp_cost_scenarios = all_scenarios, tp_economic_edge = ''NOT_ESTABLISHED'',
             tp_authority = RESEARCH_ONLY\<rparr>))))))))"

text \<open>\<open>dict(portfolio.classifications)\<close> and the dict of target quantities keep the last entry of a
  key; the keys of the first, in insertion order, are sorted by their text.\<close>

definition class_entry :: "(InstrumentId \<times> AssetClass) list \<Rightarrow> InstrumentId \<Rightarrow> AssetClass result" where
  "class_entry cs i = (case dict_get fst (dict_of fst cs) i of None \<Rightarrow> Inl (Err KeyError []) | Some x \<Rightarrow> Inr (snd x))"

definition target_quantity :: "TrendTarget list \<Rightarrow> InstrumentId \<Rightarrow> rat" where
  "target_quantity ts i = (case dict_get tt_instrument_id (dict_of tt_instrument_id ts) i of
     None \<Rightarrow> 0 | Some t \<Rightarrow> of_int (tt_whole_shares t))"

definition current_quantity :: "SimulationLedger \<Rightarrow> InstrumentId \<Rightarrow> rat" where
  "current_quantity l i = (case position (lg_state l) i of None \<Rightarrow> 0 | Some p \<Rightarrow> pos_quantity p)"

definition intent_for ::
  "TrendPortfolio \<Rightarrow> SimulationLedger \<Rightarrow> TrendIntent list \<Rightarrow> InstrumentId \<Rightarrow> TrendIntent list result" where
  "intent_for p l intents i =
     (let current = current_quantity l i; target = target_quantity (tp_targets p) i;
          difference = dsub target current in
      if difference = 0 then Inr intents
      else rbind (class_entry (tp_classifications p) i) (\<lambda>c.
        let side = (if 0 < difference then BUY else SELL) in
        Inr (intents @ [\<lparr>ti_instrument_id = i, ti_asset_class = c, ti_side = side, ti_quantity = dabs difference,
          ti_current_quantity = current, ti_target_quantity = target,
          ti_reason = (if side = BUY then ''POSITIVE_SIGNAL_TARGET'' else ''NONPOSITIVE_SIGNAL_EXIT'')\<rparr>])))"

definition construct_transition_intents :: "TrendPortfolio \<Rightarrow> SimulationLedger \<Rightarrow> TrendIntent list result" where
  "construct_transition_intents p l =
     (let keys = map fst (dict_of fst (tp_classifications p));
          held = map pos_instrument_id (filter (\<lambda>x. pos_quantity x \<noteq> 0) (ls_positions (lg_state l))) in
      raise_if (\<exists>i\<in>set held. i \<notin> set keys) TrendError ''held instrument missing classified universe evidence''
      (rfold (intent_for p l) [] (sort_key InstrumentId_to_string keys)))"

section \<open>Whole shares\<close>

lemma representable_of_int: "\<bar>n\<bar> < 10 ^ 28 \<Longrightarrow> representable (of_int n)"
  unfolding representable_def by (intro exI [of _ n] exI [of _ 0]) (simp add: pow10_def)

lemma selected_count_fifth: "n < 10 ^ 27 \<Longrightarrow> selected_count_of n = int (n div 5)"
proof -
  assume n: "n < 10 ^ 27"
  have "representable (of_nat n / 5)" unfolding representable_def
    using n by (intro exI [of _ "2 * int n"] exI [of _ "-1"]) (simp add: pow10_def)
  then have "dmul (1 / 5) (of_nat n) = of_nat n / 5" by (simp add: dmul_def dround_representable_id)
  also have "\<lfloor>of_nat n / 5 :: rat\<rfloor> = int (n div 5)" using floor_divide_of_nat_eq [where ?'a = rat, of n 5] by simp
  finally show ?thesis by (simp add: selected_count_of_def)
qed

lemma whole_shares_bound:
  assumes "0 < price" and "0 \<le> cash"
  shows "price * of_int (whole_shares_of cash price) \<le> cash * (1 + 1 / (2 * 10 ^ 27))"
proof -
  have "of_int (whole_shares_of cash price) \<le> ddiv cash price" by (simp add: whole_shares_of_def)
  also have "\<dots> \<le> cash / price + cash / price / (2 * 10 ^ 27)"
    using dround_relative_error [of "cash / price"] assms by (simp add: ddiv_def abs_le_iff)
  finally have "price * of_int (whole_shares_of cash price) \<le> price * (cash / price + cash / price / (2 * 10 ^ 27))"
    using assms(1) by (intro mult_left_mono) simp_all
  then show ?thesis using assms(1) by (simp add: field_simps)
qed

section \<open>Ranking\<close>

lemma sorted_take_drop:
  "sorted (map f xs) \<Longrightarrow> x \<in> set (take k xs) \<Longrightarrow> y \<in> set (drop k xs) \<Longrightarrow> f x \<le> f y"
proof -
  assume "sorted (map f xs)" "x \<in> set (take k xs)" "y \<in> set (drop k xs)"
  moreover have "sorted (map f (take k xs) @ map f (drop k xs))"
    using calculation(1) by (metis append_take_drop_id map_append)
  ultimately show ?thesis by (auto simp: sorted_append)
qed

lemma rmap_map: "rmap f xs = Inr ys \<Longrightarrow> (\<And>x y. f x = Inr y \<Longrightarrow> g y = h x) \<Longrightarrow> map g ys = map h xs"
  by (induction xs arbitrary: ys) auto

lemma rmap_member: "rmap f xs = Inr ys \<Longrightarrow> x \<in> set xs \<Longrightarrow> \<exists>y\<in>set ys. f x = Inr y"
  by (induction xs arbitrary: ys) auto

lemma momentum_score_parts:
  "momentum_score q dt c = Inr s \<Longrightarrow> ms_candidate s = c \<and> dround (ms_signal s) = ms_signal s \<and> 0 < ms_price s
     \<and> mc_execution_price c = Finite (ms_price s)"
  by (auto simp: momentum_score_def valid_decimal_def split: decimal.splits)

lemma momentum_allocate_Inr:
  "momentum_allocate run dt rt ft capital fm scored = Inr p \<Longrightarrow>
     1 \<le> selected_count_of (length scored)
     \<and> (\<forall>t\<in>set (mp_targets p). 0 < mt_whole_shares t)
     \<and> p = \<lparr>mp_strategy_id = ''MOM-001'', mp_research_run_id = run, mp_decision_time = dt,
            mp_release_time = rt, mp_fill_time = ft, mp_eligible_count = length scored,
            mp_selected_count = selected_count_of (length scored),
            mp_targets = map (momentum_target (ddiv 1 (of_int (selected_count_of (length scored))))
                (ddiv capital (of_int (selected_count_of (length scored)))))
              (List.enumerate 1 (take (nat (selected_count_of (length scored))) (sort_key momentum_key scored))),
            mp_residual_cash = dsub capital (dsum (map mt_allocated_cash (mp_targets p))),
            mp_cost_scenarios = all_scenarios, mp_fixture_minimum_applied = fm,
            mp_economic_edge = ''NOT_ESTABLISHED'', mp_authority = RESEARCH_ONLY\<rparr>"
  by (auto simp: momentum_allocate_def Let_def not_less not_le)

lemma enumerate_snd: "(k, x) \<in> set (List.enumerate n xs) \<Longrightarrow> x \<in> set xs"
  by (auto simp: in_set_enumerate_eq)

text \<open>The candidates of a momentum portfolio, scored and ranked.\<close>

lemma momentum_portfolio_Inr:
  assumes "construct_momentum_portfolio cs q run dt rt ft capital fm = Inr p"
  obtains cash scored where "capital = Finite cash" "0 < cash" "distinct (map mc_instrument_id cs)"
    "dq_lifecycle q = CURRENT" "permits_claim q ENGINEERING_ONLY" "instant dt < instant rt" "instant rt < instant ft"
    "rmap (momentum_score q dt) cs = Inr scored"
    "momentum_allocate (run_text run) dt rt ft cash fm scored = Inr p"
  using assms by (cases capital) (auto simp: construct_momentum_portfolio_def valid_decimal_def)

lemma momentum_ranked:
  assumes "rmap (momentum_score q dt) cs = Inr scored" and "distinct (map mc_instrument_id cs)"
  shows "map (\<lambda>s. mc_instrument_id (ms_candidate s)) scored = map mc_instrument_id cs"
    "length scored = length cs"
    "distinct (map (\<lambda>s. mc_instrument_id (ms_candidate s)) (sort_key momentum_key scored))"
proof -
  show 1: "map (\<lambda>s. mc_instrument_id (ms_candidate s)) scored = map mc_instrument_id cs"
    by (rule rmap_map [OF assms(1)]) (simp add: momentum_score_parts)
  then show "length scored = length cs" by (metis length_map)
  have "distinct (map (\<lambda>s. mc_instrument_id (ms_candidate s)) scored)" using 1 assms(2) by simp
  then show "distinct (map (\<lambda>s. mc_instrument_id (ms_candidate s)) (sort_key momentum_key scored))"
    by (simp add: distinct_map)
qed

lemma momentum_key_le:
  assumes "dround (ms_signal a) = ms_signal a" and "dround (ms_signal b) = ms_signal b"
    and "momentum_key a \<le> momentum_key b"
  shows "ms_signal b < ms_signal a \<or> ms_signal b = ms_signal a
    \<and> InstrumentId_to_string (mc_instrument_id (ms_candidate a)) \<le> InstrumentId_to_string (mc_instrument_id (ms_candidate b))"
  using assms by (auto simp: momentum_key_def dneg_eq)

text \<open>An endpoint that was available, eligible and qualified for the decision.\<close>

definition endpoint_known :: "DatasetQualification \<Rightarrow> Timestamp \<Rightarrow> InstrumentId \<Rightarrow> TotalReturnEndpoint \<Rightarrow> bool" where
  "endpoint_known q decision_time i e \<longleftrightarrow> te_instrument_id e = i
     \<and> te_dataset_id e = dq_dataset_id q \<and> te_dataset_version e = dq_dataset_version q
     \<and> instant (te_available_at e) \<le> instant decision_time
     \<and> el_state (te_eligibility e) = ELIGIBLE \<and> el_decision_time (te_eligibility e) = decision_time
     \<and> cov_start (dq_coverage q) \<le> te_month_end e \<and> te_month_end e \<le> cov_end (dq_coverage q)"

lemma validate_momentum_endpoint_Inr:
  "validate_momentum_endpoint e ym c q dt = Inr x \<Longrightarrow> endpoint_known q dt (mc_instrument_id c) e
     \<and> (year_of (te_month_end e), month_of (te_month_end e)) = ym \<and> te_total_return_index e = Finite x \<and> 0 < x"
  by (auto simp: validate_momentum_endpoint_def endpoint_known_def valid_decimal_def split: decimal.splits)

lemma validate_trend_endpoint_Inr:
  "validate_trend_endpoint e z c q dt = Inr x \<Longrightarrow> endpoint_known q dt (tn_instrument_id c) e
     \<and> te_month_end e = z \<and> te_total_return_index e = Finite x \<and> 0 < x"
  by (auto simp: validate_trend_endpoint_def endpoint_known_def positive_decimal_def split: decimal.splits)

lemma trend_portfolio_Inr:
  assumes "construct_trend_portfolio cs q run dt rt ft capital = Inr p"
  obtains cash months scored where "capital = Finite cash" "0 < cash" "distinct (map tn_instrument_id cs)"
    "dq_lifecycle q = CURRENT" "permits_claim q ENGINEERING_ONLY" "instant dt < instant rt" "instant rt < instant ft"
    "trend_signal_months dt = Inr months" "rmap (trend_score q dt months) cs = Inr scored"
    "trend_targets cash (sort_key trend_key (filter (\<lambda>s. 0 < ts_signal s) scored)) = Inr (tp_targets p)"
    "tp_classifications p = sort_key classification_key (map (\<lambda>c. (tn_instrument_id c, tn_asset_class c)) cs)"
  using assms by (cases capital) (auto simp: construct_trend_portfolio_def positive_decimal_def Let_def)

section \<open>Properties\<close>

text \<open>No look-ahead: a momentum or trend portfolio is only ever built from a current qualified dataset,
  with decision before release before fill, and from endpoints of the candidates themselves that were
  available and point-in-time eligible at the decision and lie in exactly the months the strategy
  prescribes for the decision date.\<close>

theorem strategy_inputs_point_in_time:
  "(construct_momentum_portfolio cs q run dt rt ft capital fm = Inr p \<longrightarrow>
      permits_claim q ENGINEERING_ONLY \<and> instant dt < instant rt \<and> instant rt < instant ft
      \<and> list_all (\<lambda>c. endpoint_known q dt (mc_instrument_id c) (mc_start c)
          \<and> endpoint_known q dt (mc_instrument_id c) (mc_end c)
          \<and> (year_of (te_month_end (mc_start c)), month_of (te_month_end (mc_start c))) = month_shift (anchor_month dt) (- 13)
          \<and> (year_of (te_month_end (mc_end c)), month_of (te_month_end (mc_end c))) = month_shift (anchor_month dt) (- 2)) cs)
   \<and> (construct_trend_portfolio ts q run dt rt ft capital = Inr r \<longrightarrow>
      permits_claim q ENGINEERING_ONLY \<and> instant dt < instant rt \<and> instant rt < instant ft
      \<and> list_all (\<lambda>c. endpoint_known q dt (tn_instrument_id c) (tn_start c)
          \<and> endpoint_known q dt (tn_instrument_id c) (tn_end c)
          \<and> month_end (month_shift (anchor_month dt) (- 13)) = Inr (te_month_end (tn_start c))
          \<and> month_end (month_shift (anchor_month dt) (- 1)) = Inr (te_month_end (tn_end c))) ts)"
proof (intro conjI impI)
  assume "construct_momentum_portfolio cs q run dt rt ft capital fm = Inr p"
  then obtain cash scored where times: "permits_claim q ENGINEERING_ONLY" "instant dt < instant rt" "instant rt < instant ft"
    and sc: "rmap (momentum_score q dt) cs = Inr scored" by (rule momentum_portfolio_Inr)
  show "permits_claim q ENGINEERING_ONLY" "instant dt < instant rt" "instant rt < instant ft" using times .
  show "list_all (\<lambda>c. endpoint_known q dt (mc_instrument_id c) (mc_start c)
          \<and> endpoint_known q dt (mc_instrument_id c) (mc_end c)
          \<and> (year_of (te_month_end (mc_start c)), month_of (te_month_end (mc_start c))) = month_shift (anchor_month dt) (- 13)
          \<and> (year_of (te_month_end (mc_end c)), month_of (te_month_end (mc_end c))) = month_shift (anchor_month dt) (- 2)) cs"
    unfolding list_all_iff
  proof
    fix c assume "c \<in> set cs"
    from rmap_member [OF sc this] obtain s where "momentum_score q dt c = Inr s" by blast
    then obtain x y where x: "validate_momentum_endpoint (mc_start c) (month_shift (anchor_month dt) (- 13)) c q dt = Inr x"
      and y: "validate_momentum_endpoint (mc_end c) (month_shift (anchor_month dt) (- 2)) c q dt = Inr y"
      by (auto simp: momentum_score_def momentum_signal_months_def)
    from validate_momentum_endpoint_Inr [OF x] validate_momentum_endpoint_Inr [OF y]
    show "endpoint_known q dt (mc_instrument_id c) (mc_start c)
          \<and> endpoint_known q dt (mc_instrument_id c) (mc_end c)
          \<and> (year_of (te_month_end (mc_start c)), month_of (te_month_end (mc_start c))) = month_shift (anchor_month dt) (- 13)
          \<and> (year_of (te_month_end (mc_end c)), month_of (te_month_end (mc_end c))) = month_shift (anchor_month dt) (- 2)"
      by blast
  qed
next
  assume "construct_trend_portfolio ts q run dt rt ft capital = Inr r"
  then obtain cash months scored where times: "permits_claim q ENGINEERING_ONLY" "instant dt < instant rt" "instant rt < instant ft"
    and m: "trend_signal_months dt = Inr months" and sc: "rmap (trend_score q dt months) ts = Inr scored"
    by (rule trend_portfolio_Inr)
  show "permits_claim q ENGINEERING_ONLY" "instant dt < instant rt" "instant rt < instant ft" using times .
  show "list_all (\<lambda>c. endpoint_known q dt (tn_instrument_id c) (tn_start c)
          \<and> endpoint_known q dt (tn_instrument_id c) (tn_end c)
          \<and> month_end (month_shift (anchor_month dt) (- 13)) = Inr (te_month_end (tn_start c))
          \<and> month_end (month_shift (anchor_month dt) (- 1)) = Inr (te_month_end (tn_end c))) ts"
    unfolding list_all_iff
  proof
    fix c assume "c \<in> set ts"
    from rmap_member [OF sc this] obtain s where "trend_score q dt months c = Inr s" by blast
    then obtain x y where x: "validate_trend_endpoint (tn_start c) (fst months) c q dt = Inr x"
      and y: "validate_trend_endpoint (tn_end c) (snd months) c q dt = Inr y"
      by (auto simp: trend_score_def)
    from validate_trend_endpoint_Inr [OF x] validate_trend_endpoint_Inr [OF y] m
    show "endpoint_known q dt (tn_instrument_id c) (tn_start c)
          \<and> endpoint_known q dt (tn_instrument_id c) (tn_end c)
          \<and> month_end (month_shift (anchor_month dt) (- 13)) = Inr (te_month_end (tn_start c))
          \<and> month_end (month_shift (anchor_month dt) (- 1)) = Inr (te_month_end (tn_end c))"
      by (auto simp: trend_signal_months_def)
  qed
qed

lemma momentum_target_simps [simp]:
  "mt_instrument_id (momentum_target w cash (k, s)) = mc_instrument_id (ms_candidate s)"
  "mt_rank (momentum_target w cash (k, s)) = k" "mt_signal (momentum_target w cash (k, s)) = ms_signal s"
  "mt_weight (momentum_target w cash (k, s)) = w" "mt_execution_price (momentum_target w cash (k, s)) = ms_price s"
  "mt_whole_shares (momentum_target w cash (k, s)) = whole_shares_of cash (ms_price s)"
  by (simp_all add: momentum_target_def)

abbreviation score_id :: "MomentumScore \<Rightarrow> InstrumentId" where
  "score_id s \<equiv> mc_instrument_id (ms_candidate s)"

lemma momentum_targets_ranked:
  assumes "construct_momentum_portfolio cs q run dt rt ft (Finite capital) fm = Inr p" and "length cs < 10 ^ 27"
  obtains ranked where "0 < capital" "length cs div 5 \<le> length ranked"
    "mp_targets p = map (momentum_target (ddiv 1 (of_nat (length cs div 5))) (ddiv capital (of_nat (length cs div 5))))
       (List.enumerate 1 (take (length cs div 5) ranked))"
    "sorted (map momentum_key ranked)" "distinct (map score_id ranked)"
    "score_id ` set ranked = mc_instrument_id ` set cs"
    "\<forall>s\<in>set ranked. 0 < ms_price s \<and> dround (ms_signal s) = ms_signal s"
    "\<forall>c s. c \<in> set cs \<and> momentum_score q dt c = Inr s \<longrightarrow> s \<in> set ranked"
    "\<forall>t\<in>set (mp_targets p). 0 < mt_whole_shares t"
proof -
  from assms(1) obtain scored where d: "distinct (map mc_instrument_id cs)" and cap: "0 < capital"
    and sc: "rmap (momentum_score q dt) cs = Inr scored"
    and al: "momentum_allocate (run_text run) dt rt ft capital fm scored = Inr p"
    by (auto elim: momentum_portfolio_Inr)
  define ranked where "ranked = sort_key momentum_key scored"
  note rk = momentum_ranked [OF sc d, folded ranked_def]
  have n: "selected_count_of (length scored) = int (length cs div 5)"
    using selected_count_fifth [OF assms(2)] by (simp add: rk(2))
  note parts = momentum_allocate_Inr [OF al, unfolded n nat_int of_int_of_nat_eq ranked_def [symmetric]]
  show thesis
  proof (rule that [of ranked])
    show "mp_targets p = map (momentum_target (ddiv 1 (of_nat (length cs div 5))) (ddiv capital (of_nat (length cs div 5))))
       (List.enumerate 1 (take (length cs div 5) ranked))"
      using parts by (metis MomentumPortfolio.select_convs(8))
    show "\<forall>s\<in>set ranked. 0 < ms_price s \<and> dround (ms_signal s) = ms_signal s"
      using rmap_set [OF sc] momentum_score_parts by (fastforce simp: ranked_def)
    show "\<forall>c s. c \<in> set cs \<and> momentum_score q dt c = Inr s \<longrightarrow> s \<in> set ranked"
      using rmap_member [OF sc] by (fastforce simp: ranked_def)
    show "score_id ` set ranked = mc_instrument_id ` set cs"
      using arg_cong [OF rk(1), of set] by (simp add: ranked_def)
  qed (use parts cap rk in \<open>simp_all add: ranked_def\<close>)
qed

lemma momentum_left_out:
  assumes "sorted (map momentum_key ranked)" and "distinct (map score_id ranked)"
    and "\<forall>s\<in>set ranked. 0 < ms_price s \<and> dround (ms_signal s) = ms_signal s"
    and "x \<in> set (take k ranked)" and "s \<in> set ranked" and "score_id s \<notin> score_id ` set (take k ranked)"
  shows "ms_signal s < ms_signal x \<or> ms_signal s = ms_signal x
    \<and> InstrumentId_to_string (score_id x) \<le> InstrumentId_to_string (score_id s)"
proof -
  have "s \<in> set (drop k ranked)"
    using assms(5,6) by (metis Un_iff append_take_drop_id image_eqI set_append)
  from momentum_key_le [OF _ _ sorted_take_drop [OF assms(1,4) this]] assms(3-5)
  show ?thesis by (meson in_set_takeD)
qed

text \<open>C33: The momentum portfolio holds exactly the top fifth, rounded down, of the distinct candidates: ranks
  count from one, every selected signal is at least every signal left out and ties go to the smaller
  instrument text, the weights are equal, and each name gets a positive number of whole shares that
  costs at most its share of the capital, up to the rounding of one division.\<close>

theorem momentum_selects_top_fifth:
  assumes "construct_momentum_portfolio cs q run dt rt ft (Finite capital) fm = Inr p" and "length cs < 10 ^ 27"
  shows "length (mp_targets p) = length cs div 5 \<and> map mt_rank (mp_targets p) = [1..<length cs div 5 + 1]
    \<and> distinct (map mt_instrument_id (mp_targets p))
    \<and> mt_instrument_id ` set (mp_targets p) \<subseteq> mc_instrument_id ` set cs
    \<and> list_all (\<lambda>t. mt_weight t = ddiv 1 (of_nat (length cs div 5)) \<and> 0 < mt_whole_shares t
        \<and> mt_execution_price t * of_int (mt_whole_shares t)
           \<le> ddiv capital (of_nat (length cs div 5)) * (1 + 1 / (2 * 10 ^ 27))) (mp_targets p)
    \<and> (\<forall>c s t. c \<in> set cs \<and> mc_instrument_id c \<notin> mt_instrument_id ` set (mp_targets p)
        \<and> momentum_score q dt c = Inr s \<and> t \<in> set (mp_targets p) \<longrightarrow>
          ms_signal s < mt_signal t \<or> ms_signal s = mt_signal t
            \<and> InstrumentId_to_string (mt_instrument_id t) \<le> InstrumentId_to_string (mc_instrument_id c))"
proof -
  define k where "k = length cs div 5"
  obtain ranked where r: "0 < capital" "k \<le> length ranked"
      "mp_targets p = map (momentum_target (ddiv 1 (of_nat k)) (ddiv capital (of_nat k))) (List.enumerate 1 (take k ranked))"
      "sorted (map momentum_key ranked)" "distinct (map score_id ranked)"
      "score_id ` set ranked = mc_instrument_id ` set cs"
      "\<forall>s\<in>set ranked. 0 < ms_price s \<and> dround (ms_signal s) = ms_signal s"
      "\<forall>c s. c \<in> set cs \<and> momentum_score q dt c = Inr s \<longrightarrow> s \<in> set ranked"
      "\<forall>t\<in>set (mp_targets p). 0 < mt_whole_shares t"
    using momentum_targets_ranked [OF assms] unfolding k_def by metis
  have target: "\<exists>i s. t = momentum_target (ddiv 1 (of_nat k)) (ddiv capital (of_nat k)) (i, s) \<and> s \<in> set (take k ranked)"
    if "t \<in> set (mp_targets p)" for t
    using that by (auto simp: r(3) dest: enumerate_snd)
  have "map mt_instrument_id (mp_targets p) = map (\<lambda>x. score_id (snd x)) (List.enumerate 1 (take k ranked))"
    by (auto simp: r(3))
  then have "map mt_instrument_id (mp_targets p) = map score_id (take k ranked)"
    by (metis (no_types, lifting) map_snd_enumerate map_map comp_apply map_cong)
  then have ids: "mt_instrument_id ` set (mp_targets p) = score_id ` set (take k ranked)"
      "distinct (map mt_instrument_id (mp_targets p))"
    using r(5) by (metis list.set_map, metis distinct_take take_map)
  have "map mt_rank (mp_targets p) = map fst (List.enumerate 1 (take k ranked))"
    unfolding r(3) map_map by (rule map_cong) auto
  then have "map mt_rank (mp_targets p) = [1..<k + 1]" using r(2) by (simp add: map_fst_enumerate del: upt_Suc)
  moreover have "length (mp_targets p) = k" using r(2) by (simp add: r(3))
  moreover have "mt_weight t = ddiv 1 (of_nat k) \<and> 0 < mt_whole_shares t
      \<and> mt_execution_price t * of_int (mt_whole_shares t) \<le> ddiv capital (of_nat k) * (1 + 1 / (2 * 10 ^ 27))"
    if "t \<in> set (mp_targets p)" for t
  proof -
    from target [OF that] obtain i s where t: "t = momentum_target (ddiv 1 (of_nat k)) (ddiv capital (of_nat k)) (i, s)"
      and s: "s \<in> set ranked" by (blast dest: in_set_takeD)
    have "0 \<le> ddiv capital (of_nat k)" using r(1) by (simp add: ddiv_def)
    with s r(7) whole_shares_bound [of "ms_price s" "ddiv capital (of_nat k)"] r(9) that show ?thesis by (auto simp: t)
  qed
  moreover have "mt_instrument_id ` set (mp_targets p) \<subseteq> mc_instrument_id ` set cs"
    using ids(1) r(6) by (metis image_mono set_take_subset)
  moreover have "ms_signal s < mt_signal t \<or> ms_signal s = mt_signal t
      \<and> InstrumentId_to_string (mt_instrument_id t) \<le> InstrumentId_to_string (mc_instrument_id c)"
    if "c \<in> set cs" "mc_instrument_id c \<notin> mt_instrument_id ` set (mp_targets p)"
      "momentum_score q dt c = Inr s" "t \<in> set (mp_targets p)" for c s t
  proof -
    from target [OF that(4)] obtain i x where t: "t = momentum_target (ddiv 1 (of_nat k)) (ddiv capital (of_nat k)) (i, x)"
      and x: "x \<in> set (take k ranked)" by blast
    have c: "ms_candidate s = c" using momentum_score_parts [OF that(3)] by simp
    then have "score_id s \<notin> score_id ` set (take k ranked)" using that(2) ids(1) by simp
    from momentum_left_out [OF r(4,5,7) x _ this] that(1,3) r(8) show ?thesis by (simp add: t c)
  qed
  ultimately show ?thesis using ids(2) r(2) unfolding k_def [symmetric] list_all_iff by auto
qed

section \<open>Transition intents\<close>

definition intent_of :: "TrendPortfolio \<Rightarrow> SimulationLedger \<Rightarrow> InstrumentId \<Rightarrow> TrendIntent option" where
  "intent_of p l i = (case intent_for p l [] i of Inr [t] \<Rightarrow> Some t | _ \<Rightarrow> None)"

lemma intent_for_append:
  "\<exists>c. class_entry (tp_classifications p) i = Inr c \<Longrightarrow>
   intent_for p l ts i = Inr (ts @ (case intent_of p l i of None \<Rightarrow> [] | Some t \<Rightarrow> [t]))"
  by (auto simp: intent_of_def intent_for_def Let_def)

lemma intents_collected:
  "\<forall>i\<in>set ks. \<exists>c. class_entry (tp_classifications p) i = Inr c \<Longrightarrow>
   rfold (intent_for p l) ts ks = Inr (ts @ List.map_filter (intent_of p l) ks)"
  by (induction ks arbitrary: ts) (auto simp: intent_for_append List.map_filter_simps split: option.split)

lemma intent_of_Some:
  "intent_of p l i = Some t \<Longrightarrow> ti_instrument_id t = i
     \<and> dsub (target_quantity (tp_targets p) i) (current_quantity l i) \<noteq> 0
     \<and> ti_side t = (if 0 < dsub (target_quantity (tp_targets p) i) (current_quantity l i) then BUY else SELL)
     \<and> ti_quantity t = dabs (dsub (target_quantity (tp_targets p) i) (current_quantity l i))
     \<and> ti_current_quantity t = current_quantity l i \<and> ti_target_quantity t = target_quantity (tp_targets p) i"
  by (auto simp: intent_of_def intent_for_def Let_def split: if_splits sum.splits list.splits)

lemma intent_of_None:
  "\<exists>c. class_entry (tp_classifications p) i = Inr c \<Longrightarrow> intent_of p l i = None \<longleftrightarrow>
     dsub (target_quantity (tp_targets p) i) (current_quantity l i) = 0"
  by (auto simp: intent_of_def intent_for_def Let_def)

text \<open>The change of a holding that a list of intents asks for.\<close>

definition intent_effect :: "TrendIntent list \<Rightarrow> InstrumentId \<Rightarrow> rat" where
  "intent_effect ts i = sum_list (map (\<lambda>t. if ti_side t = BUY then ti_quantity t else - ti_quantity t)
     (filter (\<lambda>t. ti_instrument_id t = i) ts))"

lemma intent_effect_collected:
  assumes "distinct ks" and ids: "\<And>i t. f i = Some t \<Longrightarrow> ti_instrument_id t = i"
  shows "intent_effect (List.map_filter f ks) i =
    (case (if i \<in> set ks then f i else None) of None \<Rightarrow> 0
     | Some t \<Rightarrow> if ti_side t = BUY then ti_quantity t else - ti_quantity t)"
  using assms(1)
proof (induction ks)
  case (Cons k ks)
  then show ?case using ids [of k]
    by (cases "f k") (auto simp: intent_effect_def List.map_filter_simps split: option.splits)
qed (simp add: intent_effect_def List.map_filter_simps)

lemma collected_ids:
  "distinct ks \<Longrightarrow> (\<And>i t. f i = Some t \<Longrightarrow> ti_instrument_id t = i) \<Longrightarrow>
   distinct (map ti_instrument_id (List.map_filter f ks)) \<and> ti_instrument_id ` set (List.map_filter f ks) \<subseteq> set ks"
  by (induction ks) (auto simp: List.map_filter_simps split: option.splits)

lemma trend_targets_positive: "trend_targets cash ps = Inr ts \<Longrightarrow> t \<in> set ts \<Longrightarrow> 0 < tt_whole_shares t"
  by (auto simp: trend_targets_def trend_target_def Let_def dest!: rmap_set split: if_splits)

text \<open>Holdings and targets in whole shares of moderate size: their difference is exact.\<close>

definition whole_below :: "int \<Rightarrow> rat \<Rightarrow> bool" where
  "whole_below b x \<longleftrightarrow> (\<exists>n. x = of_int n \<and> 0 \<le> n \<and> n < b)"

lemma whole_difference:
  assumes "whole_below (10 ^ 28) x" and "whole_below (10 ^ 28) y"
  shows "dsub x y = x - y" "dabs (x - y) = \<bar>x - y\<bar>"
proof -
  from assms obtain m n where xy: "x = of_int m" "y = of_int n" and b: "0 \<le> m" "m < 10 ^ 28" "0 \<le> n" "n < 10 ^ 28"
    by (auto simp: whole_below_def)
  then have "\<bar>m - n\<bar> < 10 ^ 28" by linarith
  then have "representable (of_int (m - n))" "representable (of_int \<bar>m - n\<bar>)"
    using representable_of_int [of "m - n"] representable_of_int [of "\<bar>m - n\<bar>"] by simp_all
  then have "dround (x - y) = x - y" "dround \<bar>x - y\<bar> = \<bar>x - y\<bar>" by (simp_all add: xy dround_representable_id)
  then show "dsub x y = x - y" "dabs (x - y) = \<bar>x - y\<bar>" by (simp_all add: dsub_def dabs_def)
qed

lemma trend_classified:
  assumes "construct_trend_portfolio cs q run dt rt ft capital = Inr p"
  shows "distinct (map fst (dict_of fst (tp_classifications p)))"
    "set (map fst (dict_of fst (tp_classifications p))) = tn_instrument_id ` set cs"
    "i \<in> tn_instrument_id ` set cs \<Longrightarrow> \<exists>c. class_entry (tp_classifications p) i = Inr c"
    "tt_instrument_id ` set (tp_targets p) \<subseteq> tn_instrument_id ` set cs"
    "\<forall>t\<in>set (tp_targets p). 0 < tt_whole_shares t"
proof -
  from assms obtain cash months scored where sc: "rmap (trend_score q dt months) cs = Inr scored"
    and t: "trend_targets cash (sort_key trend_key (filter (\<lambda>s. 0 < ts_signal s) scored)) = Inr (tp_targets p)"
    and cl: "tp_classifications p = sort_key classification_key (map (\<lambda>c. (tn_instrument_id c, tn_asset_class c)) cs)"
    by (rule trend_portfolio_Inr)
  show "distinct (map fst (dict_of fst (tp_classifications p)))" by (rule dict_of_distinct)
  have "set (map fst (dict_of fst (tp_classifications p))) = fst ` set (tp_classifications p)"
    by (simp add: dict_of_keys)
  also have "\<dots> = tn_instrument_id ` set cs" by (auto simp: cl image_image)
  finally show keys: "set (map fst (dict_of fst (tp_classifications p))) = tn_instrument_id ` set cs" .
  show "\<exists>c. class_entry (tp_classifications p) i = Inr c" if "i \<in> tn_instrument_id ` set cs"
  proof -
    have "i \<in> set (map fst (dict_of fst (tp_classifications p)))" unfolding keys by (rule that)
    then obtain x where "x \<in> set (dict_of fst (tp_classifications p))" "fst x = i" by auto
    then show ?thesis by (simp add: class_entry_def dict_get_unique)
  qed
  show "\<forall>t\<in>set (tp_targets p). 0 < tt_whole_shares t" using trend_targets_positive [OF t] by blast
  show "tt_instrument_id ` set (tp_targets p) \<subseteq> tn_instrument_id ` set cs"
  proof
    fix i assume "i \<in> tt_instrument_id ` set (tp_targets p)"
    with t obtain s where "s \<in> set scored" "tn_instrument_id (ts_candidate s) = i"
      by (auto simp: trend_targets_def trend_target_def Let_def dest!: rmap_set split: if_splits)
    with rmap_set [OF sc] show "i \<in> tn_instrument_id ` set cs" by (fastforce simp: trend_score_def)
  qed
qed

lemma target_quantity_cases:
  "target_quantity ts i = 0 \<and> i \<notin> tt_instrument_id ` set ts
   \<or> (\<exists>t\<in>set ts. tt_instrument_id t = i \<and> target_quantity ts i = of_int (tt_whole_shares t))"
proof (cases "dict_get tt_instrument_id (dict_of tt_instrument_id ts) i")
  case None
  then have "i \<notin> tt_instrument_id ` set (dict_of tt_instrument_id ts)" by (auto simp: dict_get_None)
  then show ?thesis using None by (simp add: target_quantity_def dict_of_keys)
next
  case (Some t)
  with dict_get_SomeD [OF Some] set_dict_of_subset [of tt_instrument_id ts] show ?thesis
    by (auto simp: target_quantity_def)
qed

lemma current_quantity_cases:
  "current_quantity l i = 0 \<or> (\<exists>x\<in>set (ls_positions (lg_state l)). pos_instrument_id x = i \<and> pos_quantity x = current_quantity l i)"
  by (auto simp: current_quantity_def position_def split: option.split dest!: find_first_SomeD)

lemma whole_below_0 [simp]: "whole_below (10 ^ 28) 0"
  unfolding whole_below_def by (intro exI [of _ 0]) simp

lemma whole_target:
  assumes "\<forall>t\<in>set ts. 0 < tt_whole_shares t" and "list_all (\<lambda>t. tt_whole_shares t < 10 ^ 28) ts"
  shows "whole_below (10 ^ 28) (target_quantity ts i)"
proof -
  have "whole_below (10 ^ 28) (of_int (tt_whole_shares t))" if "t \<in> set ts" for t
    using that assms unfolding whole_below_def list_all_iff by (blast intro: less_imp_le)
  then show ?thesis using target_quantity_cases [of ts i] whole_below_0 by metis
qed

lemma whole_current:
  "list_all (\<lambda>x. whole_below (10 ^ 28) (pos_quantity x)) (ls_positions (lg_state l)) \<Longrightarrow>
   whole_below (10 ^ 28) (current_quantity l i)"
  using current_quantity_cases [of l i] whole_below_0 unfolding list_all_iff by metis

lemma unclassified_zero:
  assumes "tt_instrument_id ` set ts \<subseteq> ids"
    and "pos_instrument_id ` {x \<in> set (ls_positions (lg_state l)). pos_quantity x \<noteq> 0} \<subseteq> ids" and "i \<notin> ids"
  shows "target_quantity ts i = 0 \<and> current_quantity l i = 0"
proof -
  have "i \<in> pos_instrument_id ` {x \<in> set (ls_positions (lg_state l)). pos_quantity x \<noteq> 0}"
    if "current_quantity l i \<noteq> 0"
    using that current_quantity_cases [of l i] by force
  moreover have "i \<in> tt_instrument_id ` set ts" if "target_quantity ts i \<noteq> 0"
    using that target_quantity_cases [of ts i] by auto
  ultimately show ?thesis using assms by blast
qed

text \<open>C34: Transition intents carry the ledger to the targets: for a trend portfolio and a ledger whose nonzero
  holdings are all classified and are whole shares, the intents exist, name each instrument at most
  once, and applied to the holdings give exactly the target quantities; a sale never exceeds the
  holding, so no intent asks for a short position.\<close>

theorem trend_intents_reach_targets:
  assumes "construct_trend_portfolio cs q run dt rt ft capital = Inr p"
    and "pos_instrument_id ` {x \<in> set (ls_positions (lg_state l)). pos_quantity x \<noteq> 0} \<subseteq> tn_instrument_id ` set cs"
    and "list_all (\<lambda>x. whole_below (10 ^ 28) (pos_quantity x)) (ls_positions (lg_state l))"
    and "list_all (\<lambda>t. tt_whole_shares t < 10 ^ 28) (tp_targets p)"
  shows "\<exists>ts. construct_transition_intents p l = Inr ts \<and> distinct (map ti_instrument_id ts)
    \<and> (\<forall>i. current_quantity l i + intent_effect ts i = target_quantity (tp_targets p) i)
    \<and> list_all (\<lambda>t. 0 < ti_quantity t \<and> (ti_side t = SELL \<longrightarrow> ti_quantity t \<le> ti_current_quantity t)) ts"
proof -
  define ks where "ks = sort_key InstrumentId_to_string (map fst (dict_of fst (tp_classifications p)))"
  define ts where "ts = List.map_filter (intent_of p l) ks"
  note cl = trend_classified [OF assms(1)]
  have ks: "distinct ks" "set ks = tn_instrument_id ` set cs" using cl(1,2) by (simp_all add: ks_def)
  have run: "construct_transition_intents p l = Inr ts"
  proof -
    have "\<not> (\<exists>i\<in>set (map pos_instrument_id (filter (\<lambda>x. pos_quantity x \<noteq> 0) (ls_positions (lg_state l)))).
        i \<notin> set (map fst (dict_of fst (tp_classifications p))))"
      unfolding cl(2) using assms(2) by auto
    moreover have "rfold (intent_for p l) [] ks = Inr ts"
      using intents_collected [of ks p l "[]"] cl(3) ks(2) by (simp add: ts_def)
    ultimately show ?thesis by (simp add: construct_transition_intents_def Let_def ks_def)
  qed
  note diff = whole_difference [OF whole_target [OF cl(5) assms(4)] whole_current [OF assms(3)]]
  have ids: "\<And>i t. intent_of p l i = Some t \<Longrightarrow> ti_instrument_id t = i" using intent_of_Some by blast
  note eff = intent_effect_collected [where f = "intent_of p l", OF ks(1) ids, folded ts_def]
  have "current_quantity l i + intent_effect ts i = target_quantity (tp_targets p) i" for i
  proof (cases "i \<in> set ks")
    case True
    then show ?thesis
      using eff [of i] intent_of_None [of p i l] intent_of_Some [of p l i] cl(3) ks(2)
      by (cases "intent_of p l i") (auto simp: diff)
  next
    case False
    then have "target_quantity (tp_targets p) i = 0 \<and> current_quantity l i = 0"
      using unclassified_zero [OF cl(4) assms(2)] ks(2) by simp
    then show ?thesis using eff [of i] False by simp
  qed
  moreover have "0 < ti_quantity t \<and> (ti_side t = SELL \<longrightarrow> ti_quantity t \<le> ti_current_quantity t)" if "t \<in> set ts" for t
  proof -
    from that obtain i where "intent_of p l i = Some t" by (auto simp: ts_def map_filter_def)
    then show ?thesis using intent_of_Some [of p l i t] whole_target [OF cl(5) assms(4), of i]
      by (auto simp: diff whole_below_def abs_if split: if_splits)
  qed
  ultimately show ?thesis using run collected_ids [where f = "intent_of p l", OF ks(1) ids] by (auto simp: list_all_iff ts_def)
qed

section \<open>Samples\<close>

definition st_instrument :: "uuid \<Rightarrow> InstrumentId" where
  "st_instrument n = InstrumentId (0x40008000000000000000 + n)"

definition st_decision :: Timestamp where
  "st_decision = Timestamp (19737 * 86400000000)"

definition st_qualification :: DatasetQualification where
  "st_qualification = (sample_q G1)\<lparr>dq_coverage := \<lparr>cov_start = 0, cov_end = 30000\<rparr>\<rparr>"

definition st_endpoint :: "uuid \<Rightarrow> int \<Rightarrow> rat \<Rightarrow> TotalReturnEndpoint" where
  "st_endpoint n day index = \<lparr>te_instrument_id = st_instrument n, te_month_end = day,
     te_total_return_index = Finite index, te_available_at = Timestamp 0,
     te_dataset_id = dq_dataset_id st_qualification, te_dataset_version = dq_dataset_version st_qualification,
     te_eligibility = \<lparr>el_state = ELIGIBLE, el_reasons = [], el_observation_id = ''o'',
       el_decision_time = st_decision, el_requested_claim = ENGINEERING_ONLY\<rparr>\<rparr>"

definition st_candidate :: "uuid \<Rightarrow> rat \<Rightarrow> MomentumCandidate" where
  "st_candidate n index = \<lparr>mc_instrument_id = st_instrument n, mc_start = st_endpoint n 19357 1,
     mc_end = st_endpoint n 19691 index, mc_execution_price = Finite 5\<rparr>"

definition st_candidates :: "MomentumCandidate list" where
  "st_candidates = [st_candidate 1 2, st_candidate 2 4, st_candidate 3 1, st_candidate 4 3, st_candidate 5 6]"

definition st_momentum :: "rat \<Rightarrow> MomentumPortfolio result" where
  "st_momentum capital = construct_momentum_portfolio st_candidates st_qualification (ResearchRunId ''run'') st_decision
     (Timestamp (19738 * 86400000000)) (Timestamp (19739 * 86400000000)) (Finite capital) False"

definition st_trend_candidates :: "TrendCandidate list" where
  "st_trend_candidates =
     [\<lparr>tn_instrument_id = st_instrument 1, tn_asset_class = EQUITY, tn_start = st_endpoint 1 19357 1,
       tn_end = st_endpoint 1 19722 2, tn_execution_price = Finite 5\<rparr>,
      \<lparr>tn_instrument_id = st_instrument 2, tn_asset_class = ETF, tn_start = st_endpoint 2 19357 2,
       tn_end = st_endpoint 2 19722 1, tn_execution_price = Finite 5\<rparr>]"

definition st_trend :: "TrendPortfolio result" where
  "st_trend = construct_trend_portfolio st_trend_candidates st_qualification (ResearchRunId ''run'') st_decision
     (Timestamp (19738 * 86400000000)) (Timestamp (19739 * 86400000000)) (Finite 100)"

text \<open>A ledger that holds three shares of the second instrument.\<close>

definition st_ledger :: SimulationLedger where
  "st_ledger = (ledger_empty sample_usd)\<lparr>lg_state := (lg_state (ledger_empty sample_usd))\<lparr>ls_positions :=
     [\<lparr>pos_instrument_id = st_instrument 2, pos_quantity = 3, pos_cost_basis = 3, pos_mark_price = 1,
       pos_realised_pnl = 0\<rparr>]\<rparr>\<rparr>"

lemmas strategy_code [code] = year_of_def [unfolded Let_def] month_shift_def [unfolded Let_def]
  momentum_allocate_def [unfolded Let_def] trend_target_def [unfolded Let_def]
  construct_trend_portfolio_def [unfolded Let_def]

lemma st_calendar: "anchor_month st_decision = (2024, 1)" "year_of 19357 = 2022" "month_of 19357 = 12"
  "month_end (2024, 2) = Inr 19782"
  by code_simp+

definition st_score :: "uuid \<Rightarrow> rat \<Rightarrow> MomentumScore" where
  "st_score n index = \<lparr>ms_candidate = st_candidate n index, ms_signal = index - 1, ms_price = 5\<rparr>"

definition st_scored :: "MomentumScore list" where
  "st_scored = [st_score 1 2, st_score 2 4, st_score 3 1, st_score 4 3, st_score 5 6]"

lemma st_scored: "rmap (momentum_score st_qualification st_decision) st_candidates = Inr st_scored"
  by code_simp

lemma st_distinct: "distinct (map mc_instrument_id st_candidates)"
  by code_simp

lemma st_key: "0 < c \<Longrightarrow> c < 10 \<Longrightarrow>
    momentum_key (st_score n (of_int c)) = (1 - of_int c, InstrumentId_to_string (st_instrument n))"
  using dround_representable_id [OF representable_of_int [of "c - 1"]]
  by (simp add: momentum_key_def st_score_def st_candidate_def dneg_eq)

lemmas st_keys = st_key [of 2, simplified] st_key [of 4, simplified] st_key [of 1, simplified]
  st_key [of 3, simplified] st_key [of 6, simplified]

lemma st_ranked: "sort_key momentum_key st_scored =
    [st_score 5 6, st_score 2 4, st_score 4 3, st_score 1 2, st_score 3 1]"
  unfolding st_scored_def by (simp add: st_keys)

lemma st_momentum_Inr:
  assumes "0 < capital" and "0 < whole_shares_of (ddiv capital 1) 5"
  shows "\<exists>p. st_momentum capital = Inr p \<and>
    mp_residual_cash p = dsub capital (dsum [dmul 5 (of_int (whole_shares_of (ddiv capital 1) 5))])"
proof -
  have "permits_claim st_qualification ENGINEERING_ONLY" "dq_lifecycle st_qualification = CURRENT"
    "st_candidates \<noteq> []" by code_simp+
  moreover have "selected_count_of (length st_scored) = 1" by code_simp
  moreover have "instant st_decision < 19738 * 86400000000" by code_simp
  ultimately show ?thesis
    using assms unfolding st_momentum_def construct_momentum_portfolio_def
    by (simp add: valid_decimal_def raise_if_def st_distinct st_scored momentum_allocate_def st_ranked
        momentum_target_def st_score_def Let_def)
qed

text \<open>Rounding the quotient of cash and price can push it up to the next whole share, whose cost then
  exceeds the capital.\<close>

lemma momentum_can_overspend:
  "\<exists>p. st_momentum (9999999999999999999999999999 / 1000000000000000000000000000) = Inr p \<and> mp_residual_cash p < 0"
proof -
  let ?c = "9999999999999999999999999999 / 1000000000000000000000000000 :: rat"
  have "0 < whole_shares_of (ddiv ?c 1) 5"
    "dsub ?c (dsum [dmul 5 (of_int (whole_shares_of (ddiv ?c 1) 5))]) < 0" by code_simp+
  with st_momentum_Inr [of ?c] show ?thesis by auto
qed

theorem momentum_selects_top_fifth_witness:
  "\<exists>p. st_momentum 100 = Inr p \<and> length (mp_targets p) = 1 \<and> map mt_rank (mp_targets p) = [1]"
proof -
  have "0 < whole_shares_of (ddiv 100 1) 5" by code_simp
  with st_momentum_Inr [of 100] obtain p where p: "st_momentum 100 = Inr p" by auto
  have "length st_candidates = 5" by (simp add: st_candidates_def)
  with momentum_selects_top_fifth [OF p [unfolded st_momentum_def]] p show ?thesis by simp
qed

lemma st_trend_built: "\<exists>p. st_trend = Inr p"
proof -
  have "\<not> isl st_trend" by code_simp
  then show ?thesis by (metis sum.collapse(2))
qed

theorem strategy_inputs_point_in_time_witness:
  "list_all (\<lambda>c. endpoint_known st_qualification st_decision (tn_instrument_id c) (tn_end c)) st_trend_candidates"
proof -
  from st_trend_built obtain p where "st_trend = Inr p" by blast
  then show ?thesis
    using strategy_inputs_point_in_time [of "[]" st_qualification "ResearchRunId ''run''" st_decision
        "Timestamp (19738 * 86400000000)" "Timestamp (19739 * 86400000000)" "Finite 100" False _ st_trend_candidates p]
    by (simp add: st_trend_def list_all_iff)
qed

theorem trend_intents_reach_targets_witness:
  "\<exists>p ts. st_trend = Inr p \<and> construct_transition_intents p st_ledger = Inr ts
     \<and> 3 + intent_effect ts (st_instrument 2) = target_quantity (tp_targets p) (st_instrument 2)"
proof -
  from st_trend_built obtain p where p: "st_trend = Inr p" by blast
  have "case st_trend of Inl e \<Rightarrow> False | Inr p \<Rightarrow> list_all (\<lambda>t. tt_whole_shares t < 10 ^ 28) (tp_targets p)" by code_simp
  then have b: "list_all (\<lambda>t. tt_whole_shares t < 10 ^ 28) (tp_targets p)" by (simp add: p)
  have w: "list_all (\<lambda>x. whole_below (10 ^ 28) (pos_quantity x)) (ls_positions (lg_state st_ledger))"
    by (simp add: st_ledger_def whole_below_def exI [of _ 3])
  have h: "pos_instrument_id ` {x \<in> set (ls_positions (lg_state st_ledger)). pos_quantity x \<noteq> 0}
      \<subseteq> tn_instrument_id ` set st_trend_candidates"
    by (auto simp: st_ledger_def st_trend_candidates_def)
  have "current_quantity st_ledger (st_instrument 2) = 3"
    by (simp add: current_quantity_def position_def st_ledger_def)
  with trend_intents_reach_targets [OF p [unfolded st_trend_def] h w b] p show ?thesis by metis
qed

end
