(* ===== verification/Reconcile.thy ===== *)
theory Reconcile
  imports Execution
begin

text \<open>
  \<^verbatim>\<open>research/reconciliation_performance.py\<close>: the reconciliation of the order-management history
  with the ledger, and the performance figures that only a reconciled pair yields.

  \<open>reconcile\<close> is cut into the phases of the function's body, in order: \<open>check_ledger\<close>,
  \<open>check_inputs\<close>, \<open>check_duplicates\<close>, the loop over attempts (\<open>attempt_step\<close>), the loop over
  fills (\<open>fill_step\<close>), \<open>check_unmatched\<close> and the loop over orders (\<open>order_step\<close>).  They thread
  one record: the discrepancies found so far, the flag \<open>invalid\<close>, and the two dictionaries of
  the attempts loop.  A subject, in the code the text of an identity, is the identity itself
  with a constructor for the prefix the code prints.  Tests on the types of fields hold by
  typing; the tests on their values are kept.

  \<open>matched\<close> is the specification of a reconciled pair of histories.
\<close>

section \<open>Vocabulary\<close>

datatype ReconciliationState = RECONCILED | DISCREPANCY | INVALID_OR_UNKNOWN

datatype DiscrepancyCode =
    MISSING_ORDER | MISSING_FILL | MISSING_LEDGER_EVENT | DUPLICATE_ORDER | DUPLICATE_FILL
  | DUPLICATE_LEDGER_POSTING | IDENTITY_MISMATCH | INSTRUMENT_MISMATCH | QUANTITY_MISMATCH
  | SIDE_MISMATCH | CURRENCY_MISMATCH | TIMING_MISMATCH | ATTRIBUTION_MISMATCH | COST_MISMATCH
  | LEDGER_STATE_MISMATCH | INVALID_INPUT

datatype MetricAvailability = NOT_ESTABLISHED

datatype Subject =
    SubjText string
  | SubjOrder OrderId
  | SubjTrade TradeId
  | SubjLedgerEvent LedgerEventId
  | SubjAttemptOrder OrderId
  | SubjAttemptTrade TradeId
  | SubjFillHex TradeId
  | SubjAttemptHex TradeId
  | SubjEventKey string

datatype Discrepancy = Discrepancy (disc_code: DiscrepancyCode) (disc_subject: Subject)

record CostDrag =
  dr_commission_fees :: rat
  dr_bid_ask_spread :: rat
  dr_slippage :: rat
  dr_market_impact :: rat
  dr_additional_friction :: rat

definition drag_total :: "CostDrag \<Rightarrow> rat" where
  "drag_total d = dadd (dadd (dadd (dadd (dr_commission_fees d) (dr_bid_ask_spread d))
     (dr_slippage d)) (dr_market_impact d)) (dr_additional_friction d)"

record PerformanceTruth =
  pt_gross_pnl :: rat
  pt_execution_cost_drag :: CostDrag
  pt_net_pnl :: rat
  pt_realised_pnl :: rat
  pt_unrealised_pnl :: rat
  pt_portfolio_value :: rat
  pt_turnover :: rat
  pt_participation :: MetricAvailability
  pt_capacity :: MetricAvailability

definition RECONCILIATION_AUTHORITY :: string where
  "RECONCILIATION_AUTHORITY = ''RESEARCH_SIMULATION_TRUTH_NO_TRADING_AUTHORITY''"

record ReconciliationResult =
  rr_state :: ReconciliationState
  rr_discrepancies :: "Discrepancy list"
  rr_performance :: "PerformanceTruth option"
  rr_authority :: string

definition reconciliation_result ::
  "ReconciliationState \<Rightarrow> Discrepancy list \<Rightarrow> PerformanceTruth option \<Rightarrow> ReconciliationResult" where
  "reconciliation_result st ds p = \<lparr>rr_state = st, rr_discrepancies = ds, rr_performance = p,
     rr_authority = RECONCILIATION_AUTHORITY\<rparr>"

text \<open>The exception classes that \<open>except (ArithmeticError, AttributeError, TypeError, ValueError)\<close>
  catches, among those the called code raises; an \<open>AssertionError\<close> passes through.\<close>

definition caught :: "error \<Rightarrow> bool" where
  "caught e = (case e of Err x m \<Rightarrow> x \<noteq> AssertionError \<and> x \<noteq> KeyError \<and> x \<noteq> PermissionError)"

section \<open>Validity of the evidence\<close>

definition validated_costs :: "CostBreakdown \<Rightarrow> CostDrag result" where
  "validated_costs c =
     raise_if (\<exists>v\<in>set (cost_fields c). v < 0) PerformanceTruthError
       ''cost components cannot be negative''
     (Inr \<lparr>dr_commission_fees = cb_commission_fees c, dr_bid_ask_spread = cb_bid_ask_spread c,
           dr_slippage = cb_slippage c, dr_market_impact = cb_market_impact c,
           dr_additional_friction = cb_additional_friction c\<rparr>)"

definition expected_unit_amount :: "SimulatedFill \<Rightarrow> rat result" where
  "expected_unit_amount f =
     rbind (validated_costs (fi_costs f)) (\<lambda>d.
     raise_if (fi_quantity f \<le> 0) PerformanceTruthError ''fill quantity must be positive''
     (let per_unit_cost = ddiv (drag_total d) (fi_quantity f) in
      Inr (if fi_side f = BUY then dadd (fi_execution_price f) per_unit_cost
           else dsub (fi_execution_price f) per_unit_cost)))"

definition fill_events :: "SimulationLedger \<Rightarrow> FinancialEvent list" where
  "fill_events l = filter (\<lambda>e. prefix fill_event_prefix (event_text (ev_event_id e))) (lg_events l)"

definition valid_attempt :: "ExecutionAttempt \<Rightarrow> bool" where
  "valid_attempt a \<longleftrightarrow> 0 < at_requested_quantity a"

definition valid_instrument_id :: "InstrumentId \<Rightarrow> bool" where
  "valid_instrument_id i \<longleftrightarrow> instrument_uuid i \<noteq> 0 \<and> uuid_version (instrument_uuid i) = Some 4"

definition valid_currency :: "Currency \<Rightarrow> bool" where
  "valid_currency c \<longleftrightarrow> length (code c) = 3 \<and> list_all (in_range CHR ''A'' CHR ''Z'') (code c)"

definition valid_research_run_id :: "ResearchRunId \<Rightarrow> bool" where
  "valid_research_run_id r \<longleftrightarrow> \<not> isl (ResearchRunId_init (run_text r))"

definition valid_evidence_digest :: "EvidenceContentDigest \<Rightarrow> bool" where
  "valid_evidence_digest d \<longleftrightarrow> \<not> isl (EvidenceContentDigest_init (digest_text d))"

definition valid_order :: "SimulatedOrder \<Rightarrow> bool" where
  "valid_order ord \<longleftrightarrow> valid_instrument_id (so_instrument_id ord) \<and> 0 < so_quantity ord
     \<and> valid_currency (so_currency ord) \<and> valid_research_run_id (so_research_run_id ord)
     \<and> valid_evidence_digest (so_evidence_digest ord) \<and> so_eligibility_observation_id ord \<noteq> []"

definition valid_order_record :: "OrderRecord \<Rightarrow> bool" where
  "valid_order_record r \<longleftrightarrow> valid_order (rec_order r) \<and> 0 \<le> rec_filled_quantity r
     \<and> rec_filled_quantity r \<le> so_quantity (rec_order r)"

definition valid_cost_breakdown :: "CostBreakdown \<Rightarrow> bool" where
  "valid_cost_breakdown c \<longleftrightarrow> (\<forall>v\<in>set (cost_fields c). \<not> v < 0)"

definition valid_fill :: "SimulatedFill \<Rightarrow> bool" where
  "valid_fill f \<longleftrightarrow> valid_instrument_id (fi_instrument_id f) \<and> 0 < fi_quantity f
     \<and> 0 < fi_execution_price f \<and> valid_currency (fi_currency f)
     \<and> valid_evidence_digest (fi_execution_evidence f)
     \<and> prefixed_name cost_model_prefix (fi_cost_model_id f) \<and> valid_cost_breakdown (fi_costs f)
     \<and> valid_research_run_id (fi_research_run_id f)"

section \<open>The phases\<close>

record Scan =
  sc_discrepancies :: "Discrepancy list"
  sc_invalid :: bool
  sc_fill_attempts :: "TradeId \<Rightarrow> nat"
  sc_cumulative :: "OrderId \<Rightarrow> rat"

definition scan_start :: Scan where
  "scan_start = \<lparr>sc_discrepancies = [], sc_invalid = False, sc_fill_attempts = (\<lambda>t. 0),
     sc_cumulative = (\<lambda>i. 0)\<rparr>"

definition flag :: "DiscrepancyCode \<Rightarrow> Subject \<Rightarrow> Scan \<Rightarrow> Scan" where
  "flag c s st = (if Discrepancy c s \<in> set (sc_discrepancies st) then st
     else st\<lparr>sc_discrepancies := sc_discrepancies st @ [Discrepancy c s]\<rparr>)"

definition flag_if :: "bool \<Rightarrow> DiscrepancyCode \<Rightarrow> Subject \<Rightarrow> Scan \<Rightarrow> Scan" where
  "flag_if b c s st = (if b then flag c s st else st)"

definition mark_invalid :: "Scan \<Rightarrow> Scan" where
  "mark_invalid st = st\<lparr>sc_invalid := True\<rparr>"

definition check_ledger :: "SimulationLedger \<Rightarrow> Scan \<Rightarrow> Scan result" where
  "check_ledger l st = (case ledger_replay (lg_currency l) (lg_events l) of
     Inl e \<Rightarrow> if caught e then Inr (mark_invalid (flag INVALID_INPUT (SubjText ''ledger'') st)) else Inl e
   | Inr replayed \<Rightarrow> Inr (flag_if (lg_state replayed \<noteq> lg_state l) LEDGER_STATE_MISMATCH
       (SubjText ''replay'') st))"

definition check_inputs :: "SimulatedOms \<Rightarrow> Scan \<Rightarrow> Scan" where
  "check_inputs m st =
     (let st1 = (if \<exists>r\<in>set (oms_orders m). \<not> valid_order_record r
                 then mark_invalid (flag INVALID_INPUT (SubjText ''orders'') st) else st)
      in if \<exists>f\<in>set (oms_fills m). \<not> valid_fill f
         then mark_invalid (flag INVALID_INPUT (SubjText ''fills'') st1) else st1)"

text \<open>\<open>for key, count in Counter(ids).items(): if count != 1: _add(...)\<close>\<close>

definition check_counts :: "DiscrepancyCode \<Rightarrow> ('k \<Rightarrow> Subject) \<Rightarrow> 'k list \<Rightarrow> Scan \<Rightarrow> Scan" where
  "check_counts c subj ids st =
     foldl (\<lambda>st k. flag_if (count_list ids k \<noteq> 1) c (subj k) st) st (keep_first ids)"

definition check_duplicates :: "SimulatedOms \<Rightarrow> SimulationLedger \<Rightarrow> Scan \<Rightarrow> Scan" where
  "check_duplicates m l st =
     check_counts DUPLICATE_LEDGER_POSTING SubjLedgerEvent (map ev_event_id (fill_events l))
       (check_counts DUPLICATE_FILL SubjTrade (map fi_fill_id (oms_fills m))
         (check_counts DUPLICATE_ORDER SubjOrder (map rec_order_id (oms_orders m)) st))"

section \<open>The loop over attempts\<close>

text \<open>A failed check flags a discrepancy and makes the attempt inconsistent.\<close>

definition demand :: "bool \<Rightarrow> DiscrepancyCode \<Rightarrow> Subject \<Rightarrow> Scan \<times> bool \<Rightarrow> Scan \<times> bool" where
  "demand ok c s x = (if ok then x else (flag c s (fst x), False))"

definition attempt_order :: "OrderRecord option \<Rightarrow> ExecutionAttempt \<Rightarrow> Scan \<Rightarrow> Scan" where
  "attempt_order rec a st = (case rec of
     None \<Rightarrow> flag MISSING_ORDER (SubjOrder (at_order_id a)) st
   | Some r \<Rightarrow> flag_if (dsub (so_quantity (rec_order r)) (sc_cumulative st (at_order_id a))
         < at_requested_quantity a) QUANTITY_MISMATCH (SubjAttemptOrder (at_order_id a)) st)"

definition attempt_without_fill :: "ExecutionAttempt \<Rightarrow> Scan \<Rightarrow> Scan" where
  "attempt_without_fill a st =
     (if at_outcome a \<noteq> UNFILLED then flag IDENTITY_MISMATCH (SubjAttemptOrder (at_order_id a)) st
      else flag_if (at_reasons a = [] \<or> (\<exists>x\<in>set (at_reasons a). blank x)) ATTRIBUTION_MISMATCH
        (SubjAttemptOrder (at_order_id a)) st)"

definition count_attempt :: "TradeId \<Rightarrow> Scan \<Rightarrow> Scan" where
  "count_attempt t st = st\<lparr>sc_fill_attempts := (sc_fill_attempts st)(t := sc_fill_attempts st t + 1)\<rparr>"

text \<open>The end of the body: the running total of the order, once its record is known.\<close>

definition attempt_cumulative ::
  "OrderRecord \<Rightarrow> SimulatedFill \<Rightarrow> ExecutionAttempt \<Rightarrow> TradeId \<Rightarrow> Scan \<times> bool \<Rightarrow> Scan" where
  "attempt_cumulative r f a t x =
     (let pre = sc_cumulative (fst x) (at_order_id a);
          fits = (at_requested_quantity a \<le> dsub (so_quantity (rec_order r)) pre);
          cumulative = dadd pre (fi_quantity f);
          expected = (if cumulative = so_quantity (rec_order r) then FULLY_FILLED else PARTIALLY_FILLED);
          y = demand (cumulative \<le> so_quantity (rec_order r) \<and> at_outcome a = expected)
                QUANTITY_MISMATCH (SubjAttemptTrade t) (fst x, snd x \<and> fits)
      in if snd y then (fst y)\<lparr>sc_cumulative := (sc_cumulative (fst y))(at_order_id a := cumulative)\<rparr>
         else fst y)"

definition attempt_with_fill ::
  "OrderRecord option \<Rightarrow> SimulatedFill option \<Rightarrow> ExecutionAttempt \<Rightarrow> TradeId \<Rightarrow> Scan \<Rightarrow> Scan" where
  "attempt_with_fill rec fill a t st =
     (let x = demand (at_reasons a = []) ATTRIBUTION_MISMATCH (SubjAttemptTrade t)
                (demand (at_outcome a \<in> {PARTIALLY_FILLED, FULLY_FILLED}) IDENTITY_MISMATCH
                  (SubjAttemptTrade t) (st, sc_fill_attempts st t = 1))
      in case fill of
           None \<Rightarrow> flag MISSING_FILL (SubjTrade t) (fst x)
         | Some f \<Rightarrow>
             let y = demand (fi_order_id f = at_order_id a) IDENTITY_MISMATCH (SubjAttemptTrade t) x in
             if fi_quantity f \<le> 0 then mark_invalid (flag INVALID_INPUT (SubjTrade t) (fst y))
             else
               let z = demand (fi_quantity f \<le> at_requested_quantity a) QUANTITY_MISMATCH
                         (SubjAttemptTrade t) y in
               (case rec of
                  None \<Rightarrow> fst z
                | Some r \<Rightarrow> if fi_order_id f \<noteq> at_order_id a then fst z
                            else attempt_cumulative r f a t z))"

definition attempt_step ::
  "OrderRecord list \<Rightarrow> SimulatedFill list \<Rightarrow> Scan \<Rightarrow> ExecutionAttempt \<Rightarrow> Scan" where
  "attempt_step orders fills st a =
     (let rec = dict_get rec_order_id orders (at_order_id a);
          st1 = attempt_order rec a st
      in case at_fill_id a of
           None \<Rightarrow> attempt_without_fill a st1
         | Some t \<Rightarrow> attempt_with_fill rec (dict_get fi_fill_id fills t) a t (count_attempt t st1))"

section \<open>The loop over fills\<close>

definition fill_order_check :: "SimulatedFill \<Rightarrow> SimulatedOrder \<Rightarrow> Scan \<Rightarrow> Scan" where
  "fill_order_check f ord st =
     (let s = SubjFillHex (fi_fill_id f) in
      flag_if (instant (fi_execution_at f) \<le> instant (so_release_at ord)) TIMING_MISMATCH s
      (flag_if (fi_research_run_id f \<noteq> so_research_run_id ord) ATTRIBUTION_MISMATCH s
      (flag_if (fi_currency f \<noteq> so_currency ord) CURRENCY_MISMATCH s
      (flag_if (fi_side f \<noteq> so_side ord) SIDE_MISMATCH s
      (flag_if (fi_instrument_id f \<noteq> so_instrument_id ord) INSTRUMENT_MISMATCH s
      (flag_if (sc_fill_attempts st (fi_fill_id f) \<noteq> 1) IDENTITY_MISMATCH
         (SubjAttemptHex (fi_fill_id f)) st))))))"

definition fill_event_check :: "SimulatedFill \<Rightarrow> FinancialEvent \<Rightarrow> Scan \<Rightarrow> Scan result" where
  "fill_event_check f e st =
     (let s = SubjFillHex (fi_fill_id f);
          st1 = flag_if (ev_research_run_id e \<noteq> fi_research_run_id f
                   \<or> ev_evidence_digest e \<noteq> fi_execution_evidence f) ATTRIBUTION_MISMATCH s
            (flag_if (instant (ev_occurred_at e) < instant (fi_execution_at f)) TIMING_MISMATCH s
            (flag_if (ev_currency e \<noteq> Some (fi_currency f)) CURRENCY_MISMATCH s
            (flag_if (ev_quantity e \<noteq> Some (signed_quantity f)) QUANTITY_MISMATCH s
            (flag_if (ev_instrument_id e \<noteq> Some (fi_instrument_id f)) INSTRUMENT_MISMATCH s
            (flag_if (ev_kind e \<noteq> TRADE) IDENTITY_MISMATCH s st)))))
      in case expected_unit_amount f of
           Inl x \<Rightarrow> if caught x then Inr (mark_invalid (flag INVALID_INPUT s st1)) else Inl x
         | Inr u \<Rightarrow> Inr (flag_if (ev_unit_amount e \<noteq> Some u) COST_MISMATCH s st1))"

definition fill_event_key :: "SimulatedFill \<Rightarrow> string" where
  "fill_event_key f = fill_event_prefix @ uuid_hex (trade_uuid (fi_fill_id f))"

definition event_key :: "FinancialEvent \<Rightarrow> string" where
  "event_key e = event_text (ev_event_id e)"

definition fill_step ::
  "OrderRecord list \<Rightarrow> FinancialEvent list \<Rightarrow> Scan \<Rightarrow> SimulatedFill \<Rightarrow> Scan result" where
  "fill_step orders events st f = (case dict_get rec_order_id orders (fi_order_id f) of
     None \<Rightarrow> Inr (flag MISSING_ORDER (SubjFillHex (fi_fill_id f)) st)
   | Some r \<Rightarrow>
       let st1 = fill_order_check f (rec_order r) st in
       (case dict_get event_key events (fill_event_key f) of
          None \<Rightarrow> Inr (flag MISSING_LEDGER_EVENT (SubjFillHex (fi_fill_id f)) st1)
        | Some e \<Rightarrow> fill_event_check f e st1))"

definition check_unmatched :: "SimulatedFill list \<Rightarrow> FinancialEvent list \<Rightarrow> Scan \<Rightarrow> Scan" where
  "check_unmatched fills events st =
     foldl (\<lambda>st e. flag_if (event_key e \<notin> fill_event_key ` set fills) MISSING_FILL
        (SubjEventKey (event_key e)) st) st events"

section \<open>The loop over orders\<close>

definition expected_status :: "OrderRecord \<Rightarrow> rat \<Rightarrow> OrderStatus" where
  "expected_status r filled_total =
     (if 0 < filled_total then
        (if rec_status r = CANCELLED \<and> filled_total < so_quantity (rec_order r) then CANCELLED
         else if filled_total = so_quantity (rec_order r) then FULLY_FILLED else PARTIALLY_FILLED)
      else rec_status r)"

definition order_step :: "SimulatedFill list \<Rightarrow> Scan \<Rightarrow> OrderRecord \<Rightarrow> Scan" where
  "order_step fills st r =
     (let i = rec_order_id r;
          filled_total = dsum (map fi_quantity (filter (\<lambda>f. fi_order_id f = i) fills))
      in flag_if (so_quantity (rec_order r) < filled_total \<or> expected_status r filled_total \<noteq> rec_status r)
           QUANTITY_MISMATCH (SubjOrder i)
         (flag_if (\<not> 0 < filled_total \<and> rec_status r \<in> {PARTIALLY_FILLED, FULLY_FILLED})
           QUANTITY_MISMATCH (SubjOrder i)
         (flag_if (filled_total \<noteq> rec_filled_quantity r) QUANTITY_MISMATCH (SubjOrder i) st)))"

section \<open>Performance\<close>

definition drag_zero :: CostDrag where
  "drag_zero = \<lparr>dr_commission_fees = 0, dr_bid_ask_spread = 0, dr_slippage = 0,
     dr_market_impact = 0, dr_additional_friction = 0\<rparr>"

definition drag_step :: "CostDrag \<times> rat \<Rightarrow> SimulatedFill \<Rightarrow> (CostDrag \<times> rat) result" where
  "drag_step x f = rbind (validated_costs (fi_costs f)) (\<lambda>c.
     Inr (\<lparr>dr_commission_fees = dadd (dr_commission_fees (fst x)) (dr_commission_fees c),
           dr_bid_ask_spread = dadd (dr_bid_ask_spread (fst x)) (dr_bid_ask_spread c),
           dr_slippage = dadd (dr_slippage (fst x)) (dr_slippage c),
           dr_market_impact = dadd (dr_market_impact (fst x)) (dr_market_impact c),
           dr_additional_friction = dadd (dr_additional_friction (fst x)) (dr_additional_friction c)\<rparr>,
          dadd (snd x) (dmul (dabs (fi_quantity f)) (fi_execution_price f))))"

text \<open>\<open>_finite(event.cash_delta, ...)\<close> raises \<open>TypeError\<close> on \<open>None\<close>.\<close>

definition funding_of :: "FinancialEvent list \<Rightarrow> rat result" where
  "funding_of es =
     rbind (rmap (\<lambda>e. case ev_cash_delta e of None \<Rightarrow> Inl (Err TypeError ''cash_delta must be a Decimal'')
                       | Some d \<Rightarrow> Inr d)
             (filter (\<lambda>e. ev_kind e \<in> {OPENING_CASH, CASH_ADJUSTMENT}) es))
       (\<lambda>ds. Inr (dsum ds))"

definition performance :: "SimulatedOms \<Rightarrow> SimulationLedger \<Rightarrow> PerformanceTruth result" where
  "performance m l =
     rbind (rfold drag_step (drag_zero, 0) (oms_fills m)) (\<lambda>(drag, turnover).
     rbind (funding_of (lg_events l)) (\<lambda>funding.
       let portfolio = ls_portfolio_value (lg_state l);
           net = dsub portfolio funding;
           gross = dadd net (drag_total drag)
       in raise_if (dsub gross (drag_total drag) \<noteq> net) PerformanceTruthError
            ''gross/net performance does not reconcile''
          (Inr \<lparr>pt_gross_pnl = gross, pt_execution_cost_drag = drag, pt_net_pnl = net,
                pt_realised_pnl = ls_realised_pnl (lg_state l),
                pt_unrealised_pnl = ls_unrealised_pnl (lg_state l), pt_portfolio_value = portfolio,
                pt_turnover = turnover, pt_participation = NOT_ESTABLISHED,
                pt_capacity = NOT_ESTABLISHED\<rparr>)))"

section \<open>Reconciliation\<close>

text \<open>The comparisons, once the inputs are valid.\<close>

definition compare_histories :: "SimulatedOms \<Rightarrow> SimulationLedger \<Rightarrow> Scan \<Rightarrow> Scan result" where
  "compare_histories m l st =
     (let orders = dict_of rec_order_id (oms_orders m);
          fills = dict_of fi_fill_id (oms_fills m);
          events = dict_of event_key (fill_events l);
          st1 = check_duplicates m l st;
          st2 = foldl (attempt_step orders fills) st1 (oms_attempts m)
      in rbind (rfold (fill_step orders events) st2 (oms_fills m)) (\<lambda>st3.
           Inr (foldl (order_step (oms_fills m)) (check_unmatched (oms_fills m) events st3) orders)))"

definition conclude :: "SimulatedOms \<Rightarrow> SimulationLedger \<Rightarrow> Scan \<Rightarrow> ReconciliationResult result" where
  "conclude m l st =
     (if sc_invalid st then Inr (reconciliation_result INVALID_OR_UNKNOWN (sc_discrepancies st) None)
      else if sc_discrepancies st \<noteq> [] then Inr (reconciliation_result DISCREPANCY (sc_discrepancies st) None)
      else (case performance m l of
              Inl e \<Rightarrow> if caught e then Inr (reconciliation_result INVALID_OR_UNKNOWN
                         [Discrepancy INVALID_INPUT (SubjText ''performance'')] None) else Inl e
            | Inr p \<Rightarrow> Inr (reconciliation_result RECONCILED [] (Some p))))"

definition reconcile :: "SimulatedOms \<Rightarrow> SimulationLedger \<Rightarrow> ReconciliationResult result" where
  "reconcile m l =
     rbind (check_ledger l scan_start) (\<lambda>st0.
       let st = check_inputs m st0 in
       if sc_invalid st then Inr (reconciliation_result INVALID_OR_UNKNOWN (sc_discrepancies st) None)
       else if \<exists>a\<in>set (oms_attempts m). \<not> valid_attempt a
       then Inr (reconciliation_result INVALID_OR_UNKNOWN
              (sc_discrepancies (flag INVALID_INPUT (SubjText ''attempts'') st)) None)
       else rbind (compare_histories m l st) (conclude m l))"

definition require_performance :: "ReconciliationResult \<Rightarrow> PerformanceTruth result" where
  "require_performance r = (case rr_performance r of
     None \<Rightarrow> Inl (Err PerformanceTruthError ''authoritative performance requires reconciled evidence'')
   | Some p \<Rightarrow> raise_if (rr_state r \<noteq> RECONCILED) PerformanceTruthError
       ''authoritative performance requires reconciled evidence'' (Inr p))"

section \<open>When a scan stays clean\<close>

definition clean :: "Scan \<Rightarrow> bool" where
  "clean st \<longleftrightarrow> sc_discrepancies st = []"

lemma clean_simps [simp]:
  "\<not> clean (flag c s st)"
  "clean (flag_if b c s st) \<longleftrightarrow> \<not> b \<and> clean st"
  "clean (mark_invalid st) \<longleftrightarrow> clean st"
  "clean (count_attempt t st) \<longleftrightarrow> clean st"
  "clean (st\<lparr>sc_cumulative := g\<rparr>) \<longleftrightarrow> clean st"
  "clean (fst (demand ok c s x)) \<longleftrightarrow> ok \<and> clean (fst x)"
  "clean scan_start"
  by (auto simp: clean_def flag_def flag_if_def mark_invalid_def count_attempt_def demand_def scan_start_def)

lemma scan_fields [simp]:
  "sc_invalid (flag c s st) = sc_invalid st"
  "sc_fill_attempts (flag c s st) = sc_fill_attempts st"
  "sc_cumulative (flag c s st) = sc_cumulative st"
  "sc_invalid (flag_if b c s st) = sc_invalid st"
  "sc_fill_attempts (flag_if b c s st) = sc_fill_attempts st"
  "sc_cumulative (flag_if b c s st) = sc_cumulative st"
  "sc_invalid (mark_invalid st) = True"
  "sc_fill_attempts (mark_invalid st) = sc_fill_attempts st"
  "sc_cumulative (mark_invalid st) = sc_cumulative st"
  "sc_invalid (fst (demand ok c s x)) = sc_invalid (fst x)"
  "sc_fill_attempts (fst (demand ok c s x)) = sc_fill_attempts (fst x)"
  "sc_cumulative (fst (demand ok c s x)) = sc_cumulative (fst x)"
  "snd (demand ok c s x) \<longleftrightarrow> ok \<and> snd x"
  by (auto simp: flag_def flag_if_def mark_invalid_def demand_def)

lemma foldl_clean:
  assumes "\<And>st x. clean (step st x) \<longleftrightarrow> P x \<and> clean st"
  shows "clean (foldl step st xs) \<longleftrightarrow> (\<forall>x\<in>set xs. P x) \<and> clean st"
  by (induction xs arbitrary: st) (auto simp: assms)

lemma foldl_keeps: "(\<And>st x. f (step st x) = f st) \<Longrightarrow> f (foldl step st xs) = f st"
  by (induction xs arbitrary: st) auto

lemma check_counts_clean [simp]: "clean (check_counts c subj ids st) \<longleftrightarrow> distinct ids \<and> clean st"
proof -
  have "clean (check_counts c subj ids st) \<longleftrightarrow> (\<forall>k\<in>set (keep_first ids). count_list ids k = 1) \<and> clean st"
    unfolding check_counts_def by (rule foldl_clean) simp
  then show ?thesis using count_list_one_distinct [of ids] count_list_distinct [of ids] by auto
qed

lemma check_counts_fields [simp]:
  "sc_invalid (check_counts c subj ids st) = sc_invalid st"
  "sc_fill_attempts (check_counts c subj ids st) = sc_fill_attempts st"
  "sc_cumulative (check_counts c subj ids st) = sc_cumulative st"
  unfolding check_counts_def by (simp_all add: foldl_keeps)

lemma check_duplicates_clean [simp]:
  "clean (check_duplicates m l st) \<longleftrightarrow> distinct (map rec_order_id (oms_orders m))
     \<and> distinct (map fi_fill_id (oms_fills m)) \<and> distinct (map ev_event_id (fill_events l)) \<and> clean st"
  by (auto simp: check_duplicates_def)

lemma check_duplicates_fields [simp]:
  "sc_invalid (check_duplicates m l st) = sc_invalid st"
  "sc_fill_attempts (check_duplicates m l st) = sc_fill_attempts st"
  "sc_cumulative (check_duplicates m l st) = sc_cumulative st"
  by (simp_all add: check_duplicates_def)

section \<open>The attempts\<close>

lemma attempt_order_clean: "clean (attempt_order rec a st) \<Longrightarrow> clean st"
  by (auto simp: attempt_order_def split: option.splits)

lemma attempt_order_fields [simp]:
  "sc_invalid (attempt_order rec a st) = sc_invalid st"
  "sc_fill_attempts (attempt_order rec a st) = sc_fill_attempts st"
  "sc_cumulative (attempt_order rec a st) = sc_cumulative st"
  by (simp_all add: attempt_order_def split: option.split)

lemma attempt_cumulative_clean: "clean (attempt_cumulative r f a t x) \<Longrightarrow> clean (fst x)"
  by (auto simp: attempt_cumulative_def Let_def split: if_splits)

lemma attempt_cumulative_fields [simp]:
  "sc_invalid (attempt_cumulative r f a t x) = sc_invalid (fst x)"
  "sc_fill_attempts (attempt_cumulative r f a t x) = sc_fill_attempts (fst x)"
  by (simp_all add: attempt_cumulative_def Let_def)

lemma attempt_with_fill_clean: "clean (attempt_with_fill rec fill a t st) \<Longrightarrow> clean st"
  by (auto simp: attempt_with_fill_def Let_def dest!: attempt_cumulative_clean
      split: option.splits if_splits)

lemma attempt_with_fill_attempts [simp]:
  "sc_fill_attempts (attempt_with_fill rec fill a t st) = sc_fill_attempts st"
  by (simp add: attempt_with_fill_def Let_def split: option.split)

lemma attempt_step_clean: "clean (attempt_step orders fills st a) \<Longrightarrow> clean st"
  by (auto simp: attempt_step_def attempt_without_fill_def Let_def
      dest!: attempt_with_fill_clean attempt_order_clean split: option.splits if_splits)

lemma attempts_clean: "clean (foldl (attempt_step orders fills) st as) \<Longrightarrow> clean st"
  by (induction as arbitrary: st) (auto dest: attempt_step_clean)

lemma attempt_step_attempts:
  "sc_fill_attempts (attempt_step orders fills st a) t =
     sc_fill_attempts st t + (if at_fill_id a = Some t then 1 else 0)"
  by (auto simp: attempt_step_def attempt_without_fill_def count_attempt_def Let_def split: option.split)

lemma attempts_counted:
  "sc_fill_attempts (foldl (attempt_step orders fills) st as) t =
     sc_fill_attempts st t + count_list (List.map_filter at_fill_id as) t"
proof (induction as arbitrary: st)
  case (Cons a as)
  then show ?case
    by (cases "at_fill_id a") (auto simp: attempt_step_attempts List.map_filter_def)
qed (simp add: List.map_filter_def)

section \<open>Fills and orders\<close>

text \<open>The ledger event that books a fill.\<close>

definition event_books :: "SimulatedFill \<Rightarrow> FinancialEvent \<Rightarrow> bool" where
  "event_books f e \<longleftrightarrow> event_key e = fill_event_key f \<and> ev_kind e = TRADE
     \<and> ev_instrument_id e = Some (fi_instrument_id f) \<and> ev_quantity e = Some (signed_quantity f)
     \<and> ev_unit_amount e = Some (unit_amount_of f) \<and> ev_currency e = Some (fi_currency f)
     \<and> instant (fi_execution_at f) \<le> instant (ev_occurred_at e)
     \<and> ev_research_run_id e = fi_research_run_id f \<and> ev_evidence_digest e = fi_execution_evidence f"

lemma expected_unit_amount_Inr:
  "expected_unit_amount f = Inr u \<longleftrightarrow>
     valid_cost_breakdown (fi_costs f) \<and> 0 < fi_quantity f \<and> u = unit_amount_of f"
  by (auto simp: expected_unit_amount_def validated_costs_def valid_cost_breakdown_def unit_amount_of_def
      drag_total_def cost_total_def Let_def not_le)

lemma expected_unit_amount_valid: "valid_fill f \<Longrightarrow> expected_unit_amount f = Inr (unit_amount_of f)"
  by (simp add: expected_unit_amount_Inr valid_fill_def)

lemma fill_order_check_clean [simp]:
  "clean (fill_order_check f ord st) \<longleftrightarrow> sc_fill_attempts st (fi_fill_id f) = 1
     \<and> fi_instrument_id f = so_instrument_id ord \<and> fi_side f = so_side ord
     \<and> fi_currency f = so_currency ord \<and> fi_research_run_id f = so_research_run_id ord
     \<and> instant (so_release_at ord) < instant (fi_execution_at f) \<and> clean st"
  by (auto simp: fill_order_check_def Let_def not_le)

lemma fill_order_check_fields [simp]:
  "sc_invalid (fill_order_check f ord st) = sc_invalid st"
  "sc_fill_attempts (fill_order_check f ord st) = sc_fill_attempts st"
  by (simp_all add: fill_order_check_def Let_def)

text \<open>For valid fills the check of an event neither raises nor marks the scan invalid.\<close>

lemma fill_event_check_valid:
  assumes "valid_fill f"
  shows "\<exists>st'. fill_event_check f e st = Inr st' \<and> sc_invalid st' = sc_invalid st
    \<and> sc_fill_attempts st' = sc_fill_attempts st
    \<and> (event_key e = fill_event_key f \<longrightarrow> (clean st' \<longleftrightarrow> event_books f e \<and> clean st))"
  using expected_unit_amount_valid [OF assms]
  by (auto simp: fill_event_check_def event_books_def Let_def not_less)

definition fill_accounted ::
  "OrderRecord list \<Rightarrow> FinancialEvent list \<Rightarrow> (TradeId \<Rightarrow> nat) \<Rightarrow> SimulatedFill \<Rightarrow> bool" where
  "fill_accounted orders events attempts f \<longleftrightarrow> attempts (fi_fill_id f) = 1
     \<and> (\<exists>r. dict_get rec_order_id orders (fi_order_id f) = Some r \<and> fill_matches f (rec_order r))
     \<and> (\<exists>e. dict_get event_key events (fill_event_key f) = Some e \<and> event_books f e)"

lemma fill_step_valid:
  assumes "valid_fill f"
  shows "\<exists>st'. fill_step orders events st f = Inr st' \<and> sc_invalid st' = sc_invalid st
    \<and> sc_fill_attempts st' = sc_fill_attempts st
    \<and> (clean st' \<longleftrightarrow> fill_accounted orders events (sc_fill_attempts st) f \<and> clean st)"
proof (cases "dict_get rec_order_id orders (fi_order_id f)")
  case None
  then show ?thesis by (simp add: fill_step_def fill_accounted_def)
next
  case (Some r)
  then have i: "rec_order_id r = fi_order_id f" by (auto dest: dict_get_SomeD)
  define st1 where "st1 = fill_order_check f (rec_order r) st"
  have st1: "clean st1 \<longleftrightarrow> sc_fill_attempts st (fi_fill_id f) = 1 \<and> fill_matches f (rec_order r) \<and> clean st"
    using i by (auto simp: st1_def fill_matches_def)
  show ?thesis
  proof (cases "dict_get event_key events (fill_event_key f)")
    case None
    then show ?thesis using Some
      by (simp add: fill_step_def fill_accounted_def st1_def [symmetric] Let_def)
         (simp add: st1_def)
  next
    case e: (Some e)
    then have k: "event_key e = fill_event_key f" by (auto dest: dict_get_SomeD)
    from fill_event_check_valid [OF assms, of e st1] k obtain st' where
        st': "fill_event_check f e st1 = Inr st'" "sc_invalid st' = sc_invalid st1"
          "sc_fill_attempts st' = sc_fill_attempts st1" "clean st' \<longleftrightarrow> event_books f e \<and> clean st1"
      by blast
    have "fill_step orders events st f = Inr st'"
      using Some e st'(1) by (simp add: fill_step_def st1_def Let_def)
    moreover have "fill_accounted orders events (sc_fill_attempts st) f \<longleftrightarrow>
        sc_fill_attempts st (fi_fill_id f) = 1 \<and> fill_matches f (rec_order r) \<and> event_books f e"
      using Some e by (simp add: fill_accounted_def)
    ultimately show ?thesis using st' st1 by (auto simp: st1_def)
  qed
qed

lemma fills_valid:
  assumes "\<forall>f\<in>set fs. valid_fill f"
  shows "\<exists>st'. rfold (fill_step orders events) st fs = Inr st' \<and> sc_invalid st' = sc_invalid st
    \<and> sc_fill_attempts st' = sc_fill_attempts st
    \<and> (clean st' \<longleftrightarrow> (\<forall>f\<in>set fs. fill_accounted orders events (sc_fill_attempts st) f) \<and> clean st)"
  using assms
proof (induction fs arbitrary: st)
  case (Cons f fs)
  from fill_step_valid [of f orders events st] Cons.prems obtain s where
    s: "fill_step orders events st f = Inr s" "sc_invalid s = sc_invalid st"
      "sc_fill_attempts s = sc_fill_attempts st"
      "clean s \<longleftrightarrow> fill_accounted orders events (sc_fill_attempts st) f \<and> clean st"
    by auto
  from Cons.IH [of s] Cons.prems s show ?case by auto
qed simp

lemma check_unmatched_clean [simp]:
  "clean (check_unmatched fs es st) \<longleftrightarrow> (\<forall>e\<in>set es. event_key e \<in> fill_event_key ` set fs) \<and> clean st"
  unfolding check_unmatched_def by (rule foldl_clean) simp

lemma check_unmatched_invalid [simp]: "sc_invalid (check_unmatched fs es st) = sc_invalid st"
  unfolding check_unmatched_def by (simp add: foldl_keeps)

text \<open>What the last loop asks of a record.\<close>

definition record_settled :: "SimulatedFill list \<Rightarrow> OrderRecord \<Rightarrow> bool" where
  "record_settled fs r \<longleftrightarrow> rec_filled_quantity r = filled_of fs (rec_order_id r)
     \<and> rec_filled_quantity r \<le> so_quantity (rec_order r)
     \<and> (if 0 < rec_filled_quantity r
        then rec_status r = (if rec_filled_quantity r = so_quantity (rec_order r) then FULLY_FILLED
               else if rec_status r = CANCELLED then CANCELLED else PARTIALLY_FILLED)
        else rec_status r \<notin> {PARTIALLY_FILLED, FULLY_FILLED})"

lemma order_step_clean: "clean (order_step fs st r) \<longleftrightarrow> record_settled fs r \<and> clean st"
  by (auto simp: order_step_def record_settled_def expected_status_def filled_of_def Let_def)

lemma orders_clean:
  "clean (foldl (order_step fs) st rs) \<longleftrightarrow> (\<forall>r\<in>set rs. record_settled fs r) \<and> clean st"
  by (rule foldl_clean) (rule order_step_clean)

lemma orders_invalid [simp]: "sc_invalid (foldl (order_step fs) st rs) = sc_invalid st"
  by (rule foldl_keeps) (simp add: order_step_def Let_def)

section \<open>The attempts of a reachable system pass\<close>

text \<open>The scan after the attempts of a trace: nothing flagged, every fill counted once, and the
  running totals equal to the quantities filled.\<close>

definition scanned :: "SimulatedFill list \<Rightarrow> Scan \<Rightarrow> bool" where
  "scanned fs st \<longleftrightarrow> clean st \<and> \<not> sc_invalid st
     \<and> (\<forall>i. sc_cumulative st i = filled_of fs i)
     \<and> (\<forall>t. sc_fill_attempts st t = (if t \<in> fi_fill_id ` set fs then 1 else 0))"

lemma attempt_miss_scanned:
  assumes "scanned fs st" and "dict_get rec_order_id orders (at_order_id a) = Some r"
    and "at_outcome a = UNFILLED" and "at_fill_id a = None" and "at_reasons a \<noteq> []"
    and "\<forall>x\<in>set (at_reasons a). \<not> blank x"
    and "at_requested_quantity a \<le> dsub (so_quantity (rec_order r)) (filled_of fs (at_order_id a))"
  shows "scanned fs (attempt_step orders fills st a)"
  using assms by (auto simp: scanned_def attempt_step_def attempt_order_def attempt_without_fill_def Let_def
      flag_if_def)

lemma attempt_fill_scanned:
  assumes st: "scanned fs st" and r: "dict_get rec_order_id orders (at_order_id a) = Some r"
    and f: "dict_get fi_fill_id fills (fi_fill_id f) = Some f" and new: "fi_fill_id f \<notin> fi_fill_id ` set fs"
    and a: "at_fill_id a = Some (fi_fill_id f)" "at_reasons a = []" "fi_order_id f = at_order_id a"
      "0 < fi_quantity f" "fi_quantity f \<le> at_requested_quantity a"
      "at_requested_quantity a \<le> dsub (so_quantity (rec_order r)) (filled_of fs (at_order_id a))"
      "dadd (filled_of fs (at_order_id a)) (fi_quantity f) \<le> so_quantity (rec_order r)"
      "at_outcome a = (if dadd (filled_of fs (at_order_id a)) (fi_quantity f) = so_quantity (rec_order r)
         then FULLY_FILLED else PARTIALLY_FILLED)"
  shows "scanned (fs @ [f]) (attempt_step orders fills st a)"
proof -
  define st1 where "st1 = count_attempt (fi_fill_id f) st"
  have st1: "clean st1" "\<not> sc_invalid st1" "sc_cumulative st1 = sc_cumulative st"
    "sc_fill_attempts st1 = (sc_fill_attempts st)(fi_fill_id f := 1)"
    using st new by (auto simp: st1_def scanned_def count_attempt_def clean_def)
  have cum: "sc_cumulative st (at_order_id a) = filled_of fs (at_order_id a)"
    using st by (simp add: scanned_def)
  have "attempt_order (Some r) a st = st"
    using a(6) cum by (simp add: attempt_order_def flag_if_def)
  then have "attempt_step orders fills st a = attempt_with_fill (Some r) (Some f) a (fi_fill_id f) st1"
    using r f a(1) by (simp add: attempt_step_def st1_def Let_def)
  also have "\<dots> = attempt_cumulative r f a (fi_fill_id f) (st1, True)"
    using a st1(4) by (simp add: attempt_with_fill_def demand_def Let_def)
  also have "\<dots> = st1\<lparr>sc_cumulative := (sc_cumulative st)(at_order_id a :=
      dadd (filled_of fs (at_order_id a)) (fi_quantity f))\<rparr>"
    using a cum st1(3) by (simp add: attempt_cumulative_def demand_def Let_def)
  finally show ?thesis using st st1 a(3) by (auto simp: scanned_def)
qed

lemma attempts_trace_scanned:
  assumes "attempts_trace ords fs as"
    and "\<And>ord. ord \<in> set ords \<Longrightarrow> \<exists>r. dict_get rec_order_id orders (so_order_id ord) = Some r \<and> rec_order r = ord"
    and "\<And>f. f \<in> set fs \<Longrightarrow> dict_get fi_fill_id fills (fi_fill_id f) = Some f"
    and "scanned [] st"
  shows "scanned fs (foldl (attempt_step orders fills) st as)"
  using assms(1,3)
proof (induction rule: attempts_trace.induct)
  case trace_nil
  show ?case using assms(4) by simp
next
  case (trace_miss fs as ord a)
  from assms(2) [OF trace_miss.hyps(2)] trace_miss.hyps(3) obtain r where
    "dict_get rec_order_id orders (at_order_id a) = Some r" "rec_order r = ord" by auto
  with trace_miss show ?case by (auto intro!: attempt_miss_scanned)
next
  case (trace_fill fs as ord a f)
  from assms(2) [OF trace_fill.hyps(2)] trace_fill.hyps(3) obtain r where
    "dict_get rec_order_id orders (at_order_id a) = Some r" "rec_order r = ord" by auto
  moreover have "fi_order_id f = at_order_id a" "0 < fi_quantity f"
    using trace_fill.hyps by (auto simp: fill_matches_def validate_fill_payload_def)
  ultimately show ?case using trace_fill by (auto intro!: attempt_fill_scanned)
qed

section \<open>Matched histories\<close>

definition matched :: "SimulatedOms \<Rightarrow> SimulationLedger \<Rightarrow> bool" where
  "matched m l \<longleftrightarrow> distinct (map rec_order_id (oms_orders m)) \<and> distinct (map fi_fill_id (oms_fills m))
     \<and> distinct (map ev_event_id (fill_events l))
     \<and> (\<forall>f\<in>set (oms_fills m). count_list (List.map_filter at_fill_id (oms_attempts m)) (fi_fill_id f) = 1
          \<and> (\<exists>r\<in>set (oms_orders m). fill_matches f (rec_order r))
          \<and> (\<exists>e\<in>set (fill_events l). event_books f e))
     \<and> (\<forall>e\<in>set (fill_events l). \<exists>f\<in>set (oms_fills m). event_key e = fill_event_key f)
     \<and> (\<forall>r\<in>set (oms_orders m). record_settled (oms_fills m) r)"

lemma event_key_inj: "event_key d = event_key e \<longleftrightarrow> ev_event_id d = ev_event_id e"
  by (auto simp: event_key_def intro: LedgerEventId.expand)

lemma distinct_event_key: "distinct (map event_key es) \<longleftrightarrow> distinct (map ev_event_id es)"
  by (simp add: distinct_map inj_on_def event_key_inj)

text \<open>With unique identities and valid fills, a clean comparison is a clean run over the attempts
  and matched histories.\<close>

lemma fill_accounted_matched:
  assumes "distinct (map rec_order_id rs)" and "distinct (map event_key es)"
  shows "fill_accounted rs es g f \<longleftrightarrow> g (fi_fill_id f) = 1 \<and> (\<exists>r\<in>set rs. fill_matches f (rec_order r))
    \<and> (\<exists>e\<in>set es. event_books f e)"
proof -
  have "(\<exists>r. dict_get rec_order_id rs (fi_order_id f) = Some r \<and> fill_matches f (rec_order r)) \<longleftrightarrow>
      (\<exists>r\<in>set rs. fill_matches f (rec_order r))"
    using dict_get_unique [OF assms(1)] by (auto simp: fill_matches_def dest: dict_get_SomeD)
  moreover have "(\<exists>e. dict_get event_key es (fill_event_key f) = Some e \<and> event_books f e) \<longleftrightarrow>
      (\<exists>e\<in>set es. event_books f e)"
    using dict_get_unique [OF assms(2)] by (auto simp: event_books_def dest: dict_get_SomeD)
  ultimately show ?thesis by (simp add: fill_accounted_def)
qed

lemma compare_histories_valid:
  fixes m :: SimulatedOms and l :: SimulationLedger
  assumes valid: "\<forall>f\<in>set (oms_fills m). valid_fill f"
    and start: "sc_fill_attempts st = (\<lambda>t. 0)"
  defines "orders \<equiv> dict_of rec_order_id (oms_orders m)" and "fills \<equiv> dict_of fi_fill_id (oms_fills m)"
  defines "after \<equiv> foldl (attempt_step orders fills) (check_duplicates m l st) (oms_attempts m)"
  shows "\<exists>st'. compare_histories m l st = Inr st' \<and> sc_invalid st' = sc_invalid after
    \<and> (clean st' \<longleftrightarrow> matched m l \<and> clean after)"
proof -
  define events where "events = dict_of event_key (fill_events l)"
  from fills_valid [OF valid, of orders events after] obtain s where
    s: "rfold (fill_step orders events) after (oms_fills m) = Inr s" "sc_invalid s = sc_invalid after"
      "clean s \<longleftrightarrow> (\<forall>f\<in>set (oms_fills m). fill_accounted orders events (sc_fill_attempts after) f) \<and> clean after"
    by blast
  define st' where "st' = foldl (order_step (oms_fills m)) (check_unmatched (oms_fills m) events s) orders"
  have run: "compare_histories m l st = Inr st'"
    using s(1) by (simp add: compare_histories_def st'_def orders_def fills_def events_def after_def Let_def)
  have g: "sc_fill_attempts after t = count_list (List.map_filter at_fill_id (oms_attempts m)) t" for t
    by (simp add: after_def attempts_counted start)
  have "clean st' \<longleftrightarrow> matched m l \<and> clean after"
  proof (cases "clean after")
    case False
    then show ?thesis by (simp add: st'_def orders_clean s)
  next
    case True
    then have "clean (check_duplicates m l st)" unfolding after_def by (rule attempts_clean)
    then have d: "distinct (map rec_order_id (oms_orders m))" "distinct (map fi_fill_id (oms_fills m))"
      "distinct (map ev_event_id (fill_events l))" by simp_all
    then have o: "orders = oms_orders m" and e: "events = fill_events l"
      by (simp_all add: orders_def events_def dict_of_id distinct_event_key)
    have "fill_accounted orders events (sc_fill_attempts after) f \<longleftrightarrow>
        count_list (List.map_filter at_fill_id (oms_attempts m)) (fi_fill_id f) = 1
        \<and> (\<exists>r\<in>set (oms_orders m). fill_matches f (rec_order r)) \<and> (\<exists>e\<in>set (fill_events l). event_books f e)" for f
      using d by (simp add: fill_accounted_matched o e distinct_event_key g)
    then show ?thesis using True d
      by (auto simp: st'_def orders_clean s matched_def o e image_iff)
  qed
  then show ?thesis using run s(2) by (auto simp: st'_def)
qed

section \<open>The simulation: orders, fills and postings together\<close>

text \<open>An order-management system and a ledger evolve together: a new fill is posted at once, other
  events of the ledger do not carry a fill's identity.\<close>

inductive sim_reach :: "Currency \<Rightarrow> SimulatedOms \<Rightarrow> SimulationLedger \<Rightarrow> bool" for c where
  sim_start: "sim_reach c oms_empty (ledger_empty c)"
| sim_oms: "sim_reach c m l \<Longrightarrow> oms_step m m' \<Longrightarrow> oms_fills m' = oms_fills m \<Longrightarrow> sim_reach c m' l"
| sim_fill: "sim_reach c m l \<Longrightarrow> oms_step m m' \<Longrightarrow> oms_fills m' = oms_fills m @ [f] \<Longrightarrow>
    post_fill_to_ledger l f = Inr l' \<Longrightarrow> sim_reach c m' l'"
| sim_event: "sim_reach c m l \<Longrightarrow> event_wf e \<Longrightarrow> \<not> prefix fill_event_prefix (event_text (ev_event_id e)) \<Longrightarrow>
    ledger_apply l e = Inr l' \<Longrightarrow> sim_reach c m l'"

lemma sim_reach_parts: "sim_reach c m l \<Longrightarrow> oms_reach m \<and> ledger_reach c l"
proof (induction rule: sim_reach.induct)
  case (sim_fill m l m' f l')
  then have "event_wf (fill_event l f)" "ledger_apply l (fill_event l f) = Inr l'"
    by (auto simp: post_fill_Inr)
  with sim_fill show ?case by (auto intro: oms_reach.reach_step ledger_reach.reach_apply)
qed (auto intro: oms_reach.intros ledger_reach.intros)

lemma fill_event_booked: "event_books f (fill_event l f)"
  by (simp add: event_books_def fill_event_def event_key_def fill_event_key_def)

lemma event_books_key: "event_books f e \<Longrightarrow> event_key e = fill_event_key f"
  by (simp add: event_books_def)

text \<open>The fill events of the ledger are exactly the postings of the recorded fills, in order.\<close>

lemma sim_reach_booked: "sim_reach c m l \<Longrightarrow> list_all2 event_books (oms_fills m) (fill_events l)"
proof (induction rule: sim_reach.induct)
  case sim_start
  show ?case by (simp add: oms_empty_def ledger_empty_def fill_events_def)
next
  case (sim_oms m l m')
  then show ?case by simp
next
  case (sim_fill m l m' f l')
  have "ledger_ok l" using sim_reach_parts [OF sim_fill.hyps(1)] ledger_reach_ok by blast
  then have ev: "lg_events l' = lg_events l @ [fill_event l f]"
    using sim_fill.hyps(4) by (rule post_fill_appends)
  have "prefix fill_event_prefix (event_text (ev_event_id (fill_event l f)))"
    by (simp add: fill_event_def)
  then have "fill_events l' = fill_events l @ [fill_event l f]" by (simp add: fill_events_def ev)
  with sim_fill fill_event_booked show ?case by (simp add: list_all2_appendI)
next
  case (sim_event m l e l')
  from ledger_apply_cases [OF sim_event.hyps(4)] have "fill_events l' = fill_events l"
    using sim_event.hyps(3) by (auto simp: fill_events_def)
  with sim_event show ?case by simp
qed

lemma record_ok_settled: "record_ok fs r \<Longrightarrow> record_settled fs r"
  by (auto simp: record_ok_def record_settled_def split: if_splits)

lemma sim_reach_matched:
  assumes "sim_reach c m l"
  shows "matched m l"
proof -
  have ok: "oms_ok m" using sim_reach_parts [OF assms] oms_reach_ok by blast
  have lok: "ledger_ok l" using sim_reach_parts [OF assms] ledger_reach_ok by blast
  have tr: "attempts_trace (map rec_order (oms_orders m)) (oms_fills m) (oms_attempts m)"
    using ok by (simp add: oms_ok_def)
  note fills = attempts_trace_fills [OF tr]
  have named: "List.map_filter at_fill_id (oms_attempts m) = map fi_fill_id (oms_fills m)"
    using tr by (induction rule: attempts_trace.induct) (auto simp: List.map_filter_def)
  note booked = sim_reach_booked [OF assms]
  have "distinct (map ev_event_id (fill_events l))"
    using lok unfolding fill_events_def ledger_ok_def by (simp add: distinct_map_filter)
  moreover have "\<exists>e\<in>set (fill_events l). event_books f e" if "f \<in> set (oms_fills m)" for f
    using booked that by (metis in_set_conv_nth list_all2_conv_all_nth)
  moreover have "\<exists>f\<in>set (oms_fills m). event_key e = fill_event_key f" if "e \<in> set (fill_events l)" for e
    using booked that event_books_key by (metis in_set_conv_nth list_all2_conv_all_nth)
  ultimately show ?thesis
    using ok fills by (auto simp: matched_def oms_ok_def named count_list_distinct record_ok_settled)
qed

lemma check_ledger_reachable:
  assumes "ledger_reach c l"
  shows "check_ledger l st = Inr st"
  using ledger_reach_replay [OF assms] ledger_reach_ok [OF assms]
  by (simp add: check_ledger_def flag_if_def)

lemma fill_evidence_valid:
  assumes "oms_ok m" and "\<forall>r\<in>set (oms_orders m). valid_order (rec_order r)"
    and "\<forall>f\<in>set (oms_fills m). valid_evidence_digest (fi_execution_evidence f)"
  shows "\<forall>f\<in>set (oms_fills m). valid_fill f"
proof
  fix f assume f: "f \<in> set (oms_fills m)"
  have tr: "attempts_trace (map rec_order (oms_orders m)) (oms_fills m) (oms_attempts m)"
    using assms(1) by (simp add: oms_ok_def)
  from attempts_trace_fills [OF tr] f obtain r where r: "r \<in> set (oms_orders m)"
    "fill_matches f (rec_order r)" and p: "validate_fill_payload f = Inr ()" by auto
  then show "valid_fill f" using assms(2,3) f
    by (auto simp: valid_fill_def valid_order_def fill_matches_def validate_fill_payload_def
        validate_cost_binding_def validate_cost_breakdown_Inr valid_cost_breakdown_def not_less)
qed

lemma attempts_requested: "attempts_trace ords fs as \<Longrightarrow> a \<in> set as \<Longrightarrow> valid_attempt a"
proof (induction rule: attempts_trace.induct)
  case (trace_fill fs as ord b f)
  then show ?case by (auto simp: valid_attempt_def validate_fill_payload_def)
qed (auto simp: valid_attempt_def)

text \<open>On a reachable pair the comparison finds nothing, so the result only depends on the
  performance figures.\<close>

lemma reconcile_reachable:
  assumes reach: "sim_reach c m l" and orders: "\<forall>r\<in>set (oms_orders m). valid_order (rec_order r)"
    and evd: "\<forall>f\<in>set (oms_fills m). valid_evidence_digest (fi_execution_evidence f)"
  shows "\<exists>st. clean st \<and> \<not> sc_invalid st \<and> reconcile m l = conclude m l st"
proof -
  have ok: "oms_ok m" using sim_reach_parts [OF reach] oms_reach_ok by blast
  then have tr: "attempts_trace (map rec_order (oms_orders m)) (oms_fills m) (oms_attempts m)"
    and d: "distinct (map rec_order_id (oms_orders m))"
    and recs: "\<forall>r\<in>set (oms_orders m). record_ok (oms_fills m) r" by (simp_all add: oms_ok_def)
  have vf: "\<forall>f\<in>set (oms_fills m). valid_fill f" using fill_evidence_valid [OF ok orders evd] .
  have "\<forall>r\<in>set (oms_orders m). valid_order_record r"
    using orders recs by (auto simp: valid_order_record_def record_ok_def)
  then have inp: "check_inputs m scan_start = scan_start" using vf by (simp add: check_inputs_def)
  define after where "after = foldl (attempt_step (dict_of rec_order_id (oms_orders m))
      (dict_of fi_fill_id (oms_fills m))) (check_duplicates m l scan_start) (oms_attempts m)"
  note match = sim_reach_matched [OF reach]
  have df: "distinct (map fi_fill_id (oms_fills m))" using attempts_trace_fills [OF tr] by simp
  have "scanned (oms_fills m) after"
    unfolding after_def dict_of_id [OF d] dict_of_id [OF df]
  proof (rule attempts_trace_scanned [OF tr])
    show "\<exists>r. dict_get rec_order_id (oms_orders m) (so_order_id ord) = Some r \<and> rec_order r = ord"
      if "ord \<in> set (map rec_order (oms_orders m))" for ord
      using that dict_get_unique [OF d] by auto
    show "dict_get fi_fill_id (oms_fills m) (fi_fill_id f) = Some f" if "f \<in> set (oms_fills m)" for f
      using that dict_get_unique [OF df] by simp
    show "scanned [] (check_duplicates m l scan_start)"
      using match by (auto simp: scanned_def matched_def, simp_all add: scan_start_def)
  qed
  then have "clean after" "\<not> sc_invalid after" by (simp_all add: scanned_def)
  moreover obtain st where "compare_histories m l scan_start = Inr st" "sc_invalid st = sc_invalid after"
      "clean st \<longleftrightarrow> matched m l \<and> clean after"
    using compare_histories_valid [OF vf, of scan_start l] by (auto simp: after_def scan_start_def)
  moreover have "\<not> (\<exists>a\<in>set (oms_attempts m). \<not> valid_attempt a)" using attempts_requested [OF tr] by blast
  moreover have "\<not> sc_invalid scan_start" by (simp add: scan_start_def)
  moreover have "check_ledger l scan_start = Inr scan_start"
    using sim_reach_parts [OF reach] check_ledger_reachable by blast
  ultimately have "reconcile m l = conclude m l st"
    by (simp add: reconcile_def inp)
  then show ?thesis using \<open>clean after\<close> \<open>\<not> sc_invalid after\<close> match
    \<open>sc_invalid st = sc_invalid after\<close> \<open>clean st \<longleftrightarrow> matched m l \<and> clean after\<close> by blast
qed

section \<open>Performance figures\<close>

lemma validated_costs_Inr:
  "validated_costs c = Inr d \<longleftrightarrow> valid_cost_breakdown c \<and>
     d = \<lparr>dr_commission_fees = cb_commission_fees c, dr_bid_ask_spread = cb_bid_ask_spread c,
          dr_slippage = cb_slippage c, dr_market_impact = cb_market_impact c,
          dr_additional_friction = cb_additional_friction c\<rparr>"
  by (auto simp: validated_costs_def valid_cost_breakdown_def)

text \<open>The accumulated drag and turnover are the rounded sums over the fills.\<close>

definition fill_turnover :: "SimulatedFill \<Rightarrow> rat" where
  "fill_turnover f = dmul (dabs (fi_quantity f)) (fi_execution_price f)"

definition drag_of :: "SimulatedFill list \<Rightarrow> CostDrag" where
  "drag_of fs = \<lparr>dr_commission_fees = dsum (map (\<lambda>f. cb_commission_fees (fi_costs f)) fs),
     dr_bid_ask_spread = dsum (map (\<lambda>f. cb_bid_ask_spread (fi_costs f)) fs),
     dr_slippage = dsum (map (\<lambda>f. cb_slippage (fi_costs f)) fs),
     dr_market_impact = dsum (map (\<lambda>f. cb_market_impact (fi_costs f)) fs),
     dr_additional_friction = dsum (map (\<lambda>f. cb_additional_friction (fi_costs f)) fs)\<rparr>"

lemma drag_step_Inr:
  "drag_step (d, u) f = Inr y \<longleftrightarrow> valid_cost_breakdown (fi_costs f) \<and>
     y = (\<lparr>dr_commission_fees = dadd (dr_commission_fees d) (cb_commission_fees (fi_costs f)),
           dr_bid_ask_spread = dadd (dr_bid_ask_spread d) (cb_bid_ask_spread (fi_costs f)),
           dr_slippage = dadd (dr_slippage d) (cb_slippage (fi_costs f)),
           dr_market_impact = dadd (dr_market_impact d) (cb_market_impact (fi_costs f)),
           dr_additional_friction = dadd (dr_additional_friction d) (cb_additional_friction (fi_costs f))\<rparr>,
          dadd u (fill_turnover f))"
  by (auto simp: drag_step_def validated_costs_Inr fill_turnover_def)

lemma drag_run:
  "rfold drag_step (drag_zero, 0) fs = Inr (d, u) \<longleftrightarrow>
     (\<forall>f\<in>set fs. valid_cost_breakdown (fi_costs f)) \<and> d = drag_of fs \<and> u = dsum (map fill_turnover fs)"
proof (induction fs arbitrary: d u rule: rev_induct)
  case Nil
  show ?case by (auto simp: drag_zero_def drag_of_def)
next
  case (snoc f fs)
  show ?case
    by (auto simp: rfold_snoc snoc.IH drag_step_Inr drag_of_def dsum_snoc)
qed

lemma drag_total_nonneg:
  assumes "\<forall>f\<in>set fs. valid_cost_breakdown (fi_costs f)"
  shows "0 \<le> drag_total (drag_of fs)"
proof -
  have nn: "0 \<le> dsum (map (\<lambda>f. g (fi_costs f)) fs)"
    if "\<And>c. g c \<in> set (cost_fields c)" for g
    using assms that by (intro dsum_nonneg) (force simp: valid_cost_breakdown_def not_less)
  show ?thesis
    using nn [of cb_commission_fees] nn [of cb_bid_ask_spread] nn [of cb_slippage]
      nn [of cb_market_impact] nn [of cb_additional_friction]
    by (simp add: drag_total_def drag_of_def cost_fields_def)
qed

lemma performance_Inr:
  assumes "performance m l = Inr p"
  shows "\<exists>funding. funding_of (lg_events l) = Inr funding
    \<and> pt_execution_cost_drag p = drag_of (oms_fills m) \<and> pt_turnover p = dsum (map fill_turnover (oms_fills m))
    \<and> (\<forall>f\<in>set (oms_fills m). valid_cost_breakdown (fi_costs f))
    \<and> pt_portfolio_value p = ls_portfolio_value (lg_state l)
    \<and> pt_net_pnl p = dsub (ls_portfolio_value (lg_state l)) funding
    \<and> pt_gross_pnl p = dadd (pt_net_pnl p) (drag_total (drag_of (oms_fills m)))
    \<and> dsub (pt_gross_pnl p) (drag_total (drag_of (oms_fills m))) = pt_net_pnl p"
  using assms by (auto simp: performance_def drag_run Let_def split: prod.splits)

lemma drag_step_Inl: "drag_step x f = Inl (Err k t) \<Longrightarrow> k = PerformanceTruthError"
  by (auto simp: drag_step_def validated_costs_def)

lemma performance_Inl:
  assumes "performance m l = Inl e"
  shows "\<exists>t. e = Err PerformanceTruthError t \<or> e = Err TypeError t"
proof -
  obtain k t where e: "e = Err k t" by (cases e)
  show ?thesis
  proof (cases "rfold drag_step (drag_zero, 0) (oms_fills m)")
    case (Inl x)
    with assms have "rfold drag_step (drag_zero, 0) (oms_fills m) = Inl (Err k t)"
      by (auto simp: performance_def e)
    from rfold_Inl [OF this] show ?thesis using drag_step_Inl e by blast
  next
    case (Inr y)
    show ?thesis
    proof (cases "funding_of (lg_events l)")
      case (Inl x)
      with assms Inr have "funding_of (lg_events l) = Inl e"
        by (auto simp: performance_def split: prod.splits)
      then show ?thesis by (auto simp: funding_of_def dest!: rmap_Inl split: option.splits)
    qed (use assms Inr in \<open>auto simp: performance_def Let_def split: prod.splits\<close>)
  qed
qed

lemma funding_of_reachable:
  assumes "ledger_ok l"
  shows "\<exists>funding. funding_of (lg_events l) = Inr funding"
proof -
  have "\<exists>d. ev_cash_delta e = Some d"
    if "e \<in> set (filter (\<lambda>e. ev_kind e \<in> {OPENING_CASH, CASH_ADJUSTMENT}) (lg_events l))" for e
    using that shape_kind(1) [of e] assms by (auto simp: ledger_ok_def)
  then have "\<forall>x. rmap (\<lambda>e. case ev_cash_delta e of None \<Rightarrow> Inl (Err TypeError ''cash_delta must be a Decimal'') | Some d \<Rightarrow> Inr d)
      (filter (\<lambda>e. ev_kind e \<in> {OPENING_CASH, CASH_ADJUSTMENT}) (lg_events l)) \<noteq> Inl x"
    by (force dest!: rmap_Inl split: option.splits)
  then show ?thesis unfolding funding_of_def
    by (cases "rmap (\<lambda>e. case ev_cash_delta e of None \<Rightarrow> Inl (Err TypeError ''cash_delta must be a Decimal'') | Some d \<Rightarrow> Inr d)
      (filter (\<lambda>e. ev_kind e \<in> {OPENING_CASH, CASH_ADJUSTMENT}) (lg_events l))") auto
qed

text \<open>Once every cost breakdown is valid and the money paid in is known, only the check that gross
  less the drag is net again can fail.\<close>

lemma performance_rounding:
  assumes "\<forall>f\<in>set (oms_fills m). valid_cost_breakdown (fi_costs f)" and "funding_of (lg_events l) = Inr funding"
  shows "(\<exists>p. performance m l = Inr p) \<longleftrightarrow>
    (let net = dsub (ls_portfolio_value (lg_state l)) funding; drag = drag_total (drag_of (oms_fills m))
     in dsub (dadd net drag) drag = net)"
proof -
  have "rfold drag_step (drag_zero, 0) (oms_fills m) = Inr (drag_of (oms_fills m), dsum (map fill_turnover (oms_fills m)))"
    using assms(1) by (simp add: drag_run)
  then show ?thesis by (auto simp: performance_def assms(2) Let_def)
qed

lemma rounding_exact: "dadd x d = x + d \<Longrightarrow> dround x = x \<Longrightarrow> dsub (dadd x d) d = x"
  by (simp add: dsub_def)

section \<open>Properties of reconciliation\<close>

text \<open>C1: Performance figures come only from matched histories: when reconcile succeeds and
  require_performance releases the figures, order, fill and posting identities are unique, every
  fill agrees with its order, was named by exactly one attempt and is booked by exactly its ledger
  event at the cost-adjusted price, no ledger posting lacks a fill, every order's filled quantity
  and status follow from its fills, the ledger's state is the replay of its events, and the figures
  are those of these histories.\<close>

theorem performance_requires_matched_histories:
  assumes "reconcile m l = Inr R" and "require_performance R = Inr p"
  shows "matched m l \<and> performance m l = Inr p
    \<and> (\<exists>l'. ledger_replay (lg_currency l) (lg_events l) = Inr l' \<and> lg_state l' = lg_state l)"
proof -
  have R: "rr_state R = RECONCILED" "rr_performance R = Some p"
    using assms(2) by (auto simp: require_performance_def split: option.splits)
  from assms(1) obtain st0 where l: "check_ledger l scan_start = Inr st0"
    by (auto simp: reconcile_def)
  define st where "st = check_inputs m st0"
  from assms(1) R l obtain st' where valid: "\<not> sc_invalid st"
    and cmp: "compare_histories m l st = Inr st'" and con: "conclude m l st' = Inr R"
    by (auto simp: reconcile_def st_def [symmetric] reconciliation_result_def Let_def split: if_splits)
  from con R have c: "clean st'" "performance m l = Inr p"
    by (auto simp: conclude_def clean_def reconciliation_result_def split: if_splits sum.splits)
  have vf: "\<forall>f\<in>set (oms_fills m). valid_fill f" and st: "st = st0" and v0: "\<not> sc_invalid st0"
    using valid by (auto simp: st_def check_inputs_def Let_def split: if_splits)
  have start: "sc_fill_attempts st0 = (\<lambda>t. 0)"
    and replay: "clean st0 \<longrightarrow> (\<exists>l'. ledger_replay (lg_currency l) (lg_events l) = Inr l' \<and> lg_state l' = lg_state l)"
    using l v0 by (auto simp: check_ledger_def split: sum.splits if_splits) (simp_all add: scan_start_def)
  from compare_histories_valid [OF vf start, of l] cmp c(1)
  have m: "matched m l" and "clean (foldl (attempt_step (dict_of rec_order_id (oms_orders m))
      (dict_of fi_fill_id (oms_fills m))) (check_duplicates m l st0) (oms_attempts m))"
    by (auto simp: st)
  then have "clean (check_duplicates m l st0)" by (blast dest: attempts_clean)
  with m c(2) replay show ?thesis by simp
qed

text \<open>C2: Conversely, take histories in which every new fill is posted at once, the orders are valid and
  the fills carry well-formed evidence digests.  Then reconciliation never reports an order, fill or
  ledger mismatch: its result is RECONCILED with the performance figures or, when the figures fail
  their own check, INVALID with the single subject performance.  That check fails exactly when
  adding the cost drag to the net result and subtracting it again does not give the net result back
  in rounded arithmetic; it never fails when the addition is exact.\<close>

theorem reachable_histories_reconcile:
  assumes "sim_reach c m l" and "\<forall>r\<in>set (oms_orders m). valid_order (rec_order r)"
    and "\<forall>f\<in>set (oms_fills m). valid_evidence_digest (fi_execution_evidence f)"
  shows "reconcile m l = Inr (case performance m l of
        Inr p \<Rightarrow> reconciliation_result RECONCILED [] (Some p)
      | Inl e \<Rightarrow> reconciliation_result INVALID_OR_UNKNOWN
          [Discrepancy INVALID_INPUT (SubjText ''performance'')] None)
    \<and> (\<exists>funding. funding_of (lg_events l) = Inr funding
        \<and> (let net = dsub (ls_portfolio_value (lg_state l)) funding; drag = drag_total (drag_of (oms_fills m)) in
           ((\<exists>p. performance m l = Inr p) \<longleftrightarrow> dsub (dadd net drag) drag = net)
           \<and> (dadd net drag = net + drag \<longrightarrow> (\<exists>p. performance m l = Inr p))))"
proof -
  have "caught e" if "performance m l = Inl e" for e
    using performance_Inl [OF that] by (auto simp: caught_def)
  then have rec: "reconcile m l = Inr (case performance m l of
        Inr p \<Rightarrow> reconciliation_result RECONCILED [] (Some p)
      | Inl e \<Rightarrow> reconciliation_result INVALID_OR_UNKNOWN
          [Discrepancy INVALID_INPUT (SubjText ''performance'')] None)"
    using reconcile_reachable [OF assms] by (auto simp: conclude_def clean_def split: sum.split)
  have ok: "oms_ok m" "ledger_ok l" using sim_reach_parts [OF assms(1)] oms_reach_ok ledger_reach_ok by blast+
  have costs: "\<forall>f\<in>set (oms_fills m). valid_cost_breakdown (fi_costs f)"
    using fill_evidence_valid [OF ok(1) assms(2,3)] by (simp add: valid_fill_def)
  from funding_of_reachable [OF ok(2)] obtain fund where fund: "funding_of (lg_events l) = Inr fund" ..
  show ?thesis
    using rec fund performance_rounding [OF costs fund]
      rounding_exact [of "dsub (ls_portfolio_value (lg_state l)) fund" "drag_total (drag_of (oms_fills m))"]
    by (auto simp: Let_def)
qed
text \<open>The released figures are the rounded sums over the recorded fills: each cost component and the
  turnover; net is portfolio value less paid-in money, gross exceeds net by the cost drag and never
  falls below it, and gross less the drag is net again.\<close>

theorem performance_figures:
  assumes "performance m l = Inr p"
  shows "pt_execution_cost_drag p = drag_of (oms_fills m)
    \<and> pt_turnover p = dsum (map fill_turnover (oms_fills m))
    \<and> pt_gross_pnl p = dadd (pt_net_pnl p) (drag_total (pt_execution_cost_drag p))
    \<and> dsub (pt_gross_pnl p) (drag_total (pt_execution_cost_drag p)) = pt_net_pnl p
    \<and> pt_net_pnl p \<le> pt_gross_pnl p \<and> 0 \<le> drag_total (pt_execution_cost_drag p)"
proof -
  from performance_Inr [OF assms] obtain fund where
    p: "pt_execution_cost_drag p = drag_of (oms_fills m)" "pt_turnover p = dsum (map fill_turnover (oms_fills m))"
      "\<forall>f\<in>set (oms_fills m). valid_cost_breakdown (fi_costs f)"
      "pt_net_pnl p = dsub (ls_portfolio_value (lg_state l)) fund"
      "pt_gross_pnl p = dadd (pt_net_pnl p) (drag_total (drag_of (oms_fills m)))"
      "dsub (pt_gross_pnl p) (drag_total (drag_of (oms_fills m))) = pt_net_pnl p"
    by blast
  note nn = drag_total_nonneg [OF p(3)]
  have "dround (pt_net_pnl p) \<le> dround (pt_net_pnl p + drag_total (drag_of (oms_fills m)))"
    using nn by (intro dround_mono) simp
  moreover have "dround (pt_net_pnl p) = pt_net_pnl p" by (simp add: p(4))
  ultimately have "pt_net_pnl p \<le> pt_gross_pnl p" by (simp add: p(5) dadd_def)
  with p nn show ?thesis by simp
qed

section \<open>A sample pair of histories\<close>

text \<open>Two units are bought for 1 each without cost and one is sold for 101 at a cost of 100; then the
  remaining unit is marked at 1 plus the smallest step a 28-digit decimal of that size has.\<close>

definition rc_run :: ResearchRunId where
  "rc_run = ResearchRunId (''atis:research:run:v1:'' @ sample_sha)"

definition rc_digest :: EvidenceContentDigest where
  "rc_digest = EvidenceContentDigest sample_sha"

definition rc_order :: "uuid \<Rightarrow> OrderSide \<Rightarrow> rat \<Rightarrow> SimulatedOrder" where
  "rc_order n side q = sample_order\<lparr>so_order_id := OrderId n, so_side := side, so_quantity := q,
     so_research_run_id := rc_run, so_evidence_digest := rc_digest\<rparr>"

definition rc_fill :: "uuid \<Rightarrow> OrderSide \<Rightarrow> rat \<Rightarrow> rat \<Rightarrow> rat \<Rightarrow> SimulatedFill" where
  "rc_fill n side q price cost = sample_fill\<lparr>fi_fill_id := TradeId n, fi_order_id := OrderId n,
     fi_side := side, fi_quantity := q, fi_execution_price := price, fi_execution_evidence := rc_digest,
     fi_costs := sample_costs\<lparr>cb_commission_fees := cost\<rparr>, fi_research_run_id := rc_run\<rparr>"

definition rc_record :: "SimulatedOrder \<Rightarrow> OrderStatus \<Rightarrow> rat \<Rightarrow> OrderRecord" where
  "rc_record ord st q = \<lparr>rec_order = ord, rec_status = st, rec_filled_quantity = q, rec_reasons = []\<rparr>"

definition rc_attempt :: "uuid \<Rightarrow> rat \<Rightarrow> ExecutionAttempt" where
  "rc_attempt n q = \<lparr>at_order_id = OrderId n, at_requested_quantity = q, at_outcome = FULLY_FILLED,
     at_reasons = [], at_fill_id = Some (TradeId n)\<rparr>"

definition rc_oms :: "OrderRecord list \<Rightarrow> SimulatedFill list \<Rightarrow> ExecutionAttempt list \<Rightarrow> SimulatedOms" where
  "rc_oms rs fs as = \<lparr>oms_orders = rs, oms_fills = fs, oms_attempts = as,
     oms_authority = SIMULATED_EXECUTION_AUTHORITY\<rparr>"

definition rc_buy :: SimulatedFill where "rc_buy = rc_fill 1 BUY 2 1 0"
definition rc_sell :: SimulatedFill where "rc_sell = rc_fill 2 SELL 1 101 100"

definition rc_m1 :: SimulatedOms where
  "rc_m1 = rc_oms [rc_record (rc_order 1 BUY 2) ACCEPTED 0] [] []"

definition rc_m2 :: SimulatedOms where
  "rc_m2 = rc_oms [rc_record (rc_order 1 BUY 2) FULLY_FILLED 2] [rc_buy] [rc_attempt 1 2]"

definition rc_m3 :: SimulatedOms where
  "rc_m3 = rc_oms [rc_record (rc_order 1 BUY 2) FULLY_FILLED 2, rc_record (rc_order 2 SELL 1) ACCEPTED 0]
     [rc_buy] [rc_attempt 1 2]"

definition rc_m4 :: SimulatedOms where
  "rc_m4 = rc_oms [rc_record (rc_order 1 BUY 2) FULLY_FILLED 2, rc_record (rc_order 2 SELL 1) FULLY_FILLED 1]
     [rc_buy, rc_sell] [rc_attempt 1 2, rc_attempt 2 1]"

definition rc_ledger :: "FinancialEvent list \<Rightarrow> rat \<Rightarrow> (rat \<times> rat \<times> rat) option \<Rightarrow> SimulationLedger" where
  "rc_ledger es cash pos = (let ps = (case pos of None \<Rightarrow> []
       | Some (q, cb, mark) \<Rightarrow> [\<lparr>pos_instrument_id = sample_instrument, pos_quantity = q,
           pos_cost_basis = cb, pos_mark_price = mark, pos_realised_pnl = 0\<rparr>])
     in \<lparr>lg_currency = sample_usd, lg_events = es, lg_state = \<lparr>ls_currency = sample_usd, ls_cash = cash,
          ls_positions = ps, ls_realised_pnl = 0, ls_unrealised_pnl = dsum (map unrealised_pnl ps),
          ls_portfolio_value = dadd cash (dsum (map market_value ps))\<rparr>,
         lg_authority = SIMULATION_ONLY_AUTHORITY\<rparr>)"

lemmas rc_ledger_code [code] = rc_ledger_def [unfolded Let_def]

definition rc_opening :: FinancialEvent where
  "rc_opening = sample_event ''open'' 1 OPENING_CASH None None None (Some 2)"

definition rc_mark :: FinancialEvent where
  "rc_mark = sample_event ''mark'' 4 MARK (Some sample_instrument) None
     (Some (1000000000000000000000000001 / 1000000000000000000000000000)) None"

definition rc_l1 :: SimulationLedger where "rc_l1 = rc_ledger [rc_opening] 2 None"

definition rc_l2 :: SimulationLedger where
  "rc_l2 = rc_ledger [rc_opening, fill_event rc_l1 rc_buy] 0 (Some (2, 2, 1))"

definition rc_l3 :: SimulationLedger where
  "rc_l3 = rc_ledger [rc_opening, fill_event rc_l1 rc_buy, fill_event rc_l2 rc_sell] 1 (Some (1, 1, 1))"

definition rc_l4 :: SimulationLedger where
  "rc_l4 = rc_ledger [rc_opening, fill_event rc_l1 rc_buy, fill_event rc_l2 rc_sell, rc_mark] 1
     (Some (1, 1, 1000000000000000000000000001 / 1000000000000000000000000000))"

lemma rc_oms_steps: "oms_step oms_empty rc_m1" "oms_step rc_m1 rc_m2" "oms_step rc_m2 rc_m3" "oms_step rc_m3 rc_m4"
proof -
  have 1: "SimulatedOrder_init (rc_order 1 BUY 2) = Inr (rc_order 1 BUY 2)"
    and 2: "SimulatedOrder_init (rc_order 2 SELL 1) = Inr (rc_order 2 SELL 1)" by code_simp+
  have 3: "oms_submit oms_empty (rc_order 1 BUY 2) = Inr rc_m1"
    and 4: "oms_submit rc_m2 (rc_order 2 SELL 1) = Inr rc_m3" by code_simp+
  have 5: "oms_apply_fill rc_m1 rc_buy None = Inr rc_m2"
    and 6: "oms_apply_fill rc_m3 rc_sell None = Inr rc_m4" by code_simp+
  show "oms_step oms_empty rc_m1" by (rule step_submit [OF 1 3])
  show "oms_step rc_m1 rc_m2" by (rule step_fill [OF 5])
  show "oms_step rc_m2 rc_m3" by (rule step_submit [OF 2 4])
  show "oms_step rc_m3 rc_m4" by (rule step_fill [OF 6])
qed

lemma rc_ledger_steps:
  "ledger_apply (ledger_empty sample_usd) rc_opening = Inr rc_l1"
  "post_fill_to_ledger rc_l1 rc_buy = Inr rc_l2" "post_fill_to_ledger rc_l2 rc_sell = Inr rc_l3"
  "ledger_apply rc_l3 rc_mark = Inr rc_l4"
proof -
  show "ledger_apply (ledger_empty sample_usd) rc_opening = Inr rc_l1" by code_simp
  show "ledger_apply rc_l3 rc_mark = Inr rc_l4" by code_simp
  have "ledger_apply rc_l1 (fill_event rc_l1 rc_buy) = Inr rc_l2"
    and "ledger_apply rc_l2 (fill_event rc_l2 rc_sell) = Inr rc_l3" by code_simp+
  moreover have "event_wf (fill_event rc_l1 rc_buy)" "event_wf (fill_event rc_l2 rc_sell)"
    "0 < unit_amount_of rc_buy" "0 < unit_amount_of rc_sell" by code_simp+
  moreover have "fi_currency rc_buy = lg_currency rc_l1" "fi_currency rc_sell = lg_currency rc_l2"
    by code_simp+
  ultimately show "post_fill_to_ledger rc_l1 rc_buy = Inr rc_l2" "post_fill_to_ledger rc_l2 rc_sell = Inr rc_l3"
    by (simp_all add: post_fill_Inr)
qed

lemma rc_sim: "sim_reach sample_usd rc_m2 rc_l2" "sim_reach sample_usd rc_m4 rc_l4"
proof -
  have wf: "event_wf rc_opening" "event_wf rc_mark" by code_simp+
  have pre: "\<not> prefix fill_event_prefix (event_text (ev_event_id rc_opening))"
    "\<not> prefix fill_event_prefix (event_text (ev_event_id rc_mark))" by code_simp+
  have 1: "sim_reach sample_usd oms_empty rc_l1"
    using sim_event [OF sim_start wf(1) pre(1) rc_ledger_steps(1)] .
  have 2: "sim_reach sample_usd rc_m1 rc_l1"
    by (rule sim_oms [OF 1 rc_oms_steps(1)]) (simp add: rc_m1_def rc_oms_def oms_empty_def)
  show 3: "sim_reach sample_usd rc_m2 rc_l2"
    by (rule sim_fill [OF 2 rc_oms_steps(2) _ rc_ledger_steps(2)]) (simp add: rc_m1_def rc_m2_def rc_oms_def)
  have 4: "sim_reach sample_usd rc_m3 rc_l2"
    by (rule sim_oms [OF 3 rc_oms_steps(3)]) (simp add: rc_m3_def rc_m2_def rc_oms_def)
  have 5: "sim_reach sample_usd rc_m4 rc_l3"
    by (rule sim_fill [OF 4 rc_oms_steps(4) _ rc_ledger_steps(3)]) (simp add: rc_m4_def rc_m3_def rc_oms_def)
  show "sim_reach sample_usd rc_m4 rc_l4"
    using sim_event [OF 5 wf(2) pre(2) rc_ledger_steps(4)] .
qed

lemma rc_valid:
  "\<forall>r\<in>set (oms_orders rc_m2). valid_order (rec_order r)"
  "\<forall>f\<in>set (oms_fills rc_m2). valid_evidence_digest (fi_execution_evidence f)"
  "\<forall>r\<in>set (oms_orders rc_m4). valid_order (rec_order r)"
  "\<forall>f\<in>set (oms_fills rc_m4). valid_evidence_digest (fi_execution_evidence f)"
  by code_simp+


definition rc_performance :: PerformanceTruth where
  "rc_performance = \<lparr>pt_gross_pnl = 0, pt_execution_cost_drag = drag_zero, pt_net_pnl = 0,
     pt_realised_pnl = 0, pt_unrealised_pnl = 0, pt_portfolio_value = 2, pt_turnover = 2,
     pt_participation = NOT_ESTABLISHED, pt_capacity = NOT_ESTABLISHED\<rparr>"

lemmas performance_code [code] = performance_def [unfolded Let_def]

lemma rc_performance_m2: "performance rc_m2 rc_l2 = Inr rc_performance"
  by code_simp

lemma rc_performance_m4: "isl (performance rc_m4 rc_l4)"
  by code_simp

theorem performance_requires_matched_histories_witness: "matched rc_m2 rc_l2"
proof -
  from reconcile_reachable [OF rc_sim(1) rc_valid(1,2)] have
    "reconcile rc_m2 rc_l2 = Inr (reconciliation_result RECONCILED [] (Some rc_performance))"
    by (auto simp: conclude_def clean_def rc_performance_m2)
  moreover have "require_performance (reconciliation_result RECONCILED [] (Some rc_performance)) = Inr rc_performance"
    by (simp add: require_performance_def reconciliation_result_def)
  ultimately show ?thesis using performance_requires_matched_histories by blast
qed

theorem reachable_histories_reconcile_witness:
  "reconcile rc_m2 rc_l2 = Inr (reconciliation_result RECONCILED [] (Some rc_performance))"
  using reachable_histories_reconcile [OF rc_sim(1) rc_valid(1,2), THEN conjunct1] by (simp add: rc_performance_m2)

theorem performance_figures_witness: "pt_turnover rc_performance = dsum [fill_turnover rc_buy]"
  using performance_figures [OF rc_performance_m2] by (simp add: rc_m2_def rc_oms_def)

text \<open>C40: The check that gross performance less the cost drag gives net performance can fail by rounding
  alone: there is a simulation whose fills are all posted and whose evidence is well-formed, so that
  the comparison of the histories finds nothing, and whose reconciliation is nevertheless reported
  as invalid because of the performance figures.\<close>

theorem rounding_rejects_matched_histories:
  "\<exists>c m l. sim_reach c m l \<and> matched m l \<and> reconcile m l =
     Inr (reconciliation_result INVALID_OR_UNKNOWN [Discrepancy INVALID_INPUT (SubjText ''performance'')] None)"
proof -
  from rc_performance_m4 obtain e where e: "performance rc_m4 rc_l4 = Inl e" by (metis isl_def)
  then have "caught e" using performance_Inl [OF e] by (auto simp: caught_def)
  with reconcile_reachable [OF rc_sim(2) rc_valid(3,4)] e have "reconcile rc_m4 rc_l4 =
     Inr (reconciliation_result INVALID_OR_UNKNOWN [Discrepancy INVALID_INPUT (SubjText ''performance'')] None)"
    by (auto simp: conclude_def clean_def)
  with rc_sim(2) sim_reach_matched [OF rc_sim(2)] show ?thesis by blast
qed

end
