(* ===== verification/SimState.thy ===== *)
theory SimState
  imports Reconcile
begin

text \<open>
  The durable journal of a complete simulation (\<open>research/simulation_state.py\<close>, class
  \<open>SimulationStateJournal\<close>, and the \<open>JournalCheckpoint\<close> of \<open>research/research_governance.py\<close>).

  \<^item> Bodies: the JSON forms of an order, an execution snapshot and a cost model, and the decoders
    that rebuild the values through their validating constructors.  Identifiers and enumeration
    members are text; the text of a \<open>Decimal\<close> or of an instant is kept by value (\<open>numeral\<close>,
    \<open>moment\<close>), \<open>None\<close> standing for a text that \<open>Decimal\<close> or \<open>datetime.fromisoformat\<close> rejects.
    \<open>Decimal(str(d)) = d\<close> and \<open>fromisoformat(t.isoformat()) = t\<close> are thus built in.
  \<^item> The directory of the journal is the list of its entries, in the arbitrary order of \<open>iterdir\<close>;
    the lock file and the temporary file of a publication are entries of it.
  \<^item> The SHA-256 digests of canonical JSON are a parameter \<open>env_digest\<close> on the bodies that are
    hashed, one constructor per domain prefix; the process identity and the digest that names a
    fill are the other parts of the environment.
  \<^item> Operating-system failures (a full disk, a failing \<open>fsync\<close>) are not modelled.
\<close>

section \<open>Values and their bodies\<close>

type_synonym numeral = "decimal option"
type_synonym moment = "py_datetime option"

definition parse_decimal :: "numeral \<Rightarrow> decimal result" where
  "parse_decimal t = (case t of None \<Rightarrow> Inl (Err InvalidOperation []) | Some d \<Rightarrow> Inr d)"

definition timestamp_of :: "moment \<Rightarrow> Timestamp result" where
  "timestamp_of t = (case t of None \<Rightarrow> Inl (Err ValueError ''Invalid isoformat string'')
     | Some d \<Rightarrow> Timestamp_init d)"

definition isoformat :: "Timestamp \<Rightarrow> moment" where
  "isoformat t = Some \<lparr>dt_micros = instant t, dt_utcoffset = Some 0\<rparr>"

definition str_decimal :: "rat \<Rightarrow> numeral" where
  "str_decimal q = Some (Finite q)"

text \<open>\<open>E(text)\<close> for an enumeration whose members are listed with their values.\<close>

definition enum_member :: "('e \<Rightarrow> string) \<Rightarrow> 'e list \<Rightarrow> string \<Rightarrow> 'e result" where
  "enum_member val members s = (case find_first (\<lambda>x. val x = s) members of
     None \<Rightarrow> Inl (Err ValueError ''not a valid member'') | Some x \<Rightarrow> Inr x)"

primrec side_value :: "OrderSide \<Rightarrow> string" where
  "side_value BUY = ''BUY''"
| "side_value SELL = ''SELL''"

primrec eligibility_value :: "EligibilityState \<Rightarrow> string" where
  "eligibility_value ELIGIBLE = ''ELIGIBLE''"
| "eligibility_value INELIGIBLE = ''INELIGIBLE''"

primrec scenario_value :: "CostScenario \<Rightarrow> string" where
  "scenario_value EC0 = ''EC0''"
| "scenario_value EC1 = ''EC1''"
| "scenario_value EC2 = ''EC2''"
| "scenario_value EC3 = ''EC3''"

primrec provenance_value :: "CostProvenance \<Rightarrow> string" where
  "provenance_value OBSERVED = ''OBSERVED''"
| "provenance_value MODELLED = ''MODELLED''"
| "provenance_value PROXY = ''PROXY''"

primrec component_value :: "CostComponent \<Rightarrow> string" where
  "component_value COMMISSION_FEES = ''COMMISSION_FEES''"
| "component_value BID_ASK_SPREAD = ''BID_ASK_SPREAD''"
| "component_value SLIPPAGE = ''SLIPPAGE''"
| "component_value MARKET_IMPACT = ''MARKET_IMPACT''"
| "component_value ADDITIONAL_FRICTION = ''ADDITIONAL_FRICTION''"

text \<open>\<open>UUID(text)\<close>\<close>

definition OrderId_parse :: "string \<Rightarrow> OrderId result" where
  "OrderId_parse s = (case uuid_of_string s of
     None \<Rightarrow> Inl (Err ValueError ''badly formed hexadecimal UUID string'') | Some u \<Rightarrow> Inr (OrderId u))"

text \<open>A list-valued member is \<open>None\<close> when the JSON value is not a list.\<close>

record OrderJson =
  oj_order_id :: string
  oj_instrument_id :: string
  oj_side :: string
  oj_quantity :: numeral
  oj_currency :: string
  oj_release_at :: moment
  oj_research_run_id :: string
  oj_evidence_digest :: string
  oj_eligibility_state :: string
  oj_eligibility_reasons :: "string list option"
  oj_eligibility_observation_id :: string
  oj_decision_time :: moment

definition order_body :: "SimulatedOrder \<Rightarrow> OrderJson" where
  "order_body v =
     \<lparr>oj_order_id = uuid_str (order_uuid (so_order_id v)),
      oj_instrument_id = InstrumentId_to_string (so_instrument_id v),
      oj_side = side_value (so_side v), oj_quantity = str_decimal (so_quantity v),
      oj_currency = code (so_currency v), oj_release_at = isoformat (so_release_at v),
      oj_research_run_id = run_text (so_research_run_id v),
      oj_evidence_digest = digest_text (so_evidence_digest v),
      oj_eligibility_state = eligibility_value (so_eligibility_state v),
      oj_eligibility_reasons = Some (so_eligibility_reasons v),
      oj_eligibility_observation_id = so_eligibility_observation_id v,
      oj_decision_time = isoformat (so_decision_time v)\<rparr>"

definition decode_order :: "OrderJson \<Rightarrow> SimulatedOrder result" where
  "decode_order b = (case oj_eligibility_reasons b of
     None \<Rightarrow> Inl (Err SimulationStateError ''eligibility reasons are invalid'')
   | Some reasons \<Rightarrow>
       rbind (OrderId_parse (oj_order_id b)) (\<lambda>oid.
       rbind (InstrumentId_parse (oj_instrument_id b)) (\<lambda>instrument.
       rbind (enum_member side_value [BUY, SELL] (oj_side b)) (\<lambda>side.
       rbind (parse_decimal (oj_quantity b)) (\<lambda>quantity.
       rbind (Currency_init (oj_currency b)) (\<lambda>currency.
       rbind (timestamp_of (oj_release_at b)) (\<lambda>release.
       rbind (ResearchRunId_init (oj_research_run_id b)) (\<lambda>run.
       rbind (EvidenceContentDigest_init (oj_evidence_digest b)) (\<lambda>evidence.
       rbind (enum_member eligibility_value [ELIGIBLE, INELIGIBLE] (oj_eligibility_state b)) (\<lambda>state.
       rbind (timestamp_of (oj_decision_time b)) (\<lambda>decision.
       rbind (finite_positive ''quantity'' True quantity) (\<lambda>q.
         SimulatedOrder_init
           \<lparr>so_order_id = oid, so_instrument_id = instrument, so_side = side, so_quantity = q,
            so_currency = currency, so_release_at = release, so_research_run_id = run,
            so_evidence_digest = evidence, so_eligibility_state = state,
            so_eligibility_reasons = reasons,
            so_eligibility_observation_id = oj_eligibility_observation_id b,
            so_decision_time = decision\<rparr>))))))))))))"

record SnapshotJson =
  sj_execution_at :: moment
  sj_price :: "numeral option"
  sj_price_available_at :: "moment option"
  sj_security_state :: string
  sj_liquidity_state :: string
  sj_available_quantity :: "numeral option"
  sj_currency :: "string option"
  sj_evidence_digest :: "string option"

definition snapshot_body :: "ExecutionSnapshot \<Rightarrow> SnapshotJson" where
  "snapshot_body v =
     \<lparr>sj_execution_at = isoformat (sn_execution_at v),
      sj_price = map_option str_decimal (sn_price v),
      sj_price_available_at = map_option isoformat (sn_price_available_at v),
      sj_security_state = input_value (sn_security_state v),
      sj_liquidity_state = input_value (sn_liquidity_state v),
      sj_available_quantity = map_option str_decimal (sn_available_quantity v),
      sj_currency = map_option code (sn_currency v),
      sj_evidence_digest = map_option digest_text (sn_evidence_digest v)\<rparr>"

text \<open>\<open>None if body[k] is None else f(body[k])\<close>\<close>

definition optional :: "('a \<Rightarrow> 'b result) \<Rightarrow> 'a option \<Rightarrow> 'b option result" where
  "optional f v = (case v of None \<Rightarrow> Inr None | Some x \<Rightarrow> rbind (f x) (\<lambda>y. Inr (Some y)))"

definition input_member :: "string \<Rightarrow> ExecutionInputState result" where
  "input_member = enum_member input_value [AVAILABLE, UNAVAILABLE, INPUT_UNKNOWN]"

definition decode_snapshot :: "SnapshotJson \<Rightarrow> ExecutionSnapshot result" where
  "decode_snapshot b =
     rbind (timestamp_of (sj_execution_at b)) (\<lambda>execution.
     rbind (optional parse_decimal (sj_price b)) (\<lambda>price.
     rbind (optional timestamp_of (sj_price_available_at b)) (\<lambda>available_at.
     rbind (input_member (sj_security_state b)) (\<lambda>security.
     rbind (input_member (sj_liquidity_state b)) (\<lambda>liquidity.
     rbind (optional parse_decimal (sj_available_quantity b)) (\<lambda>quantity.
     rbind (optional Currency_init (sj_currency b)) (\<lambda>currency.
     rbind (optional EvidenceContentDigest_init (sj_evidence_digest b)) (\<lambda>evidence.
     rbind (optional (finite_positive ''price'' True) price) (\<lambda>p.
     rbind (optional (finite_positive ''available_quantity'' False) quantity) (\<lambda>q.
       ExecutionSnapshot_init
         \<lparr>sn_execution_at = execution, sn_price = p, sn_price_available_at = available_at,
          sn_security_state = security, sn_liquidity_state = liquidity,
          sn_available_quantity = q, sn_currency = currency, sn_evidence_digest = evidence\<rparr>))))))))))"

record RateJson =
  rj_component :: string
  rj_basis_points :: numeral
  rj_provenance :: string
  rj_evidence_digest :: string

record ModelJson =
  mj_model_id :: string
  mj_scenario :: string
  mj_diagnostic_only :: bool
  mj_rates :: "RateJson list option"

definition rate_body :: "CostRate \<Rightarrow> RateJson" where
  "rate_body r = \<lparr>rj_component = component_value (cr_component r),
     rj_basis_points = str_decimal (cr_basis_points r),
     rj_provenance = provenance_value (cr_provenance r),
     rj_evidence_digest = digest_text (cr_evidence_digest r)\<rparr>"

definition model_body :: "ExecutionCostModel \<Rightarrow> ModelJson" where
  "model_body v = \<lparr>mj_model_id = cm_model_id v, mj_scenario = scenario_value (cm_scenario v),
     mj_diagnostic_only = cm_diagnostic_only v, mj_rates = Some (map rate_body (cm_rates v))\<rparr>"

definition decode_rate :: "RateJson \<Rightarrow> CostRate result" where
  "decode_rate b =
     rbind (enum_member component_value all_components (rj_component b)) (\<lambda>c.
     rbind (parse_decimal (rj_basis_points b)) (\<lambda>bps.
     rbind (enum_member provenance_value [OBSERVED, MODELLED, PROXY] (rj_provenance b)) (\<lambda>p.
     rbind (EvidenceContentDigest_init (rj_evidence_digest b)) (\<lambda>d. CostRate_init c bps p d))))"

definition decode_model :: "ModelJson \<Rightarrow> ExecutionCostModel result" where
  "decode_model b = (case mj_rates b of
     None \<Rightarrow> Inl (Err SimulationStateError ''cost rates are invalid'')
   | Some rates \<Rightarrow>
       rbind (enum_member scenario_value [EC0, EC1, EC2, EC3] (mj_scenario b)) (\<lambda>scenario.
       rbind (rmap decode_rate rates) (\<lambda>rs.
         ExecutionCostModel_init (mj_model_id b) scenario rs (mj_diagnostic_only b))))"

section \<open>The journal\<close>

text \<open>The payload of a command; an absent member is \<open>None\<close>.\<close>

record Payload =
  pl_order :: "OrderJson option"
  pl_order_id :: "string option"
  pl_reason :: "string option"
  pl_requested_quantity :: "numeral option"
  pl_snapshot :: "SnapshotJson option"
  pl_cost_model :: "ModelJson option"

definition no_payload :: Payload where
  "no_payload = \<lparr>pl_order = None, pl_order_id = None, pl_reason = None, pl_requested_quantity = None,
     pl_snapshot = None, pl_cost_model = None\<rparr>"

text \<open>\<open>payload[k]\<close>\<close>

definition payload_member :: "'a option \<Rightarrow> 'a result" where
  "payload_member v = (case v of None \<Rightarrow> Inl (Err KeyError []) | Some x \<Rightarrow> Inr x)"

record RecordBody =
  rb_journal_identity :: string
  rb_epoch :: string
  rb_sequence :: int
  rb_command_id :: string
  rb_command :: string
  rb_payload :: "Payload option"
  rb_previous_digest :: "string option"
  rb_state_digest :: string

record Genesis =
  gn_opening_cash :: numeral
  gn_currency :: string
  gn_research_run_id :: string
  gn_opened_at :: moment
  gn_evidence_digest :: string

record CheckpointBody =
  kb_accepted_sequence :: int
  kb_epoch :: string
  kb_establishment_identity :: string
  kb_journal_identity :: string
  kb_terminal_digest :: "string option"

datatype digest_body =
    HashGenesis Genesis
  | HashState SimulatedOms SimulationLedger
  | HashRecord RecordBody
  | HashCheckpoint CheckpointBody

record Environment =
  env_fill_digest :: "FillBody \<Rightarrow> 8 word list"
  env_digest :: "digest_body \<Rightarrow> string"
  env_pid :: string

datatype FileContent =
    Unreadable | NotCanonical | SchemaMismatch
  | Stored (stored_body: RecordBody) (stored_digest: string)

record JournalFile =
  jf_symlink :: bool
  jf_content :: FileContent

type_synonym JournalDir = "(string \<times> JournalFile) list"

datatype AssuranceMode = ENGINEERING_SIMULATION | PRODUCTION_AUTHORITY_NOT_ESTABLISHED

record JournalCheckpoint =
  jc_journal_identity :: string
  jc_epoch :: string
  jc_accepted_sequence :: int
  jc_terminal_digest :: "string option"
  jc_establishment_identity :: string
  jc_checkpoint_digest :: string

record TrustContext =
  tc_identity :: string
  tc_assurance_mode :: AssuranceMode
  tc_require_checkpoint :: "JournalCheckpoint \<Rightarrow> unit result"

record SimulationStateJournal =
  js_identity :: string
  js_epoch :: string
  js_checkpoint :: "JournalCheckpoint option"
  js_trust :: TrustContext
  js_genesis :: Genesis

record SimulationStateSnapshot =
  ss_sequence :: nat
  ss_terminal_digest :: string
  ss_state_digest :: string
  ss_oms :: SimulatedOms
  ss_ledger :: SimulationLedger

definition nonempty_text :: "string \<Rightarrow> string \<Rightarrow> string result" where
  "nonempty_text v name =
     raise_if (blank v) SimulationStateError (name @ '' must be nonempty text'') (Inr v)"

definition lock_name :: string where
  "lock_name = ''.simulation-state.lock''"

definition digit_char :: "nat \<Rightarrow> char" where
  "digit_char n = char_of (48 + n)"

fun dec_fixed :: "nat \<Rightarrow> nat \<Rightarrow> string" where
  "dec_fixed 0 n = []"
| "dec_fixed (Suc k) n = dec_fixed k (n div 10) @ [digit_char (n mod 10)]"

fun dec_text :: "nat \<Rightarrow> string" where
  "dec_text n = (if n < 10 then [digit_char n] else dec_text (n div 10) @ [digit_char (n mod 10)])"

declare dec_text.simps [simp del]

text \<open>\<open>f"{sequence:08d}.json"\<close>\<close>

definition sequence_name :: "nat \<Rightarrow> string" where
  "sequence_name n = (if n < 10 ^ 8 then dec_fixed 8 n else dec_text n) @ ''.json''"

text \<open>\<open>PurePath.suffix\<close>: from the last dot, unless it is the first or the last character.\<close>

definition path_suffix :: "string \<Rightarrow> string" where
  "path_suffix name = (let tail = takeWhile (\<lambda>c. c \<noteq> CHR ''.'') (rev name) in
     if tail = [] \<or> length name \<le> length tail + 1 then [] else CHR ''.'' # rev tail)"

definition has_name :: "JournalDir \<Rightarrow> string \<Rightarrow> bool" where
  "has_name d n \<longleftrightarrow> n \<in> set (map fst d)"

definition unlink :: "string \<Rightarrow> JournalDir \<Rightarrow> JournalDir" where
  "unlink n d = filter (\<lambda>e. fst e \<noteq> n) d"

definition paths :: "JournalDir \<Rightarrow> (string \<times> JournalFile) list result" where
  "paths d = raise_if (\<exists>e\<in>set d. path_suffix (fst e) \<noteq> ''.json'' \<and> fst e \<noteq> lock_name) SimulationStateError
     ''journal contains incomplete or unexpected files''
     (Inr (sort_key fst (filter (\<lambda>e. suffix ''.json'' (fst e)) d)))"

definition genesis_state :: "SimulationStateJournal \<Rightarrow> (SimulatedOms \<times> SimulationLedger) result" where
  "genesis_state j = (let g = js_genesis j in
     rbind (Currency_init (gn_currency g)) (\<lambda>c.
     rbind (LedgerEventId_init ''atis:simulation-ledger-event:v1:simulation-state-opening'') (\<lambda>eid.
     rbind (timestamp_of (gn_opened_at g)) (\<lambda>opened.
     rbind (ResearchRunId_init (gn_research_run_id g)) (\<lambda>run.
     rbind (EvidenceContentDigest_init (gn_evidence_digest g)) (\<lambda>evidence.
     rbind (parse_decimal (gn_opening_cash g)) (\<lambda>cash.
     rbind (FinancialEvent_init \<lparr>ev_event_id = eid, ev_sequence = 1, ev_occurred_at = opened,
         ev_kind = OPENING_CASH, ev_research_run_id = run, ev_evidence_digest = evidence,
         ev_currency = Some c, ev_instrument_id = None, ev_quantity = None, ev_unit_amount = None,
         ev_cash_delta = Some cash, ev_action = None\<rparr>) (\<lambda>opening.
     rbind (ledger_apply (ledger_empty c) opening) (\<lambda>ledger. Inr (oms_empty, ledger))))))))))"

text \<open>The branch \<open>EXECUTE_AND_POST\<close>: execute, post the new fills, demand reconciliation.\<close>

definition execute_and_post ::
  "Environment \<Rightarrow> SimulatedOms \<Rightarrow> SimulationLedger \<Rightarrow> OrderId \<Rightarrow> Payload \<Rightarrow>
   (SimulatedOms \<times> SimulationLedger) result" where
  "execute_and_post env oms ledger oid payload =
     rbind (payload_member (pl_requested_quantity payload)) (\<lambda>qt. rbind (parse_decimal qt) (\<lambda>q.
     rbind (payload_member (pl_snapshot payload)) (\<lambda>sb. rbind (decode_snapshot sb) (\<lambda>snapshot.
     rbind (payload_member (pl_cost_model payload)) (\<lambda>mb. rbind (decode_model mb) (\<lambda>model.
     rbind (oms_execute (env_fill_digest env) oms oid q snapshot model) (\<lambda>next_oms.
     rbind (rfold post_fill_to_ledger ledger (drop (length (oms_fills oms)) (oms_fills next_oms)))
       (\<lambda>next_ledger.
     rbind (reconcile next_oms next_ledger) (\<lambda>res.
       raise_if (rr_state res \<noteq> RECONCILED) SimulationStateError
         ''combined simulation state does not reconcile''
         (Inr (next_oms, next_ledger)))))))))))"

definition apply_command ::
  "Environment \<Rightarrow> SimulatedOms \<Rightarrow> SimulationLedger \<Rightarrow> string \<Rightarrow> Payload \<Rightarrow>
   (SimulatedOms \<times> SimulationLedger) result" where
  "apply_command env oms ledger command payload =
     (if command = ''SUBMIT'' then
        rbind (payload_member (pl_order payload)) (\<lambda>b. rbind (decode_order b) (\<lambda>ord.
        rbind (oms_submit oms ord) (\<lambda>m. Inr (m, ledger))))
      else rbind (payload_member (pl_order_id payload)) (\<lambda>t. rbind (OrderId_parse t) (\<lambda>oid.
        if command = ''CANCEL'' then rbind (oms_cancel oms oid) (\<lambda>m. Inr (m, ledger))
        else if command = ''MARK_UNFILLED'' then
          rbind (payload_member (pl_reason payload)) (\<lambda>reason.
          rbind (oms_mark_unfilled oms oid reason) (\<lambda>m. Inr (m, ledger)))
        else if command = ''EXECUTE_AND_POST'' then execute_and_post env oms ledger oid payload
        else Inl (Err SimulationStateError ''unknown simulation-state command''))))"

section \<open>Recovery\<close>

record RecoverState =
  rs_oms :: SimulatedOms
  rs_ledger :: SimulationLedger
  rs_previous :: "string option"
  rs_terminal :: string
  rs_seen :: "string list"

definition recover_record ::
  "Environment \<Rightarrow> SimulationStateJournal \<Rightarrow> RecoverState \<Rightarrow> nat \<Rightarrow> RecordBody \<Rightarrow> string \<Rightarrow> RecoverState result" where
  "recover_record env j st sequence body supplied =
     raise_if (rb_journal_identity body \<noteq> js_identity j \<or> rb_epoch body \<noteq> js_epoch j
         \<or> rb_sequence body \<noteq> int sequence \<or> rb_previous_digest body \<noteq> rs_previous st
         \<or> supplied \<noteq> env_digest env (HashRecord body) \<or> rb_command_id body \<in> set (rs_seen st))
       SimulationStateError ''journal chain or identity is invalid''
     (case rb_payload body of
        None \<Rightarrow> Inl (Err SimulationStateError ''command payload is invalid'')
      | Some payload \<Rightarrow>
          rbind (apply_command env (rs_oms st) (rs_ledger st) (rb_command body) payload) (\<lambda>(oms, ledger).
          raise_if (rb_state_digest body \<noteq> env_digest env (HashState oms ledger)) SimulationStateError
            ''resulting combined state digest mismatch''
            (Inr \<lparr>rs_oms = oms, rs_ledger = ledger, rs_previous = Some supplied, rs_terminal = supplied,
                  rs_seen = rs_seen st @ [rb_command_id body]\<rparr>)))"

definition recover_step ::
  "Environment \<Rightarrow> SimulationStateJournal \<Rightarrow> RecoverState \<Rightarrow> nat \<times> string \<times> JournalFile \<Rightarrow> RecoverState result" where
  "recover_step env j st = (\<lambda>(sequence, name, file).
     raise_if (name \<noteq> sequence_name sequence \<or> jf_symlink file) SimulationStateError
       ''journal sequence is missing or unsafe''
     (case jf_content file of
        Unreadable \<Rightarrow> Inl (Err SimulationStateError ''journal record is unreadable'')
      | NotCanonical \<Rightarrow> Inl (Err SimulationStateError ''journal record is not canonical'')
      | SchemaMismatch \<Rightarrow> Inl (Err SimulationStateError ''journal record schema mismatch'')
      | Stored body supplied \<Rightarrow> recover_record env j st sequence body supplied))"

definition recover_start :: "Environment \<Rightarrow> SimulationStateJournal \<Rightarrow> RecoverState result" where
  "recover_start env j = rbind (genesis_state j) (\<lambda>(oms, ledger).
     Inr \<lparr>rs_oms = oms, rs_ledger = ledger, rs_previous = None,
          rs_terminal = env_digest env (HashGenesis (js_genesis j)), rs_seen = []\<rparr>)"

definition recover_snapshot :: "Environment \<Rightarrow> nat \<Rightarrow> RecoverState \<Rightarrow> SimulationStateSnapshot" where
  "recover_snapshot env n st = \<lparr>ss_sequence = n, ss_terminal_digest = rs_terminal st,
     ss_state_digest = env_digest env (HashState (rs_oms st) (rs_ledger st)),
     ss_oms = rs_oms st, ss_ledger = rs_ledger st\<rparr>"

definition recover_state ::
  "Environment \<Rightarrow> SimulationStateJournal \<Rightarrow> JournalDir \<Rightarrow> SimulationStateSnapshot result" where
  "recover_state env j d =
     rbind (recover_start env j) (\<lambda>start.
     rbind (paths d) (\<lambda>ps.
     rbind (rfold (recover_step env j) start (List.enumerate 1 ps)) (\<lambda>st.
       Inr (recover_snapshot env (length ps) st))))"

text \<open>The snapshot a caller hands over is checked as it is; without one the journal is recovered.\<close>

definition require_checkpointed ::
  "Environment \<Rightarrow> SimulationStateJournal \<Rightarrow> JournalDir \<Rightarrow> SimulationStateSnapshot option \<Rightarrow> unit result" where
  "require_checkpointed env j d snapshot =
     rbind (case snapshot of None \<Rightarrow> recover_state env j d | Some s \<Rightarrow> Inr s) (\<lambda>state.
     case js_checkpoint j of
       None \<Rightarrow> Inl (Err SimulationStateError ''trusted simulation-state checkpoint is NOT_ESTABLISHED'')
     | Some c \<Rightarrow>
         rbind (tc_require_checkpoint (js_trust j) c) (\<lambda>_.
         raise_if (jc_journal_identity c \<noteq> js_identity j \<or> jc_epoch c \<noteq> js_epoch j
             \<or> jc_establishment_identity c \<noteq> tc_identity (js_trust j)
             \<or> jc_accepted_sequence c \<noteq> int (ss_sequence state)
             \<or> jc_terminal_digest c \<noteq> (if ss_sequence state \<noteq> 0 then Some (ss_terminal_digest state) else None))
           SimulationStateError ''simulation-state checkpoint mismatch'' (Inr ())))"

definition recover ::
  "Environment \<Rightarrow> SimulationStateJournal \<Rightarrow> JournalDir \<Rightarrow> bool \<Rightarrow> SimulationStateSnapshot result" where
  "recover env j d continuity_verified =
     rbind (recover_state env j d) (\<lambda>s.
       if continuity_verified then rbind (require_checkpointed env j d (Some s)) (\<lambda>_. Inr s) else Inr s)"

section \<open>Publication\<close>

definition empty_file :: JournalFile where
  "empty_file = \<lparr>jf_symlink = False, jf_content = Unreadable\<rparr>"

text \<open>\<open>_exclusive\<close>: the body runs with the lock file present, which is removed whatever happens.\<close>

definition exclusive :: "JournalDir \<Rightarrow> (JournalDir \<Rightarrow> JournalDir \<times> 'a result) \<Rightarrow> JournalDir \<times> 'a result" where
  "exclusive d body =
     (if has_name d lock_name
      then (d, Inl (Err SimulationStateError ''simulation-state writer is already active''))
      else case body (d @ [(lock_name, empty_file)]) of (d', r) \<Rightarrow> (unlink lock_name d', r))"

definition next_record ::
  "Environment \<Rightarrow> SimulationStateJournal \<Rightarrow> SimulationStateSnapshot \<Rightarrow> string \<Rightarrow> string \<Rightarrow> Payload \<Rightarrow>
   SimulatedOms \<Rightarrow> SimulationLedger \<Rightarrow> RecordBody" where
  "next_record env j prior command_id command payload oms ledger =
     \<lparr>rb_journal_identity = js_identity j, rb_epoch = js_epoch j,
      rb_sequence = int (ss_sequence prior) + 1, rb_command_id = command_id, rb_command = command,
      rb_payload = Some payload,
      rb_previous_digest = (if ss_sequence prior = 0 then None else Some (ss_terminal_digest prior)),
      rb_state_digest = env_digest env (HashState oms ledger)\<rparr>"

definition temporary_name :: "Environment \<Rightarrow> string \<Rightarrow> string" where
  "temporary_name env target = ''.'' @ target @ ''.'' @ env_pid env @ ''.tmp''"

definition published_file :: "Environment \<Rightarrow> RecordBody \<Rightarrow> JournalFile" where
  "published_file env b = \<lparr>jf_symlink = False, jf_content = Stored b (env_digest env (HashRecord b))\<rparr>"

text \<open>The temporary file is written, renamed over the target, and removed if it is still there.\<close>

definition write_record ::
  "Environment \<Rightarrow> JournalDir \<Rightarrow> string \<Rightarrow> RecordBody \<Rightarrow> JournalDir \<times> unit result" where
  "write_record env d target body =
     (if has_name d (temporary_name env target)
      then (unlink (temporary_name env target) d, Inl (Err FileExistsError []))
      else if has_name d target
      then (d, Inl (Err SimulationStateError ''conflicting simulation-state successor''))
      else (d @ [(target, published_file env body)], Inr ()))"

text \<open>The directories a publication passes through: the lock, a temporary file written in part and in
  full, the rename, the removal of the lock.\<close>

definition publish_states :: "Environment \<Rightarrow> JournalDir \<Rightarrow> nat \<Rightarrow> RecordBody \<Rightarrow> JournalFile \<Rightarrow> JournalDir list" where
  "publish_states env d n b part =
     (let lock = (lock_name, empty_file); tmp = temporary_name env (sequence_name n);
          target = (sequence_name n, published_file env b) in
      [d, d @ [lock], d @ [lock, (tmp, part)], d @ [lock, (tmp, published_file env b)],
       d @ [lock, target], d @ [target]])"

definition publish_locked ::
  "Environment \<Rightarrow> SimulationStateJournal \<Rightarrow> string \<Rightarrow> string \<Rightarrow> Payload \<Rightarrow> JournalDir \<Rightarrow>
   JournalDir \<times> SimulationStateSnapshot result" where
  "publish_locked env j command_id command payload d =
     (case recover_state env j d of
        Inl e \<Rightarrow> (d, Inl e)
      | Inr prior \<Rightarrow>
          (case apply_command env (ss_oms prior) (ss_ledger prior) command payload of
             Inl e \<Rightarrow> (d, Inl e)
           | Inr (oms, ledger) \<Rightarrow>
               (case nonempty_text command_id ''command_id'' of
                  Inl e \<Rightarrow> (d, Inl e)
                | Inr cid \<Rightarrow>
                    (case write_record env d (sequence_name (ss_sequence prior + 1))
                            (next_record env j prior cid command payload oms ledger) of
                       (d', Inl e) \<Rightarrow> (d', Inl e)
                     | (d', Inr _) \<Rightarrow>
                         (d', rbind (recover_state env j d') (\<lambda>result.
                            raise_if (ss_sequence result \<noteq> ss_sequence prior + 1
                                \<or> ss_state_digest result \<noteq> env_digest env (HashState oms ledger))
                              SimulationStateError ''published state failed recovery'' (Inr result)))))))"

definition publish ::
  "Environment \<Rightarrow> SimulationStateJournal \<Rightarrow> JournalDir \<Rightarrow> string \<Rightarrow> string \<Rightarrow> Payload \<Rightarrow>
   JournalDir \<times> SimulationStateSnapshot result" where
  "publish env j d command_id command payload =
     exclusive d (publish_locked env j command_id command payload)"


definition journal_cancel ::
  "Environment \<Rightarrow> SimulationStateJournal \<Rightarrow> JournalDir \<Rightarrow> string \<Rightarrow> OrderId \<Rightarrow>
   JournalDir \<times> SimulationStateSnapshot result" where
  "journal_cancel env j d command_id i =
     publish env j d command_id ''CANCEL'' (no_payload\<lparr>pl_order_id := Some (uuid_str (order_uuid i))\<rparr>)"

definition journal_mark_unfilled ::
  "Environment \<Rightarrow> SimulationStateJournal \<Rightarrow> JournalDir \<Rightarrow> string \<Rightarrow> OrderId \<Rightarrow> string \<Rightarrow>
   JournalDir \<times> SimulationStateSnapshot result" where
  "journal_mark_unfilled env j d command_id i reason =
     publish env j d command_id ''MARK_UNFILLED''
       (no_payload\<lparr>pl_order_id := Some (uuid_str (order_uuid i)), pl_reason := Some reason\<rparr>)"

definition journal_execute_and_post ::
  "Environment \<Rightarrow> SimulationStateJournal \<Rightarrow> JournalDir \<Rightarrow> string \<Rightarrow> OrderId \<Rightarrow> decimal \<Rightarrow> ExecutionSnapshot \<Rightarrow>
   ExecutionCostModel \<Rightarrow> JournalDir \<times> SimulationStateSnapshot result" where
  "journal_execute_and_post env j d command_id i requested s model =
     publish env j d command_id ''EXECUTE_AND_POST''
       (no_payload\<lparr>pl_order_id := Some (uuid_str (order_uuid i)), pl_requested_quantity := Some (Some requested),
          pl_snapshot := Some (snapshot_body s), pl_cost_model := Some (model_body model)\<rparr>)"

section \<open>Checkpoints\<close>

text \<open>\<open>_text\<close> and \<open>_safe_id\<close> of \<open>research_governance\<close>: unpadded text matching
  \<open>[A-Za-z0-9][A-Za-z0-9._:/-]{0,254}\<close>.\<close>

definition governed_text :: "string \<Rightarrow> string \<Rightarrow> string result" where
  "governed_text v name = raise_if (v = [] \<or> v \<noteq> strip v) ResearchGovernanceError
     (name @ '' must be nonempty unpadded text'') (Inr v)"

definition safe_id_text :: "string \<Rightarrow> bool" where
  "safe_id_text s = (case s of [] \<Rightarrow> False
     | c # cs \<Rightarrow> ascii_alnum c \<and> length cs \<le> 254 \<and> list_all (\<lambda>x. name_char x \<or> x = CHR ''/'') cs)"

definition safe_id :: "string \<Rightarrow> string \<Rightarrow> string result" where
  "safe_id v name = rbind (governed_text v name) (\<lambda>v.
     raise_if (\<not> safe_id_text v) ResearchGovernanceError (name @ '' is not canonical'') (Inr v))"

definition governed_digest :: "string \<Rightarrow> string \<Rightarrow> string result" where
  "governed_digest v name = rbind (governed_text v name) (\<lambda>v.
     raise_if (\<not> sha256_text v) ResearchGovernanceError
       (name @ '' must be a canonical SHA-256 digest'') (Inr v))"

definition JournalCheckpoint_create ::
  "Environment \<Rightarrow> string \<Rightarrow> string \<Rightarrow> int \<Rightarrow> string option \<Rightarrow> string \<Rightarrow> JournalCheckpoint result" where
  "JournalCheckpoint_create env journal_identity epoch accepted_sequence terminal_digest establishment =
     rbind (safe_id journal_identity ''journal_identity'') (\<lambda>ji.
     rbind (safe_id epoch ''epoch'') (\<lambda>ep.
     rbind (safe_id establishment ''establishment_identity'') (\<lambda>es.
     raise_if (accepted_sequence < 0) ResearchGovernanceError ''accepted_sequence must be a nonnegative integer''
     (raise_if ((accepted_sequence = 0) \<noteq> (terminal_digest = None)) ResearchGovernanceError
        ''checkpoint sequence and terminal digest disagree''
     (rbind (optional (\<lambda>t. governed_digest t ''terminal_digest'') terminal_digest) (\<lambda>td.
        Inr \<lparr>jc_journal_identity = ji, jc_epoch = ep, jc_accepted_sequence = accepted_sequence,
             jc_terminal_digest = td, jc_establishment_identity = es,
             jc_checkpoint_digest = env_digest env (HashCheckpoint
               \<lparr>kb_accepted_sequence = accepted_sequence, kb_epoch = ep, kb_establishment_identity = es,
                kb_journal_identity = ji, kb_terminal_digest = td\<rparr>)\<rparr>))))))"

definition checkpoint_candidate ::
  "Environment \<Rightarrow> SimulationStateJournal \<Rightarrow> JournalDir \<Rightarrow> string \<Rightarrow> JournalCheckpoint result" where
  "checkpoint_candidate env j d establishment =
     rbind (recover_state env j d) (\<lambda>state.
       JournalCheckpoint_create env (js_identity j) (js_epoch j) (int (ss_sequence state))
         (if ss_sequence state \<noteq> 0 then Some (ss_terminal_digest state) else None) establishment)"

text \<open>What the body of \<open>with exclusive_snapshot(...)\<close> does with the state is the argument \<open>use\<close>.\<close>

definition exclusive_snapshot ::
  "Environment \<Rightarrow> SimulationStateJournal \<Rightarrow> JournalDir \<Rightarrow> bool \<Rightarrow> (SimulationStateSnapshot \<Rightarrow> 'a result) \<Rightarrow>
   JournalDir \<times> 'a result" where
  "exclusive_snapshot env j d continuity_verified use =
     exclusive d (\<lambda>d'. (d', rbind (recover_state env j d') (\<lambda>state.
       if continuity_verified then rbind (require_checkpointed env j d' (Some state)) (\<lambda>_. use state)
       else use state)))"

text \<open>The constructor: \<open>root_symlink\<close> says whether the root is a symbolic link before and after it
  is created.\<close>

definition SimulationStateJournal_init ::
  "Environment \<Rightarrow> bool \<times> bool \<Rightarrow> JournalDir \<Rightarrow> string \<Rightarrow> string \<Rightarrow> decimal \<Rightarrow> Currency \<Rightarrow> ResearchRunId \<Rightarrow>
   Timestamp \<Rightarrow> EvidenceContentDigest \<Rightarrow> JournalCheckpoint option \<Rightarrow> TrustContext \<Rightarrow>
   SimulationStateJournal result" where
  "SimulationStateJournal_init env root_symlink d identity epoch cash currency run opened evidence checkpoint trust =
     raise_if (fst root_symlink) SimulationStateError ''journal root must be a safe pathlib.Path''
     (raise_if (snd root_symlink) SimulationStateError ''journal root is unsafe''
     (rbind (nonempty_text identity ''journal_identity'') (\<lambda>ji.
      rbind (nonempty_text epoch ''epoch'') (\<lambda>ep.
      let j = \<lparr>js_identity = ji, js_epoch = ep, js_checkpoint = checkpoint, js_trust = trust,
               js_genesis = \<lparr>gn_opening_cash = Some cash, gn_currency = code currency,
                 gn_research_run_id = run_text run, gn_opened_at = isoformat opened,
                 gn_evidence_digest = digest_text evidence\<rparr>\<rparr> in
      raise_if (tc_assurance_mode trust \<noteq> ENGINEERING_SIMULATION) SimulationStateError
        ''simulation-state trust must be engineering-only''
      (rbind (recover_state env j d) (\<lambda>_. Inr j))))))"

section \<open>Bodies round trip\<close>

lemma enum_member_value:
  "enum_member side_value [BUY, SELL] (side_value a) = Inr a"
  "enum_member eligibility_value [ELIGIBLE, INELIGIBLE] (eligibility_value b) = Inr b"
  "enum_member scenario_value [EC0, EC1, EC2, EC3] (scenario_value c) = Inr c"
  "enum_member provenance_value [OBSERVED, MODELLED, PROXY] (provenance_value p) = Inr p"
  "enum_member component_value all_components (component_value k) = Inr k"
  "input_member (input_value i) = Inr i"
proof -
  show "enum_member side_value [BUY, SELL] (side_value a) = Inr a" by (cases a) (simp_all add: enum_member_def)
  show "enum_member eligibility_value [ELIGIBLE, INELIGIBLE] (eligibility_value b) = Inr b"
    by (cases b) (simp_all add: enum_member_def)
  show "enum_member scenario_value [EC0, EC1, EC2, EC3] (scenario_value c) = Inr c"
    by (cases c) (simp_all add: enum_member_def)
  show "enum_member provenance_value [OBSERVED, MODELLED, PROXY] (provenance_value p) = Inr p"
    by (cases p) (simp_all add: enum_member_def)
  show "enum_member component_value all_components (component_value k) = Inr k"
    by (cases k) (simp_all add: enum_member_def all_components_def)
  show "input_member (input_value i) = Inr i"
    by (cases i) (simp_all add: enum_member_def input_member_def)
qed

lemma text_values [simp]:
  "parse_decimal (str_decimal q) = Inr (Finite q)" "timestamp_of (isoformat t) = Inr t"
  "OrderId_parse (uuid_str u) = Inr (OrderId u)"
  by (simp_all add: parse_decimal_def str_decimal_def timestamp_of_def isoformat_def Timestamp_init_def
      OrderId_parse_def uuid_of_string_str)

lemma optional_map:
  "(\<And>x. v = Some x \<Longrightarrow> f (g x) = Inr (h x)) \<Longrightarrow> optional f (map_option g v) = Inr (map_option h v)"
  by (cases v) (simp_all add: optional_def)

lemma valid_parts:
  "valid_currency c \<longleftrightarrow> Currency_init (code c) = Inr c"
  "valid_research_run_id r \<longleftrightarrow> ResearchRunId_init (run_text r) = Inr r"
  "valid_evidence_digest e \<longleftrightarrow> EvidenceContentDigest_init (digest_text e) = Inr e"
  "valid_instrument_id i \<longleftrightarrow> InstrumentId_parse (InstrumentId_to_string i) = Inr i"
  by (cases c; cases r; cases e; cases i;
      simp add: valid_currency_def Currency_init_def valid_currency_code_def valid_research_run_id_def
        ResearchRunId_init_def valid_evidence_digest_def EvidenceContentDigest_init_def
        valid_instrument_id_def InstrumentId_parse_iff InstrumentId_init_def require_uuid4_def raise_if_def)+

lemma decode_order_body: "valid_order v \<Longrightarrow> decode_order (order_body v) = Inr v"
  by (cases "so_order_id v")
     (simp add: decode_order_def order_body_def valid_order_def valid_parts enum_member_value
       finite_positive_def SimulatedOrder_init_def)

lemma decode_order_valid: "decode_order b = Inr v \<Longrightarrow> valid_order v \<and> SimulatedOrder_init v = Inr v"
  by (auto simp: decode_order_def valid_order_def SimulatedOrder_init_def InstrumentId_parse_iff valid_parts
      Currency_init_def ResearchRunId_init_def EvidenceContentDigest_init_def split: option.splits)

definition valid_snapshot :: "ExecutionSnapshot \<Rightarrow> bool" where
  "valid_snapshot v \<longleftrightarrow> pred_option (\<lambda>p. 0 < p) (sn_price v) \<and> pred_option valid_currency (sn_currency v)
     \<and> pred_option valid_evidence_digest (sn_evidence_digest v)"

lemma decode_snapshot_body: 
  assumes "valid_snapshot v" shows "decode_snapshot (snapshot_body v) = Inr v"
proof -
  have "optional (finite_positive ''price'' True) (map_option Finite (sn_price v)) = Inr (sn_price v)"
    "optional (finite_positive ''available_quantity'' False) (map_option Finite (sn_available_quantity v))
      = Inr (sn_available_quantity v)"
    "optional Currency_init (map_option code (sn_currency v)) = Inr (sn_currency v)"
    "optional EvidenceContentDigest_init (map_option digest_text (sn_evidence_digest v))
      = Inr (sn_evidence_digest v)"
    using assms by (cases "sn_price v"; cases "sn_currency v"; cases "sn_available_quantity v";
      cases "sn_evidence_digest v"; simp add: optional_def finite_positive_def valid_snapshot_def valid_parts)+
  moreover have "optional parse_decimal (map_option str_decimal x) = Inr (map_option Finite x)"
    "optional timestamp_of (map_option isoformat y) = Inr y" for x y
    by (cases x; cases y; simp add: optional_def)+
  moreover have "ExecutionSnapshot_init v = Inr v"
    using assms by (cases "sn_price v") (simp_all add: ExecutionSnapshot_init_def valid_snapshot_def)
  ultimately show ?thesis
    by (cases v) (simp add: decode_snapshot_def snapshot_body_def enum_member_value)
qed

definition valid_model :: "ExecutionCostModel \<Rightarrow> bool" where
  "valid_model v \<longleftrightarrow>
     ExecutionCostModel_init (cm_model_id v) (cm_scenario v) (cm_rates v) (cm_diagnostic_only v) = Inr v
     \<and> list_all (\<lambda>r. 0 \<le> cr_basis_points r \<and> valid_evidence_digest (cr_evidence_digest r)) (cm_rates v)"

lemma decode_rate_body:
  "0 \<le> cr_basis_points r \<Longrightarrow> valid_evidence_digest (cr_evidence_digest r) \<Longrightarrow> decode_rate (rate_body r) = Inr r"
  by (simp add: decode_rate_def rate_body_def enum_member_value valid_parts CostRate_init_def finite_positive_def)

interpretation order_json: strict_codec order_body decode_order valid_order
  by unfold_locales (simp_all add: decode_order_body decode_order_valid)

interpretation snapshot_json: codec snapshot_body decode_snapshot valid_snapshot
  by unfold_locales (rule decode_snapshot_body)

interpretation rate_json: codec rate_body decode_rate
  "\<lambda>r. 0 \<le> cr_basis_points r \<and> valid_evidence_digest (cr_evidence_digest r)"
  by unfold_locales (simp add: decode_rate_body)

lemma decode_model_body: "valid_model v \<Longrightarrow> decode_model (model_body v) = Inr v"
  by (simp add: decode_model_def model_body_def enum_member_value rate_json.rmap_decode valid_model_def)

interpretation model_json: codec model_body decode_model valid_model
  by unfold_locales (rule decode_model_body)

section \<open>What a command keeps\<close>

lemma performance_fills: "oms_fills m' = oms_fills m \<Longrightarrow> performance m' l = performance m l"
  by (simp add: performance_def)

lemma reconciled_inputs:
  assumes "reconcile m l = Inr R" and "rr_state R = RECONCILED"
  shows "\<forall>r\<in>set (oms_orders m). valid_order (rec_order r)" "\<forall>f\<in>set (oms_fills m). valid_fill f"
    "\<exists>p. performance m l = Inr p \<and> R = reconciliation_result RECONCILED [] (Some p)"
proof -
  from assms obtain st0 where st0: "check_ledger l scan_start = Inr st0" by (auto simp: reconcile_def)
  with assms obtain st where v: "\<not> sc_invalid (check_inputs m st0)" and c: "conclude m l st = Inr R"
    by (auto simp: reconcile_def reconciliation_result_def Let_def split: if_splits)
  from v show "\<forall>r\<in>set (oms_orders m). valid_order (rec_order r)" "\<forall>f\<in>set (oms_fills m). valid_fill f"
    by (auto simp: check_inputs_def Let_def mark_invalid_def valid_order_record_def split: if_splits)
  from c assms(2) show "\<exists>p. performance m l = Inr p \<and> R = reconciliation_result RECONCILED [] (Some p)"
    by (auto simp: conclude_def reconciliation_result_def split: if_splits sum.splits)
qed

text \<open>What holds of every state of a journal.\<close>

definition sim_inv :: "Currency \<Rightarrow> SimulatedOms \<Rightarrow> SimulationLedger \<Rightarrow> bool" where
  "sim_inv c m l \<longleftrightarrow> sim_reach c m l \<and> (\<forall>r\<in>set (oms_orders m). valid_order (rec_order r))
     \<and> (\<forall>f\<in>set (oms_fills m). valid_evidence_digest (fi_execution_evidence f))
     \<and> (\<exists>p. performance m l = Inr p)"

lemma sim_inv_oms:
  assumes "sim_inv c m l" and "oms_step m m'" and "oms_fills m' = oms_fills m"
    and new: "rec_order ` set (oms_orders m') \<subseteq> Collect valid_order \<union> rec_order ` set (oms_orders m)"
  shows "sim_inv c m' l"
proof -
  have "rec_order ` set (oms_orders m) \<subseteq> Collect valid_order" using assms(1) by (auto simp: sim_inv_def)
  with new have "rec_order ` set (oms_orders m') \<subseteq> Collect valid_order" by (simp add: Un_absorb2)
  then have "\<forall>r\<in>set (oms_orders m'). valid_order (rec_order r)" by blast
  then show ?thesis
    using assms(1-3) sim_oms [of c m l m'] performance_fills [of m' m l] by (simp add: sim_inv_def)
qed

lemma oms_submit_shape:
  "oms_submit m ord = Inr m' \<Longrightarrow> oms_fills m' = oms_fills m \<and>
     rec_order ` set (oms_orders m') \<subseteq> insert ord (rec_order ` set (oms_orders m))"
  by (auto simp: oms_submit_def Let_def split: option.splits if_splits)

lemma replace_order_orders:
  "oms_active m i = Inr r \<Longrightarrow> rec_order r' = rec_order r \<Longrightarrow>
   rec_order ` set (oms_orders (oms_replace_order m r r')) \<subseteq> rec_order ` set (oms_orders m)"
  using set_replace_first_subset [of "\<lambda>x. rec_order_id x = rec_order_id r" r' "oms_orders m"]
  by (auto simp: oms_replace_order_def oms_active_def oms_order_def split: option.splits
      dest!: find_first_SomeD)

lemma oms_cancel_shape:
  assumes "oms_cancel m i = Inr m'"
  shows "oms_fills m' = oms_fills m \<and> rec_order ` set (oms_orders m') \<subseteq> rec_order ` set (oms_orders m)"
proof -
  from assms obtain r where "oms_active m i = Inr r" "m' = oms_replace_order m r (r\<lparr>rec_status := CANCELLED\<rparr>)"
    by (auto simp: oms_cancel_def)
  then show ?thesis using replace_order_orders [of m i r "r\<lparr>rec_status := CANCELLED\<rparr>"]
    by (simp add: oms_replace_order_def)
qed

lemma oms_mark_unfilled_shape:
  assumes "oms_mark_unfilled m i reason = Inr m'"
  shows "oms_fills m' = oms_fills m \<and> rec_order ` set (oms_orders m') \<subseteq> rec_order ` set (oms_orders m)"
proof -
  from assms obtain r as where "oms_active m i = Inr r"
    "m' = (oms_replace_order m r (r\<lparr>rec_status := UNFILLED, rec_reasons := [reason]\<rparr>))\<lparr>oms_attempts := as\<rparr>"
    by (auto simp: oms_mark_unfilled_def Let_def)
  then show ?thesis
    using replace_order_orders [of m i r "r\<lparr>rec_status := UNFILLED, rec_reasons := [reason]\<rparr>"]
    by (simp add: oms_replace_order_def)
qed

lemma oms_execute_fills:
  assumes "oms_execute dg m i q s model = Inr m'"
  obtains "oms_fills m' = oms_fills m" | f where "oms_fills m' = oms_fills m @ [f]"
  using assms
proof (cases rule: oms_execute_cases)
  case (unfilled r rq)
  then show ?thesis using that(1) by (simp add: oms_replace_order_def)
next
  case marked
  then show ?thesis using that(1) oms_mark_unfilled_shape by blast
next
  case (fill r rq av price cur evd f)
  from oms_apply_fill_cases [OF fill(10)] show ?thesis
    using that by (auto simp: fill_recorded_def oms_replace_order_def)
qed

lemma sim_inv_reconciled:
  assumes "sim_reach c m l" and "reconcile m l = Inr R" and "rr_state R = RECONCILED"
  shows "sim_inv c m l"
  using assms(1) reconciled_inputs [OF assms(2,3)] by (auto simp: sim_inv_def valid_fill_def)

lemma sim_inv_execute:
  assumes inv: "sim_inv c m l" and ex: "oms_execute dg m i q s model = Inr m'"
    and post: "rfold post_fill_to_ledger l (drop (length (oms_fills m)) (oms_fills m')) = Inr l'"
    and rec: "reconcile m' l' = Inr R" "rr_state R = RECONCILED"
  shows "sim_inv c m' l'"
proof -
  have reach: "sim_reach c m l" using inv by (simp add: sim_inv_def)
  from ex have "sim_reach c m' l'"
  proof (cases rule: oms_execute_fills)
    case 1
    with post sim_oms [OF reach step_execute [OF ex]] show ?thesis by simp
  next
    case (2 f)
    with post sim_fill [OF reach step_execute [OF ex], of f l'] show ?thesis by simp
  qed
  then show ?thesis by (rule sim_inv_reconciled [OF _ rec])
qed

lemma apply_command_cases:
  assumes run: "apply_command env m l cmd pl = Inr (m', l')"
  obtains (submit) ord b where "decode_order b = Inr ord" "oms_submit m ord = Inr m'" "l' = l"
    | (cancel) i where "oms_cancel m i = Inr m'" "l' = l"
    | (unfilled) i reason where "oms_mark_unfilled m i reason = Inr m'" "l' = l"
    | (execute) i q s model R where "oms_execute (env_fill_digest env) m i q s model = Inr m'"
        "rfold post_fill_to_ledger l (drop (length (oms_fills m)) (oms_fills m')) = Inr l'"
        "reconcile m' l' = Inr R" "rr_state R = RECONCILED"
proof -
  have "\<exists>i q s model R. oms_execute (env_fill_digest env) m i q s model = Inr m'
      \<and> rfold post_fill_to_ledger l (drop (length (oms_fills m)) (oms_fills m')) = Inr l'
      \<and> reconcile m' l' = Inr R \<and> rr_state R = RECONCILED"
    if "execute_and_post env m l i pl = Inr (m', l')" for i
    using that unfolding execute_and_post_def by (auto simp del: rfold.simps)
  moreover from run have "(\<exists>b ord. decode_order b = Inr ord \<and> oms_submit m ord = Inr m' \<and> l' = l)
      \<or> (\<exists>i. oms_cancel m i = Inr m' \<and> l' = l) \<or> (\<exists>i reason. oms_mark_unfilled m i reason = Inr m' \<and> l' = l)
      \<or> (\<exists>i. execute_and_post env m l i pl = Inr (m', l'))"
    unfolding apply_command_def by (auto split: if_splits)
  ultimately show ?thesis using submit cancel unfilled execute by metis
qed

lemma apply_command_inv:
  assumes inv: "sim_inv c m l" and run: "apply_command env m l cmd pl = Inr (m', l')"
  shows "sim_inv c m' l'"
  using run
proof (cases rule: apply_command_cases)
  case (submit ord b)
  note ord = decode_order_valid [OF submit(1)] and shape = oms_submit_shape [OF submit(2)]
  then have "oms_step m m'" and "rec_order ` set (oms_orders m') \<subseteq> Collect valid_order \<union> rec_order ` set (oms_orders m)"
    using submit(2) step_submit by auto
  with shape submit(3) sim_inv_oms [OF inv] show ?thesis by simp
next
  case (cancel i)
  from oms_cancel_shape [OF cancel(1)] sim_inv_oms [OF inv step_cancel [OF cancel(1)]] cancel(2)
  show ?thesis by (simp add: le_supI2)
next
  case (unfilled i reason)
  from oms_mark_unfilled_shape [OF unfilled(1)] sim_inv_oms [OF inv step_unfilled [OF unfilled(1)]] unfilled(2)
  show ?thesis by (simp add: le_supI2)
next
  case execute
  then show ?thesis by (rule sim_inv_execute [OF inv])
qed

lemma opening_performance:
  assumes "ledger_apply (ledger_empty c) e = Inr l" and "ev_cash_delta e = Some d"
  shows "\<exists>p. performance oms_empty l = Inr p"
proof -
  have ev: "lg_events l = [e]" and k: "ev_kind e = OPENING_CASH"
    using assms by (auto simp: ledger_apply_def ledger_empty_def)
  then have "funding_of (lg_events l) = Inr (dsum [d])" using assms(2) by (simp add: funding_of_def)
  then show ?thesis
    by (simp add: performance_def oms_empty_def drag_total_def drag_zero_def Let_def raise_if_def
        dadd_def [of _ 0] dsub_def [of _ 0])
qed

lemma genesis_state_inv:
  assumes "genesis_state j = Inr (m, l)"
  shows "\<exists>c. sim_inv c m l"
proof -
  from assms obtain c opened run d cash e where
    e: "FinancialEvent_init \<lparr>ev_event_id = LedgerEventId ''atis:simulation-ledger-event:v1:simulation-state-opening'',
         ev_sequence = 1, ev_occurred_at = opened, ev_kind = OPENING_CASH, ev_research_run_id = run,
         ev_evidence_digest = d, ev_currency = Some c, ev_instrument_id = None, ev_quantity = None,
         ev_unit_amount = None, ev_cash_delta = Some cash, ev_action = None\<rparr> = Inr e"
    and l: "ledger_apply (ledger_empty c) e = Inr l" and m: "m = oms_empty"
    by (auto simp: genesis_state_def LedgerEventId_init_def Let_def)
  have "\<not> prefix fill_event_prefix (event_text (ev_event_id e))" "\<exists>q. ev_cash_delta e = Some q"
    using e by (auto simp: FinancialEvent_init_def fill_event_prefix_def finite_field_def Let_def split: option.splits decimal.splits)
  with sim_event [OF sim_start FinancialEvent_init_wf [OF e] _ l] opening_performance [OF l] m
  have "sim_reach c m l" "\<exists>p. performance m l = Inr p" by auto
  then show ?thesis by (auto simp: sim_inv_def m oms_empty_def)
qed

section \<open>File names\<close>

lemma length_dec_fixed [simp]: "length (dec_fixed k n) = k"
  by (induction k arbitrary: n) simp_all

lemma append_less_append: "length xs = length ys \<Longrightarrow> xs < ys \<Longrightarrow> xs @ us < ys @ vs"
  for xs :: "'a::order list"
proof (induction xs arbitrary: ys)
  case (Cons x xs)
  then obtain y zs where "ys = y # zs" by (cases ys) auto
  with Cons show ?case by auto
qed simp

lemma append_less_same: "xs @ us < xs @ vs \<longleftrightarrow> us < vs" for xs :: "'a::order list"
  by (induction xs) auto

lemma digit_char_less: "a < b \<Longrightarrow> b < 10 \<Longrightarrow> digit_char a < digit_char b"
  by (simp add: digit_char_def less_char_def)

lemma dec_fixed_less: "m < n \<Longrightarrow> n < 10 ^ k \<Longrightarrow> dec_fixed k m < dec_fixed k n"
proof (induction k arbitrary: m n)
  case (Suc k)
  show ?case
  proof (cases "m div 10 = n div 10")
    case True
    with Suc.prems(1) have "m mod 10 < n mod 10" by (metis div_mult_mod_eq add_less_cancel_left)
    with True show ?thesis by (simp add: append_less_same digit_char_less)
  next
    case False
    with Suc.prems have "m div 10 < n div 10" "n div 10 < 10 ^ k"
      by (simp_all add: div_le_mono less_mult_imp_div_less mult.commute le_neq_implies_less less_imp_le)
    with Suc.IH show ?thesis by (simp add: append_less_append)
  qed
qed simp

lemma sequence_name_less: "m < n \<Longrightarrow> n < 10 ^ 8 \<Longrightarrow> sequence_name m < sequence_name n"
  using dec_fixed_less [of m n 8] by (simp add: sequence_name_def append_less_append)

lemma takeWhile_dot: "\<forall>c\<in>set t. c \<noteq> CHR ''.'' \<Longrightarrow>
  takeWhile (\<lambda>c. c \<noteq> CHR ''.'') (rev (x @ CHR ''.'' # t)) = rev t"
  using takeWhile_append2 [of "rev t" "\<lambda>c. c \<noteq> CHR ''.''" "CHR ''.'' # rev x"] by auto

lemma path_suffix_dot: "x \<noteq> [] \<Longrightarrow> t \<noteq> [] \<Longrightarrow> \<forall>c\<in>set t. c \<noteq> CHR ''.'' \<Longrightarrow>
  path_suffix (x @ CHR ''.'' # t) = CHR ''.'' # t"
  unfolding path_suffix_def Let_def takeWhile_dot by simp

lemma sequence_name_json: "path_suffix (sequence_name n) = ''.json''" "suffix ''.json'' (sequence_name n)"
  "sequence_name n \<noteq> lock_name"
proof -
  define x where "x = (if n < 10 ^ 8 then dec_fixed 8 n else dec_text n)"
  have "dec_fixed 8 n \<noteq> []" by (metis length_dec_fixed list.size(3) zero_neq_numeral)
  then have "x \<noteq> []" by (simp add: x_def dec_text.simps [of n])
  moreover have s: "sequence_name n = x @ CHR ''.'' # ''json''" by (simp add: sequence_name_def x_def)
  ultimately show p: "path_suffix (sequence_name n) = ''.json''"
    using path_suffix_dot [of x "''json''"] by simp
  show "suffix ''.json'' (sequence_name n)" by (simp add: s suffix_def)
  have "path_suffix lock_name = ''.lock''"
    using path_suffix_dot [of "''.simulation-state''" "''lock''"] by (simp add: lock_name_def)
  with p show "sequence_name n \<noteq> lock_name" by auto
qed

lemma lock_not_json: "\<not> suffix ''.json'' lock_name"
  by (simp add: lock_name_def suffix_def)

lemma temporary_unexpected:
  "path_suffix (temporary_name env target) \<noteq> ''.json''" "temporary_name env target \<noteq> lock_name"
proof -
  have p: "path_suffix (temporary_name env target) = ''.tmp''"
    using path_suffix_dot [of "''.'' @ target @ ''.'' @ env_pid env" "''tmp''"] by (simp add: temporary_name_def)
  then show "path_suffix (temporary_name env target) \<noteq> ''.json''" by simp
  have "path_suffix lock_name = ''.lock''"
    using path_suffix_dot [of "''.simulation-state''" "''lock''"] by (simp add: lock_name_def)
  with p show "temporary_name env target \<noteq> lock_name" by auto
qed

section \<open>Listing the directory\<close>

lemma sort_key_snoc_last:
  "\<forall>y\<in>set xs. f y \<le> f x \<Longrightarrow> sort_key f (xs @ [x]) = sort_key f xs @ [x]"
proof (induction xs)
  case (Cons y xs)
  have "insort_key f y (zs @ [x]) = insort_key f y zs @ [x]" if "f y \<le> f x" for zs
    using that by (induction zs) simp_all
  with Cons show ?case by simp
qed simp

definition json_files :: "JournalDir \<Rightarrow> (string \<times> JournalFile) list" where
  "json_files d = sort_key fst (filter (\<lambda>e. suffix ''.json'' (fst e)) d)"

lemma paths_Inr:
  "paths d = Inr ps \<longleftrightarrow> (\<forall>e\<in>set d. path_suffix (fst e) = ''.json'' \<or> fst e = lock_name) \<and> ps = json_files d"
  by (auto simp: paths_def json_files_def)

lemma paths_lock: "paths (d @ [(lock_name, f)]) = paths d"
  by (auto simp: paths_def lock_not_json raise_if_def)

lemma paths_append:
  assumes "paths d = Inr ps" and "\<forall>e\<in>set ps. fst e < sequence_name n"
  shows "paths (d @ [(sequence_name n, f)]) = Inr (ps @ [(sequence_name n, f)])"
proof -
  have "sort_key fst (filter (\<lambda>e. suffix ''.json'' (fst e)) d @ [(sequence_name n, f)])
    = ps @ [(sequence_name n, f)]"
    using assms sort_key_snoc_last [of "filter (\<lambda>e. suffix ''.json'' (fst e)) d" fst "(sequence_name n, f)"]
    by (simp add: paths_Inr json_files_def less_imp_le)
  with assms(1) show ?thesis by (auto simp: paths_Inr json_files_def sequence_name_json)
qed

section \<open>The recovery loop\<close>

definition file_body :: "string \<times> JournalFile \<Rightarrow> RecordBody" where
  "file_body e = stored_body (jf_content (snd e))"

definition file_digest :: "string \<times> JournalFile \<Rightarrow> string" where
  "file_digest e = stored_digest (jf_content (snd e))"

definition journal_records :: "JournalDir \<Rightarrow> RecordBody list" where
  "journal_records d = map file_body (json_files d)"

lemma recover_step_Inr:
  "recover_step env j st (n, name, file) = Inr st' \<longleftrightarrow> name = sequence_name n \<and> \<not> jf_symlink file
     \<and> jf_content file = Stored (file_body (name, file)) (file_digest (name, file))
     \<and> recover_record env j st n (file_body (name, file)) (file_digest (name, file)) = Inr st'"
  by (auto simp: recover_step_def file_body_def file_digest_def split: FileContent.splits)

lemma recover_record_Inr:
  "recover_record env j st n b sd = Inr st' \<longleftrightarrow>
     rb_journal_identity b = js_identity j \<and> rb_epoch b = js_epoch j \<and> rb_sequence b = int n
     \<and> rb_previous_digest b = rs_previous st \<and> sd = env_digest env (HashRecord b)
     \<and> rb_command_id b \<notin> set (rs_seen st)
     \<and> (\<exists>pl m l. rb_payload b = Some pl \<and> apply_command env (rs_oms st) (rs_ledger st) (rb_command b) pl = Inr (m, l)
          \<and> rb_state_digest b = env_digest env (HashState m l)
          \<and> st' = \<lparr>rs_oms = m, rs_ledger = l, rs_previous = Some sd, rs_terminal = sd,
                   rs_seen = rs_seen st @ [rb_command_id b]\<rparr>)"
  by (auto simp: recover_record_def split: option.splits)

text \<open>The state of the loop after the files \<open>ps\<close>.\<close>

definition loop_state :: "Environment \<Rightarrow> SimulationStateJournal \<Rightarrow> (string \<times> JournalFile) list \<Rightarrow> RecoverState result" where
  "loop_state env j ps = rbind (recover_start env j) (\<lambda>start.
     rfold (recover_step env j) start (List.enumerate 1 ps))"

lemma loop_state_snoc:
  "loop_state env j (ps @ [p]) = rbind (loop_state env j ps) (\<lambda>st. recover_step env j st (length ps + 1, p))"
  by (cases "recover_start env j") (simp_all add: loop_state_def enumerate_append_eq rfold_append rbind_case
      split: sum.split)

lemma recover_state_Inr:
  "recover_state env j d = Inr s \<longleftrightarrow> (\<exists>ps st. paths d = Inr ps \<and> loop_state env j ps = Inr st
     \<and> s = recover_snapshot env (length ps) st)"
  by (auto simp: recover_state_def loop_state_def)

lemma loop_state_props:
  "loop_state env j ps = Inr st \<Longrightarrow>
     (\<exists>c. sim_inv c (rs_oms st) (rs_ledger st))
     \<and> rs_previous st = (if ps = [] then None else Some (rs_terminal st))
     \<and> rs_seen st = map (\<lambda>p. rb_command_id (file_body p)) ps
     \<and> map fst ps = map sequence_name [1..<length ps + 1]"
proof (induction ps arbitrary: st rule: rev_induct)
  case Nil
  then show ?case using genesis_state_inv [of j]
    by (auto simp: loop_state_def recover_start_def)
next
  case (snoc p ps)
  from snoc.prems obtain st0 where st0: "loop_state env j ps = Inr st0"
    and step: "recover_step env j st0 (length ps + 1, fst p, snd p) = Inr st"
    by (auto simp: loop_state_snoc)
  let ?b = "file_body p"
  from step have name: "fst p = sequence_name (length ps + 1)"
    and "recover_record env j st0 (length ps + 1) ?b (file_digest p) = Inr st"
    by (cases p; simp add: recover_step_Inr)+
  then obtain pl m l where cmd: "apply_command env (rs_oms st0) (rs_ledger st0) (rb_command ?b) pl = Inr (m, l)"
    and st: "st = \<lparr>rs_oms = m, rs_ledger = l, rs_previous = Some (file_digest p),
      rs_terminal = file_digest p, rs_seen = rs_seen st0 @ [rb_command_id ?b]\<rparr>"
    unfolding recover_record_Inr by blast
  from snoc.IH [OF st0] obtain c where "sim_inv c (rs_oms st0) (rs_ledger st0)" by blast
  from apply_command_inv [OF this cmd] have "sim_inv c m l" .
  with snoc.IH [OF st0] name show ?case by (auto simp: st)
qed

section \<open>Publishing a command\<close>

lemma recover_lock: "recover_state env j (d @ [(lock_name, f)]) = recover_state env j d"
  by (simp add: recover_state_def paths_lock)

lemma lock_between: "paths (d @ [(lock_name, f), e]) = paths (d @ [e])"
  by (auto simp: paths_def lock_not_json raise_if_def)

text \<open>The names a journal in use can hold next.\<close>

lemma fresh_names:
  assumes "paths d = Inr ps" and "loop_state env j ps = Inr st" and "length ps + 1 < 10 ^ 8"
  shows "\<forall>e\<in>set ps. fst e < sequence_name (length ps + 1)"
    "\<not> has_name d (sequence_name (length ps + 1))" "\<not> has_name d (temporary_name env target)"
proof -
  have names: "fst ` set ps = sequence_name ` {1..<length ps + 1}"
    using loop_state_props [OF assms(2)] by (metis list.set_map set_upt)
  show less: "\<forall>e\<in>set ps. fst e < sequence_name (length ps + 1)"
  proof
    fix e assume "e \<in> set ps"
    then have "fst e \<in> sequence_name ` {1..<length ps + 1}" using names by blast
    then obtain k where "fst e = sequence_name k" "k < length ps + 1" by auto
    with assms(3) sequence_name_less show "fst e < sequence_name (length ps + 1)" by auto
  qed
  show "\<not> has_name d (sequence_name (length ps + 1))"
  proof
    assume "has_name d (sequence_name (length ps + 1))"
    then obtain f where "(sequence_name (length ps + 1), f) \<in> set d" by (auto simp: has_name_def)
    with assms(1) have "(sequence_name (length ps + 1), f) \<in> set ps"
      by (simp add: paths_Inr json_files_def sequence_name_json)
    with less show False by fastforce
  qed
  show "\<not> has_name d (temporary_name env target)"
    using assms(1) temporary_unexpected [of env target] by (auto simp: paths_Inr has_name_def)
qed

lemma write_record_fresh:
  "\<not> has_name d target \<Longrightarrow> \<not> has_name d (temporary_name env target) \<Longrightarrow>
   write_record env d target b = (d @ [(target, published_file env b)], Inr ())"
  by (simp add: write_record_def)

lemma recover_step_published:
  assumes "loop_state env j ps = Inr st" and "apply_command env (rs_oms st) (rs_ledger st) cmd pl = Inr (m, l)"
    and b: "b = next_record env j (recover_snapshot env (length ps) st) cid cmd pl m l"
  shows "recover_step env j st (length ps + 1, sequence_name (length ps + 1), published_file env b) =
    (if cid \<in> set (rs_seen st) then Inl (Err SimulationStateError ''journal chain or identity is invalid'')
     else Inr \<lparr>rs_oms = m, rs_ledger = l, rs_previous = Some (env_digest env (HashRecord b)),
       rs_terminal = env_digest env (HashRecord b), rs_seen = rs_seen st @ [cid]\<rparr>)"
proof -
  have "rb_previous_digest b = rs_previous st"
    using loop_state_props [OF assms(1)] by (simp add: b next_record_def recover_snapshot_def)
  then show ?thesis
    using assms(2) by (simp add: b recover_step_def recover_record_def published_file_def next_record_def
        recover_snapshot_def raise_if_def)
qed

lemma recover_appended:
  assumes prior: "recover_state env j d = Inr prior"
    and cmd: "apply_command env (ss_oms prior) (ss_ledger prior) command pl = Inr (m, l)"
    and room: "ss_sequence prior + 1 < 10 ^ 8" and b: "b = next_record env j prior cid command pl m l"
    and d': "d' = d @ [(sequence_name (ss_sequence prior + 1), published_file env b)]"
  shows "journal_records d' = journal_records d @ [b]
    \<and> recover_state env j d' =
       (if cid \<in> rb_command_id ` set (journal_records d)
        then Inl (Err SimulationStateError ''journal chain or identity is invalid'')
        else Inr \<lparr>ss_sequence = ss_sequence prior + 1, ss_terminal_digest = env_digest env (HashRecord b),
          ss_state_digest = env_digest env (HashState m l), ss_oms = m, ss_ledger = l\<rparr>)"
proof -
  from prior obtain ps st where ps: "paths d = Inr ps" and st: "loop_state env j ps = Inr st"
    and pr: "prior = recover_snapshot env (length ps) st" by (auto simp: recover_state_Inr)
  have n: "ss_sequence prior = length ps" by (simp add: pr recover_snapshot_def)
  have seen: "set (rs_seen st) = rb_command_id ` set (journal_records d)"
    using loop_state_props [OF st] ps by (auto simp: journal_records_def paths_Inr)
  define e where "e = (sequence_name (length ps + 1), published_file env b)"
  have p': "paths d' = Inr (ps @ [e])"
    using paths_append [OF ps fresh_names(1) [OF ps st room [unfolded n]]] by (simp add: d' n e_def)
  then have "journal_records d' = journal_records d @ [file_body e]"
    using ps unfolding journal_records_def paths_Inr by (metis list.simps(8,9) map_append)
  moreover have "file_body e = b" by (simp add: file_body_def e_def published_file_def)
  moreover have "recover_step env j st (length ps + 1, e) =
    (if cid \<in> set (rs_seen st) then Inl (Err SimulationStateError ''journal chain or identity is invalid'')
     else Inr \<lparr>rs_oms = m, rs_ledger = l, rs_previous = Some (env_digest env (HashRecord b)),
       rs_terminal = env_digest env (HashRecord b), rs_seen = rs_seen st @ [cid]\<rparr>)"
    unfolding e_def
    by (rule recover_step_published [OF st]) (use cmd b in \<open>simp_all add: pr recover_snapshot_def\<close>)
  moreover have "recover_state env j d' = rbind (loop_state env j (ps @ [e]))
      (\<lambda>st'. Inr (recover_snapshot env (length ps + 1) st'))"
    using p' st by (auto simp: recover_state_def loop_state_def)
  ultimately show ?thesis
    by (simp add: loop_state_snoc st n seen recover_snapshot_def)
qed

text \<open>The outcome of a publication in an unlocked journal that recovers: the record is on disk in any
  case, and the result is what the journal then recovers to.\<close>

lemma publish_outcome:
  assumes lock: "\<not> has_name d lock_name" and prior: "recover_state env j d = Inr prior"
    and cmd: "apply_command env (ss_oms prior) (ss_ledger prior) command pl = Inr (m, l)"
    and cid: "\<not> blank cid" and room: "ss_sequence prior + 1 < 10 ^ 8"
    and b: "b = next_record env j prior cid command pl m l"
    and d': "d' = d @ [(sequence_name (ss_sequence prior + 1), published_file env b)]"
  shows "publish env j d cid command pl = (d', recover_state env j d')"
proof -
  let ?e = "(lock_name, empty_file)" and ?t = "sequence_name (ss_sequence prior + 1)"
  from prior obtain ps st where ps: "paths d = Inr ps" and st: "loop_state env j ps = Inr st"
    and n: "ss_sequence prior = length ps" by (auto simp: recover_state_Inr recover_snapshot_def)
  have "\<not> has_name (d @ [?e]) ?t" "\<not> has_name (d @ [?e]) (temporary_name env ?t)"
    using fresh_names(2,3) [OF ps st room [unfolded n]] sequence_name_json(3) temporary_unexpected(2)
    by (auto simp: has_name_def n)
  note w = write_record_fresh [OF this]
  have "recover_state env j (d @ [?e, (?t, published_file env b)]) = recover_state env j d'"
    by (simp add: recover_state_def lock_between d')
  then have "publish_locked env j cid command pl (d @ [?e]) =
      (d @ [?e, (?t, published_file env b)], recover_state env j d')"
    using w [of b] cid recover_appended [OF prior cmd room b d'] unfolding publish_locked_def
    by (simp add: recover_lock prior cmd nonempty_text_def b [symmetric])
  moreover have "unlink lock_name (d @ [?e, (?t, published_file env b)]) = d'"
    using lock sequence_name_json(3) [of "ss_sequence prior + 1"]
    by (force simp: unlink_def has_name_def d' filter_id_conv)
  ultimately show ?thesis using lock by (simp add: publish_def exclusive_def)
qed

lemma temporary_incomplete:
  "paths (d @ [e, (temporary_name env t, f)]) =
     Inl (Err SimulationStateError ''journal contains incomplete or unexpected files'')"
  using temporary_unexpected [of env t] by (simp add: paths_def raise_if_def)

section \<open>Hash chains\<close>

lemma loop_record:
  assumes "loop_state env j (ps @ [p]) = Inr st"
  shows "\<exists>st0. loop_state env j ps = Inr st0 \<and> rs_terminal st = env_digest env (HashRecord (file_body p))
    \<and> rb_sequence (file_body p) = int (length ps) + 1 \<and> rb_previous_digest (file_body p) = rs_previous st0"
  using assms by (cases p) (auto simp: loop_state_snoc recover_step_Inr recover_record_Inr)

lemma loop_start_terminal:
  "loop_state env j [] = Inr st \<Longrightarrow> rs_terminal st = env_digest env (HashGenesis (js_genesis j))"
  by (auto simp: loop_state_def recover_start_def)

text \<open>Without collisions the terminal digest determines the whole chain of records.\<close>

lemma terminal_determines_records:
  assumes "loop_state env j ps = Inr st" and "loop_state env j qs = Inr st'"
    and "inj_on (env_digest env) (insert (HashGenesis (js_genesis j))
          (HashRecord ` (file_body ` set ps \<union> file_body ` set qs)))"
    and "rs_terminal st = rs_terminal st'"
  shows "map file_body ps = map file_body qs"
  using assms
proof (induction ps arbitrary: qs st st' rule: rev_induct)
  case Nil
  show ?case
  proof (cases qs rule: rev_cases)
    case (snoc qs' q)
    with Nil loop_record [of env j qs' q st'] loop_start_terminal [of env j st] show ?thesis
      by (auto simp: inj_on_def)
  qed simp
next
  case (snoc p ps)
  from loop_record [OF snoc.prems(1)] obtain st0 where st0: "loop_state env j ps = Inr st0"
    and p: "rs_terminal st = env_digest env (HashRecord (file_body p))"
      "rb_sequence (file_body p) = int (length ps) + 1" "rb_previous_digest (file_body p) = rs_previous st0"
    by blast
  show ?case
  proof (cases qs rule: rev_cases)
    case Nil
    with snoc.prems p loop_start_terminal [of env j st'] show ?thesis by (auto simp: inj_on_def)
  next
    case (snoc qs' q)
    from loop_record [OF snoc.prems(2) [unfolded snoc]] obtain st1 where st1: "loop_state env j qs' = Inr st1"
      and q: "rs_terminal st' = env_digest env (HashRecord (file_body q))"
        "rb_sequence (file_body q) = int (length qs') + 1" "rb_previous_digest (file_body q) = rs_previous st1"
      by blast
    have "HashRecord (file_body p) = HashRecord (file_body q)"
      using snoc.prems(3,4) p(1) q(1) unfolding snoc by (intro inj_onD [OF snoc.prems(3)]) (auto simp: snoc)
    then have pq: "file_body p = file_body q" by simp
    then have len: "length ps = length qs'" and prev: "rs_previous st0 = rs_previous st1"
      using p(2,3) q(2,3) by auto
    show ?thesis
    proof (cases "ps = []")
      case True
      with len pq snoc show ?thesis by simp
    next
      case False
      then have "qs' \<noteq> []" using len by auto
      with False prev loop_state_props [OF st0] loop_state_props [OF st1]
      have "rs_terminal st0 = rs_terminal st1" by simp
      moreover have "inj_on (env_digest env) (insert (HashGenesis (js_genesis j))
          (HashRecord ` (file_body ` set ps \<union> file_body ` set qs')))"
        by (rule inj_on_subset [OF snoc.prems(3)]) (auto simp: snoc)
      ultimately have "map file_body ps = map file_body qs'" using snoc.IH [OF st0 st1] by blast
      with pq snoc show ?thesis by simp
    qed
  qed
qed

lemma checkpointed_iff:
  "require_checkpointed env j d (Some s) = Inr u \<longleftrightarrow> (\<exists>k. js_checkpoint j = Some k
     \<and> tc_require_checkpoint (js_trust j) k = Inr () \<and> jc_journal_identity k = js_identity j
     \<and> jc_epoch k = js_epoch j \<and> jc_establishment_identity k = tc_identity (js_trust j)
     \<and> jc_accepted_sequence k = int (ss_sequence s)
     \<and> jc_terminal_digest k = (if ss_sequence s \<noteq> 0 then Some (ss_terminal_digest s) else None))"
  by (auto simp: require_checkpointed_def split: option.splits)

section \<open>Properties of the journal\<close>

text \<open>C29: Whatever is in the directory, a state the journal recovers is a state of a simulation in which
  every fill was posted at once, its order and ledger histories match, and its reconciliation is
  RECONCILED with performance figures: a corrupt or inconsistent journal is never recovered.\<close>

theorem recovered_states_reconcile:
  assumes "recover env j d continuity_verified = Inr s"
  shows "\<exists>c p. sim_reach c (ss_oms s) (ss_ledger s) \<and> matched (ss_oms s) (ss_ledger s)
    \<and> reconcile (ss_oms s) (ss_ledger s) = Inr (reconciliation_result RECONCILED [] (Some p))
    \<and> ss_state_digest s = env_digest env (HashState (ss_oms s) (ss_ledger s))
    \<and> ss_sequence s = length (journal_records d)"
proof -
  from assms obtain ps st where ps: "paths d = Inr ps" and st: "loop_state env j ps = Inr st"
    and s: "s = recover_snapshot env (length ps) st"
    by (auto simp: recover_def recover_state_Inr split: if_splits)
  from loop_state_props [OF st] obtain c where inv: "sim_inv c (rs_oms st) (rs_ledger st)" by blast
  then obtain p sc where "sim_reach c (rs_oms st) (rs_ledger st)" "performance (rs_oms st) (rs_ledger st) = Inr p"
    "clean sc" "\<not> sc_invalid sc" "reconcile (rs_oms st) (rs_ledger st) = conclude (rs_oms st) (rs_ledger st) sc"
    using reconcile_reachable [of c "rs_oms st" "rs_ledger st"] unfolding sim_inv_def by blast
  moreover from this have "reconcile (rs_oms st) (rs_ledger st) = Inr (reconciliation_result RECONCILED [] (Some p))"
    by (simp add: conclude_def clean_def)
  moreover have "length (journal_records d) = length ps" using ps by (simp add: journal_records_def paths_Inr)
  ultimately show ?thesis
    using sim_reach_matched [of c "rs_oms st" "rs_ledger st"]
    by (intro exI [of _ c] exI [of _ p]) (simp add: s recover_snapshot_def)
qed



text \<open>C31: A checkpoint pins the whole history: if two directories both recover under continuity
  verification of the same journal and checkpoint, and the digest has no collision among their
  records, then they hold the same records, so a rolled-back, extended or edited journal is rejected.\<close>

theorem checkpoint_pins_history:
  assumes "recover env j d True = Inr s" and "recover env j d' True = Inr s'"
    and "inj_on (env_digest env) (insert (HashGenesis (js_genesis j))
          (HashRecord ` (set (journal_records d) \<union> set (journal_records d'))))"
  shows "journal_records d = journal_records d'"
proof -
  from assms(1) obtain ps st where ps: "json_files d = ps" and st: "loop_state env j ps = Inr st"
    and s: "s = recover_snapshot env (length ps) st" and ck: "require_checkpointed env j d (Some s) = Inr ()"
    by (auto simp: recover_def recover_state_Inr paths_Inr)
  from assms(2) obtain qs st' where qs: "json_files d' = qs" and st': "loop_state env j qs = Inr st'"
    and s': "s' = recover_snapshot env (length qs) st'" and ck': "require_checkpointed env j d' (Some s') = Inr ()"
    by (auto simp: recover_def recover_state_Inr paths_Inr)
  from ck ck' have "ss_sequence s = ss_sequence s'"
    "ss_sequence s = 0 \<or> ss_terminal_digest s = ss_terminal_digest s'"
    by (auto simp: checkpointed_iff split: if_splits)
  then have "length ps = length qs" "ps = [] \<or> rs_terminal st = rs_terminal st'"
    by (auto simp: s s' recover_snapshot_def)
  moreover have "inj_on (env_digest env) (insert (HashGenesis (js_genesis j))
          (HashRecord ` (file_body ` set ps \<union> file_body ` set qs)))"
    using assms(3) by (simp add: journal_records_def ps qs)
  ultimately show ?thesis
    using terminal_determines_records [OF st st'] by (cases "ps = []") (auto simp: journal_records_def ps qs)
qed

text \<open>The JSON forms lose nothing: a well-formed order, execution snapshot or cost model is rebuilt
  exactly by the decoder, and whatever the order decoder accepts is a well-formed order.\<close>

theorem journal_bodies_round_trip:
  assumes "valid_order v" and "valid_snapshot s" and "valid_model c"
  shows "decode_order (order_body v) = Inr v \<and> decode_snapshot (snapshot_body s) = Inr s
    \<and> decode_model (model_body c) = Inr c \<and> (decode_order b = Inr v' \<longrightarrow> valid_order v')"
  using assms order_json.decode_encode order_json.decode_valid snapshot_json.decode_encode
    model_json.decode_encode by blast

text \<open>A publication interrupted at any point leaves a journal that recovers to the state before it or
  to the state after it, or one that refuses to recover because of the temporary file; the
  sequence of directories ends in the one the publication returns.\<close>

theorem interrupted_publication_consistent:
  assumes "\<not> has_name d lock_name" and "recover_state env j d = Inr prior"
    and "apply_command env (ss_oms prior) (ss_ledger prior) command pl = Inr (m, l)"
    and "\<not> blank cid" and "ss_sequence prior + 1 < 10 ^ 8"
    and "b = next_record env j prior cid command pl m l"
  shows "list_all (\<lambda>x. recover_state env j x \<in> {recover_state env j d,
        recover_state env j (fst (publish env j d cid command pl)),
        Inl (Err SimulationStateError ''journal contains incomplete or unexpected files'')})
      (publish_states env d (ss_sequence prior + 1) b part)
    \<and> last (publish_states env d (ss_sequence prior + 1) b part) = fst (publish env j d cid command pl)"
proof -
  let ?t = "sequence_name (ss_sequence prior + 1)" and ?e = "(lock_name, empty_file)"
  have pub: "fst (publish env j d cid command pl) = d @ [(?t, published_file env b)]"
    using publish_outcome [OF assms(1-6) refl] by simp
  from assms(2) have start: "\<exists>s0. recover_start env j = Inr s0" by (auto simp: recover_state_def)
  then have "recover_state env j (d @ [?e, (temporary_name env ?t, f)]) =
      Inl (Err SimulationStateError ''journal contains incomplete or unexpected files'')" for f
    by (auto simp: recover_state_def temporary_incomplete)
  moreover have "recover_state env j (d @ [?e, (?t, f)]) = recover_state env j (d @ [(?t, f)])" for f
    by (simp add: recover_state_def lock_between)
  ultimately show ?thesis by (simp add: publish_states_def pub recover_lock Let_def)
qed

text \<open>Writers exclude each other: while the lock file exists no publication and no exclusive snapshot
  touches the directory and both fail; otherwise the lock is gone when they end, whatever their
  outcome, and an exclusive snapshot leaves the directory as it was.\<close>

theorem journal_lock_discipline:
  "(has_name d lock_name \<longrightarrow>
      publish env j d cid command pl =
        (d, Inl (Err SimulationStateError ''simulation-state writer is already active''))
      \<and> exclusive_snapshot env j d v f =
        (d, Inl (Err SimulationStateError ''simulation-state writer is already active'')))
   \<and> (\<not> has_name d lock_name \<longrightarrow>
      \<not> has_name (fst (publish env j d cid command pl)) lock_name
      \<and> fst (exclusive_snapshot env j d v f) = d)"
proof (cases "has_name d lock_name")
  case True
  then show ?thesis by (simp add: publish_def exclusive_snapshot_def exclusive_def)
next
  case free: False
  have "\<not> has_name (unlink lock_name x) lock_name" for x by (auto simp: has_name_def unlink_def)
  moreover have "unlink lock_name (d @ [(lock_name, empty_file)]) = d"
    using free by (force simp: unlink_def has_name_def filter_id_conv)
  ultimately show ?thesis
    using free by (auto simp: publish_def exclusive_snapshot_def exclusive_def split: prod.split)
qed

section \<open>A sample journal\<close>

definition js_digest :: "digest_body \<Rightarrow> string" where
  "js_digest b = (case b of HashGenesis _ \<Rightarrow> ''genesis'' | HashState _ _ \<Rightarrow> ''state''
     | HashRecord r \<Rightarrow> ''record '' @ rb_command_id r | HashCheckpoint _ \<Rightarrow> ''checkpoint'')"

definition js_env :: Environment where
  "js_env = \<lparr>env_fill_digest = (\<lambda>_. replicate 32 0), env_digest = js_digest, env_pid = ''1''\<rparr>"

definition js_journal :: SimulationStateJournal where
  "js_journal = \<lparr>js_identity = ''journal'', js_epoch = ''epoch'',
     js_checkpoint = Some \<lparr>jc_journal_identity = ''journal'', jc_epoch = ''epoch'', jc_accepted_sequence = 1,
       jc_terminal_digest = Some ''record first'', jc_establishment_identity = ''root'', jc_checkpoint_digest = ''k''\<rparr>,
     js_trust = \<lparr>tc_identity = ''root'', tc_assurance_mode = ENGINEERING_SIMULATION,
       tc_require_checkpoint = (\<lambda>_. Inr ())\<rparr>,
     js_genesis = \<lparr>gn_opening_cash = Some (Finite 2), gn_currency = ''USD'', gn_research_run_id = run_text rc_run,
       gn_opened_at = isoformat (Timestamp 0), gn_evidence_digest = sample_sha\<rparr>\<rparr>"

definition js_opening :: FinancialEvent where
  "js_opening = \<lparr>ev_event_id = LedgerEventId ''atis:simulation-ledger-event:v1:simulation-state-opening'',
     ev_sequence = 1, ev_occurred_at = Timestamp 0, ev_kind = OPENING_CASH, ev_research_run_id = rc_run,
     ev_evidence_digest = EvidenceContentDigest sample_sha, ev_currency = Some sample_usd,
     ev_instrument_id = None, ev_quantity = None, ev_unit_amount = None, ev_cash_delta = Some 2, ev_action = None\<rparr>"

definition js_ledger :: SimulationLedger where "js_ledger = rc_ledger [js_opening] 2 None"

definition js_payload :: Payload where
  "js_payload = no_payload\<lparr>pl_order := Some (order_body (rc_order 1 BUY 2))\<rparr>"

definition js_prior :: SimulationStateSnapshot where
  "js_prior = \<lparr>ss_sequence = 0, ss_terminal_digest = ''genesis'', ss_state_digest = ''state'',
     ss_oms = oms_empty, ss_ledger = js_ledger\<rparr>"

definition js_first :: JournalDir where
  "js_first = [(sequence_name 1,
     published_file js_env (next_record js_env js_journal js_prior ''first'' ''SUBMIT'' js_payload rc_m1 js_ledger))]"

definition js_state :: SimulationStateSnapshot where
  "js_state = \<lparr>ss_sequence = 1, ss_terminal_digest = ''record first'', ss_state_digest = ''state'',
     ss_oms = rc_m1, ss_ledger = js_ledger\<rparr>"

lemmas genesis_state_code [code] = genesis_state_def [unfolded Let_def]

lemma js_genesis_state: "genesis_state js_journal = Inr (oms_empty, js_ledger)"
  by code_simp

lemma js_prior: "recover_state js_env js_journal [] = Inr js_prior"
  by (simp add: recover_state_def recover_start_def js_genesis_state paths_def recover_snapshot_def
      js_prior_def js_env_def js_digest_def)

lemma js_order: "valid_order (rc_order 1 BUY 2)"
  by code_simp

lemma js_submit: "oms_submit oms_empty (rc_order 1 BUY 2) = Inr rc_m1" "oms_submit rc_m1 (rc_order 1 BUY 2) = Inr rc_m1"
  by code_simp+

lemma js_apply: "apply_command js_env oms_empty js_ledger ''SUBMIT'' js_payload = Inr (rc_m1, js_ledger)"
  "apply_command js_env rc_m1 js_ledger ''SUBMIT'' js_payload = Inr (rc_m1, js_ledger)"
  by (simp_all add: apply_command_def js_payload_def payload_member_def decode_order_body [OF js_order] js_submit)

lemma js_first_recovers: "recover_state js_env js_journal js_first = Inr js_state"
  "map rb_command_id (journal_records js_first) = [''first'']"
proof -
  define b where "b = next_record js_env js_journal js_prior ''first'' ''SUBMIT'' js_payload rc_m1 js_ledger"
  have "apply_command js_env (ss_oms js_prior) (ss_ledger js_prior) ''SUBMIT'' js_payload = Inr (rc_m1, js_ledger)"
    "ss_sequence js_prior + 1 < 10 ^ 8" "js_first = [] @ [(sequence_name (ss_sequence js_prior + 1), published_file js_env b)]"
    by (simp_all add: js_prior_def js_apply js_first_def b_def)
  note rec = recover_appended [OF js_prior this(1,2) b_def this(3)]
  have "journal_records [] = []" by (simp add: journal_records_def json_files_def)
  moreover have "rb_command_id b = ''first''" "env_digest js_env (HashRecord b) = ''record first''"
    "env_digest js_env (HashState rc_m1 js_ledger) = ''state''"
    by (simp_all add: b_def next_record_def js_env_def js_digest_def)
  ultimately show "recover_state js_env js_journal js_first = Inr js_state"
    "map rb_command_id (journal_records js_first) = [''first'']"
    using rec by (simp_all add: js_state_def js_prior_def)
qed

lemma js_first_free: "\<not> has_name js_first lock_name" "\<not> has_name [] lock_name"
  using sequence_name_json(3) [of 1] by (auto simp: has_name_def js_first_def)

lemma js_checkpointed: "recover js_env js_journal js_first True = Inr js_state"
proof -
  have "require_checkpointed js_env js_journal js_first (Some js_state) = Inr ()"
    by (simp add: checkpointed_iff js_journal_def js_state_def)
  then show ?thesis by (simp add: recover_def js_first_recovers)
qed

theorem recovered_states_reconcile_witness:
  "\<exists>p. reconcile rc_m1 js_ledger = Inr (reconciliation_result RECONCILED [] (Some p))"
  using recovered_states_reconcile [OF js_checkpointed] by (auto simp: js_state_def)



theorem checkpoint_pins_history_witness:
  "journal_records js_first = journal_records (js_first @ [(lock_name, empty_file)])"
proof -
  have r: "recover js_env js_journal (js_first @ [(lock_name, empty_file)]) True = Inr js_state"
    using js_checkpointed by (simp add: recover_def recover_lock require_checkpointed_def)
  have "json_files (js_first @ [(lock_name, empty_file)]) = json_files js_first"
    by (simp add: json_files_def lock_not_json)
  moreover obtain b where "journal_records js_first = [b]" "rb_command_id b = ''first''"
    using js_first_recovers(2) by (cases "journal_records js_first") auto
  ultimately have "inj_on (env_digest js_env) (insert (HashGenesis (js_genesis js_journal))
      (HashRecord ` (set (journal_records js_first) \<union> set (journal_records (js_first @ [(lock_name, empty_file)])))))"
    by (simp add: journal_records_def js_env_def js_digest_def)
  from checkpoint_pins_history [OF js_checkpointed r this] show ?thesis .
qed

definition js_snapshot :: ExecutionSnapshot where
  "js_snapshot = \<lparr>sn_execution_at = Timestamp 300, sn_price = Some 1, sn_price_available_at = None,
     sn_security_state = AVAILABLE, sn_liquidity_state = INPUT_UNKNOWN, sn_available_quantity = None,
     sn_currency = Some sample_usd, sn_evidence_digest = Some rc_digest\<rparr>"

definition js_model :: ExecutionCostModel where
  "js_model = \<lparr>cm_model_id = ''atis:simulation-cost-model:v1:m'', cm_scenario = EC1,
     cm_rates = map (\<lambda>c. \<lparr>cr_component = c, cr_basis_points = 1, cr_provenance = PROXY,
       cr_evidence_digest = rc_digest\<rparr>) all_components, cm_diagnostic_only = False\<rparr>"

lemmas ExecutionCostModel_init_code [code] = ExecutionCostModel_init_def [unfolded Let_def]

theorem journal_bodies_round_trip_witness:
  "decode_order (order_body (rc_order 1 BUY 2)) = Inr (rc_order 1 BUY 2)
   \<and> decode_snapshot (snapshot_body js_snapshot) = Inr js_snapshot
   \<and> decode_model (model_body js_model) = Inr js_model"
proof -
  have "valid_currency sample_usd" "valid_evidence_digest rc_digest" by code_simp+
  then have "valid_snapshot js_snapshot" by (simp add: valid_snapshot_def js_snapshot_def)
  moreover have "valid_model js_model" by code_simp
  ultimately show ?thesis using journal_bodies_round_trip [OF js_order] by blast
qed

theorem interrupted_publication_consistent_witness:
  "last (publish_states js_env [] 1 (next_record js_env js_journal js_prior ''first'' ''SUBMIT'' js_payload
      rc_m1 js_ledger) empty_file) = fst (publish js_env js_journal [] ''first'' ''SUBMIT'' js_payload)"
proof -
  have "\<not> blank ''first''" by code_simp
  then show ?thesis
    using interrupted_publication_consistent [OF js_first_free(2) js_prior _ _ _ refl, of "''SUBMIT''" js_payload
        rc_m1 js_ledger "''first''" empty_file]
    by (simp add: js_prior_def js_apply)
qed

theorem journal_lock_discipline_witness:
  "\<not> has_name (fst (publish js_env js_journal js_first ''first'' ''SUBMIT'' js_payload)) lock_name"
  using journal_lock_discipline [of js_first] js_first_free(1) by blast

end
