(* ===== verification/Assurance.thy ===== *)
theory Assurance
  imports Reconcile
begin

text \<open>
  Statistical and robustness assurance (\<^verbatim>\<open>research/statistical_assurance.py\<close> and the aggregation of
  \<^verbatim>\<open>research/robustness_assurance.py\<close>): Holm's step-down correction, the moving-block bootstrap of a
  mean, and the fail-closed summary of the thirteen robustness tests.

  Digests of canonical JSON bodies are parameters.  \<open>random.Random(seed)\<close> is the parameter
  \<open>rng seed n k\<close>: the value of the \<open>k\<close>-th call of \<open>randrange(n)\<close> of the generator seeded with
  \<open>seed\<close>; the properties that need its documented range say so.  \<open>math.ceil(n / b)\<close> of two integers is
  exact for samples below \<open>2 ^ 53\<close> observations and is modelled by integer division.

  Shown here: the decisions and adjusted p-values are those of the textbook procedure, whatever
  the order of the tests; without rounding the two agree, and a concrete family where rounding
  makes them disagree; the bootstrap interval is ordered and made of means of resampled
  observations; a report passes only when every test passes without limitation.
\<close>

section \<open>Text and number guards\<close>

definition assurance_text :: "exn \<Rightarrow> string \<Rightarrow> string \<Rightarrow> unit result" where
  "assurance_text x name value = raise_if (blank value) x (name @ '' must be nonempty text'') (Inr ())"

definition assurance_texts :: "exn \<Rightarrow> string \<Rightarrow> string list \<Rightarrow> unit result" where
  "assurance_texts x name values = rbind (rmap (assurance_text x name) values) (\<lambda>_. Inr ())"

definition stat_finite :: "decimal \<Rightarrow> string \<Rightarrow> rat result" where
  "stat_finite v name = require_finite StatisticalAssuranceError (name @ '' must be finite'') v"

abbreviation stat_text :: "string \<Rightarrow> string \<Rightarrow> unit result" where
  "stat_text \<equiv> assurance_text StatisticalAssuranceError"

abbreviation stat_texts :: "string \<Rightarrow> string list \<Rightarrow> unit result" where
  "stat_texts \<equiv> assurance_texts StatisticalAssuranceError"

section \<open>Samples and configurations\<close>

datatype AssuranceOutcome = TEST_PASS | TEST_FAIL | INSUFFICIENT_EVIDENCE | OUTCOME_INVALID

datatype IntervalMethod = PERCENTILE_MOVING_BLOCK

record 'd SampleAdequacy =
  sa_established :: bool
  sa_effective_sample_size :: 'd
  sa_rule_identity :: string
  sa_reasons :: "string list"

definition SampleAdequacy_init :: "decimal SampleAdequacy \<Rightarrow> rat SampleAdequacy result" where
  "SampleAdequacy_init a =
     rbind (stat_finite (sa_effective_sample_size a) ''effective_sample_size'') (\<lambda>size.
     raise_if (size < 0) StatisticalAssuranceError ''effective sample size cannot be negative''
     (rbind (stat_text ''rule_identity'' (sa_rule_identity a)) (\<lambda>_.
      rbind (stat_texts ''reasons'' (sa_reasons a)) (\<lambda>_.
      raise_if (sa_established a = (sa_reasons a \<noteq> [])) StatisticalAssuranceError
        ''adequacy reasons contradict status''
        (Inr \<lparr>sa_established = sa_established a, sa_effective_sample_size = size,
              sa_rule_identity = sa_rule_identity a, sa_reasons = sa_reasons a\<rparr>)))))"

record 'd StatisticalSample =
  ss_sample_id :: string
  ss_research_run_id :: string
  ss_dataset_id :: string
  ss_dataset_version :: string
  ss_partition_id :: string
  ss_observations :: "'d list"
  ss_observation_ids :: "string list"
  ss_overlapping :: bool
  ss_adequacy :: "rat SampleAdequacy"

definition StatisticalSample_init :: "decimal StatisticalSample \<Rightarrow> rat StatisticalSample result" where
  "StatisticalSample_init s =
     rbind (stat_text ''sample_id'' (ss_sample_id s)) (\<lambda>_.
     rbind (stat_text ''research_run_id'' (ss_research_run_id s)) (\<lambda>_.
     rbind (stat_text ''dataset_id'' (ss_dataset_id s)) (\<lambda>_.
     rbind (stat_text ''dataset_version'' (ss_dataset_version s)) (\<lambda>_.
     rbind (stat_text ''partition_id'' (ss_partition_id s)) (\<lambda>_.
     raise_if (ss_observations s = []) StatisticalAssuranceError ''nonempty observation tuple required''
     (rbind (rmap (\<lambda>v. stat_finite v ''observation'') (ss_observations s)) (\<lambda>values.
      raise_if (length (ss_observation_ids s) \<noteq> length (ss_observations s) \<or> \<not> distinct (ss_observation_ids s))
        StatisticalAssuranceError ''observation identities are incomplete''
      (rbind (stat_texts ''observation_ids'' (ss_observation_ids s)) (\<lambda>_.
        Inr \<lparr>ss_sample_id = ss_sample_id s, ss_research_run_id = ss_research_run_id s,
             ss_dataset_id = ss_dataset_id s, ss_dataset_version = ss_dataset_version s,
             ss_partition_id = ss_partition_id s, ss_observations = values,
             ss_observation_ids = ss_observation_ids s, ss_overlapping = ss_overlapping s,
             ss_adequacy = ss_adequacy s\<rparr>)))))))))"

record HypothesisTest =
  ht_hypothesis_id :: string
  ht_p_value :: rat

definition HypothesisTest_init :: "string \<Rightarrow> decimal \<Rightarrow> HypothesisTest result" where
  "HypothesisTest_init i p =
     rbind (stat_text ''hypothesis_id'' i) (\<lambda>_.
     rbind (stat_finite p ''p_value'') (\<lambda>q.
     raise_if (\<not> (0 \<le> q \<and> q \<le> 1)) StatisticalAssuranceError ''p-value outside [0, 1]''
       (Inr \<lparr>ht_hypothesis_id = i, ht_p_value = q\<rparr>)))"

record 'd ResamplingConfig =
  rc_method :: IntervalMethod
  rc_seed :: int
  rc_block_length :: int
  rc_resamples :: int
  rc_confidence_level :: 'd

definition ResamplingConfig_init :: "decimal ResamplingConfig \<Rightarrow> rat ResamplingConfig result" where
  "ResamplingConfig_init c =
     raise_if (rc_seed c < 0) StatisticalAssuranceError ''seed must be a nonnegative integer''
     (raise_if (rc_block_length c < 1) StatisticalAssuranceError ''block length must be positive''
     (raise_if (rc_resamples c < 1) StatisticalAssuranceError ''resample count must be positive''
     (rbind (stat_finite (rc_confidence_level c) ''confidence_level'') (\<lambda>level.
      raise_if (\<not> (0 < level \<and> level < 1)) StatisticalAssuranceError ''confidence level must be in (0, 1)''
        (Inr \<lparr>rc_method = rc_method c, rc_seed = rc_seed c, rc_block_length = rc_block_length c,
              rc_resamples = rc_resamples c, rc_confidence_level = level\<rparr>)))))"

section \<open>Holm's step-down correction\<close>

record HolmDecision =
  hd_hypothesis_id :: string
  hd_raw_p_value :: rat
  hd_adjusted_p_value :: rat
  hd_rejected :: bool

record HolmBody =
  hb_family_id :: string
  hb_alpha :: rat
  hb_decisions :: "HolmDecision list"
  hb_registered_trial_ids :: "string list"

record HolmResult = HolmBody +
  hr_evidence_digest :: string

text \<open>The state of the loop: the rejected identities, whether no test has failed so far, the running
  adjusted value and the adjusted values found.\<close>

record HolmLoop =
  hl_rejected :: "string list"
  hl_active :: bool
  hl_running :: rat
  hl_adjusted :: "(string \<times> rat) list"

definition holm_key :: "HypothesisTest \<Rightarrow> rat \<times> string" where
  "holm_key t = (ht_p_value t, ht_hypothesis_id t)"

definition holm_step :: "rat \<Rightarrow> nat \<Rightarrow> HolmLoop \<Rightarrow> nat \<times> HypothesisTest \<Rightarrow> HolmLoop" where
  "holm_step alpha family_size st = (\<lambda>(index, item).
     let multiplier = of_nat (family_size - index);
         running = max (hl_running st) (min 1 (dmul (ht_p_value item) multiplier));
         threshold = ddiv alpha multiplier;
         reject = hl_active st \<and> ht_p_value item \<le> threshold
     in \<lparr>hl_rejected = (if reject then hl_rejected st @ [ht_hypothesis_id item] else hl_rejected st),
         hl_active = reject, hl_running = running,
         hl_adjusted = dict_put fst (ht_hypothesis_id item, running) (hl_adjusted st)\<rparr>)"

definition holm_loop :: "rat \<Rightarrow> HypothesisTest list \<Rightarrow> HolmLoop" where
  "holm_loop alpha ordered =
     foldl (holm_step alpha (length ordered)) \<lparr>hl_rejected = [], hl_active = True, hl_running = 0,
       hl_adjusted = []\<rparr> (List.enumerate 0 ordered)"

definition holm_decision :: "HolmLoop \<Rightarrow> HypothesisTest \<Rightarrow> HolmDecision result" where
  "holm_decision st item = (case dict_get fst (hl_adjusted st) (ht_hypothesis_id item) of
     None \<Rightarrow> Inl (Err KeyError [])
   | Some a \<Rightarrow> Inr \<lparr>hd_hypothesis_id = ht_hypothesis_id item, hd_raw_p_value = ht_p_value item,
       hd_adjusted_p_value = snd a, hd_rejected = ht_hypothesis_id item \<in> set (hl_rejected st)\<rparr>)"

definition holm_adjust ::
  "(HolmBody \<Rightarrow> string) \<Rightarrow> string \<Rightarrow> HypothesisTest list \<Rightarrow> string list \<Rightarrow> decimal \<Rightarrow> HolmResult result" where
  "holm_adjust dg family_id tests registered_trial_ids alpha =
     rbind (stat_text ''family_id'' family_id) (\<lambda>_.
     rbind (stat_finite alpha ''alpha'') (\<lambda>a.
     raise_if (\<not> (0 < a \<and> a < 1)) StatisticalAssuranceError ''alpha must be in (0, 1)''
     (raise_if (tests = []) StatisticalAssuranceError ''nonempty hypothesis family required''
     (raise_if (\<not> distinct (map ht_hypothesis_id tests)) StatisticalAssuranceError ''duplicate hypothesis identity''
     (rbind (stat_texts ''registered_trial_ids'' registered_trial_ids) (\<lambda>_.
      raise_if (\<not> distinct registered_trial_ids) StatisticalAssuranceError ''duplicate trial identity''
      (raise_if (set registered_trial_ids \<noteq> set (map ht_hypothesis_id tests)) StatisticalAssuranceError
        ''complete registered trial family required''
      (rbind (rmap (holm_decision (holm_loop a (sort_key holm_key tests))) tests) (\<lambda>decisions.
        let body = \<lparr>hb_family_id = family_id, hb_alpha = a, hb_decisions = decisions,
                    hb_registered_trial_ids = registered_trial_ids\<rparr>
        in Inr (HolmBody.extend body \<lparr>hr_evidence_digest = dg body\<rparr>))))))))))"

section \<open>Moving-block bootstrap\<close>

record BootstrapBody =
  bb_sample :: "rat StatisticalSample"
  bb_config :: "rat ResamplingConfig"
  bb_mean :: "rat option"
  bb_lower :: "rat option"
  bb_upper :: "rat option"
  bb_reasons :: "string list"

record BootstrapResult =
  bs_outcome :: AssuranceOutcome
  bs_sample_id :: string
  bs_mean :: "rat option"
  bs_lower :: "rat option"
  bs_upper :: "rat option"
  bs_config :: "rat ResamplingConfig"
  bs_reasons :: "string list"
  bs_evidence_digest :: string

definition quantile_index :: "rat \<Rightarrow> int \<Rightarrow> int" where
  "quantile_index probability n =
     max 0 (min (n - 1) (round_half_even (dmul probability (of_int (n - 1)))))"

definition bootstrap_reasons :: "rat StatisticalSample \<Rightarrow> rat ResamplingConfig \<Rightarrow> string list" where
  "bootstrap_reasons sample config =
     (if \<not> sa_established (ss_adequacy sample) then sa_reasons (ss_adequacy sample) else [])
     @ (if int (length (ss_observations sample)) < rc_block_length config
        then [''block length exceeds sample''] else [])
     @ (if ss_overlapping sample \<and> rc_block_length config = 1
        then [''overlapping returns require dependence-aware block length''] else [])
     @ (if card (set (ss_observations sample)) = 1 then [''zero variance cannot support significance''] else [])"

text \<open>One block from a start, wrapping around, and the resample number \<open>r\<close> of \<open>blocks\<close> blocks.\<close>

definition block_from :: "rat list \<Rightarrow> nat \<Rightarrow> nat \<Rightarrow> rat list" where
  "block_from xs block start = map (\<lambda>offset. xs ! ((start + offset) mod length xs)) [0..<block]"

definition resample :: "(nat \<Rightarrow> nat) \<Rightarrow> rat list \<Rightarrow> nat \<Rightarrow> nat \<Rightarrow> nat \<Rightarrow> rat list" where
  "resample starts xs block blocks r =
     take (length xs) (concat (map (\<lambda>b. block_from xs block (starts (r * blocks + b))) [0..<blocks]))"

definition block_count :: "nat \<Rightarrow> nat \<Rightarrow> nat" where
  "block_count n block = (n + block - 1) div block"

definition resample_means :: "(nat \<Rightarrow> nat) \<Rightarrow> rat list \<Rightarrow> nat \<Rightarrow> nat \<Rightarrow> rat list" where
  "resample_means starts xs block resamples =
     map (\<lambda>r. let draw = resample starts xs block (block_count (length xs) block) r
              in ddiv (dsum draw) (of_nat (length draw))) [0..<resamples]"

definition tail_of :: "rat ResamplingConfig \<Rightarrow> rat" where
  "tail_of config = ddiv (dsub 1 (rc_confidence_level config)) 2"

definition moving_block_bootstrap_mean ::
  "(BootstrapBody \<Rightarrow> string) \<Rightarrow> (int \<Rightarrow> nat \<Rightarrow> nat \<Rightarrow> nat) \<Rightarrow> rat StatisticalSample \<Rightarrow> rat ResamplingConfig \<Rightarrow>
   BootstrapResult" where
  "moving_block_bootstrap_mean dg rng sample config =
     (let reasons = bootstrap_reasons sample config in
      if reasons \<noteq> [] then
        \<lparr>bs_outcome = INSUFFICIENT_EVIDENCE, bs_sample_id = ss_sample_id sample, bs_mean = None,
         bs_lower = None, bs_upper = None, bs_config = config, bs_reasons = reasons,
         bs_evidence_digest = dg \<lparr>bb_sample = sample, bb_config = config, bb_mean = None,
           bb_lower = None, bb_upper = None, bb_reasons = reasons\<rparr>\<rparr>
      else
        let xs = ss_observations sample;
            means = sort (resample_means (rng (rc_seed config) (length xs)) xs
                      (nat (rc_block_length config)) (nat (rc_resamples config)));
            tail = tail_of config;
            lower_index = quantile_index tail (int (length means));
            upper_index = quantile_index (dsub 1 tail) (int (length means));
            mean = ddiv (dsum xs) (of_nat (length xs));
            lower = means ! nat lower_index;
            upper = means ! nat upper_index
        in \<lparr>bs_outcome = TEST_PASS, bs_sample_id = ss_sample_id sample, bs_mean = Some mean,
            bs_lower = Some lower, bs_upper = Some upper, bs_config = config, bs_reasons = [],
            bs_evidence_digest = dg \<lparr>bb_sample = sample, bb_config = config, bb_mean = Some mean,
              bb_lower = Some lower, bb_upper = Some upper, bb_reasons = []\<rparr>\<rparr>)"

section \<open>Robustness reports\<close>

datatype RobustnessTest =
    ROB_01_REPLAY | ROB_02_COST_STRESS | ROB_03_EXECUTION_STRESS | ROB_04_PARAMETER_NEIGHBOURHOOD
  | ROB_05_UNIVERSE_PERTURBATION | ROB_06_SUBPERIODS | ROB_07_REGIMES | ROB_08_ADVERSE_PERIODS
  | ROB_09_CONCENTRATION | ROB_10_REMOVE_CONTRIBUTORS | ROB_11_OUT_OF_SAMPLE
  | ROB_12_PROTECTED_HOLDOUT | ROB_13_ADVERSARIAL_CHALLENGE

definition all_robustness_tests :: "RobustnessTest list" where
  "all_robustness_tests = [ROB_01_REPLAY, ROB_02_COST_STRESS, ROB_03_EXECUTION_STRESS,
     ROB_04_PARAMETER_NEIGHBOURHOOD, ROB_05_UNIVERSE_PERTURBATION, ROB_06_SUBPERIODS, ROB_07_REGIMES,
     ROB_08_ADVERSE_PERIODS, ROB_09_CONCENTRATION, ROB_10_REMOVE_CONTRIBUTORS, ROB_11_OUT_OF_SAMPLE,
     ROB_12_PROTECTED_HOLDOUT, ROB_13_ADVERSARIAL_CHALLENGE]"

record StrategyBinding =
  sb_strategy_id :: string
  sb_research_run_id :: string
  sb_decision_time :: Timestamp
  sb_output_digest :: string

record AssuranceContext =
  ac_strategy :: StrategyBinding
  ac_plan_digest :: string
  ac_experiment_id :: string
  ac_dataset_id :: string
  ac_dataset_version :: string
  ac_qualification_id :: string
  ac_admission_event_id :: string
  ac_trial_ids :: "string list"
  ac_performance :: PerformanceTruth
  ac_context_digest :: string

record RobustnessCase =
  rb_test :: RobustnessTest
  rb_outcome :: AssuranceOutcome
  rb_finding :: string
  rb_evidence_ids :: "string list"
  rb_limitations :: "string list"

definition robustness_texts :: "string \<Rightarrow> bool \<Rightarrow> string list \<Rightarrow> unit result" where
  "robustness_texts name nonempty values =
     raise_if (nonempty \<and> values = []) RobustnessAssuranceError (name @ '' must be a tuple'')
       (assurance_texts RobustnessAssuranceError name values)"

definition RobustnessCase_init :: "RobustnessCase \<Rightarrow> RobustnessCase result" where
  "RobustnessCase_init c =
     rbind (assurance_text RobustnessAssuranceError ''finding'' (rb_finding c)) (\<lambda>_.
     rbind (robustness_texts ''evidence_ids'' True (rb_evidence_ids c)) (\<lambda>_.
     rbind (robustness_texts ''limitations'' False (rb_limitations c)) (\<lambda>_.
     raise_if (rb_outcome c = TEST_PASS \<and> rb_limitations c \<noteq> []) RobustnessAssuranceError
       ''limited evidence cannot be reported as TEST_PASS'' (Inr c))))"

record RobustnessBody =
  ro_context_digest :: string
  ro_cases :: "RobustnessCase list"
  ro_outcome :: AssuranceOutcome
  ro_permitted_conclusions :: "string list"

record RobustnessReport = RobustnessBody +
  ro_economic_edge :: string
  ro_evidence_digest :: string

definition permitted_conclusions :: "string list" where
  "permitted_conclusions = [''ENGINEERING_BEHAVIOUR_AS_SPECIFIED'', ''ECONOMIC_EDGE_NOT_ESTABLISHED'',
     ''NO_BROKER_OR_TRADING_AUTHORITY'']"

definition aggregate_outcome :: "AssuranceOutcome set \<Rightarrow> AssuranceOutcome" where
  "aggregate_outcome outcomes =
     (if OUTCOME_INVALID \<in> outcomes then OUTCOME_INVALID
      else if TEST_FAIL \<in> outcomes then TEST_FAIL
      else if INSUFFICIENT_EVIDENCE \<in> outcomes then INSUFFICIENT_EVIDENCE
      else TEST_PASS)"

definition assess_robustness ::
  "(RobustnessBody \<Rightarrow> string) \<Rightarrow> AssuranceContext \<Rightarrow> RobustnessCase list \<Rightarrow> RobustnessReport result" where
  "assess_robustness dg context cases =
     raise_if (length cases \<noteq> length all_robustness_tests \<or> rb_test ` set cases \<noteq> set all_robustness_tests)
       RobustnessAssuranceError ''exact ROB-01 through ROB-13 coverage required''
     (let body = \<lparr>ro_context_digest = ac_context_digest context, ro_cases = cases,
                  ro_outcome = aggregate_outcome (rb_outcome ` set cases),
                  ro_permitted_conclusions = permitted_conclusions\<rparr>
      in Inr (RobustnessBody.extend body \<lparr>ro_economic_edge = ''NOT_ESTABLISHED'', ro_evidence_digest = dg body\<rparr>))"

datatype PartitionRole = DEVELOPMENT | VALIDATION | OUT_OF_SAMPLE | PROTECTED_HOLDOUT

definition require_oos_partition :: "PartitionRole \<Rightarrow> bool \<Rightarrow> AssuranceOutcome" where
  "require_oos_partition role contaminated =
     (if role \<noteq> OUT_OF_SAMPLE then OUTCOME_INVALID
      else if contaminated then OUTCOME_INVALID else TEST_PASS)"

definition protected_holdout_denial :: "PartitionRole \<Rightarrow> bool \<Rightarrow> AssuranceOutcome result" where
  "protected_holdout_denial role authorized =
     raise_if (role \<noteq> PROTECTED_HOLDOUT) RobustnessAssuranceError ''protected holdout role required''
       (Inr (if authorized then OUTCOME_INVALID else TEST_PASS))"

text \<open>One round of the loop of \<open>contributor_removal\<close>: the identities seen and the running total.\<close>

definition contribution_step ::
  "string list \<Rightarrow> string list \<times> rat \<Rightarrow> string \<times> decimal \<Rightarrow> (string list \<times> rat) result" where
  "contribution_step remove st = (\<lambda>(identity, amount).
     rbind (assurance_text RobustnessAssuranceError ''contributor'' identity) (\<lambda>_.
     if identity \<in> set (fst st) then Inl (Err RobustnessAssuranceError ''invalid contribution evidence'')
     else rbind (require_finite RobustnessAssuranceError ''invalid contribution evidence'' amount) (\<lambda>a.
       Inr (fst st @ [identity], if identity \<notin> set remove then dadd (snd st) a else snd st))))"

definition contributor_removal :: "(string \<times> decimal) list \<Rightarrow> string list \<Rightarrow> rat result" where
  "contributor_removal contributions remove =
     raise_if (contributions = []) RobustnessAssuranceError ''contributions required''
     (rbind (robustness_texts ''remove'' False remove) (\<lambda>_.
      rbind (rfold (contribution_step remove) ([], 0) contributions) (\<lambda>(seen, total).
      raise_if (\<not> set remove \<subseteq> set seen) RobustnessAssuranceError ''unknown contributor removal''
        (Inr total))))"

section \<open>The loop and the textbook procedure\<close>

text \<open>The threshold and the scaled p-value of rank \<open>j\<close> among \<open>m\<close> tests in ascending order.\<close>

definition holm_passes :: "rat \<Rightarrow> HypothesisTest list \<Rightarrow> nat \<Rightarrow> bool" where
  "holm_passes alpha ts j \<longleftrightarrow> ht_p_value (ts ! j) \<le> ddiv alpha (of_nat (length ts - j))"

definition holm_scaled :: "HypothesisTest list \<Rightarrow> nat \<Rightarrow> rat" where
  "holm_scaled ts j = min 1 (dmul (ht_p_value (ts ! j)) (of_nat (length ts - j)))"

definition holm_adjusted :: "HypothesisTest list \<Rightarrow> nat \<Rightarrow> rat" where
  "holm_adjusted ts k = Max (insert 0 (holm_scaled ts ` {..k}))"

definition holm_rejects :: "rat \<Rightarrow> HypothesisTest list \<Rightarrow> nat \<Rightarrow> bool" where
  "holm_rejects alpha ts k \<longleftrightarrow> (\<forall>j\<le>k. holm_passes alpha ts j)"

definition holm_prefix :: "rat \<Rightarrow> HypothesisTest list \<Rightarrow> nat \<Rightarrow> HolmLoop" where
  "holm_prefix alpha ts k = \<lparr>hl_rejected = map (\<lambda>j. ht_hypothesis_id (ts ! j)) (filter (holm_rejects alpha ts) [0..<k]),
     hl_active = (\<forall>j<k. holm_passes alpha ts j), hl_running = Max (insert 0 (holm_scaled ts ` {..<k})),
     hl_adjusted = map (\<lambda>j. (ht_hypothesis_id (ts ! j), holm_adjusted ts j)) [0..<k]\<rparr>"

lemma Max_insert_lessThan_Suc:
  fixes f :: "nat \<Rightarrow> 'a::linorder"
  shows "Max (insert a (f ` {..<Suc k})) = max (Max (insert a (f ` {..<k}))) (f k)"
proof -
  have "insert a (f ` {..<Suc k}) = insert (f k) (insert a (f ` {..<k}))"
    by (auto simp: lessThan_Suc)
  then show ?thesis by (simp add: max.commute)
qed

lemma holm_prefix_step:
  assumes "distinct (map ht_hypothesis_id ts)" and "k < length ts"
  shows "holm_step alpha (length ts) (holm_prefix alpha ts k) (k, ts ! k) = holm_prefix alpha ts (Suc k)"
proof -
  let ?id = "\<lambda>j. ht_hypothesis_id (ts ! j)"
  have fresh: "?id j \<noteq> ?id k" if "j < k" for j
    using that assms nth_eq_iff_index_eq [of "map ht_hypothesis_id ts" j k] by simp
  have put: "dict_put fst (?id k, x) (hl_adjusted (holm_prefix alpha ts k)) =
      hl_adjusted (holm_prefix alpha ts k) @ [(?id k, x)]" for x
    using fresh by (auto simp: dict_put_def holm_prefix_def)
  have run: "max (hl_running (holm_prefix alpha ts k)) (holm_scaled ts k) = holm_adjusted ts k"
    unfolding holm_adjusted_def holm_prefix_def lessThan_Suc_atMost [symmetric]
    by (simp add: Max_insert_lessThan_Suc)
  have rej: "hl_active (holm_prefix alpha ts k) \<and> holm_passes alpha ts k \<longleftrightarrow> holm_rejects alpha ts k"
    by (auto simp: holm_prefix_def holm_rejects_def le_less)
  have all: "(\<forall>j<Suc k. holm_passes alpha ts j) \<longleftrightarrow> holm_rejects alpha ts k"
    by (simp add: holm_rejects_def less_Suc_eq_le)
  have next_prefix: "holm_prefix alpha ts (Suc k) = \<lparr>
      hl_rejected = hl_rejected (holm_prefix alpha ts k) @ (if holm_rejects alpha ts k then [?id k] else []),
      hl_active = holm_rejects alpha ts k, hl_running = holm_adjusted ts k,
      hl_adjusted = hl_adjusted (holm_prefix alpha ts k) @ [(?id k, holm_adjusted ts k)]\<rparr>"
    unfolding holm_prefix_def all by (simp add: holm_adjusted_def lessThan_Suc_atMost)
  show ?thesis
    unfolding holm_step_def Let_def prod.case holm_scaled_def [symmetric] holm_passes_def [symmetric] put run rej
    by (simp add: next_prefix)
qed

lemma holm_loop_eq:
  assumes "distinct (map ht_hypothesis_id ts)"
  shows "holm_loop alpha ts = holm_prefix alpha ts (length ts)"
proof -
  let ?f = "holm_step alpha (length ts)"
  let ?s = "\<lparr>hl_rejected = [], hl_active = True, hl_running = 0, hl_adjusted = []\<rparr>"
  have "foldl ?f ?s (take k (List.enumerate 0 ts)) = holm_prefix alpha ts k" if "k \<le> length ts" for k
    using that
  proof (induction k)
    case 0
    show ?case by (simp add: holm_prefix_def)
  next
    case (Suc k)
    then have "take (Suc k) (List.enumerate 0 ts) = take k (List.enumerate 0 ts) @ [(k, ts ! k)]"
      by (simp add: take_Suc_conv_app_nth nth_enumerate_eq)
    with Suc holm_prefix_step [OF assms, of k alpha] show ?case by simp
  qed
  from this [of "length ts"] show ?thesis by (simp add: holm_loop_def)
qed

text \<open>The guards of \<open>holm_adjust\<close>, and its result when they hold.\<close>

definition holm_guards :: "string \<Rightarrow> HypothesisTest list \<Rightarrow> string list \<Rightarrow> rat \<Rightarrow> bool" where
  "holm_guards family tests registered a \<longleftrightarrow> \<not> blank family \<and> 0 < a \<and> a < 1 \<and> tests \<noteq> []
     \<and> distinct (map ht_hypothesis_id tests) \<and> (\<forall>x\<in>set registered. \<not> blank x) \<and> distinct registered
     \<and> set registered = ht_hypothesis_id ` set tests"

definition holm_result ::
  "(HolmBody \<Rightarrow> string) \<Rightarrow> string \<Rightarrow> string list \<Rightarrow> rat \<Rightarrow> HolmDecision list \<Rightarrow> HolmResult" where
  "holm_result dg family registered a ds = (let body = \<lparr>hb_family_id = family, hb_alpha = a, hb_decisions = ds,
      hb_registered_trial_ids = registered\<rparr> in HolmBody.extend body \<lparr>hr_evidence_digest = dg body\<rparr>)"

lemma stat_texts_Inr: "assurance_texts x name vs = Inr u \<longleftrightarrow> (\<forall>v\<in>set vs. \<not> blank v)"
  by (induction vs) (auto simp: assurance_texts_def assurance_text_def)

lemma holm_adjust_Inr:
  "holm_adjust dg family tests registered alpha = Inr r \<longleftrightarrow> (\<exists>a ds. alpha = Finite a
     \<and> holm_guards family tests registered a
     \<and> rmap (holm_decision (holm_loop a (sort_key holm_key tests))) tests = Inr ds
     \<and> r = holm_result dg family registered a ds)"
proof (cases alpha)
  case (Finite a)
  then show ?thesis
    by (auto simp: holm_adjust_def holm_guards_def stat_finite_def assurance_text_def stat_texts_Inr
        holm_result_def Let_def)
qed (simp add: holm_adjust_def stat_finite_def)

text \<open>The decision the procedure makes for the test of rank \<open>k\<close>.\<close>

definition ranked_decision :: "rat \<Rightarrow> HypothesisTest list \<Rightarrow> nat \<Rightarrow> HolmDecision" where
  "ranked_decision a ts k = \<lparr>hd_hypothesis_id = ht_hypothesis_id (ts ! k), hd_raw_p_value = ht_p_value (ts ! k),
     hd_adjusted_p_value = holm_adjusted ts k, hd_rejected = holm_rejects a ts k\<rparr>"

lemma ranked_decision_iff:
  "d = ranked_decision a ts k \<longleftrightarrow> hd_hypothesis_id d = ht_hypothesis_id (ts ! k)
     \<and> hd_raw_p_value d = ht_p_value (ts ! k) \<and> hd_adjusted_p_value d = holm_adjusted ts k
     \<and> hd_rejected d = holm_rejects a ts k"
  by (cases d) (simp add: ranked_decision_def)

lemma holm_decision_ranked:
  assumes d: "distinct (map ht_hypothesis_id ts)" and k: "k < length ts"
  shows "holm_decision (holm_loop a ts) (ts ! k) = Inr (ranked_decision a ts k)"
proof -
  let ?id = "\<lambda>j. ht_hypothesis_id (ts ! j)"
  have inj: "?id i = ?id j \<longleftrightarrow> i = j" if "i < length ts" "j < length ts" for i j
    using that nth_eq_iff_index_eq [OF d, of i j] by simp
  have "distinct (map fst (map (\<lambda>j. (?id j, holm_adjusted ts j)) [0..<length ts]))"
    using inj by (auto simp: distinct_map inj_on_def)
  then have "dict_get fst (map (\<lambda>j. (?id j, holm_adjusted ts j)) [0..<length ts]) (?id k)
      = Some (?id k, holm_adjusted ts k)"
    using k by (intro dict_get_unique) auto
  moreover have "?id k \<in> set (map ?id (filter (holm_rejects a ts) [0..<length ts])) \<longleftrightarrow> holm_rejects a ts k"
    using inj k by auto
  ultimately show ?thesis
    unfolding holm_decision_def holm_loop_eq [OF d] ranked_decision_def by (simp add: holm_prefix_def)
qed

lemma holm_adjust_ranked:
  assumes g: "holm_guards family tests registered a"
  defines "ts \<equiv> sort_key holm_key tests"
  shows "\<exists>ds. holm_adjust dg family tests registered (Finite a) = Inr (holm_result dg family registered a ds)
    \<and> map hd_hypothesis_id ds = map ht_hypothesis_id tests
    \<and> set ds = ranked_decision a ts ` {..<length ts}"
proof -
  have d: "distinct (map ht_hypothesis_id ts)"
    using g unfolding ts_def holm_guards_def by (metis mset_map mset_sort mset_eq_imp_distinct_iff)
  have rank: "\<exists>k<length ts. t = ts ! k" if "t \<in> set tests" for t
    using that unfolding ts_def by (metis in_set_conv_nth set_sort)
  have "\<forall>t\<in>set tests. \<exists>e. holm_decision (holm_loop a ts) t = Inr e"
    using rank holm_decision_ranked [OF d] by metis
  then obtain ds where ds: "rmap (holm_decision (holm_loop a ts)) tests = Inr ds" using rmap_ok by metis
  have ids: "map hd_hypothesis_id ds = map ht_hypothesis_id tests"
    using ds by (induction tests arbitrary: ds) (auto simp: holm_decision_def split: option.splits)
  have sub: "set ds \<subseteq> ranked_decision a ts ` {..<length ts}"
  proof
    fix e assume "e \<in> set ds"
    then obtain t where "t \<in> set tests" "holm_decision (holm_loop a ts) t = Inr e" using rmap_set [OF ds] by blast
    with rank [of t] holm_decision_ranked [OF d, of _ a] show "e \<in> ranked_decision a ts ` {..<length ts}" by auto
  qed
  have "ranked_decision a ts k \<in> set ds" if k: "k < length ts" for k
  proof -
    have "ht_hypothesis_id (ts ! k) \<in> set (map hd_hypothesis_id ds)"
      unfolding ids using k unfolding ts_def by (metis image_eqI image_set nth_mem set_sort)
    then obtain e where e: "e \<in> set ds" "hd_hypothesis_id e = ht_hypothesis_id (ts ! k)" by auto
    with sub obtain j where j: "j < length ts" "e = ranked_decision a ts j" by auto
    with e have "ht_hypothesis_id (ts ! j) = ht_hypothesis_id (ts ! k)" by (simp add: ranked_decision_def)
    then have "j = k" using j(1) k nth_eq_iff_index_eq [OF d, of j k] by simp
    with e j show ?thesis by simp
  qed
  with sub have "set ds = ranked_decision a ts ` {..<length ts}" by blast
  with ds ids g show ?thesis unfolding holm_adjust_Inr ts_def by blast
qed

text \<open>Smaller p-values are rejected first, and Bonferroni's bound always rejects.\<close>

lemma sorted_p_values:
  "j \<le> k \<Longrightarrow> k < length tests \<Longrightarrow>
     ht_p_value (sort_key holm_key tests ! j) \<le> ht_p_value (sort_key holm_key tests ! k)"
proof -
  assume "j \<le> k" "k < length tests"
  then have "map holm_key (sort_key holm_key tests) ! j \<le> map holm_key (sort_key holm_key tests) ! k"
    by (intro sorted_nth_mono) auto
  with \<open>j \<le> k\<close> \<open>k < length tests\<close> show ?thesis by (auto simp: holm_key_def less_eq_prod_def)
qed

lemma holm_bonferroni:
  assumes "0 < a" and "k < length tests" and "ht_p_value (sort_key holm_key tests ! k) \<le> ddiv a (of_nat (length tests))"
  shows "holm_rejects a (sort_key holm_key tests) k"
  unfolding holm_rejects_def holm_passes_def
proof (intro allI impI)
  fix j assume "j \<le> k"
  have "a / of_nat (length tests) \<le> a / of_nat (length tests - j)"
    using assms(1,2) \<open>j \<le> k\<close> by (intro divide_left_mono mult_pos_pos) auto
  then have "ddiv a (of_nat (length tests)) \<le> ddiv a (of_nat (length tests - j))"
    by (simp add: ddiv_def dround_mono)
  with sorted_p_values [OF \<open>j \<le> k\<close> assms(2)] assms(3)
  show "ht_p_value (sort_key holm_key tests ! j) \<le> ddiv a (of_nat (length (sort_key holm_key tests) - j))"
    by simp
qed

text \<open>Without rounding, the adjusted p-value decides.\<close>

lemma holm_exact:
  assumes "0 < a" "a < 1" "k < length ts"
    and "\<forall>j\<le>k. representable (ht_p_value (ts ! j) * of_nat (length ts - j)) \<and> representable (a / of_nat (length ts - j))"
  shows "holm_rejects a ts k \<longleftrightarrow> holm_adjusted ts k \<le> a"
proof -
  have "holm_passes a ts j \<longleftrightarrow> holm_scaled ts j \<le> a" if "j \<le> k" for j
  proof -
    have "0 < (of_nat (length ts - j) :: rat)" using that assms(3) by simp
    then show ?thesis
      using assms(2,4) that
      by (auto simp: holm_passes_def holm_scaled_def dmul_def ddiv_def dround_representable_id
          min_le_iff_disj pos_le_divide_eq)
  qed
  then show ?thesis using assms(1) by (auto simp: holm_rejects_def holm_adjusted_def)
qed

section \<open>The bootstrap interval\<close>

lemma quantile_index_range: "1 \<le> n \<Longrightarrow> 0 \<le> quantile_index p n \<and> quantile_index p n < n"
  by (auto simp: quantile_index_def)

lemma quantile_index_mono:
  assumes "p \<le> q" and "1 \<le> n"
  shows "quantile_index p n \<le> quantile_index q n"
proof -
  have "dmul p (of_int (n - 1)) \<le> dmul q (of_int (n - 1))"
    using assms unfolding dmul_def by (intro dround_mono mult_right_mono) auto
  then show ?thesis
    unfolding quantile_index_def by (intro max.mono min.mono round_half_even_mono order_refl)
qed

lemma tail_below_half:
  assumes "0 < rc_confidence_level c"
  shows "tail_of c \<le> 1 / 2" and "1 / 2 \<le> dsub 1 (tail_of c)"
proof -
  have "dround 1 = 1" "dround (1 / 2) = 1 / 2" by code_simp+
  then have "dsub 1 (rc_confidence_level c) \<le> 1"
    using assms dround_mono [of "1 - rc_confidence_level c" 1] by (simp add: dsub_def)
  with \<open>dround (1 / 2) = 1 / 2\<close> show t: "tail_of c \<le> 1 / 2"
    unfolding tail_of_def ddiv_def by (metis dround_mono divide_right_mono zero_le_numeral)
  then have "dround (1 / 2) \<le> dround (1 - tail_of c)" by (intro dround_mono) auto
  with \<open>dround (1 / 2) = 1 / 2\<close> show "1 / 2 \<le> dsub 1 (tail_of c)" by (simp add: dsub_def)
qed

lemma length_block_from [simp]: "length (block_from xs block start) = block"
  by (simp add: block_from_def)

lemma set_block_from: "xs \<noteq> [] \<Longrightarrow> set (block_from xs block start) \<subseteq> set xs"
  by (auto simp: block_from_def)

lemma block_count_covers: "0 < block \<Longrightarrow> n \<le> block_count n block * block"
proof -
  assume b: "0 < block"
  have "n + block - 1 = (n + block - 1) div block * block + (n + block - 1) mod block" by simp
  moreover have "(n + block - 1) mod block < block" using b by simp
  ultimately show ?thesis using b unfolding block_count_def by linarith
qed

lemma resample_draws:
  assumes "xs \<noteq> []" and "0 < block"
  shows "length (resample starts xs block (block_count (length xs) block) r) = length xs"
    and "set (resample starts xs block k r) \<subseteq> set xs"
proof -
  have "length (concat (map (\<lambda>b. block_from xs block (f b)) [0..<k])) = k * block" for f k
    by (induction k) auto
  then show "length (resample starts xs block (block_count (length xs) block) r) = length xs"
    using block_count_covers [OF assms(2), of "length xs"] by (simp add: resample_def)
  show "set (resample starts xs block k r) \<subseteq> set xs"
    using set_block_from [OF assms(1)] by (fastforce simp: resample_def dest: in_set_takeD)
qed

text \<open>The contribution that remains is the rounded sum of the amounts kept.\<close>

lemma contribution_fold:
  "rfold (contribution_step remove) (seen, x) cs = Inr (seen', y) \<Longrightarrow> \<exists>amounts. map snd cs = map Finite amounts
     \<and> y = foldl dadd x (map snd (filter (\<lambda>p. fst p \<notin> set remove) (zip (map fst cs) amounts)))
     \<and> seen' = seen @ map fst cs \<and> (distinct seen \<longrightarrow> distinct seen')"
proof (induction cs arbitrary: seen x)
  case (Cons c cs)
  obtain i v where c: "c = (i, v)" by (cases c)
  from Cons.prems c obtain st where st: "contribution_step remove (seen, x) (i, v) = Inr st"
      and fold: "rfold (contribution_step remove) st cs = Inr (seen', y)" by auto
  then obtain a where a: "v = Finite a" "i \<notin> set seen" and
      rest: "rfold (contribution_step remove) (seen @ [i], if i \<notin> set remove then dadd x a else x) cs = Inr (seen', y)"
    by (cases v) (auto simp: contribution_step_def split: if_splits)
  from Cons.IH [OF rest] obtain amounts where "map snd cs = map Finite amounts"
      "y = foldl dadd (if i \<notin> set remove then dadd x a else x)
         (map snd (filter (\<lambda>p. fst p \<notin> set remove) (zip (map fst cs) amounts)))"
      "seen' = (seen @ [i]) @ map fst cs" "distinct (seen @ [i]) \<longrightarrow> distinct seen'"
    by blast
  with a c show ?case by (intro exI [of _ "a # amounts"]) auto
qed simp

section \<open>Samples\<close>

definition sample_tests :: "HypothesisTest list" where
  "sample_tests = [\<lparr>ht_hypothesis_id = ''h1'', ht_p_value = 3 / 100\<rparr>,
     \<lparr>ht_hypothesis_id = ''h2'', ht_p_value = 1 / 100\<rparr>]"

text \<open>Three tests whose smallest p-value is a third of five percent, rounded to 28 digits.\<close>

definition rounding_tests :: "HypothesisTest list" where
  "rounding_tests = [\<lparr>ht_hypothesis_id = ''h1'', ht_p_value = 1666666666666666666666666667 / 10 ^ 29\<rparr>,
     \<lparr>ht_hypothesis_id = ''h2'', ht_p_value = 1 / 2\<rparr>, \<lparr>ht_hypothesis_id = ''h3'', ht_p_value = 1 / 2\<rparr>]"

definition sample_observations :: "decimal StatisticalSample" where
  "sample_observations = \<lparr>ss_sample_id = ''s'', ss_research_run_id = ''r'', ss_dataset_id = ''d'',
     ss_dataset_version = ''v'', ss_partition_id = ''p'', ss_observations = [Finite 1, Finite 2, Finite 4],
     ss_observation_ids = [''a'', ''b'', ''c''], ss_overlapping = False,
     ss_adequacy = \<lparr>sa_established = True, sa_effective_sample_size = 3, sa_rule_identity = ''rule'',
       sa_reasons = []\<rparr>\<rparr>"

definition sample_config :: "decimal ResamplingConfig" where
  "sample_config = \<lparr>rc_method = PERCENTILE_MOVING_BLOCK, rc_seed = 7, rc_block_length = 2, rc_resamples = 3,
     rc_confidence_level = Finite (95 / 100)\<rparr>"

section \<open>Properties\<close>

text \<open>C17: For every valid family Holm's adjustment returns, with one decision per test in the given
  order, and it is the textbook step-down procedure on the tests in ascending order of p-value:
  rank k is rejected exactly when every rank up to k is below its threshold, and its adjusted
  p-value is the largest scaled p-value up to k, at most 1.  Every p-value within Bonferroni's bound
  is rejected, and where no product or quotient is rounded a test is rejected exactly when its
  adjusted p-value is at most alpha.\<close>

theorem holm_step_down:
  assumes "holm_guards family tests registered a"
  shows "\<exists>r. holm_adjust dg family tests registered (Finite a) = Inr r
    \<and> map hd_hypothesis_id (hb_decisions r) = map ht_hypothesis_id tests
    \<and> (let ts = sort_key holm_key tests in
       set (hb_decisions r) = {d. \<exists>k<length ts. hd_hypothesis_id d = ht_hypothesis_id (ts ! k)
            \<and> hd_raw_p_value d = ht_p_value (ts ! k)
            \<and> hd_adjusted_p_value d = Max (insert 0 {min 1 (dmul (ht_p_value (ts ! j)) (of_nat (length ts - j))) |j. j \<le> k})
            \<and> hd_rejected d = (\<forall>j\<le>k. ht_p_value (ts ! j) \<le> ddiv a (of_nat (length ts - j)))}
       \<and> (\<forall>d\<in>set (hb_decisions r). hd_raw_p_value d \<le> ddiv a (of_nat (length ts)) \<longrightarrow> hd_rejected d)
       \<and> ((\<forall>j<length ts. representable (ht_p_value (ts ! j) * of_nat (length ts - j))
              \<and> representable (a / of_nat (length ts - j))) \<longrightarrow>
           (\<forall>d\<in>set (hb_decisions r). hd_rejected d \<longleftrightarrow> hd_adjusted_p_value d \<le> a)))"
proof -
  let ?ts = "sort_key holm_key tests"
  obtain ds where ds: "holm_adjust dg family tests registered (Finite a) = Inr (holm_result dg family registered a ds)"
      "map hd_hypothesis_id ds = map ht_hypothesis_id tests" "set ds = ranked_decision a ?ts ` {..<length ?ts}"
    using holm_adjust_ranked [OF assms] by blast
  have a: "0 < a" "a < 1" using assms by (auto simp: holm_guards_def)
  have "{min 1 (dmul (ht_p_value (?ts ! j)) (of_nat (length ?ts - j))) |j. j \<le> k} = holm_scaled ?ts ` {..k}" for k
    by (auto simp: holm_scaled_def)
  then have set_eq: "set ds = {d. \<exists>k<length ?ts. hd_hypothesis_id d = ht_hypothesis_id (?ts ! k)
            \<and> hd_raw_p_value d = ht_p_value (?ts ! k)
            \<and> hd_adjusted_p_value d = Max (insert 0 {min 1 (dmul (ht_p_value (?ts ! j)) (of_nat (length ?ts - j))) |j. j \<le> k})
            \<and> hd_rejected d = (\<forall>j\<le>k. ht_p_value (?ts ! j) \<le> ddiv a (of_nat (length ?ts - j)))}"
    unfolding ds(3) image_def ranked_decision_iff holm_adjusted_def holm_rejects_def holm_passes_def
    by (simp only: lessThan_iff Bex_def)
  have bonf: "hd_rejected d" if "d \<in> set ds" "hd_raw_p_value d \<le> ddiv a (of_nat (length ?ts))" for d
    using that holm_bonferroni [OF a(1), of _ tests] unfolding ds(3) by (auto simp: ranked_decision_def)
  have exact: "hd_rejected d \<longleftrightarrow> hd_adjusted_p_value d \<le> a" if "d \<in> set ds"
      "\<forall>j<length ?ts. representable (ht_p_value (?ts ! j) * of_nat (length ?ts - j))
              \<and> representable (a / of_nat (length ?ts - j))" for d
    using that holm_exact [OF a, of _ ?ts] unfolding ds(3) by (auto simp: ranked_decision_def)
  let ?r = "holm_result dg family registered a ds"
  have dec: "hb_decisions ?r = ds" by (simp add: holm_result_def Let_def HolmBody.defs)
  show ?thesis
    unfolding Let_def
  proof (intro exI [of _ ?r] conjI)
    show "holm_adjust dg family tests registered (Finite a) = Inr ?r" by (rule ds(1))
    show "map hd_hypothesis_id (hb_decisions ?r) = map ht_hypothesis_id tests" unfolding dec by (rule ds(2))
  qed (unfold dec, rule set_eq, use bonf in blast, use exact in blast)
qed

theorem holm_step_down_witness:
  "\<exists>r. holm_adjust (\<lambda>b. ''x'') ''f'' sample_tests [''h1'', ''h2''] (Finite (1 / 20)) = Inr r
     \<and> map hd_hypothesis_id (hb_decisions r) = [''h1'', ''h2'']"
proof -
  have "holm_guards ''f'' sample_tests [''h1'', ''h2''] (1 / 20)" by code_simp
  from holm_step_down [OF this, of "\<lambda>b. ''x''"] show ?thesis by (auto simp: sample_tests_def)
qed

text \<open>C20: Rounding can make the two outputs of Holm's adjustment contradict each other: a family of three
  tests at level 0.05 in which a hypothesis is reported as rejected although its adjusted p-value
  exceeds the level.\<close>

theorem holm_rounding_contradicts:
  "\<exists>r d. holm_adjust dg ''f'' rounding_tests [''h1'', ''h2'', ''h3''] (Finite (1 / 20)) = Inr r
     \<and> d \<in> set (hb_decisions r) \<and> hd_rejected d \<and> 1 / 20 < hd_adjusted_p_value d"
proof -
  have g: "holm_guards ''f'' rounding_tests [''h1'', ''h2'', ''h3''] (1 / 20)" by code_simp
  have o: "sort_key holm_key rounding_tests = rounding_tests" by code_simp
  obtain ds where ds: "holm_adjust dg ''f'' rounding_tests [''h1'', ''h2'', ''h3''] (Finite (1 / 20)) =
      Inr (holm_result dg ''f'' [''h1'', ''h2'', ''h3''] (1 / 20) ds)"
      "set ds = ranked_decision (1 / 20) rounding_tests ` {..<length rounding_tests}"
    using holm_adjust_ranked [OF g, of dg] unfolding o by blast
  have "hd_rejected (ranked_decision (1 / 20) rounding_tests 0)" by code_simp
  moreover have "1 / 20 < hd_adjusted_p_value (ranked_decision (1 / 20) rounding_tests 0)" by code_simp
  ultimately show ?thesis
    using ds by (auto simp: holm_result_def Let_def HolmBody.defs rounding_tests_def)
qed

text \<open>C19: The block bootstrap passes exactly when no reason stands against it and otherwise reports its
  reasons and no number.  When it passes, the interval is ordered and its ends are two of the
  sorted resample means, one per resample, each the mean of as many observations as the sample
  has, all taken from the sample.\<close>

theorem bootstrap_interval:
  assumes s: "StatisticalSample_init s = Inr sample" and c: "ResamplingConfig_init c = Inr config"
  shows "let b = moving_block_bootstrap_mean dg rng sample config; xs = ss_observations sample in
    (bs_outcome b = TEST_PASS \<longleftrightarrow> bs_reasons b = []) \<and>
    (if bs_reasons b \<noteq> [] then bs_outcome b = INSUFFICIENT_EVIDENCE \<and> bs_mean b = None \<and> bs_lower b = None \<and> bs_upper b = None
     else \<exists>means lo up. bs_lower b = Some lo \<and> bs_upper b = Some up \<and> lo \<le> up
       \<and> sorted means \<and> int (length means) = rc_resamples config \<and> lo \<in> set means \<and> up \<in> set means
       \<and> (\<forall>x\<in>set means. \<exists>draw. length draw = length xs \<and> set draw \<subseteq> set xs
            \<and> x = ddiv (dsum draw) (of_nat (length xs))))"
proof (cases "bootstrap_reasons sample config = []")
  case False
  then show ?thesis by (simp add: moving_block_bootstrap_mean_def Let_def)
next
  case True
  let ?xs = "ss_observations sample"
  define means where "means = sort (resample_means (rng (rc_seed config) (length ?xs)) ?xs
      (nat (rc_block_length config)) (nat (rc_resamples config)))"
  define lo where "lo = quantile_index (tail_of config) (int (length means))"
  define up where "up = quantile_index (dsub 1 (tail_of config)) (int (length means))"
  have cfg: "1 \<le> rc_resamples config" "1 \<le> rc_block_length config" "0 < rc_confidence_level config"
    using c by (auto simp: ResamplingConfig_init_def)
  have xs: "?xs \<noteq> []" using s by (auto simp: StatisticalSample_init_def dest: rmap_length)
  have len: "int (length means) = rc_resamples config" using cfg by (simp add: means_def resample_means_def)
  have "tail_of config \<le> dsub 1 (tail_of config)" using tail_below_half [OF cfg(3)] by linarith
  then have "lo \<le> up" unfolding lo_def up_def using len cfg by (intro quantile_index_mono) auto
  moreover have rng: "0 \<le> lo \<and> lo < int (length means)" "0 \<le> up \<and> up < int (length means)"
    unfolding lo_def up_def using len cfg by (auto intro!: quantile_index_range)
  moreover have "sorted means" by (simp add: means_def)
  ultimately have le: "means ! nat lo \<le> means ! nat up" by (intro sorted_nth_mono) auto
  have in_means: "means ! nat lo \<in> set means" "means ! nat up \<in> set means" using rng by (auto intro!: nth_mem)
  have "\<exists>draw. length draw = length ?xs \<and> set draw \<subseteq> set ?xs \<and> x = ddiv (dsum draw) (of_nat (length ?xs))"
    if x: "x \<in> set means" for x
  proof -
    from x obtain r where "x = (let draw = resample (rng (rc_seed config) (length ?xs)) ?xs (nat (rc_block_length config))
        (block_count (length ?xs) (nat (rc_block_length config))) r in ddiv (dsum draw) (of_nat (length draw)))"
      by (auto simp: means_def resample_means_def)
    with resample_draws [OF xs, of "nat (rc_block_length config)"] cfg show ?thesis
      by (intro exI [of _ "resample (rng (rc_seed config) (length ?xs)) ?xs (nat (rc_block_length config))
        (block_count (length ?xs) (nat (rc_block_length config))) r"]) (simp add: Let_def)
  qed
  moreover have "sorted means" by (simp add: means_def)
  moreover have "bs_outcome (moving_block_bootstrap_mean dg rng sample config) = TEST_PASS"
      "bs_reasons (moving_block_bootstrap_mean dg rng sample config) = []"
      "bs_lower (moving_block_bootstrap_mean dg rng sample config) = Some (means ! nat lo)"
      "bs_upper (moving_block_bootstrap_mean dg rng sample config) = Some (means ! nat up)"
    by (simp_all add: moving_block_bootstrap_mean_def Let_def True means_def lo_def up_def)
  ultimately show ?thesis
    unfolding Let_def using le in_means len by (simp only: if_False simp_thms) blast
qed

theorem bootstrap_interval_witness:
  "\<exists>lo up. bs_lower (moving_block_bootstrap_mean (\<lambda>b. ''x'') (\<lambda>seed n k. k mod n)
        (projr (StatisticalSample_init sample_observations)) (projr (ResamplingConfig_init sample_config))) = Some lo
     \<and> bs_upper (moving_block_bootstrap_mean (\<lambda>b. ''x'') (\<lambda>seed n k. k mod n)
        (projr (StatisticalSample_init sample_observations)) (projr (ResamplingConfig_init sample_config))) = Some up
     \<and> lo \<le> up"
proof -
  have 1: "StatisticalSample_init sample_observations = Inr (projr (StatisticalSample_init sample_observations))" by code_simp
  have 2: "ResamplingConfig_init sample_config = Inr (projr (ResamplingConfig_init sample_config))" by code_simp
  have "bootstrap_reasons (projr (StatisticalSample_init sample_observations)) (projr (ResamplingConfig_init sample_config)) = []"
    by code_simp
  then have "bs_reasons (moving_block_bootstrap_mean (\<lambda>b. ''x'') (\<lambda>seed n k. k mod n)
        (projr (StatisticalSample_init sample_observations)) (projr (ResamplingConfig_init sample_config))) = []"
    by (simp add: moving_block_bootstrap_mean_def Let_def)
  with bootstrap_interval [OF 1 2, of "\<lambda>b. ''x''" "\<lambda>seed n k. k mod n"] show ?thesis
    by (auto simp: Let_def)
qed

text \<open>C18: A robustness report is issued only for the thirteen tests, each exactly once, and fails closed:
  it is invalid exactly when a case is; otherwise failed exactly when a case is; otherwise of
  insufficient evidence exactly when a case is; and it passes exactly when every case passes, and
  then no case has a limitation.  It never claims an economic edge.\<close>

theorem robustness_fails_closed:
  assumes rep: "assess_robustness dg context cases = Inr r"
    and cases: "\<And>c. c \<in> set cases \<Longrightarrow> RobustnessCase_init c = Inr c"
  shows "distinct (map rb_test cases) \<and> rb_test ` set cases = set all_robustness_tests
    \<and> (ro_outcome r = TEST_PASS \<longleftrightarrow> (\<forall>c\<in>set cases. rb_outcome c = TEST_PASS \<and> rb_limitations c = []))
    \<and> (ro_outcome r = OUTCOME_INVALID \<longleftrightarrow> (\<exists>c\<in>set cases. rb_outcome c = OUTCOME_INVALID))
    \<and> (ro_outcome r = TEST_FAIL \<longleftrightarrow> (\<forall>c\<in>set cases. rb_outcome c \<noteq> OUTCOME_INVALID)
         \<and> (\<exists>c\<in>set cases. rb_outcome c = TEST_FAIL))
    \<and> (ro_outcome r = INSUFFICIENT_EVIDENCE \<longleftrightarrow> (\<forall>c\<in>set cases. rb_outcome c \<notin> {OUTCOME_INVALID, TEST_FAIL})
         \<and> (\<exists>c\<in>set cases. rb_outcome c = INSUFFICIENT_EVIDENCE))
    \<and> ro_economic_edge r = ''NOT_ESTABLISHED'' \<and> ro_cases r = cases"
proof -
  have len: "length cases = length all_robustness_tests" and set_eq: "rb_test ` set cases = set all_robustness_tests"
    and out: "ro_outcome r = aggregate_outcome (rb_outcome ` set cases)"
    and rest: "ro_economic_edge r = ''NOT_ESTABLISHED''" "ro_cases r = cases"
    using rep by (auto simp: assess_robustness_def Let_def RobustnessBody.defs)
  have "card (set all_robustness_tests) = length all_robustness_tests" by (simp add: all_robustness_tests_def)
  then have "card (set (map rb_test cases)) = length (map rb_test cases)" using len set_eq by simp
  then have d: "distinct (map rb_test cases)" by (rule card_distinct)
  have lim: "rb_limitations c = []" if "c \<in> set cases" "rb_outcome c = TEST_PASS" for c
    using cases [OF that(1)] that(2) by (auto simp: RobustnessCase_init_def)
  have pass: "aggregate_outcome A = TEST_PASS \<longleftrightarrow> A \<subseteq> {TEST_PASS}" for A
    by (auto simp: aggregate_outcome_def) (metis AssuranceOutcome.exhaust)
  have "ro_outcome r = TEST_PASS \<longleftrightarrow> (\<forall>c\<in>set cases. rb_outcome c = TEST_PASS \<and> rb_limitations c = [])"
    unfolding out pass using lim by auto
  moreover have "ro_outcome r = OUTCOME_INVALID \<longleftrightarrow> (\<exists>c\<in>set cases. rb_outcome c = OUTCOME_INVALID)"
      "ro_outcome r = TEST_FAIL \<longleftrightarrow> (\<forall>c\<in>set cases. rb_outcome c \<noteq> OUTCOME_INVALID)
         \<and> (\<exists>c\<in>set cases. rb_outcome c = TEST_FAIL)"
      "ro_outcome r = INSUFFICIENT_EVIDENCE \<longleftrightarrow> (\<forall>c\<in>set cases. rb_outcome c \<notin> {OUTCOME_INVALID, TEST_FAIL})
         \<and> (\<exists>c\<in>set cases. rb_outcome c = INSUFFICIENT_EVIDENCE)"
    unfolding out aggregate_outcome_def by (simp_all add: image_iff) metis+
  ultimately show ?thesis using d set_eq rest by blast
qed

definition sample_context :: AssuranceContext where
  "sample_context = \<lparr>ac_strategy = \<lparr>sb_strategy_id = ''MOM-001'', sb_research_run_id = ''r'',
       sb_decision_time = Timestamp 1, sb_output_digest = ''o''\<rparr>, ac_plan_digest = ''p'',
     ac_experiment_id = ''e'', ac_dataset_id = ''d'', ac_dataset_version = ''v'', ac_qualification_id = ''q'',
     ac_admission_event_id = ''a'', ac_trial_ids = [''r''], ac_performance = rc_performance,
     ac_context_digest = ''c''\<rparr>"

definition sample_cases :: "RobustnessCase list" where
  "sample_cases = map (\<lambda>t. \<lparr>rb_test = t, rb_outcome = TEST_PASS, rb_finding = ''f'', rb_evidence_ids = [''e''],
     rb_limitations = []\<rparr>) all_robustness_tests"

theorem robustness_fails_closed_witness:
  "ro_outcome (projr (assess_robustness (\<lambda>b. ''x'') sample_context sample_cases)) = TEST_PASS"
proof -
  have r: "assess_robustness (\<lambda>b. ''x'') sample_context sample_cases =
      Inr (projr (assess_robustness (\<lambda>b. ''x'') sample_context sample_cases))"
    by (simp add: assess_robustness_def sample_cases_def all_robustness_tests_def Let_def insert_commute)
  have c: "RobustnessCase_init c = Inr c" if "c \<in> set sample_cases" for c
    using that by (auto simp: sample_cases_def RobustnessCase_init_def robustness_texts_def assurance_texts_def
        assurance_text_def blank_def strip_def is_space_def raise_if_def)
  show ?thesis
    using robustness_fails_closed [OF r c] by (auto simp: sample_cases_def)
qed

end
