(* ===== verification/Portfolio.thy ===== *)
theory Portfolio
  imports Assurance "HOL-Library.Product_Lexorder"
begin

text \<open>
  Portfolio construction, first part (\<^verbatim>\<open>research/portfolio_construction.py\<close>): admission of
  strategies, allocation of equal budgets and of shared adjustments in whole cents, and the stress
  results.

  The digests of canonical JSON bodies are the fields of the parameter \<open>D\<close>, one per digest domain.
  \<open>Decimal.quantize\<close> to cents raises \<open>InvalidOperation\<close> when the result needs more than 28 digits.

  Shown here: budgets add up to the capital and differ by at most one cent; shared adjustments are
  conserved to the cent; an admission is always hypothetical; and the test of positive
  semidefiniteness of a correlation matrix depends on the order of the strategies.
\<close>

section \<open>Guards\<close>

definition portfolio_text :: "string \<Rightarrow> string \<Rightarrow> unit result" where
  "portfolio_text v name = raise_if (blank v) PortfolioConstructionError (name @ '' must be nonempty text'') (Inr ())"

definition portfolio_texts :: "string list \<Rightarrow> string \<Rightarrow> bool \<Rightarrow> unit result" where
  "portfolio_texts vs name nonempty =
     raise_if (\<exists>v\<in>set vs. blank v) PortfolioConstructionError (name @ '' must be a text tuple'')
     (raise_if (nonempty \<and> vs = []) PortfolioConstructionError (name @ '' cannot be empty'')
     (raise_if (\<not> distinct vs) PortfolioConstructionError (name @ '' contains duplicates'') (Inr ())))"

definition portfolio_finite :: "decimal \<Rightarrow> string \<Rightarrow> rat result" where
  "portfolio_finite v name = require_finite PortfolioConstructionError (name @ '' must be finite'') v"

definition portfolio_positive :: "decimal \<Rightarrow> string \<Rightarrow> rat result" where
  "portfolio_positive v name = rbind (portfolio_finite v name) (\<lambda>q.
     raise_if (q \<le> 0) PortfolioConstructionError (name @ '' must be positive'') (Inr q))"

text \<open>\<open>value.quantize(Decimal("0.01"))\<close> with the rounding given.\<close>

definition quantize_cent :: "(rat \<Rightarrow> int) \<Rightarrow> rat \<Rightarrow> rat result" where
  "quantize_cent rnd v = (let c = rnd (v * 100) in
     raise_if (10 ^ 28 \<le> \<bar>c\<bar>) InvalidOperation [] (Inr (of_int c / 100)))"

text \<open>\<open>int(v)\<close> truncates towards zero.\<close>

definition int_of_decimal :: "rat \<Rightarrow> int" where
  "int_of_decimal v = (if 0 \<le> v then \<lfloor>v\<rfloor> else \<lceil>v\<rceil>)"

definition exact_cents :: "decimal \<Rightarrow> string \<Rightarrow> int result" where
  "exact_cents v name = rbind (portfolio_finite v name) (\<lambda>q.
     raise_if (q < 0) PortfolioConstructionError (name @ '' must be a nonnegative exact USD-cent amount'')
     (rbind (quantize_cent round_half_even q) (\<lambda>c.
      raise_if (q \<noteq> c) PortfolioConstructionError (name @ '' must be a nonnegative exact USD-cent amount'')
        (Inr (int_of_decimal (dmul q 100))))))"

definition ceil_cents :: "rat \<Rightarrow> rat result" where
  "ceil_cents v = raise_if (v < 0) PortfolioConstructionError ''financial liability cannot be negative''
     (quantize_cent ceiling v)"

section \<open>Vocabulary\<close>

datatype AdmissionClass = HYPOTHETICAL_PARTICIPATION | EVIDENCE_SUPPORTED_RESEARCH_ELIGIBILITY
datatype CommitmentSide = COMMIT_BUY | COMMIT_SELL
datatype CommitmentState = RESERVED | COMMIT_PARTIALLY_FILLED | RELEASED
datatype StressKind = EXECUTION_COST | ALLOCATION | STRATEGY_REMOVAL | CONCENTRATION | OVERLAP | CORRELATION
  | COINCIDENT_DRAWDOWN | TURNOVER_CASH

definition PORTFOLIO_AUTHORITY :: string where
  "PORTFOLIO_AUTHORITY = ''RESEARCH_ONLY_NO_BROKER_CAPITAL_OR_TRADING_AUTHORITY''"

definition USD :: Currency where
  "USD = Currency ''USD''"

record PortfolioAdmission =
  pa_source_context :: AssuranceContext
  pa_source_robustness :: "RobustnessReport option"
  pa_admission_class :: AdmissionClass
  pa_strategy :: StrategyBinding
  pa_context_digest :: string
  pa_plan_digest :: string
  pa_admission_event_id :: string
  pa_dataset_id :: string
  pa_dataset_version :: string
  pa_qualification_id :: string
  pa_robustness_evidence_digest :: "string option"
  pa_limitations :: "string list"
  pa_permitted_conclusions :: "string list"
  pa_evidence_digest :: string
  pa_authority :: string

abbreviation admitted_strategy :: "PortfolioAdmission \<Rightarrow> string" where
  "admitted_strategy a \<equiv> sb_strategy_id (pa_strategy a)"

abbreviation admitted_run :: "PortfolioAdmission \<Rightarrow> string" where
  "admitted_run a \<equiv> sb_research_run_id (pa_strategy a)"

record StrategyBudget =
  bg_strategy_id :: string
  bg_research_run_id :: string
  bg_cents :: int

definition cents_amount :: "int \<Rightarrow> rat" where
  "cents_amount c = ddiv (of_int c) 100"

definition budget_amount :: "StrategyBudget \<Rightarrow> rat" where
  "budget_amount b = cents_amount (bg_cents b)"

record PortfolioAllocation =
  al_currency :: Currency
  al_total_cents :: int
  al_budgets :: "StrategyBudget list"
  al_unallocated_cents :: int
  al_evidence_digest :: string
  al_authority :: string
  al_hypothetical :: bool

definition allocation_budget :: "PortfolioAllocation \<Rightarrow> string \<Rightarrow> StrategyBudget option" where
  "allocation_budget a s = find_first (\<lambda>b. bg_strategy_id b = s) (al_budgets a)"

record StressResult =
  sr_scenario_id :: string
  sr_kind :: StressKind
  sr_baseline_evidence_digest :: string
  sr_metrics :: "(string \<times> rat) list"
  sr_input_evidence_ids :: "string list"
  sr_limitations :: "string list"
  sr_evidence_digest :: string
  sr_authority :: string
  sr_source_cost_model :: "ExecutionCostModel option"
  sr_source_strategy_ids :: "string list"
  sr_source_correlation :: "rat list list"

text \<open>The digests of \<open>_digest(domain, body)\<close>: of an admission or an allocation without its digest field, of a
  stress result without its digest and source fields, of the OMS and ledger, and of a cost model.  The
  robustness digest is that of \<open>assess_robustness\<close>.\<close>

record PortfolioDigests =
  pd_robustness :: "RobustnessBody \<Rightarrow> string"
  pd_admission :: "PortfolioAdmission \<Rightarrow> string"
  pd_allocation :: "PortfolioAllocation \<Rightarrow> string"
  pd_stress :: "StressResult \<Rightarrow> string"
  pd_oms :: "SimulatedOms \<Rightarrow> string"
  pd_ledger :: "SimulationLedger \<Rightarrow> string"
  pd_cost_model :: "ExecutionCostModel \<Rightarrow> string"

section \<open>Admission\<close>

definition hypothetical_permissions :: "string list" where
  "hypothetical_permissions = [''HYPOTHETICAL_ENGINEERING_PARTICIPATION_ONLY'', ''ECONOMIC_EDGE_NOT_ESTABLISHED'',
     ''NO_BROKER_CAPITAL_OR_TRADING_AUTHORITY'']"

definition from_assurance ::
  "'a PortfolioDigests_scheme \<Rightarrow> AssuranceContext \<Rightarrow> AdmissionClass \<Rightarrow> RobustnessReport option \<Rightarrow> string list \<Rightarrow>
   PortfolioAdmission result" where
  "from_assurance D context cls robustness limitations =
     rbind (portfolio_texts limitations ''limitations'' False) (\<lambda>_.
     raise_if (cls = EVIDENCE_SUPPORTED_RESEARCH_ELIGIBILITY) InsufficientEvidenceError
       ''INSUFFICIENT_EVIDENCE: attributable ROB outcomes require authentic source evidence; report identity or TEST_PASS alone is insufficient''
     (rbind (case robustness of None \<Rightarrow> Inr None
         | Some r \<Rightarrow> rbind (assess_robustness (pd_robustness D) context (ro_cases r)) (\<lambda>rebuilt.
             raise_if (rebuilt \<noteq> r) PortfolioConstructionError ''hypothetical robustness binding is invalid''
               (Inr (Some (ro_evidence_digest r))))) (\<lambda>robustness_digest.
      let a = \<lparr>pa_source_context = context, pa_source_robustness = robustness, pa_admission_class = cls,
          pa_strategy = ac_strategy context, pa_context_digest = ac_context_digest context,
          pa_plan_digest = ac_plan_digest context, pa_admission_event_id = ac_admission_event_id context,
          pa_dataset_id = ac_dataset_id context, pa_dataset_version = ac_dataset_version context,
          pa_qualification_id = ac_qualification_id context, pa_robustness_evidence_digest = robustness_digest,
          pa_limitations = sorted_set (limitations @
            [''HYPOTHETICAL_PARTICIPATION'', ''RESEARCH_ELIGIBILITY_NOT_ESTABLISHED'']),
          pa_permitted_conclusions = hypothetical_permissions, pa_evidence_digest = [],
          pa_authority = PORTFOLIO_AUTHORITY\<rparr> in
      Inr (a\<lparr>pa_evidence_digest := pd_admission D a\<rparr>))))"

definition admit_assurance_context ::
  "'a PortfolioDigests_scheme \<Rightarrow> AssuranceContext \<Rightarrow> AdmissionClass \<Rightarrow> RobustnessReport option \<Rightarrow> string list \<Rightarrow>
   PortfolioAdmission result" where
  "admit_assurance_context D context cls robustness limitations = from_assurance D context cls robustness limitations"

definition check_admission :: "'a PortfolioDigests_scheme \<Rightarrow> PortfolioAdmission \<Rightarrow> unit result" where
  "check_admission D a =
     raise_if (pa_admission_class a \<noteq> HYPOTHETICAL_PARTICIPATION) InsufficientEvidenceError
       ''INSUFFICIENT_EVIDENCE: research eligibility not established''
     (rbind (from_assurance D (pa_source_context a) (pa_admission_class a) (pa_source_robustness a) (pa_limitations a))
       (\<lambda>rebuilt. raise_if (rebuilt \<noteq> a) PortfolioConstructionError ''admission content or authority substitution'' (Inr ())))"

definition unique_admissions :: "'a PortfolioDigests_scheme \<Rightarrow> PortfolioAdmission list \<Rightarrow> unit result" where
  "unique_admissions D admissions =
     rbind (rmap (check_admission D) admissions) (\<lambda>_.
     raise_if (\<not> distinct (map admitted_strategy admissions) \<or> \<not> distinct (map admitted_run admissions))
       PortfolioConstructionError ''strategy and research-run admissions must be unique'' (Inr ()))"

section \<open>Budgets\<close>

definition eligible_admission :: "bool \<Rightarrow> PortfolioAdmission \<Rightarrow> bool" where
  "eligible_admission hypothetical a \<longleftrightarrow> pa_admission_class a = EVIDENCE_SUPPORTED_RESEARCH_ELIGIBILITY
     \<or> (hypothetical \<and> pa_admission_class a = HYPOTHETICAL_PARTICIPATION)"

definition equal_budgets :: "int \<Rightarrow> PortfolioAdmission list \<Rightarrow> StrategyBudget list" where
  "equal_budgets cents eligible =
     (if eligible = [] then []
      else
        let n = int (length eligible); quotient = cents div n; remainder = cents mod n; cutoff = n - remainder in
        map (\<lambda>(i, a). \<lparr>bg_strategy_id = admitted_strategy a, bg_research_run_id = admitted_run a,
            bg_cents = quotient + (if cutoff \<le> int i then 1 else 0)\<rparr>) (enumerate 0 eligible))"

definition allocate_equal_budgets ::
  "'a PortfolioDigests_scheme \<Rightarrow> PortfolioAdmission list \<Rightarrow> decimal \<Rightarrow> Currency \<Rightarrow> bool \<Rightarrow> PortfolioAllocation result" where
  "allocate_equal_budgets D admissions total_capital currency hypothetical =
     rbind (unique_admissions D admissions) (\<lambda>_.
     raise_if (currency \<noteq> USD) PortfolioConstructionError ''initial S4-13 scope is USD only''
     (rbind (exact_cents total_capital ''total_capital'') (\<lambda>cents.
      let eligible = sort_key admitted_strategy (filter (eligible_admission hypothetical) admissions);
          budgets = equal_budgets cents eligible;
          allocated = sum_list (map bg_cents budgets);
          a = \<lparr>al_currency = currency, al_total_cents = cents, al_budgets = budgets,
            al_unallocated_cents = cents - allocated, al_evidence_digest = [], al_authority = PORTFOLIO_AUTHORITY,
            al_hypothetical = hypothetical\<rparr> in
      Inr (a\<lparr>al_evidence_digest := pd_allocation D a\<rparr>))))"

section \<open>Shared adjustments\<close>

definition check_notional :: "string \<times> decimal \<Rightarrow> (string \<times> rat) result" where
  "check_notional p = rbind (portfolio_text (fst p) ''strategy_id'') (\<lambda>_.
     rbind (portfolio_finite (snd p) ''notional'') (\<lambda>q.
     raise_if (q < 0) PortfolioConstructionError ''notional cannot be negative'' (Inr (fst p, q))))"

text \<open>\<open>positive_indices[len(positive_indices) - remainder:]\<close>: a negative start counts from the end, and
  one below that takes the whole list.\<close>

definition slice_from :: "int \<Rightarrow> 'a list \<Rightarrow> 'a list" where
  "slice_from start xs = drop (nat (if start < 0 then max 0 (start + int (length xs)) else start)) xs"

definition allocate_shared_cents :: "decimal \<Rightarrow> (string \<times> decimal) list \<Rightarrow> (string \<times> rat) list result" where
  "allocate_shared_cents amount notionals =
     rbind (exact_cents amount ''total'') (\<lambda>total_cents.
     raise_if (notionals = []) PortfolioConstructionError ''notional evidence required''
     (raise_if (\<not> distinct (map fst notionals)) PortfolioConstructionError ''duplicate strategy notional''
     (rbind (rmap check_notional (sort_key fst notionals)) (\<lambda>ordered.
      let denominator = dsum (map snd ordered) in
      raise_if (denominator \<le> 0) PortfolioConstructionError ''positive executed notional required''
      (let cents = map (\<lambda>p. int_of_decimal (ddiv (dmul (of_int total_cents) (snd p)) denominator)) ordered;
           remainder = total_cents - sum_list cents;
           positive_indices = filter (\<lambda>i. 0 < snd (ordered ! i)) [0..<length ordered];
           lucky = (if remainder = 0 then []
             else slice_from (int (length positive_indices) - remainder) positive_indices) in
       Inr (map (\<lambda>i. (fst (ordered ! i), cents_amount (cents ! i + (if i \<in> set lucky then 1 else 0))))
         [0..<length ordered]))))))"

section \<open>Stress results\<close>

definition metric_step :: "string list \<Rightarrow> string \<times> rat \<Rightarrow> string list result" where
  "metric_step names m = rbind (portfolio_text (fst m) ''metric_name'') (\<lambda>_.
     raise_if (fst m \<in> set names) PortfolioConstructionError ''duplicate stress metric'' (Inr (fst m # names)))"

definition stress_result ::
  "'a PortfolioDigests_scheme \<Rightarrow> string \<Rightarrow> StressKind \<Rightarrow> string \<Rightarrow> (string \<times> rat) list \<Rightarrow> string list \<Rightarrow> string list \<Rightarrow>
   StressResult result" where
  "stress_result D scenario kind baseline metrics limitations evidence_ids =
     rbind (portfolio_text scenario ''scenario_id'') (\<lambda>_.
     rbind (portfolio_text baseline ''baseline_evidence_digest'') (\<lambda>_.
     raise_if (metrics = []) PortfolioConstructionError ''valid stress kind and metrics required''
     (rbind (rfold metric_step [] metrics) (\<lambda>_.
      rbind (portfolio_texts limitations ''limitations'' False) (\<lambda>_.
      let bound = sort (if evidence_ids = [] then [baseline] else evidence_ids) in
      rbind (portfolio_texts bound ''input_evidence_ids'' True) (\<lambda>_.
      let r = \<lparr>sr_scenario_id = scenario, sr_kind = kind, sr_baseline_evidence_digest = baseline,
          sr_metrics = sort metrics, sr_input_evidence_ids = bound, sr_limitations = limitations, sr_evidence_digest = [],
          sr_authority = PORTFOLIO_AUTHORITY, sr_source_cost_model = None, sr_source_strategy_ids = [],
          sr_source_correlation = []\<rparr> in
      Inr (r\<lparr>sr_evidence_digest := pd_stress D r\<rparr>)))))))"

text \<open>The rows of the decomposition: entries left of the diagonal, one after the other; \<open>None\<close> stands for
  \<open>return False\<close>.\<close>

definition ldl_entry :: "rat list \<Rightarrow> rat list list \<Rightarrow> rat list \<Rightarrow> rat list option \<Rightarrow> nat \<Rightarrow> rat list option" where
  "ldl_entry matrix_row lower diagonal row col = (case row of None \<Rightarrow> None
   | Some l \<Rightarrow>
       let residual = dsub (matrix_row ! col)
             (dsum (map (\<lambda>k. dmul (dmul (l ! k) (lower ! col ! k)) (diagonal ! k)) [0..<col])) in
       if diagonal ! col = 0 then (if residual \<noteq> 0 then None else Some (l @ [0]))
       else Some (l @ [ddiv residual (diagonal ! col)]))"

definition ldl_row :: "rat list list \<Rightarrow> (rat list list \<times> rat list) option \<Rightarrow> nat \<Rightarrow> (rat list list \<times> rat list) option" where
  "ldl_row matrix state row = (case state of None \<Rightarrow> None
   | Some (lower, diagonal) \<Rightarrow> (case foldl (ldl_entry (matrix ! row) lower diagonal) (Some []) [0..<row] of
       None \<Rightarrow> None
     | Some l \<Rightarrow>
         let d = dsub (matrix ! row ! row)
               (dsum (map (\<lambda>k. dmul (dmul (l ! k) (l ! k)) (diagonal ! k)) [0..<row])) in
         if d < 0 then None else Some (lower @ [l], diagonal @ [d])))"

definition correlation_shape :: "rat list list \<Rightarrow> bool" where
  "correlation_shape m \<longleftrightarrow> m \<noteq> [] \<and> (\<forall>row\<in>set m. length row = length m)
     \<and> (\<forall>i<length m. \<forall>j<length m. m ! i ! j = m ! j ! i \<and> - 1 \<le> m ! i ! j \<and> m ! i ! j \<le> 1 \<and> (i = j \<longrightarrow> m ! i ! j = 1))"

fun finite_value :: "decimal \<Rightarrow> rat option" where
  "finite_value (Finite q) = Some q"
| "finite_value NonFinite = None"

definition matrix_values :: "decimal list list \<Rightarrow> rat list list" where
  "matrix_values m = map (List.map_filter finite_value) m"

definition ldl_succeeds :: "rat list list \<Rightarrow> bool" where
  "ldl_succeeds m \<longleftrightarrow> foldl (ldl_row m) (Some ([], [])) [0..<length m] \<noteq> None"

definition positive_semidefinite :: "decimal list list \<Rightarrow> bool" where
  "positive_semidefinite m \<longleftrightarrow> (\<forall>row\<in>set m. NonFinite \<notin> set row)
     \<and> correlation_shape (matrix_values m) \<and> ldl_succeeds (matrix_values m)"

definition correlation_metrics :: "string list \<Rightarrow> rat list list \<Rightarrow> (string \<times> rat) list" where
  "correlation_metrics ids m = concat (map (\<lambda>row. map (\<lambda>col.
     (''correlation:'' @ ids ! row @ '':'' @ ids ! col, m ! row ! col)) [row..<length ids]) [0..<length ids])"

definition correlation_stress ::
  "'a PortfolioDigests_scheme \<Rightarrow> string \<Rightarrow> string \<Rightarrow> string list \<Rightarrow> decimal list list \<Rightarrow> StressResult result" where
  "correlation_stress D scenario baseline ids m =
     rbind (portfolio_texts ids ''strategy_ids'' True) (\<lambda>_.
     raise_if (length m \<noteq> length ids \<or> \<not> distinct ids \<or> \<not> positive_semidefinite m) PortfolioConstructionError
       ''valid positive-semidefinite correlation required''
     (let order = sort_key (\<lambda>i. ids ! i) [0..<length ids];
          m' = map (\<lambda>i. map (\<lambda>j. matrix_values m ! i ! j) order) order;
          ids' = map (\<lambda>i. ids ! i) order in
      rbind (stress_result D scenario CORRELATION baseline (correlation_metrics ids' m')
        [''CORRELATION_ASSUMPTIONS_DO_NOT_CREATE_RETURN_PATHS''] []) (\<lambda>r.
      Inr (r\<lparr>sr_source_strategy_ids := ids', sr_source_correlation := m'\<rparr>))))"

definition record_stress :: "StressKind \<Rightarrow> string list \<Rightarrow> StressResult result" where
  "record_stress kind evidence_ids =
     raise_if (kind \<in> {EXECUTION_COST, CORRELATION}) PortfolioConstructionError
       ''use the validated specialized stress constructor''
     (rbind (portfolio_texts evidence_ids ''evidence_ids'' True) (\<lambda>_.
       Inl (Err InsufficientEvidenceError
         ''INSUFFICIENT_EVIDENCE: unsupported stress calculation; evidence IDs do not qualify metrics'')))"

text \<open>No conversion: everything is in the portfolio's currency.\<close>

definition verify_currency :: "SimulatedOms \<Rightarrow> SimulationLedger \<Rightarrow> Currency \<Rightarrow> unit result" where
  "verify_currency oms ledger currency =
     raise_if (currency \<noteq> USD \<or> lg_currency ledger \<noteq> currency \<or> ls_currency (lg_state ledger) \<noteq> currency)
       PortfolioConstructionError ''portfolio/ledger currency mismatch; conversion unsupported''
     (raise_if ((\<exists>r\<in>set (oms_orders oms). so_currency (rec_order r) \<noteq> currency)
         \<or> (\<exists>f\<in>set (oms_fills oms). fi_currency f \<noteq> currency))
       PortfolioConstructionError ''portfolio/OMS currency mismatch; conversion unsupported''
     (raise_if (\<exists>e\<in>set (lg_events ledger). case ev_currency e of None \<Rightarrow> False | Some c \<Rightarrow> c \<noteq> currency)
       PortfolioConstructionError ''portfolio/financial-event currency mismatch'' (Inr ())))"

definition execution_cost_stress ::
  "'a PortfolioDigests_scheme \<Rightarrow> string \<Rightarrow> string \<Rightarrow> decimal \<Rightarrow> decimal list \<Rightarrow>
   (SimulatedOms \<times> SimulationLedger \<times> ExecutionCostModel) option \<Rightarrow> StressResult result" where
  "execution_cost_stress D scenario baseline gross_pnl stressed_costs sources =
     rbind (portfolio_text scenario ''scenario_id'') (\<lambda>_.
     rbind (portfolio_text baseline ''baseline_evidence_digest'') (\<lambda>_.
     rbind (portfolio_finite gross_pnl ''gross_pnl'') (\<lambda>gross.
     raise_if (stressed_costs = []) PortfolioConstructionError ''stressed cost components required''
     (rbind (rmap (\<lambda>v. rbind (portfolio_finite v ''stressed_cost'') (\<lambda>q.
         raise_if (q < 0) PortfolioConstructionError ''stressed costs cannot be negative'' (Inr q))) stressed_costs) (\<lambda>costs.
      case sources of
        None \<Rightarrow> Inl (Err InsufficientEvidenceError
          ''INSUFFICIENT_EVIDENCE: reconciled execution sources and changed-cost model required'')
      | Some (oms, ledger, model) \<Rightarrow>
          rbind (verify_currency oms ledger USD) (\<lambda>_.
          rbind (reconcile oms ledger) (\<lambda>rec.
          rbind (require_performance rec) (\<lambda>perf.
          rbind (rmap (\<lambda>f. rbind (calculate_costs model (fi_quantity f) (fi_execution_price f)) (\<lambda>c. Inr (cost_total c)))
            (oms_fills oms)) (\<lambda>calculated.
          raise_if (gross \<noteq> pt_gross_pnl perf \<or> costs \<noteq> calculated) PortfolioConstructionError
            ''fabricated stress amounts or changed-cost replay mismatch''
          (let total = dsum calculated in
           rbind (stress_result D scenario EXECUTION_COST baseline
             [(''gross_pnl'', gross), (''cost_drag'', total), (''net_pnl'', dsub gross total)]
             [''FIXED_FILL_COST_SENSITIVITY_NOT_A_RETURN_PATH'']
             [pd_oms D oms, pd_ledger D ledger, pd_cost_model D model]) (\<lambda>r.
           Inr (r\<lparr>sr_source_cost_model := Some model\<rparr>))))))))))))"

section \<open>Cents\<close>

lemma cents_amount_exact: "\<bar>c\<bar> < 10 ^ 28 \<Longrightarrow> cents_amount c = of_int c / 100"
proof -
  assume c: "\<bar>c\<bar> < 10 ^ 28"
  have "representable (of_int c / 100)"
    unfolding representable_def using c by (intro exI [of _ c] exI [of _ "- 2"]) (simp add: pow10_def)
  then show ?thesis by (simp add: cents_amount_def ddiv_def dround_representable_id)
qed

lemma exact_cents_Inr:
  assumes "exact_cents v name = Inr c"
  shows "v = Finite (of_int c / 100) \<and> 0 \<le> c \<and> c < 10 ^ 28"
proof -
  obtain q where v: "v = Finite q" using assms by (cases v) (auto simp: exact_cents_def portfolio_finite_def)
  define k where "k = round_half_even (q * 100)"
  have q: "0 \<le> q" "\<bar>k\<bar> < 10 ^ 28" "q = of_int k / 100" "c = int_of_decimal (dmul q 100)"
    using assms by (auto simp: v exact_cents_def portfolio_finite_def quantize_cent_def Let_def k_def not_le)
  have "representable (of_int k)" unfolding representable_def
    using q(2) by (intro exI [of _ k] exI [of _ 0]) (simp add: pow10_def)
  then have "dmul q 100 = of_int k" unfolding dmul_def q(3) by (simp add: dround_representable_id)
  moreover have "0 \<le> k" using q(1,3) by (simp add: zero_le_divide_iff)
  ultimately have "c = k" using q(4) by (simp add: int_of_decimal_def)
  with v q \<open>0 \<le> k\<close> show ?thesis by simp
qed

lemma ceil_cents_bounds:
  "ceil_cents v = Inr c \<Longrightarrow> v \<le> c \<and> c < v + 1 / 100"
proof -
  assume "ceil_cents v = Inr c"
  then have c: "c = of_int \<lceil>v * 100\<rceil> / 100" by (auto simp: ceil_cents_def quantize_cent_def Let_def)
  have "v * 100 \<le> of_int \<lceil>v * 100\<rceil>" "of_int \<lceil>v * 100\<rceil> < v * 100 + 1" by linarith+
  then show ?thesis unfolding c by (simp add: field_simps)
qed

section \<open>Budgets\<close>

lemma sum_list_indicator:
  "0 \<le> r \<Longrightarrow> r \<le> int n \<Longrightarrow>
   sum_list (map (\<lambda>i. q + (if int n - r \<le> int i then 1 else 0 :: int)) [0..<n]) = int n * q + r"
proof -
  assume r: "0 \<le> r" "r \<le> int n"
  have "sum_list (map (\<lambda>i. q + (if int n - r \<le> int i then 1 else 0)) [0..<m]) = int m * q + max 0 (int m - (int n - r))"
    if "m \<le> n" for m
    using that r by (induction m) (auto simp: algebra_simps)
  from this [of n] r show ?thesis by simp
qed

lemma equal_budgets_map:
  "equal_budgets cents es = (if es = [] then [] else
     map (\<lambda>i. \<lparr>bg_strategy_id = admitted_strategy (es ! i), bg_research_run_id = admitted_run (es ! i),
       bg_cents = cents div int (length es) + (if int (length es) - cents mod int (length es) \<le> int i then 1 else 0)\<rparr>)
       [0..<length es])"
  unfolding equal_budgets_def Let_def
  by (auto simp: enumerate_eq_zip zip_map_fst_snd intro!: nth_equalityI)

lemma equal_budgets_sum:
  "es \<noteq> [] \<Longrightarrow> sum_list (map bg_cents (equal_budgets cents es)) = cents"
proof -
  assume ne: "es \<noteq> []"
  let ?n = "length es"
  have "map bg_cents (equal_budgets cents es) =
      map (\<lambda>i. cents div int ?n + (if int ?n - cents mod int ?n \<le> int i then 1 else 0)) [0..<?n]"
    using ne by (simp add: equal_budgets_map)
  moreover have "0 \<le> cents mod int ?n" "cents mod int ?n \<le> int ?n" using ne by (simp_all add: less_imp_le)
  ultimately show ?thesis by (simp only: sum_list_indicator) simp
qed

lemma equal_budgets_shape:
  "map bg_strategy_id (equal_budgets cents es) = map admitted_strategy es"
  "map bg_research_run_id (equal_budgets cents es) = map admitted_run es"
  "sorted (map bg_cents (equal_budgets cents es))"
  "b \<in> set (equal_budgets cents es) \<Longrightarrow> bg_cents b = cents div int (length es) \<or> bg_cents b = cents div int (length es) + 1"
  by (auto simp: equal_budgets_map sorted_iff_nth_mono split: if_splits intro!: nth_equalityI)

lemma map_sort_self: "map f (sort_key f xs) = sort (map f xs)"
  by (rule properties_for_sort [symmetric]) simp_all

lemma unique_admissions_Inr:
  "unique_admissions D adms = Inr u \<Longrightarrow> (\<forall>a\<in>set adms. pa_admission_class a = HYPOTHETICAL_PARTICIPATION)
     \<and> distinct (map admitted_strategy adms) \<and> distinct (map admitted_run adms)"
proof -
  assume u: "unique_admissions D adms = Inr u"
  then have "\<exists>ys. rmap (check_admission D) adms = Inr ys" by (auto simp: unique_admissions_def)
  then have "\<forall>a\<in>set adms. \<exists>y. check_admission D a = Inr y" by (simp add: rmap_ok)
  then have "\<forall>a\<in>set adms. pa_admission_class a = HYPOTHETICAL_PARTICIPATION" by (auto simp: check_admission_def)
  with u show ?thesis by (auto simp: unique_admissions_def)
qed

lemma from_assurance_Inr:
  "from_assurance D ctx cls rob lims = Inr a \<Longrightarrow> pa_admission_class a = HYPOTHETICAL_PARTICIPATION \<and> cls = HYPOTHETICAL_PARTICIPATION
     \<and> pa_permitted_conclusions a = hypothetical_permissions \<and> pa_authority a = PORTFOLIO_AUTHORITY
     \<and> pa_strategy a = ac_strategy ctx
     \<and> {''HYPOTHETICAL_PARTICIPATION'', ''RESEARCH_ELIGIBILITY_NOT_ESTABLISHED''} \<union> set lims = set (pa_limitations a)
     \<and> (\<forall>r. rob = Some r \<longrightarrow> assess_robustness (pd_robustness D) ctx (ro_cases r) = Inr r)"
  by (cases cls) (auto simp: from_assurance_def Let_def split: option.splits)

text \<open>C25: An allocation divides the capital exactly: the budgets and the unallocated remainder add up to the
  total in cents, the budgets belong to the admitted strategies in the order of their identifiers, differ by at
  most one cent, grow with the order, and each converts to its decimal amount without rounding.\<close>

theorem budgets_conserve_capital:
  assumes "allocate_equal_budgets D adms capital cur hypothetical = Inr a"
  shows "capital = Finite (of_int (al_total_cents a) / 100) \<and> cur = USD
    \<and> sum_list (map bg_cents (al_budgets a)) + al_unallocated_cents a = al_total_cents a
    \<and> map bg_strategy_id (al_budgets a) = (if hypothetical then sort (map admitted_strategy adms) else [])
    \<and> (al_budgets a \<noteq> [] \<longrightarrow> al_unallocated_cents a = 0)
    \<and> distinct (map bg_strategy_id (al_budgets a)) \<and> sorted (map bg_cents (al_budgets a))
    \<and> (\<forall>b\<in>set (al_budgets a). \<forall>b'\<in>set (al_budgets a). \<bar>bg_cents b - bg_cents b'\<bar> \<le> 1)
    \<and> (\<forall>b\<in>set (al_budgets a). 0 \<le> bg_cents b \<and> budget_amount b = of_int (bg_cents b) / 100)"
proof -
  obtain u cents where u: "unique_admissions D adms = Inr u" and c: "exact_cents capital ''total_capital'' = Inr cents"
      and cur: "cur = USD" using assms by (auto simp: allocate_equal_budgets_def)
  define es where "es = sort_key admitted_strategy (filter (eligible_admission hypothetical) adms)"
  have a: "al_total_cents a = cents" "al_budgets a = equal_budgets cents es"
      "al_unallocated_cents a = cents - sum_list (map bg_cents (equal_budgets cents es))"
    using assms u c cur by (auto simp: allocate_equal_budgets_def Let_def es_def)
  note uniq = unique_admissions_Inr [OF u]
  have "filter (eligible_admission hypothetical) adms = (if hypothetical then adms else [])"
    using uniq by (auto simp: eligible_admission_def filter_id_conv filter_empty_conv)
  then have es: "es = (if hypothetical then sort_key admitted_strategy adms else [])" by (simp add: es_def)
  have ids: "map admitted_strategy es = (if hypothetical then sort (map admitted_strategy adms) else [])"
    by (simp add: es map_sort_self)
  have cents: "capital = Finite (of_int cents / 100)" "0 \<le> cents" "cents < 10 ^ 28"
    using exact_cents_Inr [OF c] by auto
  have range: "bg_cents b = cents div int (length es) \<or> bg_cents b = cents div int (length es) + 1"
    if "b \<in> set (al_budgets a)" for b using that equal_budgets_shape(4) unfolding a by blast
  have close: "\<forall>b\<in>set (al_budgets a). \<forall>b'\<in>set (al_budgets a). \<bar>bg_cents b - bg_cents b'\<bar> \<le> 1"
  proof (intro ballI)
    fix b b' assume "b \<in> set (al_budgets a)" "b' \<in> set (al_budgets a)"
    from range [OF this(1)] range [OF this(2)] show "\<bar>bg_cents b - bg_cents b'\<bar> \<le> 1" by auto
  qed
  have sum: "al_budgets a \<noteq> [] \<Longrightarrow> sum_list (map bg_cents (al_budgets a)) = cents"
    unfolding a using equal_budgets_sum [of es cents] by (cases "es = []") (auto simp: equal_budgets_map)
  have nonneg: "0 \<le> bg_cents b" if "b \<in> set (al_budgets a)" for b
  proof -
    have "0 \<le> cents div int (length es)"
      using cents(2) by (cases "es = []") (simp_all add: pos_imp_zdiv_nonneg_iff)
    with range [OF that] show ?thesis by auto
  qed
  have le: "bg_cents b \<le> cents" if b: "b \<in> set (al_budgets a)" for b
  proof -
    have "bg_cents b \<le> sum_list (map bg_cents (al_budgets a))"
      using nonneg b by (intro member_le_sum_list) auto
    with sum b show ?thesis by (metis empty_iff list.set(1))
  qed
  have "budget_amount b = of_int (bg_cents b) / 100" if "b \<in> set (al_budgets a)" for b
    unfolding budget_amount_def using nonneg [OF that] le [OF that] cents(3) by (intro cents_amount_exact) simp
  moreover have "distinct (map bg_strategy_id (al_budgets a))"
    unfolding a equal_budgets_shape(1) ids using uniq by simp
  moreover have "sorted (map bg_cents (al_budgets a))" unfolding a by (rule equal_budgets_shape(3))
  moreover have "map bg_strategy_id (al_budgets a) = (if hypothetical then sort (map admitted_strategy adms) else [])"
    unfolding a equal_budgets_shape(1) ids ..
  ultimately show ?thesis
    using sum nonneg close cents(1) cur a by auto
qed


section \<open>Shared adjustments\<close>

definition ulp :: rat where
  "ulp = 1 / (2 * 10 ^ 27)"

lemma dround_ulp: "0 \<le> x \<Longrightarrow> (1 - ulp) * x \<le> dround x \<and> dround x \<le> (1 + ulp) * x"
proof -
  assume "0 \<le> x"
  then have "\<bar>dround x - x\<bar> \<le> ulp * x" using dround_relative_error [of x] by (simp add: ulp_def)
  then have "dround x - x \<le> ulp * x" "x - dround x \<le> ulp * x" by (simp_all only: abs_le_iff minus_diff_eq)
  then show ?thesis by (simp add: algebra_simps)
qed

lemma ulp_range: "0 < ulp" "ulp < 1" by (simp_all add: ulp_def)

lemma dsum_ulp:
  assumes "\<And>x. x \<in> set xs \<Longrightarrow> 0 \<le> x"
  shows "(1 - ulp) ^ length xs * sum_list xs \<le> dsum xs \<and> dsum xs \<le> (1 + ulp) ^ length xs * sum_list xs"
  using assms
proof (induction xs rule: rev_induct)
  case (snoc x xs)
  let ?n = "length xs"
  have x: "0 \<le> x" and pos: "0 \<le> sum_list xs" using snoc.prems by (auto intro: sum_list_nonneg)
  have IH: "(1 - ulp) ^ ?n * sum_list xs \<le> dsum xs" "dsum xs \<le> (1 + ulp) ^ ?n * sum_list xs"
    using snoc.IH snoc.prems by auto
  have s: "0 \<le> dsum xs" by (rule dsum_nonneg) (use snoc.prems in auto)
  have d: "(1 - ulp) * (dsum xs + x) \<le> dsum (xs @ [x])" "dsum (xs @ [x]) \<le> (1 + ulp) * (dsum xs + x)"
    using dround_ulp [of "dsum xs + x"] s x by (simp_all add: dsum_snoc dadd_def)
  have p1: "(1 - ulp) ^ ?n \<le> 1" and p2: "1 \<le> (1 + ulp) ^ ?n" using ulp_range by (simp_all add: power_le_one)
  have "(1 - ulp) ^ ?n * (sum_list xs + x) \<le> dsum xs + x"
    using IH(1) mult_right_mono [OF p1 x] by (simp add: algebra_simps)
  then have lo: "(1 - ulp) * ((1 - ulp) ^ ?n * (sum_list xs + x)) \<le> (1 - ulp) * (dsum xs + x)"
    using ulp_range by (intro mult_left_mono) auto
  have "dsum xs + x \<le> (1 + ulp) ^ ?n * (sum_list xs + x)"
    using IH(2) mult_right_mono [OF p2 x] by (simp add: algebra_simps)
  then have hi: "(1 + ulp) * (dsum xs + x) \<le> (1 + ulp) * ((1 + ulp) ^ ?n * (sum_list xs + x))"
    using ulp_range by (intro mult_left_mono) auto
  from lo hi d show ?case by (simp add: mult.assoc)
qed simp

text \<open>The product of the rounding factors stays within one cent of the total.\<close>

lemma power_bounds:
  fixes u :: rat
  assumes "0 \<le> u" and "of_nat n * u \<le> 1 / 2"
  shows "1 - of_nat n * u \<le> (1 - u) ^ n \<and> (1 + u) ^ n * (1 - of_nat n * u) \<le> 1"
  using assms(2)
proof (induction n)
  case (Suc n)
  have u: "of_nat n * u \<le> 1 / 2" "of_nat n * u + u \<le> 1 / 2" using Suc.prems assms(1) by (simp_all add: algebra_simps)
  have "0 \<le> of_nat n * u" using assms(1) by simp
  then have u1: "u \<le> 1 / 2" using u(2) by linarith
  have "(1 - of_nat n * u) * (1 - u) \<le> (1 - u) ^ n * (1 - u)"
    using Suc.IH u u1 by (intro mult_right_mono) auto
  moreover have "1 - of_nat (Suc n) * u \<le> (1 - of_nat n * u) * (1 - u)"
    using assms(1) by (simp add: algebra_simps)
  moreover have "(1 + u) * (1 - of_nat (Suc n) * u) \<le> 1 - of_nat n * u"
    using assms(1) by (simp add: algebra_simps)
  then have "(1 + u) ^ n * ((1 + u) * (1 - of_nat (Suc n) * u)) \<le> (1 + u) ^ n * (1 - of_nat n * u)"
    using assms(1) by (intro mult_left_mono) auto
  ultimately show ?case using Suc.IH u by (simp add: mult.assoc mult.commute mult.left_commute)
qed simp


text \<open>The rounded proportional shares of a list of nonnegative amounts.\<close>

definition raw_share :: "int \<Rightarrow> rat \<Rightarrow> rat \<Rightarrow> rat" where
  "raw_share t denominator x = ddiv (dmul (of_int t) x) denominator"

lemma dsum_pos_sum: "(\<And>x. x \<in> set xs \<Longrightarrow> 0 \<le> x) \<Longrightarrow> 0 < dsum xs \<Longrightarrow> 0 < sum_list xs"
proof -
  assume xs: "\<And>x. x \<in> set xs \<Longrightarrow> 0 \<le> x" and D: "0 < dsum xs"
  have "dsum xs \<le> (1 + ulp) ^ length xs * sum_list xs" using dsum_ulp [of xs] xs by blast
  with D have "0 < (1 + ulp) ^ length xs * sum_list xs" by linarith
  then show ?thesis using ulp_range by (simp add: zero_less_mult_iff)
qed

lemma raw_share_bounds:
  assumes "0 \<le> t" and "0 < d" and "0 \<le> x"
  shows "0 \<le> raw_share t d x" "(1 - ulp) ^ 2 * of_int t / d * x \<le> raw_share t d x"
    "raw_share t d x \<le> (1 + ulp) ^ 2 * of_int t / d * x"
proof -
  have 0: "0 \<le> of_int t * x" using assms by simp
  have 1: "(1 - ulp) * (of_int t * x) \<le> dmul (of_int t) x" "dmul (of_int t) x \<le> (1 + ulp) * (of_int t * x)"
    using dround_ulp [OF 0] by (simp_all add: dmul_def)
  have nn: "0 \<le> dmul (of_int t) x / d" using 0 assms by (simp add: dmul_def)
  then show "0 \<le> raw_share t d x" by (simp add: raw_share_def ddiv_def)
  have 2: "(1 - ulp) * (dmul (of_int t) x / d) \<le> raw_share t d x" "raw_share t d x \<le> (1 + ulp) * (dmul (of_int t) x / d)"
    using dround_ulp [OF nn] by (simp_all add: raw_share_def ddiv_def)
  have "(1 - ulp) * ((1 - ulp) * (of_int t * x) / d) \<le> (1 - ulp) * (dmul (of_int t) x / d)"
    using 1(1) assms ulp_range by (intro mult_left_mono divide_right_mono) auto
  moreover have "(1 + ulp) * (dmul (of_int t) x / d) \<le> (1 + ulp) * ((1 + ulp) * (of_int t * x) / d)"
    using 1(2) assms ulp_range by (intro mult_left_mono divide_right_mono) auto
  ultimately show "(1 - ulp) ^ 2 * of_int t / d * x \<le> raw_share t d x" "raw_share t d x \<le> (1 + ulp) ^ 2 * of_int t / d * x"
    using 2 by (simp_all add: power2_eq_square mult.assoc)
qed

text \<open>The product of the rounding factors keeps the sum of the shares within one cent of the total.\<close>

lemma raw_share_sum:
  assumes t: "0 \<le> t" and xs: "\<And>x. x \<in> set xs \<Longrightarrow> 0 \<le> x" and D: "0 < dsum xs"
    and small: "(of_int t + 1) * (of_nat (length xs) + 3) \<le> (10 ^ 27 :: rat)"
  shows "of_int t - 1 < sum_list (map (raw_share t (dsum xs)) xs)"
    and "sum_list (map (raw_share t (dsum xs)) xs) < of_int t + 1"
proof -
  define n T r where "n = (of_nat (length xs) :: rat)" and "T = (of_int t :: rat)" and "r = sum_list xs / dsum xs"
  have T0: "0 \<le> T" and n0: "0 \<le> n" using t by (simp_all add: T_def n_def)
  have all: "T * (n * ulp) + 3 * (T * ulp) + n * ulp + 3 * ulp \<le> 1 / 2"
    using small unfolding T_def [symmetric] n_def [symmetric] by (simp add: ulp_def algebra_simps)
  have p: "0 \<le> T * (n * ulp)" "0 \<le> T * ulp" "0 \<le> n * ulp" "0 < ulp" using T0 n0 ulp_range by simp_all
  then have nu: "n * ulp \<le> 1 / 2" using all by linarith
  note S = dsum_pos_sum [OF xs D]
  have r0: "0 < r" using S D by (simp add: r_def)
  have pw: "1 - n * ulp \<le> (1 - ulp) ^ length xs" "(1 + ulp) ^ length xs * (1 - n * ulp) \<le> 1"
    using power_bounds [of ulp "length xs"] nu p(4) unfolding n_def by auto
  have ds: "(1 - ulp) ^ length xs * sum_list xs \<le> dsum xs" "dsum xs \<le> (1 + ulp) ^ length xs * sum_list xs"
    using dsum_ulp [of xs] xs by blast+
  have hi: "r * (1 - n * ulp) \<le> 1"
  proof -
    have "sum_list xs * (1 - n * ulp) \<le> dsum xs"
      using order_trans [OF mult_right_mono [OF pw(1) less_imp_le [OF S]] ds(1)] by (simp add: mult.commute)
    then show ?thesis using D by (simp add: r_def field_simps)
  qed
  have lo: "1 - n * ulp \<le> r"
  proof -
    have "1 \<le> r * (1 + ulp) ^ length xs" using ds(2) D by (simp add: r_def field_simps)
    then have "1 * (1 - n * ulp) \<le> r * (1 + ulp) ^ length xs * (1 - n * ulp)" using nu by (intro mult_right_mono) auto
    also have "\<dots> \<le> r * 1" using pw(2) r0 by (simp add: mult.assoc)
    finally show ?thesis by simp
  qed
  have up: "sum_list (map (raw_share t (dsum xs)) xs) \<le> (1 + ulp) ^ 2 * T * r"
  proof -
    have "sum_list (map (raw_share t (dsum xs)) xs) \<le> sum_list (map (\<lambda>x. (1 + ulp) ^ 2 * T / dsum xs * x) xs)"
      using raw_share_bounds(3) [OF t D xs] by (intro sum_list_mono) (simp add: T_def)
    then show ?thesis unfolding sum_list_const_mult by (simp add: r_def)
  qed
  have down: "(1 - ulp) ^ 2 * T * r \<le> sum_list (map (raw_share t (dsum xs)) xs)"
  proof -
    have "sum_list (map (\<lambda>x. (1 - ulp) ^ 2 * T / dsum xs * x) xs) \<le> sum_list (map (raw_share t (dsum xs)) xs)"
      using raw_share_bounds(2) [OF t D xs] by (intro sum_list_mono) (simp add: T_def)
    then show ?thesis unfolding sum_list_const_mult by (simp add: r_def)
  qed
  show "of_int t - 1 < sum_list (map (raw_share t (dsum xs)) xs)"
  proof -
    have "T - 1 < T * (1 - 2 * ulp - n * ulp)" using all p by (simp add: algebra_simps)
    also have "T * (1 - 2 * ulp - n * ulp) \<le> T * ((1 - ulp) ^ 2 * (1 - n * ulp))"
    proof (rule mult_left_mono [OF _ T0])
      have "0 \<le> ulp ^ 2 * (1 - n * ulp)" "0 \<le> 2 * ulp * (n * ulp)" using nu p by simp_all
      then show "1 - 2 * ulp - n * ulp \<le> (1 - ulp) ^ 2 * (1 - n * ulp)" by (simp add: power2_eq_square algebra_simps)
    qed
    also have "\<dots> \<le> T * ((1 - ulp) ^ 2 * r)" using lo T0 by (intro mult_left_mono) auto
    finally show ?thesis using down by (simp add: T_def ac_simps)
  qed
  show "sum_list (map (raw_share t (dsum xs)) xs) < of_int t + 1"
  proof -
    have "(1 + ulp) ^ 2 * T * r * (1 - n * ulp) \<le> (1 + ulp) ^ 2 * T * 1"
      unfolding mult.assoc [of _ r] using hi T0 by (intro mult_left_mono) auto
    also have "(1 + ulp) ^ 2 \<le> 1 + 3 * ulp" using ulp_range by (simp add: power2_eq_square algebra_simps)
    then have "(1 + ulp) ^ 2 * T * 1 \<le> (1 + 3 * ulp) * T" using T0 by (simp add: mult_right_mono)
    also have "\<dots> < (T + 1) * (1 - n * ulp)" using all p by (simp add: algebra_simps)
    finally have "(1 + ulp) ^ 2 * T * r < T + 1" using nu by simp
    with up show ?thesis by (simp add: T_def)
  qed
qed

lemma sum_list_marked:
  assumes "distinct marked" and "set marked \<subseteq> {0..<n}"
  shows "sum_list (map (\<lambda>i. f i + (if i \<in> set marked then 1 else 0 :: int)) [0..<n])
    = sum_list (map f [0..<n]) + int (length marked)"
proof -
  have "sum_list (map (\<lambda>i. if i \<in> set marked then 1 else 0 :: int) [0..<n]) = (\<Sum>i\<in>{0..<n}. if i \<in> set marked then 1 else 0)"
    by (simp add: sum_list_distinct_conv_sum_set)
  also have "\<dots> = int (card ({0..<n} \<inter> set marked))" by (simp add: sum.If_cases)
  also have "{0..<n} \<inter> set marked = set marked" using assms(2) by blast
  finally show ?thesis using assms(1) by (simp add: sum_list_addf distinct_card)
qed

lemma sum_list_of_int_div: "sum_list (map (\<lambda>i. of_int (f i) / c) is) = of_int (sum_list (map f is)) / (c :: rat)"
  by (induction "is") (simp_all add: add_divide_distrib)

lemma slice_from_tail:
  assumes "0 \<le> r" and "r \<le> int (length xs)"
  shows "slice_from (int (length xs) - r) xs = drop (length xs - nat r) xs"
  using assms by (auto simp: slice_from_def nat_diff_distrib')

lemma floor_sum_bounds:
  fixes f :: "'a \<Rightarrow> rat"
  assumes "\<And>x. x \<in> set xs \<Longrightarrow> 0 \<le> f x" and "\<And>x. x \<in> set xs \<Longrightarrow> \<not> P x \<Longrightarrow> f x = 0"
  shows "of_int (sum_list (map (int_of_decimal \<circ> f) xs)) \<le> sum_list (map f xs)
    \<and> sum_list (map f xs) \<le> of_int (sum_list (map (int_of_decimal \<circ> f) xs)) + of_nat (length (filter P xs))"
  using assms
proof (induction xs)
  case (Cons x xs)
  have f: "0 \<le> f x" "\<not> P x \<Longrightarrow> f x = 0" using Cons.prems by auto
  then have "of_int (int_of_decimal (f x)) \<le> f x" "f x \<le> of_int (int_of_decimal (f x)) + (if P x then 1 else 0)"
    by (cases "P x"; simp add: int_of_decimal_def; linarith)+
  moreover have "of_int (sum_list (map (int_of_decimal \<circ> f) xs)) \<le> sum_list (map f xs)
    \<and> sum_list (map f xs) \<le> of_int (sum_list (map (int_of_decimal \<circ> f) xs)) + of_nat (length (filter P xs))"
    by (rule Cons.IH) (use Cons.prems in auto)
  ultimately show ?case by (cases "P x") (auto simp: comp_def)
qed simp

text \<open>The remainder left by truncation is a number of cents that the strategies with executed notional can take.\<close>

lemma remainder_bounds:
  assumes t: "0 \<le> t" and xs: "\<And>x. x \<in> set xs \<Longrightarrow> 0 \<le> x" and D: "0 < dsum xs"
    and small: "(of_int t + 1) * (of_nat (length xs) + 3) \<le> (10 ^ 27 :: rat)"
  defines "r \<equiv> t - sum_list (map (int_of_decimal \<circ> raw_share t (dsum xs)) xs)"
  shows "0 \<le> r" and "r \<le> int (length (filter (\<lambda>x. 0 < x) xs))"
proof -
  let ?C = "sum_list (map (int_of_decimal \<circ> raw_share t (dsum xs)) xs)"
  have z: "raw_share t (dsum xs) x = 0" if "x \<in> set xs" "\<not> 0 < x" for x
    using xs [OF that(1)] that(2) by (simp add: raw_share_def dmul_def ddiv_def)
  have "of_int ?C \<le> sum_list (map (raw_share t (dsum xs)) xs)
    \<and> sum_list (map (raw_share t (dsum xs)) xs) \<le> of_int ?C + of_nat (length (filter (\<lambda>x. 0 < x) xs))"
    by (rule floor_sum_bounds) (use raw_share_bounds(1) [OF t D] xs z in auto)
  with raw_share_sum [OF t xs D small]
  have "of_int ?C < (of_int t + 1 :: rat)" "(of_int t - 1 :: rat) < of_int ?C + of_nat (length (filter (\<lambda>x. 0 < x) xs))"
    by linarith+
  then show "0 \<le> r" "r \<le> int (length (filter (\<lambda>x. 0 < x) xs))" unfolding r_def by linarith+
qed

lemma check_notional_Inr: "check_notional p = Inr y \<Longrightarrow> fst y = fst p \<and> snd p = Finite (snd y) \<and> 0 \<le> snd y"
  by (cases "snd p") (auto simp: check_notional_def portfolio_finite_def not_less)

lemma rmap_nth: "rmap f xs = Inr ys \<Longrightarrow> i < length xs \<Longrightarrow> f (xs ! i) = Inr (ys ! i)"
  by (induction f xs arbitrary: ys i rule: rmap.induct) (auto simp: nth_Cons split: nat.splits)

lemma filter_index: "length (filter (\<lambda>i. P (xs ! i)) [0..<length xs]) = length (filter P xs)"
proof -
  have "filter P (map ((!) xs) [0..<length xs]) = map ((!) xs) (filter (\<lambda>i. P (xs ! i)) [0..<length xs])"
    by (simp add: filter_map comp_def)
  then show ?thesis by (simp add: map_nth)
qed

text \<open>C26: A shared adjustment is distributed without losing or inventing a cent: as long as the total in
  cents times the number of strategies stays below the precision of the decimal context, the shares add up to the
  amount, cover every strategy in the order of the identifiers, are nonnegative, and a strategy without executed
  notional gets nothing.\<close>

theorem shared_cents_conserved:
  assumes A: "allocate_shared_cents (Finite q) notionals = Inr shares"
    and small: "(q * 100 + 1) * (of_nat (length notionals) + 3) \<le> 10 ^ 27"
  shows "sum_list (map snd shares) = q \<and> map fst shares = sort (map fst notionals)
    \<and> (\<forall>i<length shares. 0 \<le> snd (shares ! i)
        \<and> (snd (sort_key fst notionals ! i) = Finite 0 \<longrightarrow> snd (shares ! i) = 0))"
proof -
  obtain t ordered where t: "exact_cents (Finite q) ''total'' = Inr t"
      and o: "rmap check_notional (sort_key fst notionals) = Inr ordered" and D: "0 < dsum (map snd ordered)"
    using A by (auto simp: allocate_shared_cents_def Let_def not_le)
  define n where "n = length ordered"
  define xs where "xs = map snd ordered"
  define cents where "cents = map (\<lambda>p. int_of_decimal (ddiv (dmul (of_int t) (snd p)) (dsum (map snd ordered)))) ordered"
  define r where "r = t - sum_list cents"
  define pos where "pos = filter (\<lambda>i. 0 < snd (ordered ! i)) [0..<length ordered]"
  define lucky where "lucky = (if r = 0 then [] else slice_from (int (length pos) - r) pos)"
  define amount where "amount = (\<lambda>i. cents ! i + (if i \<in> set lucky then 1 else 0))"
  have shares: "shares = map (\<lambda>i. (fst (ordered ! i), cents_amount (amount i))) [0..<n]"
    using A t o D unfolding allocate_shared_cents_def Let_def amount_def lucky_def pos_def r_def cents_def n_def
    by (auto simp: not_le)
  have cents': "cents = map (int_of_decimal \<circ> raw_share t (dsum xs)) xs"
    by (simp add: cents_def xs_def raw_share_def)
  have pos': "pos = filter (\<lambda>i. 0 < xs ! i) [0..<n]" unfolding pos_def n_def xs_def by (rule filter_cong) simp_all
  have n: "length (sort_key fst notionals) = n" "length xs = n" "length cents = n"
    using rmap_length [OF o] by (simp_all add: n_def xs_def cents')
  have at: "fst (ordered ! i) = fst (sort_key fst notionals ! i)"
      "snd (sort_key fst notionals ! i) = Finite (xs ! i)" "0 \<le> xs ! i" if "i < n" for i
    using check_notional_Inr [OF rmap_nth [OF o, of i]] that n by (simp_all add: xs_def n_def)
  have pos_xs: "\<And>x. x \<in> set xs \<Longrightarrow> 0 \<le> x" using at(3) n by (metis in_set_conv_nth)
  have t': "q = of_int t / 100" "0 \<le> t" "t < 10 ^ 28" using exact_cents_Inr [OF t] by auto
  have bound: "(of_int t + 1) * (of_nat (length xs) + 3) \<le> (10 ^ 27 :: rat)" using small n by (simp add: t'(1))
  have r: "0 \<le> r" "r \<le> int (length pos)"
    using remainder_bounds [OF t'(2) pos_xs D [folded xs_def] bound] filter_index [of "\<lambda>x. 0 < x" xs] n
    by (simp_all add: r_def cents' pos')
  have tail: "lucky = drop (length pos - nat r) pos"
    using r by (auto simp: lucky_def slice_from_tail)
  have marked: "distinct lucky" "set lucky \<subseteq> set pos" "length lucky = nat r"
    using r set_drop_subset [of _ pos] by (auto simp: tail pos')
  have "sum_list (map amount [0..<n]) = sum_list (map ((!) cents) [0..<n]) + int (length lucky)"
    unfolding amount_def by (rule sum_list_marked) (use marked in \<open>auto simp: pos'\<close>)
  also have "map ((!) cents) [0..<n] = cents" using n map_nth [of cents] by simp
  finally have total: "sum_list (map amount [0..<n]) = t" using r marked by (simp add: r_def)
  have c0: "0 \<le> cents ! i" if "i < n" for i
    using raw_share_bounds(1) [OF t'(2) D [folded xs_def] at(3) [OF that]] that n
    by (simp add: cents' int_of_decimal_def)
  then have a0: "0 \<le> amount i" if "i < n" for i using that by (simp add: amount_def)
  have exact: "cents_amount (amount i) = of_int (amount i) / 100" if "i < n" for i
  proof (rule cents_amount_exact)
    have "amount i \<le> sum_list (map amount [0..<n])" using a0 that by (intro member_le_sum_list) auto
    with total a0 [OF that] t'(3) show "\<bar>amount i\<bar> < 10 ^ 28" by simp
  qed
  have zero: "amount i = 0" if "i < n" "xs ! i = 0" for i
  proof -
    have "i \<notin> set lucky" using marked(2) that by (auto simp: pos')
    then show ?thesis using that n by (simp add: amount_def cents' raw_share_def dmul_def ddiv_def int_of_decimal_def)
  qed
  have "map snd shares = map (\<lambda>i. of_int (amount i) / 100) [0..<n]" by (simp add: shares exact)
  then have "sum_list (map snd shares) = of_int (sum_list (map amount [0..<n])) / 100"
    by (simp only: sum_list_of_int_div)
  moreover have "map fst shares = map fst (sort_key fst notionals)"
    using n at(1) by (intro nth_equalityI) (simp_all add: shares)
  moreover have "0 \<le> snd (shares ! i) \<and> (snd (sort_key fst notionals ! i) = Finite 0 \<longrightarrow> snd (shares ! i) = 0)"
    if "i < length shares" for i
    using that a0 [of i] zero [of i] at(2) [of i] exact [of i] cents_amount_exact [of 0] by (auto simp: shares)
  ultimately show ?thesis using total t'(1) by (simp add: map_sort_self)
qed

theorem shared_cents_conserved_witness:
  "\<exists>shares. allocate_shared_cents (Finite (1 / 100)) [(''B'', Finite 40), (''A'', Finite 60), (''C'', Finite 0)] = Inr shares
    \<and> sum_list (map snd shares) = 1 / 100 \<and> map fst shares = [''A'', ''B'', ''C'']"
proof -
  have "allocate_shared_cents (Finite (1 / 100)) [(''B'', Finite 40), (''A'', Finite 60), (''C'', Finite 0)]
      = Inr [(''A'', 0), (''B'', 1 / 100), (''C'', 0)]" by code_simp
  with shared_cents_conserved [OF this] show ?thesis by simp
qed

section \<open>Admissions\<close>

lemma portfolio_texts_Inr:
  "portfolio_texts vs name nonempty = Inr u \<longleftrightarrow> (\<forall>v\<in>set vs. \<not> blank v) \<and> (nonempty \<longrightarrow> vs \<noteq> []) \<and> distinct vs"
  by (auto simp: portfolio_texts_def)

lemma sorted_set_cong: "set xs = set ys \<Longrightarrow> sorted_set xs = sorted_set ys"
  by (rule sorted_distinct_set_unique) simp_all

text \<open>C27: Every admission that is issued is hypothetical, carries the two labels that say so and the research
  authority, has a robustness report (if any) that is recomputed from its cases, and passes the check that later
  operations make of it, which rebuilds it from its sources.\<close>

theorem admission_revalidates:
  assumes "admit_assurance_context D ctx cls robustness limitations = Inr a"
  shows "cls = HYPOTHETICAL_PARTICIPATION \<and> pa_admission_class a = HYPOTHETICAL_PARTICIPATION
    \<and> pa_permitted_conclusions a = hypothetical_permissions \<and> pa_authority a = PORTFOLIO_AUTHORITY
    \<and> set (pa_limitations a) = set limitations \<union> {''HYPOTHETICAL_PARTICIPATION'', ''RESEARCH_ELIGIBILITY_NOT_ESTABLISHED''}
    \<and> (\<forall>r. robustness = Some r \<longrightarrow> assess_robustness (pd_robustness D) ctx (ro_cases r) = Inr r)
    \<and> check_admission D a = Inr ()"
proof -
  have F: "from_assurance D ctx cls robustness limitations = Inr a" using assms by (simp add: admit_assurance_context_def)
  note facts = from_assurance_Inr [OF F]
  define labels where "labels = [''HYPOTHETICAL_PARTICIPATION'', ''RESEARCH_ELIGIBILITY_NOT_ESTABLISHED'']"
  have texts: "\<forall>v\<in>set limitations. \<not> blank v"
    using F by (auto simp: from_assurance_def portfolio_texts_Inr)
  have "list_all (\<lambda>v. \<not> blank v) labels" unfolding labels_def by code_simp
  then have t: "portfolio_texts (sorted_set (limitations @ labels)) ''limitations'' False = Inr ()"
    using texts by (auto simp: portfolio_texts_Inr sorted_set_def list_all_iff)
  have stable: "sorted_set (sorted_set (limitations @ labels) @ labels) = sorted_set (limitations @ labels)"
    by (rule sorted_set_cong) auto
  have src: "pa_source_context a = ctx" "pa_source_robustness a = robustness" "pa_limitations a = sorted_set (limitations @ labels)"
    using F by (cases cls; auto simp: from_assurance_def Let_def labels_def)+
  have "from_assurance D ctx cls robustness (sorted_set (limitations @ labels)) = Inr a"
    using F t stable unfolding from_assurance_def labels_def [symmetric] by (auto simp: Let_def)
  with src facts have "check_admission D a = Inr ()" by (simp add: check_admission_def)
  with facts show ?thesis by auto
qed

definition sample_performance :: PerformanceTruth where
  "sample_performance = \<lparr>pt_gross_pnl = 0, pt_execution_cost_drag = \<lparr>dr_commission_fees = 0, dr_bid_ask_spread = 0,
     dr_slippage = 0, dr_market_impact = 0, dr_additional_friction = 0\<rparr>, pt_net_pnl = 0, pt_realised_pnl = 0,
     pt_unrealised_pnl = 0, pt_portfolio_value = 0, pt_turnover = 0, pt_participation = NOT_ESTABLISHED,
     pt_capacity = NOT_ESTABLISHED\<rparr>"

definition sample_context :: "string \<Rightarrow> AssuranceContext" where
  "sample_context s = \<lparr>ac_strategy = \<lparr>sb_strategy_id = s, sb_research_run_id = s @ ''-run'', sb_decision_time = Timestamp 0,
     sb_output_digest = ''out''\<rparr>, ac_plan_digest = ''plan'', ac_experiment_id = ''exp'', ac_dataset_id = ''ds'',
     ac_dataset_version = ''1'', ac_qualification_id = ''q'', ac_admission_event_id = ''adm'', ac_trial_ids = [],
     ac_performance = sample_performance, ac_context_digest = ''ctx''\<rparr>"

definition sample_digests :: PortfolioDigests where
  "sample_digests = \<lparr>pd_robustness = (\<lambda>_. ''r''), pd_admission = (\<lambda>_. ''a''), pd_allocation = (\<lambda>_. ''b''), pd_stress = (\<lambda>_. ''s''),
     pd_oms = (\<lambda>_. ''o''), pd_ledger = (\<lambda>_. ''l''), pd_cost_model = (\<lambda>_. ''c'')\<rparr>"

definition sample_admission :: "string \<Rightarrow> PortfolioAdmission" where
  "sample_admission s = projr (admit_assurance_context sample_digests (sample_context s) HYPOTHETICAL_PARTICIPATION None [])"

theorem admission_revalidates_witness:
  "\<exists>a. admit_assurance_context sample_digests (sample_context ''MOM-001'') HYPOTHETICAL_PARTICIPATION None [''SMALL_SAMPLE''] = Inr a
    \<and> check_admission sample_digests a = Inr ()"
proof -
  have "admit_assurance_context sample_digests (sample_context ''MOM-001'') HYPOTHETICAL_PARTICIPATION None [''SMALL_SAMPLE'']
    = Inr (projr (admit_assurance_context sample_digests (sample_context ''MOM-001'') HYPOTHETICAL_PARTICIPATION None [''SMALL_SAMPLE'']))"
    by code_simp
  with admission_revalidates [OF this] show ?thesis by blast
qed

theorem budgets_conserve_capital_witness:
  "\<exists>a. allocate_equal_budgets sample_digests [sample_admission ''TREND-001'', sample_admission ''MOM-001''] (Finite (101 / 100)) USD True = Inr a
    \<and> sum_list (map bg_cents (al_budgets a)) + al_unallocated_cents a = al_total_cents a \<and> map bg_cents (al_budgets a) = [50, 51]"
proof -
  let ?r = "allocate_equal_budgets sample_digests [sample_admission ''TREND-001'', sample_admission ''MOM-001''] (Finite (101 / 100)) USD True"
  have r: "?r = Inr (projr ?r)" and c: "map bg_cents (al_budgets (projr ?r)) = [50, 51]" by code_simp+
  have "sum_list (map bg_cents (al_budgets (projr ?r))) + al_unallocated_cents (projr ?r) = al_total_cents (projr ?r)"
    using budgets_conserve_capital [OF r] by (elim conjE)
  with r c show ?thesis by (intro exI [of _ "projr ?r"] conjI)
qed

section \<open>The correlation test\<close>

text \<open>The correlations of three unit vectors in the plane, and the same with the last two strategies swapped.\<close>

definition gram :: "rat list list" where
  "gram = [[1, 352 / 1000, 28 / 100], [352 / 1000, 1, 99712 / 100000], [28 / 100, 99712 / 100000, 1]]"

definition gram_swapped :: "rat list list" where
  "gram_swapped = [[1, 28 / 100, 352 / 1000], [28 / 100, 1, 99712 / 100000], [352 / 1000, 99712 / 100000, 1]]"

text \<open>A rounding settled by an integer within half a unit of the last digit.\<close>

lemma dround_nearest:
  assumes "10 ^ 27 \<le> q * 10 ^ k" and "q * 10 ^ k < 10 ^ 28" and "\<bar>q * 10 ^ k - of_int m\<bar> < 1 / 2"
  shows "dround q = of_int m / 10 ^ k"
proof -
  have "0 < q * 10 ^ k" by (rule less_le_trans [OF _ assms(1)]) simp
  then have q: "0 < q" using zero_less_mult_iff [of q "10 ^ k"] by simp
  have p: "q / pow10 (- int k) = q * 10 ^ k" "pow10 (- int k) = 1 / 10 ^ k"
    by (cases "k = 0"; simp add: pow10_def)+
  have s: "pow10 (27 - int k) = 10 ^ 27 * pow10 (- int k)" "pow10 (28 - int k) = 10 ^ 28 * pow10 (- int k)"
    using pow10_scale [of "27 - int k"] by simp_all
  have "adjusted q = 27 - int k"
    by (rule adjusted_unique) (use q assms in \<open>simp_all add: s p field_simps\<close>)
  moreover have "round_half_even (q * 10 ^ k) = m"
    using round_half_even_dist [of "q * 10 ^ k"] assms(3) by linarith
  ultimately show ?thesis using q p by (simp add: dround_def)
qed

lemma gram_roundings:
  "ddiv (89856 / 100000) (876096 / 1000000) = 1025641025641025641025641026 / 10 ^ 27"
  "dmul (1025641025641025641025641026 / 10 ^ 27) (1025641025641025641025641026 / 10 ^ 27) = 1051939513477975016436554899 / 10 ^ 27"
  "dmul (1051939513477975016436554899 / 10 ^ 27) (876096 / 1000000) = 9216000000000000000000000008 / 10 ^ 28"
  "dadd (784 / 10000) (9216000000000000000000000008 / 10 ^ 28) = 1000000000000000000000000001 / 10 ^ 27"
  unfolding ddiv_def dmul_def dadd_def
  subgoal by (rule dround_nearest [where k = 27 and m = 1025641025641025641025641026, simplified of_int_numeral]) (simp_all add: abs_less_iff)
  subgoal by (rule dround_nearest [where k = 27 and m = 1051939513477975016436554899, simplified of_int_numeral]) (simp_all add: abs_less_iff)
  subgoal by (rule dround_nearest [where k = 28 and m = 9216000000000000000000000008, simplified of_int_numeral]) (simp_all add: abs_less_iff)
  subgoal by (rule dround_nearest [where k = 27 and m = 1000000000000000000000000001, simplified of_int_numeral]) (simp_all add: abs_less_iff)
  done

lemma gram_prefix:
  "foldl (ldl_row gram) (Some ([], [])) [0, 1] = Some ([[], [352 / 1000]], [1, 876096 / 1000000])"
  "foldl (ldl_entry (gram ! 2) [[], [352 / 1000]] [1, 876096 / 1000000]) (Some []) [0] = Some [28 / 100]"
  "dsub (gram ! 2 ! 1) (dsum (map (\<lambda>k. dmul (dmul ([28 / 100] ! k) ([[], [352 / 1000]] ! 1 ! k)) ([1, 876096 / 1000000] ! k)) [0..<1])) = 89856 / 100000"
  "dround (dmul (dmul (28 / 100) (28 / 100)) 1) = 784 / 10000"
  "dsub 1 (1000000000000000000000000001 / 10 ^ 27) < 0"
  by code_simp+

lemma dsum_two: "dsum [a, b] = dadd (dround a) b"
  by (simp add: dsum_def)

lemma gram_last_row: "ldl_row gram (Some ([[], [352 / 1000]], [1, 876096 / 1000000])) 2 = None"
proof -
  have "foldl (ldl_entry (gram ! 2) [[], [352 / 1000]] [1, 876096 / 1000000]) (Some []) [0..<2]
      = ldl_entry (gram ! 2) [[], [352 / 1000]] [1, 876096 / 1000000] (Some [28 / 100]) 1"
    using gram_prefix(2) by (simp add: numeral_2_eq_2)
  also have "\<dots> = Some [28 / 100, 1025641025641025641025641026 / 10 ^ 27]"
    unfolding ldl_entry_def option.case Let_def gram_prefix(3) by (simp add: gram_roundings(1) [simplified])
  finally have row: "foldl (ldl_entry (gram ! 2) [[], [352 / 1000]] [1, 876096 / 1000000]) (Some []) [0..<2]
      = Some [28 / 100, 1025641025641025641025641026 / 10 ^ 27]" .
  have two: "[0..<2] = [0, 1 :: nat]" and second: "[a, b] ! 1 = b" for a b :: rat by (simp_all add: upt_rec)
  have "dsum (map (\<lambda>k. dmul (dmul ([28 / 100, 1025641025641025641025641026 / 10 ^ 27] ! k)
        ([28 / 100, 1025641025641025641025641026 / 10 ^ 27] ! k)) ([1, 876096 / 1000000] ! k)) [0..<2])
      = 1000000000000000000000000001 / 10 ^ 27"
    by (simp only: two list.map nth_Cons_0 second dsum_two gram_prefix(4) gram_roundings)
  moreover have "gram ! 2 ! 2 = 1" by (simp add: gram_def)
  ultimately show ?thesis using row gram_prefix(5) by (simp only: ldl_row_def option.case prod.case Let_def if_True)
qed

lemma gram_rejected: "\<not> positive_semidefinite (map (map Finite) gram)"
proof -
  have "matrix_values (map (map Finite) gram) = gram" by code_simp
  moreover have indices: "[0..<length gram] = [0, 1] @ [2]" by (simp add: gram_def upt_rec)
  have "\<not> ldl_succeeds gram"
    unfolding ldl_succeeds_def indices foldl_append gram_prefix(1) by (simp add: gram_last_row [simplified])
  ultimately show ?thesis by (simp add: positive_semidefinite_def)
qed

lemma gram_swapped_accepted: "positive_semidefinite (map (map Finite) gram_swapped)"
  by code_simp

lemma stress_result_ok:
  assumes "portfolio_text scenario ''scenario_id'' = Inr ()" and "portfolio_text baseline ''baseline_evidence_digest'' = Inr ()"
    and "metrics \<noteq> []" and "\<not> isl (rfold metric_step [] metrics)" and "portfolio_texts limitations ''limitations'' False = Inr ()"
    and "portfolio_texts (sort (if ids = [] then [baseline] else ids)) ''input_evidence_ids'' True = Inr ()"
  shows "\<exists>r. stress_result D scenario kind baseline metrics limitations ids = Inr r"
  using assms by (cases "rfold metric_step [] metrics") (auto simp: stress_result_def Let_def)

text \<open>C28: The semidefiniteness test depends on the order of the strategies.  The matrix \<open>gram\<close> is positive
  semidefinite, yet the rounded decomposition finds a negative diagonal entry and the stress is refused; with two
  strategies swapped the same correlations are accepted and recorded, in canonical order, as the very matrix that
  was refused.\<close>

theorem correlation_test_order_dependent:
  "(\<forall>x y z :: rat. 0 \<le> x * x + y * y + z * z + 2 * (gram ! 0 ! 1 * x * y + gram ! 0 ! 2 * x * z + gram ! 1 ! 2 * y * z))
   \<and> correlation_stress D ''s'' ''b'' [''A'', ''B'', ''C''] (map (map Finite) gram)
       = Inl (Err PortfolioConstructionError ''valid positive-semidefinite correlation required'')
   \<and> (\<exists>r. correlation_stress D ''s'' ''b'' [''A'', ''C'', ''B''] (map (map Finite) gram_swapped) = Inr r
        \<and> sr_source_strategy_ids r = [''A'', ''B'', ''C''] \<and> sr_source_correlation r = gram)"
proof (intro conjI allI)
  fix x y z :: rat
  have "x * x + y * y + z * z + 2 * (gram ! 0 ! 1 * x * y + gram ! 0 ! 2 * x * z + gram ! 1 ! 2 * y * z)
      = (x + 352 / 1000 * y + 28 / 100 * z) ^ 2 + (936 / 1000 * y + 96 / 100 * z) ^ 2"
    by (simp add: gram_def power2_eq_square algebra_simps)
  then show "0 \<le> x * x + y * y + z * z + 2 * (gram ! 0 ! 1 * x * y + gram ! 0 ! 2 * x * z + gram ! 1 ! 2 * y * z)" by simp
next
  have ids: "portfolio_texts [''A'', ''B'', ''C''] ''strategy_ids'' True = Inr ()" by code_simp
  show "correlation_stress D ''s'' ''b'' [''A'', ''B'', ''C''] (map (map Finite) gram)
       = Inl (Err PortfolioConstructionError ''valid positive-semidefinite correlation required'')"
    using gram_rejected ids by (simp add: correlation_stress_def)
next
  have ids: "portfolio_texts [''A'', ''C'', ''B''] ''strategy_ids'' True = Inr ()" by code_simp
  have vals: "matrix_values (map (map Finite) gram_swapped) = gram_swapped" "length gram_swapped = 3" by code_simp+
  have order: "sort_key (\<lambda>i. [''A'', ''C'', ''B''] ! i) [0..<length [''A'', ''C'', ''B'']] = [0, 2, 1]" by code_simp
  have m: "map (\<lambda>i. map (\<lambda>j. gram_swapped ! i ! j) [0, 2, 1]) [0, 2, 1] = gram" by code_simp
  have "\<exists>r. stress_result D ''s'' CORRELATION ''b'' (correlation_metrics [''A'', ''B'', ''C''] gram)
      [''CORRELATION_ASSUMPTIONS_DO_NOT_CREATE_RETURN_PATHS''] [] = Inr r"
    by (rule stress_result_ok) code_simp+
  then show "\<exists>r. correlation_stress D ''s'' ''b'' [''A'', ''C'', ''B''] (map (map Finite) gram_swapped) = Inr r
        \<and> sr_source_strategy_ids r = [''A'', ''B'', ''C''] \<and> sr_source_correlation r = gram"
    using gram_swapped_accepted ids unfolding correlation_stress_def Let_def order vals m
    by (auto simp: vals)
qed

end
