(* ===== verification/Lineage.thy ===== *)
theory Lineage
  imports Prelude
begin

text \<open>
  Supersession lineages, shared by the instrument references (\<^verbatim>\<open>instruments/model.py\<close>) and the
  trading calendars (\<^verbatim>\<open>calendars/model.py\<close>).  Both modules validate a finite set of versions with
  the same three loops: every superseded version is present and superseded once, the walk from each
  version along its predecessors ends within a depth limit, and a successor becomes known strictly
  after its predecessor.

  \<open>chains_ok\<close> says what such a set is.  The locale \<open>supersession\<close> fixes the three loop bodies by their
  equations and shows once that together they accept exactly these sets and raise one class of
  exception otherwise; each module interprets it on its own loops.
\<close>

section \<open>Chains of predecessors\<close>

definition pred_of :: "('v \<Rightarrow> 'i) \<Rightarrow> ('v \<Rightarrow> 'i option) \<Rightarrow> 'v list \<Rightarrow> 'i \<Rightarrow> 'i option" where
  "pred_of ident prev vs i = Option.bind (dict_get ident vs i) prev"

fun ancestor :: "('v \<Rightarrow> 'i) \<Rightarrow> ('v \<Rightarrow> 'i option) \<Rightarrow> 'v list \<Rightarrow> nat \<Rightarrow> 'i \<Rightarrow> 'i option" where
  "ancestor ident prev vs 0 i = Some i"
| "ancestor ident prev vs (Suc n) i =
     Option.bind (pred_of ident prev vs i) (ancestor ident prev vs n)"

lemma ancestor_add:
  "ancestor ident prev vs (m + n) i = Option.bind (ancestor ident prev vs m i) (ancestor ident prev vs n)"
  by (induction m arbitrary: i) (auto split: option.split bind_split)

lemma ancestor_None_mono: "ancestor ident prev vs m i = None \<Longrightarrow> ancestor ident prev vs (m + n) i = None"
  by (simp add: ancestor_add)

lemma ancestor_cycle:
  "ancestor ident prev vs (Suc k) i = Some i \<Longrightarrow> ancestor ident prev vs n i \<noteq> None"
proof (induction n rule: less_induct)
  case (less n)
  show ?case
  proof (cases "n \<le> Suc k")
    case True
    then obtain d where "Suc k = n + d" by (metis le_add_diff_inverse)
    with less.prems ancestor_None_mono [of ident prev vs n i d] show ?thesis by auto
  next
    case False
    then obtain d where d: "n = Suc k + d" "d < n"
      by (metis less_add_Suc2 less_imp_add_positive linorder_not_le add.commute add_Suc)
    with less.IH [of d] less.prems show ?thesis by (simp only: ancestor_add) simp
  qed
qed

definition closed_lineage :: "('v \<Rightarrow> 'i) \<Rightarrow> ('v \<Rightarrow> 'i option) \<Rightarrow> 'v list \<Rightarrow> bool" where
  "closed_lineage ident prev vs \<longleftrightarrow> (\<forall>v\<in>set vs. \<forall>p. prev v = Some p \<longrightarrow> p \<in> ident ` set vs)"

text \<open>Unique identities; each version superseded at most once, by one that became known later;
  predecessors present; no chain longer than the limit.\<close>

definition chains_ok ::
  "('v \<Rightarrow> 'i) \<Rightarrow> ('v \<Rightarrow> 'i option) \<Rightarrow> ('v \<Rightarrow> int) \<Rightarrow> nat \<Rightarrow> 'v list \<Rightarrow> bool" where
  "chains_ok ident prev known limit vs \<longleftrightarrow> distinct (map ident vs)
     \<and> (\<forall>v\<in>set vs. \<forall>w\<in>set vs. prev v \<noteq> None \<longrightarrow> prev v = prev w \<longrightarrow> v = w)
     \<and> (\<forall>v\<in>set vs. \<forall>p. prev v = Some p \<longrightarrow> (\<exists>w\<in>set vs. ident w = p \<and> known w < known v))
     \<and> (\<forall>v\<in>set vs. ancestor ident prev vs (Suc limit) (ident v) = None)"

lemma chains_ok_closed: "chains_ok ident prev known limit vs \<Longrightarrow> closed_lineage ident prev vs"
  unfolding chains_ok_def closed_lineage_def by blast

lemma chains_ok_later:
  assumes "chains_ok ident prev known limit vs" and "u \<in> set vs" and "w \<in> set vs"
    and "prev w = Some (ident u)"
  shows "known u < known w"
proof -
  obtain w' where "w' \<in> set vs" "ident w' = ident u" "known w' < known w"
    using assms unfolding chains_ok_def by blast
  moreover have "inj_on ident (set vs)" using assms(1) by (simp add: chains_ok_def distinct_map)
  ultimately show ?thesis using assms(2) by (metis inj_onD)
qed

lemma dict_get_perm:
  assumes "distinct (map key vs)" and "mset vs = mset ws"
  shows "dict_get key ws i = dict_get key vs i"
proof (cases "dict_get key vs i")
  case None
  moreover have "set ws = set vs" using mset_eq_setD [OF assms(2)] by simp
  ultimately have "dict_get key ws i = None" by (simp add: dict_get_None)
  with None show ?thesis by simp
next
  case (Some v)
  have "distinct (map key ws)" using assms by (metis mset_map mset_eq_imp_distinct_iff)
  moreover have "v \<in> set ws" "key v = i" using dict_get_SomeD [OF Some] mset_eq_setD [OF assms(2)] by auto
  ultimately show ?thesis using Some by (simp add: dict_get_unique)
qed

lemma ancestor_perm:
  assumes "distinct (map ident vs)" and "mset vs = mset ws"
  shows "ancestor ident prev ws n i = ancestor ident prev vs n i"
proof (induction n arbitrary: i)
  case (Suc n)
  have "pred_of ident prev ws i = pred_of ident prev vs i"
    by (simp add: pred_of_def dict_get_perm [OF assms])
  then show ?case by (simp add: Suc.IH [abs_def])
qed simp

lemma chains_ok_perm:
  assumes "mset vs = mset ws" and "chains_ok ident prev known limit vs"
  shows "chains_ok ident prev known limit ws"
proof -
  have d: "distinct (map ident vs)" using assms(2) unfolding chains_ok_def by blast
  then have "distinct (map ident ws)" using assms(1) by (metis mset_map mset_eq_imp_distinct_iff)
  moreover have "set ws = set vs" using assms(1) by (metis mset_eq_setD)
  ultimately show ?thesis
    using assms(2) unfolding chains_ok_def by (simp only: ancestor_perm [OF d assms(1)] simp_thms) blast
qed

lemma one_subject:
  "vs \<noteq> [] \<Longrightarrow> (\<exists>v\<in>set vs. f v \<noteq> f (hd vs)) \<longleftrightarrow> \<not> (\<forall>v\<in>set vs. \<forall>w\<in>set vs. f v = f w)"
  by (metis hd_in_set)

section \<open>The newest version\<close>

text \<open>The versions no other one of the list supersedes.\<close>

definition tips :: "('v \<Rightarrow> 'i) \<Rightarrow> ('v \<Rightarrow> 'i option) \<Rightarrow> 'v list \<Rightarrow> 'v list" where
  "tips ident prev q = filter (\<lambda>v. ident v \<notin> set (List.map_filter prev q)) q"

lemma set_tips:
  "u \<in> set (tips ident prev q) \<longleftrightarrow> u \<in> set q \<and> \<not> (\<exists>w\<in>set q. prev w = Some (ident u))"
  by (auto simp: tips_def map_filter_set_iff)

lemma single_tip_newest:
  fixes known :: "'v \<Rightarrow> int"
  assumes later: "\<And>u w. u \<in> set q \<Longrightarrow> w \<in> set q \<Longrightarrow> prev w = Some (ident u) \<Longrightarrow> known u < known w"
    and single: "tips ident prev q = [v]"
  shows "v \<in> set q \<and> (\<forall>u\<in>set q. u = v \<or> known u < known v)"
proof -
  have v: "v \<in> set q" using set_tips [of v ident prev q] single by simp
  have "Max (known ` set q) \<in> known ` set q" using v by (intro Max_in) auto
  then obtain m where m: "m \<in> set q" "Max (known ` set q) = known m" by auto
  have top: "known u \<le> known m" if "u \<in> set q" for u
    unfolding m(2) [symmetric] using that by (intro Max_ge) auto
  have max_v: "u = v" if u: "u \<in> set q" "known u = known m" for u
  proof (rule ccontr)
    assume "u \<noteq> v"
    then have "u \<notin> set (tips ident prev q)" using single by simp
    then obtain w where "w \<in> set q" "prev w = Some (ident u)" using set_tips [of u ident prev q] u by blast
    with later [of u w] top [of w] u show False by simp
  qed
  have "m = v" by (rule max_v [OF m(1) refl])
  with top max_v v show ?thesis by force
qed

lemma tips_perm: "mset p = mset q \<Longrightarrow> mset (tips ident prev p) = mset (tips ident prev q)"
proof -
  assume a: "mset p = mset q"
  then have "set (List.map_filter prev p) = set (List.map_filter prev q)"
    by (simp add: map_filter_set_iff mset_eq_setD [OF a])
  with a show ?thesis by (simp add: tips_def mset_filter)
qed

section \<open>The three loops\<close>

locale supersession =
  fixes ident :: "'v \<Rightarrow> 'i"
    and prev :: "'v \<Rightarrow> 'i option"
    and known :: "'v \<Rightarrow> int"
    and limit :: nat
    and x :: exn
    and succ_step :: "'v list \<Rightarrow> 'i list \<Rightarrow> 'v \<Rightarrow> 'i list result"
    and walk :: "'v list \<Rightarrow> 'i \<Rightarrow> 'i \<Rightarrow> 'i list \<Rightarrow> nat \<Rightarrow> unit result"
    and know_step :: "'v list \<Rightarrow> 'v \<Rightarrow> unit result"
  assumes succ_step: "succ_step vs acc v = (case prev v of
       None \<Rightarrow> Inr acc
     | Some p \<Rightarrow> raise_if (dict_get ident vs p = None) x ''MISSING_PREDECESSOR''
         (raise_if (p \<in> set acc) x ''BRANCHING_SUCCESSOR_CONFLICT'' (Inr (acc @ [p]))))"
    and walk: "walk vs start current seen depth = (case dict_get ident vs current of
       None \<Rightarrow> Inl (Err KeyError [])
     | Some item \<Rightarrow> (case prev item of
         None \<Rightarrow> Inr ()
       | Some p \<Rightarrow>
           if p \<in> set seen \<or> p = start then Inl (Err x ''LINEAGE_CYCLE'')
           else if limit < depth + 1 then Inl (Err x ''LINEAGE_RESOURCE_LIMIT_EXCEEDED'')
           else walk vs start p (p # seen) (depth + 1)))"
    and know_step: "know_step vs v = (case prev v of
       None \<Rightarrow> Inr ()
     | Some p \<Rightarrow> (case dict_get ident vs p of
         None \<Rightarrow> Inl (Err KeyError [])
       | Some w \<Rightarrow> raise_if (known v \<le> known w) x ''SUCCESSOR_KNOWLEDGE_NOT_GREATER'' (Inr ())))"
begin

lemma present: "i \<in> ident ` set vs \<Longrightarrow> \<exists>v. dict_get ident vs i = Some v \<and> v \<in> set vs"
  by (cases "dict_get ident vs i") (auto simp: dict_get_None dest: dict_get_SomeD)

lemma absent: "dict_get ident vs i = None \<longleftrightarrow> i \<notin> ident ` set vs"
  by (auto simp: dict_get_None)

text \<open>The walk from a start ends normally exactly when the chain behind it ends in time.\<close>

lemma walk_iff:
  assumes "closed_lineage ident prev vs" and "current \<in> ident ` set vs"
    and "\<forall>s\<in>set seen \<union> {start}. \<exists>k. ancestor ident prev vs k s = Some current"
    and "depth \<le> limit"
  shows "walk vs start current seen depth = Inr () \<longleftrightarrow>
    ancestor ident prev vs (Suc (limit - depth)) current = None"
  using assms
proof (induction "limit - depth" arbitrary: current seen depth rule: less_induct)
  case less
  from present [OF less.prems(2)] obtain item where item: "dict_get ident vs current = Some item" "item \<in> set vs"
    by blast
  show ?case
  proof (cases "prev item")
    case None
    then show ?thesis by (simp add: walk [of vs start current] item pred_of_def)
  next
    case (Some p)
    have pred: "pred_of ident prev vs current = Some p" by (simp add: pred_of_def item Some)
    have p: "p \<in> ident ` set vs" using less.prems(1) item Some by (auto simp: closed_lineage_def)
    have step: "\<exists>k. ancestor ident prev vs (Suc k) s = Some p" if "s \<in> set seen \<union> {start}" for s
    proof -
      from less.prems(3) that have "\<exists>k. ancestor ident prev vs k s = Some current" by (rule bspec)
      then obtain k where "ancestor ident prev vs k s = Some current" ..
      then have "ancestor ident prev vs (k + 1) s = Some p" using pred by (simp only: ancestor_add) simp
      then show ?thesis by (metis Suc_eq_plus1)
    qed
    consider (cycle) "p \<in> set seen \<or> p = start" | (deep) "\<not> (p \<in> set seen \<or> p = start)" "depth = limit"
      | (on) "\<not> (p \<in> set seen \<or> p = start)" "depth < limit" using less.prems(4) by linarith
    then show ?thesis
    proof cases
      case cycle
      then obtain k where "ancestor ident prev vs (Suc k) p = Some p" using step [of p] by auto
      then have "ancestor ident prev vs n p \<noteq> None" for n by (rule ancestor_cycle)
      with cycle show ?thesis by (simp add: walk [of vs start current] item Some pred)
    next
      case deep
      then show ?thesis by (simp add: walk [of vs start current] item Some pred)
    next
      case on
      have "\<forall>s\<in>set (p # seen) \<union> {start}. \<exists>k. ancestor ident prev vs k s = Some p"
        using step by (auto intro: exI [of _ 0] simp del: ancestor.simps(2))
      then have "walk vs start p (p # seen) (depth + 1) = Inr () \<longleftrightarrow>
          ancestor ident prev vs (Suc (limit - (depth + 1))) p = None"
        using on less.prems(1) p by (intro less.hyps) auto
      moreover have "Suc (limit - depth) = Suc (Suc (limit - (depth + 1)))" using on by simp
      ultimately show ?thesis using on by (simp add: walk [of vs start current] item Some pred)
    qed
  qed
qed

lemma walk_start:
  assumes "closed_lineage ident prev vs" and "v \<in> set vs"
  shows "walk vs (ident v) (ident v) [] 0 = Inr () \<longleftrightarrow> ancestor ident prev vs (Suc limit) (ident v) = None"
proof -
  have "\<forall>s\<in>set [] \<union> {ident v}. \<exists>k. ancestor ident prev vs k s = Some (ident v)"
    by (auto intro!: exI [of _ "0 :: nat"])
  from walk_iff [OF assms(1) _ this, of 0] assms(2) show ?thesis by (simp del: ancestor.simps(2))
qed

lemma walk_error:
  assumes "closed_lineage ident prev vs" and "current \<in> ident ` set vs"
    and "walk vs start current seen depth = Inl (Err y m)"
  shows "y = x"
  using assms
proof (induction "limit + 1 - depth" arbitrary: current seen depth rule: less_induct)
  case less
  from present [OF less.prems(2)] obtain item where item: "dict_get ident vs current = Some item" "item \<in> set vs"
    by blast
  show ?case
  proof (cases "prev item")
    case None
    with less.prems(3) show ?thesis by (simp add: walk [of vs start current] item)
  next
    case (Some p)
    have p: "p \<in> ident ` set vs" using less.prems(1) item Some by (auto simp: closed_lineage_def)
    have "y = x" if "\<not> limit < depth + 1" "walk vs start p (p # seen) (depth + 1) = Inl (Err y m)"
      using that less.prems(1) p by (intro less.hyps [of "depth + 1" p "p # seen"]) auto
    with less.prems(3) show ?thesis
      by (auto simp: walk [of vs start current] item Some split: if_splits)
  qed
qed

lemma successors_iff:
  assumes "distinct acc"
  shows "(\<exists>acc'. rfold (succ_step vs) acc vs' = Inr acc') \<longleftrightarrow>
    (\<forall>v\<in>set vs'. \<forall>p. prev v = Some p \<longrightarrow> p \<in> ident ` set vs) \<and> distinct (acc @ List.map_filter prev vs')"
  using assms
proof (induction vs' arbitrary: acc)
  case Nil
  then show ?case by (simp add: List.map_filter_def)
next
  case (Cons v vs')
  show ?case
  proof (cases "prev v")
    case None
    with Cons show ?thesis by (simp add: succ_step map_filter_Cons)
  next
    case (Some p)
    show ?thesis
    proof (cases "p \<in> ident ` set vs \<and> p \<notin> set acc")
      case True
      with Some have "succ_step vs acc v = Inr (acc @ [p])" unfolding succ_step absent by simp
      with Cons.IH [of "acc @ [p]"] Cons.prems True Some show ?thesis by (simp add: map_filter_Cons)
    next
      case False
      with Some have "\<exists>e. succ_step vs acc v = Inl e" unfolding succ_step absent by auto
      with False Some show ?thesis by (auto simp: map_filter_Cons)
    qed
  qed
qed

lemma know_step_iff:
  assumes "distinct (map ident vs)" and "v \<in> set vs" and "\<forall>p. prev v = Some p \<longrightarrow> p \<in> ident ` set vs"
  shows "(\<exists>y. know_step vs v = Inr y) \<longleftrightarrow>
    (\<forall>p. prev v = Some p \<longrightarrow> (\<exists>w\<in>set vs. ident w = p \<and> known w < known v))"
proof (cases "prev v")
  case (Some p)
  with assms(3) obtain w where w: "w \<in> set vs" "ident w = p" by auto
  then have get: "dict_get ident vs p = Some w" using assms(1) by (intro dict_get_unique)
  have "inj_on ident (set vs)" using assms(1) by (simp add: distinct_map)
  then have "(\<exists>w'\<in>set vs. ident w' = p \<and> known w' < known v) \<longleftrightarrow> known w < known v"
    using w by (metis (no_types, lifting) inj_onD)
  then show ?thesis by (simp add: know_step Some get not_le)
qed (simp add: know_step)

lemma checks_Inr:
  assumes d: "distinct (map ident vs)"
  shows "rbind (rfold (succ_step vs) [] vs) (\<lambda>_. rbind (rmap (\<lambda>s. walk vs s s [] 0) (map ident vs)) (\<lambda>_.
      rbind (rmap (know_step vs) vs) (\<lambda>_. k))) = Inr z \<longleftrightarrow> chains_ok ident prev known limit vs \<and> k = Inr z"
proof (cases "closed_lineage ident prev vs")
  case True
  have "distinct vs" using d by (simp add: distinct_map)
  have walks: "(\<exists>y. rmap (\<lambda>s. walk vs s s [] 0) (map ident vs) = Inr y) \<longleftrightarrow>
      (\<forall>v\<in>set vs. ancestor ident prev vs (Suc limit) (ident v) = None)"
    unfolding rmap_ok using walk_start [OF True] by simp
  have know: "(\<exists>y. rmap (know_step vs) vs = Inr y) \<longleftrightarrow> (\<forall>v\<in>set vs. \<forall>p. prev v = Some p \<longrightarrow>
      (\<exists>w\<in>set vs. ident w = p \<and> known w < known v))"
    unfolding rmap_ok using know_step_iff [OF d] True by (simp add: closed_lineage_def)
  have succ: "(\<exists>y. rfold (succ_step vs) [] vs = Inr y) \<longleftrightarrow>
      (\<forall>v\<in>set vs. \<forall>w\<in>set vs. prev v \<noteq> None \<longrightarrow> prev v = prev w \<longrightarrow> v = w)"
    using successors_iff [of "[]" vs vs] map_filter_inj_distinct [OF \<open>distinct vs\<close>, of prev] True
    by (simp add: closed_lineage_def)
  show ?thesis
    unfolding rbind_eq_Inr chains_ok_def succ [symmetric] walks [symmetric] know [symmetric] using d by blast
next
  case False
  then have "\<not> (\<exists>y. rfold (succ_step vs) [] vs = Inr y)"
    using successors_iff [of "[]" vs vs] by (auto simp: closed_lineage_def)
  with False chains_ok_closed [of ident prev known limit vs] show ?thesis unfolding rbind_eq_Inr by blast
qed

lemma checks_Inl:
  assumes "rbind (rfold (succ_step vs) [] vs) (\<lambda>_. rbind (rmap (\<lambda>s. walk vs s s [] 0) (map ident vs)) (\<lambda>_.
      rbind (rmap (know_step vs) vs) (\<lambda>_. Inr z))) = Inl (Err y m)"
  shows "y = x"
proof (cases "\<exists>acc. rfold (succ_step vs) [] vs = Inr acc")
  case True
  then have closed: "closed_lineage ident prev vs"
    using successors_iff [of "[]" vs vs] by (simp add: closed_lineage_def)
  have walk_x: "y = x" if "rmap (\<lambda>s. walk vs s s [] 0) (map ident vs) = Inl (Err y m)"
    using rmap_Inl [OF that] walk_error [OF closed] by (metis (no_types, lifting) image_set)
  have know: "y = x" if "rmap (know_step vs) vs = Inl (Err y m)"
    using rmap_Inl [OF that] closed
    by (auto simp: know_step closed_lineage_def split: option.splits) (metis absent option.exhaust)
  from assms True walk_x know show ?thesis by auto
next
  case False
  have "y = x" if "rfold (succ_step vs) [] vs = Inl (Err y m)"
    using rfold_Inl [OF that] by (auto simp: succ_step split: option.splits)
  with False assms show ?thesis by auto
qed

end

end
