(* ===== verification/Instruments.thy ===== *)
theory Instruments
  imports Identity Lineage
begin

text \<open>
  Instrument and listing reference data (\<^verbatim>\<open>instruments/model.py\<close>, \<^verbatim>\<open>instruments/resolution.py\<close>):
  attributable identities, evidence references, reference versions with two time axes (effective
  and knowledge time), the validation of a supersession lineage, and point-in-time resolution.

  The digest of a version's semantic content and of a coverage record are parameters
  (\<open>dg\<close>: the hexadecimal SHA-256 of the canonical JSON of the body).  Strings hold code points
  below 256, all of which are stable under NFC normalisation, so the guard on
  \<open>unicodedata.normalize\<close> never fires.

  Shown here: a lineage is accepted exactly when it is a set of short supersession chains with
  increasing knowledge times; resolution establishes a version exactly when it is the newest
  authoritative one that applies; and the answer does not depend on the order of the candidates.
\<close>

section \<open>Identities\<close>

datatype ListingId = ListingId (listing_uuid: uuid)
datatype ReferenceVersionId = ReferenceVersionId (version_uuid: uuid)

definition listing_prefix :: string where
  "listing_prefix = ''atis:listing:v1:''"

definition reference_version_prefix :: string where
  "reference_version_prefix = ''atis:reference-version:v1:''"

definition ListingId_init :: "uuid \<Rightarrow> ListingId result" where
  "ListingId_init u = rbind (require_uuid4 u) (\<lambda>_. Inr (ListingId u))"

definition ListingId_parse :: "string \<Rightarrow> ListingId result" where
  "ListingId_parse value = rbind (parse_uuid4 value listing_prefix) ListingId_init"

definition ListingId_to_string :: "ListingId \<Rightarrow> string" where
  "ListingId_to_string i = listing_prefix @ uuid_str (listing_uuid i)"

definition ReferenceVersionId_init :: "uuid \<Rightarrow> ReferenceVersionId result" where
  "ReferenceVersionId_init u = rbind (require_uuid4 u) (\<lambda>_. Inr (ReferenceVersionId u))"

definition ReferenceVersionId_parse :: "string \<Rightarrow> ReferenceVersionId result" where
  "ReferenceVersionId_parse value = rbind (parse_uuid4 value reference_version_prefix) ReferenceVersionId_init"

definition ReferenceVersionId_to_string :: "ReferenceVersionId \<Rightarrow> string" where
  "ReferenceVersionId_to_string i = reference_version_prefix @ uuid_str (version_uuid i)"

text \<open>\<open>[a-z0-9](?:[a-z0-9]|[.-](?=[a-z0-9])){0,62}\<close> followed by a slash: a separator is followed by
  a letter or digit.\<close>

definition lower_alnum :: "char \<Rightarrow> bool" where
  "lower_alnum c \<longleftrightarrow> in_range CHR ''a'' CHR ''z'' c \<or> in_range CHR ''0'' CHR ''9'' c"

fun authority_rest :: "string \<Rightarrow> bool" where
  "authority_rest [] = True"
| "authority_rest (c # cs) =
     ((lower_alnum c \<or> (c \<in> set ''.-'' \<and> (case cs of [] \<Rightarrow> False | d # _ \<Rightarrow> lower_alnum d)))
      \<and> authority_rest cs)"

definition authority_text :: "string \<Rightarrow> bool" where
  "authority_text s = (case s of [] \<Rightarrow> False
     | c # cs \<Rightarrow> lower_alnum c \<and> length cs \<le> 62 \<and> authority_rest cs)"

text \<open>\<open>[A-Za-z0-9][A-Za-z0-9._:/+-]{0,190}\<close>\<close>

definition local_text :: "string \<Rightarrow> bool" where
  "local_text s = (case s of [] \<Rightarrow> False
     | c # cs \<Rightarrow> ascii_alnum c \<and> length cs \<le> 190 \<and> list_all (\<lambda>c. name_char c \<or> c \<in> set ''/+'') cs)"

definition attributable_id :: "string \<Rightarrow> string \<Rightarrow> bool" where
  "attributable_id value kind \<longleftrightarrow> length value \<le> 255 \<and> prefix (kind @ '':'') value
     \<and> (let t = drop (length kind + 1) value in
        authority_text (takeWhile (\<lambda>c. c \<noteq> CHR ''/'') t)
        \<and> (case dropWhile (\<lambda>c. c \<noteq> CHR ''/'') t of [] \<Rightarrow> False | _ # l \<Rightarrow> local_text l))"

definition validate_attributable_id :: "string \<Rightarrow> string \<Rightarrow> unit result" where
  "validate_attributable_id value kind =
     raise_if (\<not> attributable_id value kind) ValueError
       (''value must be a canonical '' @ kind @ '' identifier'') (Inr ())"

datatype SourceId = SourceId (source_text: string)
datatype DatasetId = DatasetId (dataset_text: string)
datatype EvidenceId = EvidenceId (evidence_text: string)
datatype ValidationPolicyId = ValidationPolicyId (validation_policy_text: string)
datatype ReferenceContentDigest = ReferenceContentDigest (reference_digest_text: string)

definition SourceId_init :: "string \<Rightarrow> SourceId result" where
  "SourceId_init v = rbind (validate_attributable_id v ''source'') (\<lambda>_. Inr (SourceId v))"

definition DatasetId_init :: "string \<Rightarrow> DatasetId result" where
  "DatasetId_init v = rbind (validate_attributable_id v ''dataset'') (\<lambda>_. Inr (DatasetId v))"

definition EvidenceId_init :: "string \<Rightarrow> EvidenceId result" where
  "EvidenceId_init v = rbind (validate_attributable_id v ''evidence'') (\<lambda>_. Inr (EvidenceId v))"

definition ValidationPolicyId_init :: "string \<Rightarrow> ValidationPolicyId result" where
  "ValidationPolicyId_init v =
     rbind (validate_attributable_id v ''validation-policy'') (\<lambda>_. Inr (ValidationPolicyId v))"

definition ReferenceContentDigest_init :: "string \<Rightarrow> ReferenceContentDigest result" where
  "ReferenceContentDigest_init v =
     raise_if (\<not> sha256_text v) ValueError ''value must be a canonical SHA-256 digest''
       (Inr (ReferenceContentDigest v))"

section \<open>Evidence references\<close>

definition MAX_EVIDENCE_REFS :: nat where
  "MAX_EVIDENCE_REFS = 64"

definition MAX_LINEAGE_VERSIONS :: nat where
  "MAX_LINEAGE_VERSIONS = 4096"

definition MAX_LINEAGE_DEPTH :: nat where
  "MAX_LINEAGE_DEPTH = 256"

record EvidenceRef =
  er_source_id :: SourceId
  er_dataset_id :: DatasetId
  er_evidence_id :: EvidenceId
  er_content_digest :: EvidenceContentDigest

definition evidence_key :: "EvidenceRef \<Rightarrow> SourceId \<times> DatasetId \<times> EvidenceId" where
  "evidence_key e = (er_source_id e, er_dataset_id e, er_evidence_id e)"

text \<open>The canonical JSON object; the identities of a constructed reference need no escapes.\<close>

definition evidence_canonical_bytes :: "EvidenceRef \<Rightarrow> string" where
  "evidence_canonical_bytes e =
     ''{\"content_digest\":\"'' @ digest_text (er_content_digest e)
     @ ''\",\"dataset_id\":\"'' @ dataset_text (er_dataset_id e)
     @ ''\",\"evidence_id\":\"'' @ evidence_text (er_evidence_id e)
     @ ''\",\"source_id\":\"'' @ source_text (er_source_id e) @ ''\"}''"

definition collect_evidence :: "EvidenceRef list \<Rightarrow> EvidenceRef \<Rightarrow> EvidenceRef list result" where
  "collect_evidence by_key value =
     raise_if (case dict_get evidence_key by_key (evidence_key value) of None \<Rightarrow> False
         | Some previous \<Rightarrow> er_content_digest previous \<noteq> er_content_digest value)
       EvidenceIdentityConflict ''EVIDENCE_IDENTITY_CONFLICT''
       (Inr (dict_put evidence_key value by_key))"

definition canonicalize_evidence_refs :: "EvidenceRef list \<Rightarrow> EvidenceRef list result" where
  "canonicalize_evidence_refs values =
     raise_if (values = []) ValueError ''evidence_refs must not be empty''
     (raise_if (MAX_EVIDENCE_REFS < length values) ValueError ''evidence_refs exceeds the limit of 64''
     (rbind (rfold collect_evidence [] values) (\<lambda>by_key.
       Inr (sort_key evidence_canonical_bytes by_key))))"

datatype ValidationState = V_VALID | V_INVALID | V_NOT_VALIDATED | V_INCOMPATIBLE | V_NOT_ESTABLISHED
datatype TradabilityState = T_ACTIVE | T_HALTED | T_SUSPENDED | T_INACTIVE | T_DELISTED

definition semantic_text :: "string \<Rightarrow> string option \<Rightarrow> string option result" where
  "semantic_text name value = (case value of None \<Rightarrow> Inr None
     | Some v \<Rightarrow> raise_if (v = [] \<or> v \<noteq> strip v) ValueError (name @ '' must be nonempty and unpadded'')
         (Inr (Some v)))"

definition required_text :: "string \<Rightarrow> string \<Rightarrow> string result" where
  "required_text name v =
     raise_if (v = [] \<or> v \<noteq> strip v) ValueError (name @ '' must be nonempty and unpadded'') (Inr v)"

definition external_ids :: "string list \<Rightarrow> string list result" where
  "external_ids values =
     rbind (rmap (required_text ''external_identifier'') values) (\<lambda>checked.
       raise_if (\<not> distinct checked) ValueError ''external_identifiers must be distinct''
         (Inr (sort checked)))"

section \<open>Reference versions\<close>

text \<open>The fields the two classes share, and the two classes.\<close>

record ReferenceCommon =
  rv_reference_version_id :: ReferenceVersionId
  rv_instrument_id :: InstrumentId
  rv_effective_from :: Timestamp
  rv_effective_to :: "Timestamp option"
  rv_knowledge_from :: Timestamp
  rv_evidence_refs :: "EvidenceRef list"
  rv_validation_policy_id :: ValidationPolicyId
  rv_validation_state :: ValidationState
  rv_content_digest :: ReferenceContentDigest
  rv_supersedes_version_id :: "ReferenceVersionId option"
  rv_currency :: "string option"
  rv_external_identifiers :: "string list"
  rv_source_observed_at :: "Timestamp option"
  rv_correction_reason :: "string option"

record InstrumentReferenceVersion = ReferenceCommon +
  iv_security_type :: "string option"

record ListingReferenceVersion = ReferenceCommon +
  lv_listing_id :: ListingId
  lv_tradability_state :: TradabilityState
  lv_tradability_reason :: string
  lv_symbol :: "string option"
  lv_mic :: "string option"
  lv_primary_listing_indicator :: "bool option"

datatype ReferenceVersion =
  InstrumentVersion InstrumentReferenceVersion | ListingVersion ListingReferenceVersion

fun common :: "ReferenceVersion \<Rightarrow> ReferenceCommon" where
  "common (InstrumentVersion v) = ReferenceCommon.truncate v"
| "common (ListingVersion v) = ReferenceCommon.truncate v"

abbreviation version_id :: "ReferenceVersion \<Rightarrow> ReferenceVersionId" where
  "version_id v \<equiv> rv_reference_version_id (common v)"

abbreviation supersedes :: "ReferenceVersion \<Rightarrow> ReferenceVersionId option" where
  "supersedes v \<equiv> rv_supersedes_version_id (common v)"

abbreviation known_from :: "ReferenceVersion \<Rightarrow> int" where
  "known_from v \<equiv> instant (rv_knowledge_from (common v))"

text \<open>The body that is digested: every field but the version identity and the digest itself.\<close>

record SemanticBody =
  sm_record_kind :: string
  sm_instrument_id :: string
  sm_effective_from :: Timestamp
  sm_effective_to :: "Timestamp option"
  sm_knowledge_from :: Timestamp
  sm_evidence_refs :: "EvidenceRef list"
  sm_validation_policy_id :: string
  sm_validation_state :: ValidationState
  sm_supersedes_version_id :: "string option"
  sm_currency :: "string option"
  sm_external_identifiers :: "string list"
  sm_source_observed_at :: "Timestamp option"
  sm_correction_reason :: "string option"
  sm_security_type :: "string option"
  sm_listing :: "(string \<times> string option \<times> string option \<times> bool option \<times> TradabilityState \<times> string) option"

definition common_mapping :: "string \<Rightarrow> 'a ReferenceCommon_scheme \<Rightarrow> SemanticBody" where
  "common_mapping kind v = \<lparr>sm_record_kind = kind,
     sm_instrument_id = InstrumentId_to_string (rv_instrument_id v),
     sm_effective_from = rv_effective_from v, sm_effective_to = rv_effective_to v,
     sm_knowledge_from = rv_knowledge_from v, sm_evidence_refs = rv_evidence_refs v,
     sm_validation_policy_id = validation_policy_text (rv_validation_policy_id v),
     sm_validation_state = rv_validation_state v,
     sm_supersedes_version_id = map_option ReferenceVersionId_to_string (rv_supersedes_version_id v),
     sm_currency = rv_currency v, sm_external_identifiers = rv_external_identifiers v,
     sm_source_observed_at = rv_source_observed_at v, sm_correction_reason = rv_correction_reason v,
     sm_security_type = None, sm_listing = None\<rparr>"

fun semantic_mapping :: "ReferenceVersion \<Rightarrow> SemanticBody" where
  "semantic_mapping (InstrumentVersion v) =
     (common_mapping ''INSTRUMENT_REFERENCE_VERSION'' v)\<lparr>sm_security_type := iv_security_type v\<rparr>"
| "semantic_mapping (ListingVersion v) =
     (common_mapping ''LISTING_REFERENCE_VERSION'' v)
       \<lparr>sm_listing := Some (ListingId_to_string (lv_listing_id v), lv_symbol v, lv_mic v,
          lv_primary_listing_indicator v, lv_tradability_state v, lv_tradability_reason v)\<rparr>"

definition content_digest :: "(SemanticBody \<Rightarrow> string) \<Rightarrow> ReferenceVersion \<Rightarrow> ReferenceContentDigest result" where
  "content_digest dg v = ReferenceContentDigest_init (''sha256:'' @ dg (semantic_mapping v))"

definition validate_common :: "'a ReferenceCommon_scheme \<Rightarrow> 'a ReferenceCommon_scheme result" where
  "validate_common v =
     raise_if (case rv_effective_to v of None \<Rightarrow> False
         | Some t \<Rightarrow> instant t \<le> instant (rv_effective_from v))
       ValueError ''effective interval must have a positive duration''
     (rbind (canonicalize_evidence_refs (rv_evidence_refs v)) (\<lambda>refs.
      raise_if (rv_supersedes_version_id v = Some (rv_reference_version_id v))
        LineageValidationError ''SELF_SUPERSESSION'' (Inr (v\<lparr>rv_evidence_refs := refs\<rparr>))))"

definition InstrumentReferenceVersion_init ::
  "(SemanticBody \<Rightarrow> string) \<Rightarrow> InstrumentReferenceVersion \<Rightarrow> InstrumentReferenceVersion result" where
  "InstrumentReferenceVersion_init dg a =
     rbind (validate_common a) (\<lambda>v.
     rbind (semantic_text ''currency'' (rv_currency v)) (\<lambda>_.
     rbind (semantic_text ''security_type'' (iv_security_type v)) (\<lambda>_.
     rbind (semantic_text ''correction_reason'' (rv_correction_reason v)) (\<lambda>_.
     rbind (external_ids (rv_external_identifiers v)) (\<lambda>ext.
       let w = v\<lparr>rv_external_identifiers := ext\<rparr> in
       rbind (content_digest dg (InstrumentVersion w)) (\<lambda>d. Inr (w\<lparr>rv_content_digest := d\<rparr>)))))))"

definition ListingReferenceVersion_init ::
  "(SemanticBody \<Rightarrow> string) \<Rightarrow> ListingReferenceVersion \<Rightarrow> ListingReferenceVersion result" where
  "ListingReferenceVersion_init dg a =
     rbind (validate_common a) (\<lambda>v.
     rbind (required_text ''tradability_reason'' (lv_tradability_reason v)) (\<lambda>_.
     rbind (semantic_text ''symbol'' (lv_symbol v)) (\<lambda>_.
     rbind (semantic_text ''mic'' (lv_mic v)) (\<lambda>_.
     rbind (semantic_text ''currency'' (rv_currency v)) (\<lambda>_.
     rbind (semantic_text ''correction_reason'' (rv_correction_reason v)) (\<lambda>_.
     rbind (external_ids (rv_external_identifiers v)) (\<lambda>ext.
       let w = v\<lparr>rv_external_identifiers := ext\<rparr> in
       rbind (content_digest dg (ListingVersion w)) (\<lambda>d. Inr (w\<lparr>rv_content_digest := d\<rparr>)))))))))"

definition version_authoritative :: "ReferenceVersion \<Rightarrow> bool" where
  "version_authoritative v \<longleftrightarrow> rv_validation_state (common v) = V_VALID"

definition contains_effective :: "ReferenceVersion \<Rightarrow> Timestamp \<Rightarrow> bool" where
  "contains_effective v t \<longleftrightarrow> instant (rv_effective_from (common v)) \<le> instant t
     \<and> (case rv_effective_to (common v) of None \<Rightarrow> True | Some e \<Rightarrow> instant t < instant e)"

definition verify_content_digest ::
  "(SemanticBody \<Rightarrow> string) \<Rightarrow> ReferenceVersion \<Rightarrow> ReferenceContentDigest \<Rightarrow> unit result" where
  "verify_content_digest dg v claimed = rbind (content_digest dg v) (\<lambda>d.
     raise_if (claimed \<noteq> d) ValueError ''content_digest does not match canonical semantic content'' (Inr ()))"

section \<open>Lineage\<close>

fun is_listing :: "ReferenceVersion \<Rightarrow> bool" where
  "is_listing (InstrumentVersion v) = False"
| "is_listing (ListingVersion v) = True"

fun listing_of :: "ReferenceVersion \<Rightarrow> ListingId option" where
  "listing_of (InstrumentVersion v) = None"
| "listing_of (ListingVersion v) = Some (lv_listing_id v)"

definition subject :: "ReferenceVersion \<Rightarrow> InstrumentId \<times> ListingId option" where
  "subject v = (rv_instrument_id (common v), listing_of v)"

abbreviation by_id :: "ReferenceVersion list \<Rightarrow> ReferenceVersionId \<Rightarrow> ReferenceVersion option" where
  "by_id values i \<equiv> dict_get version_id values i"

text \<open>One round of the loop that fills \<open>successors\<close>, whose keys are the versions superseded so far.\<close>

definition successor_step ::
  "ReferenceVersion list \<Rightarrow> ReferenceVersionId list \<Rightarrow> ReferenceVersion \<Rightarrow> ReferenceVersionId list result" where
  "successor_step values superseded item = (case supersedes item of
     None \<Rightarrow> Inr superseded
   | Some p \<Rightarrow>
       raise_if (by_id values p = None) LineageValidationError ''MISSING_PREDECESSOR''
       (raise_if (p \<in> set superseded) LineageValidationError ''BRANCHING_SUCCESSOR_CONFLICT''
         (Inr (superseded @ [p]))))"

text \<open>The \<open>while True\<close> loop from one start: the depth guard bounds it.\<close>

function lineage_walk ::
  "ReferenceVersion list \<Rightarrow> ReferenceVersionId \<Rightarrow> ReferenceVersionId \<Rightarrow> ReferenceVersionId list \<Rightarrow> nat \<Rightarrow>
   unit result" where
  "lineage_walk values start current seen depth = (case by_id values current of
     None \<Rightarrow> Inl (Err KeyError [])
   | Some item \<Rightarrow> (case supersedes item of
       None \<Rightarrow> Inr ()
     | Some p \<Rightarrow>
         if p \<in> set seen \<or> p = start then Inl (Err LineageValidationError ''LINEAGE_CYCLE'')
         else if MAX_LINEAGE_DEPTH < depth + 1
         then Inl (Err LineageValidationError ''LINEAGE_RESOURCE_LIMIT_EXCEEDED'')
         else lineage_walk values start p (p # seen) (depth + 1)))"
  by pat_completeness auto
termination
  by (relation "measure (\<lambda>(_, _, _, _, depth). MAX_LINEAGE_DEPTH + 1 - depth)") auto

declare lineage_walk.simps [simp del]

definition knowledge_step :: "ReferenceVersion list \<Rightarrow> ReferenceVersion \<Rightarrow> unit result" where
  "knowledge_step values item = (case supersedes item of
     None \<Rightarrow> Inr ()
   | Some p \<Rightarrow> (case by_id values p of
       None \<Rightarrow> Inl (Err KeyError [])
     | Some predecessor \<Rightarrow> raise_if (known_from item \<le> known_from predecessor) LineageValidationError
         ''SUCCESSOR_KNOWLEDGE_NOT_GREATER'' (Inr ())))"

definition validate_lineage :: "ReferenceVersion list \<Rightarrow> ReferenceVersion list result" where
  "validate_lineage values =
     raise_if (values = []) LineageValidationError ''lineage must not be empty''
     (raise_if (MAX_LINEAGE_VERSIONS < length values) LineageValidationError ''LINEAGE_RESOURCE_LIMIT_EXCEEDED''
     (raise_if (\<not> distinct (map version_id values)) LineageValidationError ''DUPLICATE_REFERENCE_VERSION_ID''
     (raise_if (\<exists>v\<in>set values. is_listing v \<noteq> is_listing (hd values)) LineageValidationError ''CROSS_KIND_EDGE''
     (raise_if (\<exists>v\<in>set values. subject v \<noteq> subject (hd values)) LineageValidationError ''CROSS_SUBJECT_EDGE''
     (rbind (rfold (successor_step values) [] values) (\<lambda>_.
      rbind (rmap (\<lambda>start. lineage_walk values start start [] 0) (map version_id values)) (\<lambda>_.
      rbind (rmap (knowledge_step values) values) (\<lambda>_.
        Inr (sort_key (\<lambda>v. ReferenceVersionId_to_string (version_id v)) values)))))))))"

section \<open>Resolution\<close>

datatype ResolutionDisposition =
  ESTABLISHED | ABSENT | AMBIGUOUS | CONFLICTING | NOT_ESTABLISHED

datatype ReferenceRecordKind = INSTRUMENT | LISTING

record CandidateSetCoverage =
  cs_record_kind :: ReferenceRecordKind
  cs_instrument_id :: InstrumentId
  cs_listing_id :: "ListingId option"
  cs_effective_as_of :: Timestamp
  cs_knowledge_cutoff :: Timestamp
  cs_candidate_version_ids :: "ReferenceVersionId list"
  cs_evidence_refs :: "EvidenceRef list"
  cs_validation_policy_id :: ValidationPolicyId
  cs_validation_state :: ValidationState
  cs_content_digest :: string

definition check_listing_subject :: "string \<Rightarrow> ReferenceRecordKind \<Rightarrow> ListingId option \<Rightarrow> unit result" where
  "check_listing_subject what kind listing =
     raise_if (kind = INSTRUMENT \<and> listing \<noteq> None) ValueError
       (''instrument '' @ what @ '' must not specify a listing_id'')
     (raise_if (kind = LISTING \<and> listing = None) ValueError
       (''listing '' @ what @ '' must specify a listing_id'') (Inr ()))"

definition CandidateSetCoverage_init ::
  "(CandidateSetCoverage \<Rightarrow> string) \<Rightarrow> CandidateSetCoverage \<Rightarrow> CandidateSetCoverage result" where
  "CandidateSetCoverage_init dg a =
     rbind (check_listing_subject ''coverage'' (cs_record_kind a) (cs_listing_id a)) (\<lambda>_.
     raise_if (MAX_LINEAGE_VERSIONS < length (cs_candidate_version_ids a)) ValueError
       ''candidate_version_ids exceeds the lineage resource limit''
     (raise_if (\<not> distinct (cs_candidate_version_ids a)) ValueError
       ''candidate_version_ids must be distinct''
     (let c = a\<lparr>cs_candidate_version_ids := sort_key ReferenceVersionId_to_string (cs_candidate_version_ids a)\<rparr>
      in rbind (canonicalize_evidence_refs (cs_evidence_refs c)) (\<lambda>refs.
         let c' = c\<lparr>cs_evidence_refs := refs, cs_content_digest := []\<rparr> in
         Inr (c'\<lparr>cs_content_digest := ''sha256:'' @ dg c'\<rparr>)))))"

record NegativeCoverageEvidence =
  ng_record_kind :: ReferenceRecordKind
  ng_instrument_id :: InstrumentId
  ng_listing_id :: "ListingId option"
  ng_effective_as_of :: Timestamp
  ng_knowledge_cutoff :: Timestamp
  ng_candidate_set_digest :: string
  ng_evidence_refs :: "EvidenceRef list"
  ng_validation_policy_id :: ValidationPolicyId
  ng_validation_state :: ValidationState

definition NegativeCoverageEvidence_init :: "NegativeCoverageEvidence \<Rightarrow> NegativeCoverageEvidence result" where
  "NegativeCoverageEvidence_init a =
     rbind (check_listing_subject ''negative coverage'' (ng_record_kind a) (ng_listing_id a)) (\<lambda>_.
     raise_if (\<not> prefix ''sha256:'' (ng_candidate_set_digest a)) ValueError
       ''candidate_set_digest must be a canonical SHA-256 digest''
     (raise_if (length (ng_candidate_set_digest a) \<noteq> 71 \<or> \<not> list_all lower_hex (drop 7 (ng_candidate_set_digest a)))
       ValueError ''candidate_set_digest must be a canonical SHA-256 digest''
     (rbind (canonicalize_evidence_refs (ng_evidence_refs a)) (\<lambda>refs.
        Inr (a\<lparr>ng_evidence_refs := refs\<rparr>)))))"

record ResolutionResult =
  rs_disposition :: ResolutionDisposition
  rs_value :: "ReferenceVersion option"
  rs_reason :: string

definition ResolutionResult_init ::
  "ResolutionDisposition \<Rightarrow> ReferenceVersion option \<Rightarrow> string \<Rightarrow> ResolutionResult result" where
  "ResolutionResult_init d v reason =
     raise_if (reason = []) ValueError ''reason must be a nonempty string''
     (raise_if ((d = ESTABLISHED) \<noteq> (v \<noteq> None)) ValueError ''only ESTABLISHED results may contain a value''
       (Inr \<lparr>rs_disposition = d, rs_value = v, rs_reason = reason\<rparr>))"

definition resolution_result :: "ResolutionDisposition \<Rightarrow> string \<Rightarrow> ResolutionResult result" where
  "resolution_result d reason = ResolutionResult_init d None reason"

definition coverage_matches ::
  "CandidateSetCoverage \<Rightarrow> ReferenceRecordKind \<Rightarrow> InstrumentId \<Rightarrow> ListingId option \<Rightarrow> Timestamp \<Rightarrow> Timestamp \<Rightarrow> bool" where
  "coverage_matches c kind instrument listing as_of cutoff \<longleftrightarrow>
     cs_record_kind c = kind \<and> cs_instrument_id c = instrument \<and> cs_listing_id c = listing
     \<and> cs_effective_as_of c = as_of \<and> cs_knowledge_cutoff c = cutoff"

definition negative_matches ::
  "NegativeCoverageEvidence option \<Rightarrow> CandidateSetCoverage \<Rightarrow> ReferenceRecordKind \<Rightarrow> InstrumentId \<Rightarrow> ListingId option \<Rightarrow>
   Timestamp \<Rightarrow> Timestamp \<Rightarrow> (SourceId \<times> DatasetId \<times> EvidenceId) set \<Rightarrow> bool" where
  "negative_matches neg c kind instrument listing as_of cutoff candidate_evidence = (case neg of
     None \<Rightarrow> False
   | Some n \<Rightarrow> ng_validation_state n = V_VALID \<and> ng_record_kind n = kind \<and> ng_instrument_id n = instrument
       \<and> ng_listing_id n = listing \<and> ng_effective_as_of n = as_of \<and> ng_knowledge_cutoff n = cutoff
       \<and> ng_candidate_set_digest n = cs_content_digest c
       \<and> \<not> (\<exists>e\<in>set (ng_evidence_refs n). evidence_key e \<in> candidate_evidence))"

definition candidate_evidence :: "ReferenceVersion list \<Rightarrow> (SourceId \<times> DatasetId \<times> EvidenceId) set" where
  "candidate_evidence candidates =
     (\<Union>v\<in>set candidates. evidence_key ` set (rv_evidence_refs (common v)))"

definition qualifies :: "Timestamp \<Rightarrow> Timestamp \<Rightarrow> ReferenceVersion \<Rightarrow> bool" where
  "qualifies as_of cutoff v \<longleftrightarrow> contains_effective v as_of \<and> known_from v \<le> instant cutoff"

text \<open>The end of \<open>_resolve\<close>: the choice among the qualifying versions.\<close>

definition select_version :: "ReferenceVersion list \<Rightarrow> ResolutionResult result" where
  "select_version qualifying =
     (if \<exists>v\<in>set qualifying. \<not> version_authoritative v
      then resolution_result NOT_ESTABLISHED ''QUALIFYING_VERSION_NOT_AUTHORITATIVE''
      else
        let superseded_ids = List.map_filter supersedes qualifying;
            unresolved = filter (\<lambda>v. version_id v \<notin> set superseded_ids) qualifying in
        case unresolved of
          [v] \<Rightarrow> ResolutionResult_init ESTABLISHED (Some v) ''UNIQUE_AUTHORITATIVE_VERSION''
        | _ \<Rightarrow> if 1 < card (set (map (\<lambda>v. rv_content_digest (common v)) unresolved))
               then resolution_result CONFLICTING ''MATERIAL_QUALIFYING_CONFLICT''
               else resolution_result AMBIGUOUS ''MULTIPLE_PLAUSIBLE_VERSIONS'')"

text \<open>The early returns of \<open>_resolve\<close> before the lineage is looked at, in the order of the code.\<close>

definition candidate_problem ::
  "ReferenceRecordKind \<Rightarrow> InstrumentId \<Rightarrow> ListingId option \<Rightarrow> ReferenceVersion list \<Rightarrow>
   (ResolutionDisposition \<times> string) option" where
  "candidate_problem kind instrument listing candidates =
     (if MAX_LINEAGE_VERSIONS < length candidates
      then Some (NOT_ESTABLISHED, ''CANDIDATE_RESOURCE_LIMIT_EXCEEDED'')
      else if \<exists>v\<in>set candidates. is_listing v \<noteq> (kind = LISTING) then Some (CONFLICTING, ''WRONG_RECORD_KIND'')
      else if \<exists>v\<in>set candidates. rv_instrument_id (common v) \<noteq> instrument
      then Some (CONFLICTING, ''WRONG_INSTRUMENT_SUBJECT'')
      else if kind = LISTING \<and> (\<exists>v\<in>set candidates. listing_of v \<noteq> listing)
      then Some (CONFLICTING, ''WRONG_LISTING_SUBJECT'')
      else if \<not> distinct (map version_id candidates) then Some (CONFLICTING, ''DUPLICATE_REFERENCE_VERSION_ID'')
      else None)"

definition coverage_problem ::
  "ReferenceRecordKind \<Rightarrow> InstrumentId \<Rightarrow> ListingId option \<Rightarrow> Timestamp \<Rightarrow> Timestamp \<Rightarrow> ReferenceVersion list \<Rightarrow>
   CandidateSetCoverage \<Rightarrow> (ResolutionDisposition \<times> string) option" where
  "coverage_problem kind instrument listing as_of cutoff candidates c =
     (if \<not> coverage_matches c kind instrument listing as_of cutoff
      then Some (NOT_ESTABLISHED, ''CANDIDATE_SET_COVERAGE_MISMATCH'')
      else if cs_validation_state c \<noteq> V_VALID
      then Some (NOT_ESTABLISHED, ''CANDIDATE_SET_COVERAGE_NOT_AUTHORITATIVE'')
      else if sort_key ReferenceVersionId_to_string (map version_id candidates) \<noteq> cs_candidate_version_ids c
      then Some (NOT_ESTABLISHED, ''CANDIDATE_SET_INCOMPLETE'')
      else if candidate_evidence candidates \<inter> evidence_key ` set (cs_evidence_refs c) \<noteq> {}
      then Some (NOT_ESTABLISHED, ''CANDIDATE_SELF_CERTIFIED_COVERAGE'')
      else None)"

text \<open>\<open>try: validate_lineage(candidates) except (LineageValidationError, ValueError)\<close>\<close>

definition lineage_problem :: "ReferenceVersion list \<Rightarrow> bool result" where
  "lineage_problem candidates =
     (if candidates = [] then Inr False
      else case validate_lineage candidates of
        Inl (Err x m) \<Rightarrow> if x = LineageValidationError \<or> x = ValueError then Inr True else Inl (Err x m)
      | Inr _ \<Rightarrow> Inr False)"

definition resolve ::
  "ReferenceRecordKind \<Rightarrow> InstrumentId \<Rightarrow> ListingId option \<Rightarrow> Timestamp \<Rightarrow> Timestamp \<Rightarrow> ReferenceVersion list \<Rightarrow>
   CandidateSetCoverage option \<Rightarrow> NegativeCoverageEvidence option \<Rightarrow> ResolutionResult result" where
  "resolve kind instrument listing as_of cutoff candidates coverage negative =
     (case candidate_problem kind instrument listing candidates of
        Some (d, reason) \<Rightarrow> resolution_result d reason
      | None \<Rightarrow> (case coverage of
          None \<Rightarrow> resolution_result NOT_ESTABLISHED ''CANDIDATE_SET_COVERAGE_MISSING''
        | Some c \<Rightarrow> (case coverage_problem kind instrument listing as_of cutoff candidates c of
            Some (d, reason) \<Rightarrow> resolution_result d reason
          | None \<Rightarrow> rbind (lineage_problem candidates) (\<lambda>bad.
              if bad then resolution_result CONFLICTING ''INVALID_OR_CONFLICTING_LINEAGE''
              else
                let qualifying = filter (qualifies as_of cutoff) candidates in
                if qualifying = [] then
                  if negative_matches negative c kind instrument listing as_of cutoff
                       (candidate_evidence candidates)
                  then resolution_result ABSENT ''AUTHORITATIVE_NEGATIVE_COVERAGE''
                  else resolution_result NOT_ESTABLISHED ''NO_APPLICABLE_VERSION''
                else select_version qualifying))))"

definition resolve_instrument_reference ::
  "InstrumentId \<Rightarrow> Timestamp \<Rightarrow> Timestamp \<Rightarrow> ReferenceVersion list \<Rightarrow> CandidateSetCoverage option \<Rightarrow>
   NegativeCoverageEvidence option \<Rightarrow> ResolutionResult result" where
  "resolve_instrument_reference instrument as_of cutoff candidates coverage negative =
     resolve INSTRUMENT instrument None as_of cutoff candidates coverage negative"

definition resolve_listing_reference ::
  "InstrumentId \<Rightarrow> ListingId \<Rightarrow> Timestamp \<Rightarrow> Timestamp \<Rightarrow> ReferenceVersion list \<Rightarrow> CandidateSetCoverage option \<Rightarrow>
   NegativeCoverageEvidence option \<Rightarrow> ResolutionResult result" where
  "resolve_listing_reference instrument listing as_of cutoff candidates coverage negative =
     resolve LISTING instrument (Some listing) as_of cutoff candidates coverage negative"

section \<open>Accepted lineages\<close>

interpretation reference_lineage: supersession version_id supersedes known_from MAX_LINEAGE_DEPTH
    LineageValidationError successor_step lineage_walk knowledge_step
  by unfold_locales
     (simp_all add: successor_step_def knowledge_step_def lineage_walk.simps split: option.split)

text \<open>What a valid lineage is: nonempty, within the limit, of one kind and subject, and a set of
  supersession chains.\<close>

definition lineage_ok :: "ReferenceVersion list \<Rightarrow> bool" where
  "lineage_ok vs \<longleftrightarrow> vs \<noteq> [] \<and> length vs \<le> MAX_LINEAGE_VERSIONS
     \<and> (\<forall>v\<in>set vs. \<forall>w\<in>set vs. is_listing v = is_listing w \<and> subject v = subject w)
     \<and> chains_ok version_id supersedes known_from MAX_LINEAGE_DEPTH vs"

lemma validate_lineage_Inr:
  "validate_lineage vs = Inr ws \<longleftrightarrow>
     lineage_ok vs \<and> ws = sort_key (\<lambda>v. ReferenceVersionId_to_string (version_id v)) vs"
proof (cases "vs \<noteq> [] \<and> distinct (map version_id vs)")
  case True
  then have ne: "vs \<noteq> []" and d: "distinct (map version_id vs)" by auto
  have "validate_lineage vs = Inr ws \<longleftrightarrow> length vs \<le> MAX_LINEAGE_VERSIONS
      \<and> (\<forall>v\<in>set vs. \<forall>w\<in>set vs. is_listing v = is_listing w) \<and> (\<forall>v\<in>set vs. \<forall>w\<in>set vs. subject v = subject w)
      \<and> chains_ok version_id supersedes known_from MAX_LINEAGE_DEPTH vs
      \<and> ws = sort_key (\<lambda>v. ReferenceVersionId_to_string (version_id v)) vs"
    unfolding validate_lineage_def raise_if_eq_Inr reference_lineage.checks_Inr [OF d]
      one_subject [OF ne, of is_listing] one_subject [OF ne, of subject]
    using ne d by (simp only: not_less not_not sum.inject) blast
  then show ?thesis using True unfolding lineage_ok_def by blast
next
  case False
  then show ?thesis by (auto simp: validate_lineage_def lineage_ok_def chains_ok_def)
qed

lemma validate_lineage_iff: "(\<exists>ws. validate_lineage vs = Inr ws) \<longleftrightarrow> lineage_ok vs"
  unfolding validate_lineage_Inr by simp

lemma validate_lineage_error:
  assumes "validate_lineage vs = Inl (Err x m)"
  shows "x = LineageValidationError"
proof -
  let ?checks = "rbind (rfold (successor_step vs) [] vs) (\<lambda>_.
      rbind (rmap (\<lambda>start. lineage_walk vs start start [] 0) (map version_id vs)) (\<lambda>_.
      rbind (rmap (knowledge_step vs) vs) (\<lambda>_.
        Inr (sort_key (\<lambda>v. ReferenceVersionId_to_string (version_id v)) vs))))"
  have "x = LineageValidationError \<or> ?checks = Inl (Err x m)"
    using assms unfolding validate_lineage_def raise_if_def by (simp split: if_splits del: rbind_eq_Inl)
  then show ?thesis by (rule disjE) (assumption, rule reference_lineage.checks_Inl)
qed

lemma lineage_ok_perm:
  assumes "mset vs = mset ws" and "lineage_ok vs"
  shows "lineage_ok ws"
proof -
  have same: "length ws = length vs" "set ws = set vs" "(ws = []) = (vs = [])"
    using assms(1) by (metis mset_eq_length, metis mset_eq_setD, metis mset_zero_iff mset_zero_iff_right)
  show ?thesis
    using chains_ok_perm [OF assms(1), of version_id supersedes known_from MAX_LINEAGE_DEPTH] assms(2)
    unfolding lineage_ok_def same by blast
qed

section \<open>Resolution\<close>

lemma ResolutionResult_Inr [simp]:
  "reason \<noteq> [] \<Longrightarrow> d \<noteq> ESTABLISHED \<Longrightarrow> resolution_result d reason =
     Inr \<lparr>rs_disposition = d, rs_value = None, rs_reason = reason\<rparr>"
  by (simp add: resolution_result_def ResolutionResult_init_def raise_if_def)

lemma ResolutionResult_established:
  "reason \<noteq> [] \<Longrightarrow> ResolutionResult_init ESTABLISHED (Some v) reason =
     Inr \<lparr>rs_disposition = ESTABLISHED, rs_value = Some v, rs_reason = reason\<rparr>"
  by (simp add: ResolutionResult_init_def raise_if_def)

abbreviation unresolved_of :: "ReferenceVersion list \<Rightarrow> ReferenceVersion list" where
  "unresolved_of q \<equiv> tips version_id supersedes q"

lemma select_version_cases:
  "(\<exists>d reason. d \<noteq> ESTABLISHED \<and> select_version q =
      Inr \<lparr>rs_disposition = d, rs_value = None, rs_reason = reason\<rparr>)
   \<or> (\<exists>v. select_version q = Inr \<lparr>rs_disposition = ESTABLISHED, rs_value = Some v,
        rs_reason = ''UNIQUE_AUTHORITATIVE_VERSION''\<rparr>
        \<and> unresolved_of q = [v] \<and> (\<forall>u\<in>set q. version_authoritative u))"
  unfolding select_version_def tips_def [symmetric] Let_def
  by (auto simp: ResolutionResult_established split: list.split)

text \<open>What has to hold before the choice is made.\<close>

definition resolution_guards ::
  "ReferenceRecordKind \<Rightarrow> InstrumentId \<Rightarrow> ListingId option \<Rightarrow> Timestamp \<Rightarrow> Timestamp \<Rightarrow> ReferenceVersion list \<Rightarrow>
   CandidateSetCoverage \<Rightarrow> bool" where
  "resolution_guards kind instrument listing as_of cutoff candidates c \<longleftrightarrow>
     length candidates \<le> MAX_LINEAGE_VERSIONS
     \<and> (\<forall>v\<in>set candidates. is_listing v = (kind = LISTING) \<and> rv_instrument_id (common v) = instrument
          \<and> (kind = LISTING \<longrightarrow> listing_of v = listing))
     \<and> distinct (map version_id candidates)
     \<and> coverage_matches c kind instrument listing as_of cutoff \<and> cs_validation_state c = V_VALID
     \<and> sort_key ReferenceVersionId_to_string (map version_id candidates) = cs_candidate_version_ids c
     \<and> candidate_evidence candidates \<inter> evidence_key ` set (cs_evidence_refs c) = {}
     \<and> (candidates \<noteq> [] \<longrightarrow> lineage_ok candidates)"

lemma candidate_problem_None:
  "candidate_problem kind ins lst cands = None \<longleftrightarrow> length cands \<le> MAX_LINEAGE_VERSIONS
     \<and> (\<forall>v\<in>set cands. is_listing v = (kind = LISTING) \<and> rv_instrument_id (common v) = ins
          \<and> (kind = LISTING \<longrightarrow> listing_of v = lst))
     \<and> distinct (map version_id cands)"
  unfolding candidate_problem_def by (auto simp: not_less)

lemma coverage_problem_None:
  "coverage_problem kind ins lst as_of cutoff cands c = None \<longleftrightarrow>
     coverage_matches c kind ins lst as_of cutoff \<and> cs_validation_state c = V_VALID
     \<and> sort_key ReferenceVersionId_to_string (map version_id cands) = cs_candidate_version_ids c
     \<and> candidate_evidence cands \<inter> evidence_key ` set (cs_evidence_refs c) = {}"
  unfolding coverage_problem_def by simp

lemma problem_disposition:
  "candidate_problem kind ins lst cands = Some (d, reason) \<Longrightarrow> d \<noteq> ESTABLISHED \<and> reason \<noteq> []"
  "coverage_problem kind ins lst as_of cutoff cands c = Some (d, reason) \<Longrightarrow> d \<noteq> ESTABLISHED \<and> reason \<noteq> []"
  by (auto simp: candidate_problem_def coverage_problem_def split: if_splits)

lemma lineage_problem_eq: "lineage_problem cands = Inr (cands \<noteq> [] \<and> \<not> lineage_ok cands)"
proof (cases "validate_lineage cands")
  case (Inl e)
  then obtain m where "validate_lineage cands = Inl (Err LineageValidationError m)"
    using validate_lineage_error by (metis error.exhaust)
  moreover from this have "\<not> lineage_ok cands" using validate_lineage_iff [of cands] by simp
  ultimately show ?thesis by (simp add: lineage_problem_def)
next
  case (Inr ws)
  then have "lineage_ok cands" using validate_lineage_iff [of cands] by blast
  with Inr show ?thesis by (simp add: lineage_problem_def)
qed

lemma guards_iff:
  "resolution_guards kind ins lst as_of cutoff cands c \<longleftrightarrow> candidate_problem kind ins lst cands = None
     \<and> coverage_problem kind ins lst as_of cutoff cands c = None \<and> lineage_problem cands = Inr False"
  unfolding resolution_guards_def candidate_problem_None coverage_problem_None lineage_problem_eq by auto

lemma resolve_cases:
  "(\<exists>d reason. d \<noteq> ESTABLISHED \<and> resolve kind ins lst as_of cutoff cands cov neg =
      Inr \<lparr>rs_disposition = d, rs_value = None, rs_reason = reason\<rparr>)
   \<or> (\<exists>c v. cov = Some c \<and> resolution_guards kind ins lst as_of cutoff cands c
      \<and> resolve kind ins lst as_of cutoff cands cov neg = Inr \<lparr>rs_disposition = ESTABLISHED,
          rs_value = Some v, rs_reason = ''UNIQUE_AUTHORITATIVE_VERSION''\<rparr>
      \<and> unresolved_of (filter (qualifies as_of cutoff) cands) = [v]
      \<and> (\<forall>u\<in>set cands. qualifies as_of cutoff u \<longrightarrow> version_authoritative u))"
proof (cases "\<exists>c. cov = Some c \<and> resolution_guards kind ins lst as_of cutoff cands c")
  case True
  then obtain c where c: "cov = Some c" "resolution_guards kind ins lst as_of cutoff cands c" by blast
  then show ?thesis
    using select_version_cases [of "filter (qualifies as_of cutoff) cands"]
    by (auto simp: resolve_def guards_iff Let_def)
next
  case False
  then show ?thesis
    by (auto simp: resolve_def guards_iff lineage_problem_eq problem_disposition
        split: option.split dest: problem_disposition)
qed

lemma ReferenceVersionId_to_string_inj: "inj_on ReferenceVersionId_to_string A"
  by (auto simp: inj_on_def ReferenceVersionId_to_string_def intro: ReferenceVersionId.expand)

lemma select_version_perm:
  assumes "mset p = mset q"
  shows "select_version p = select_version q"
proof -
  have s: "set p = set q" using assms by (rule mset_eq_setD)
  have u: "mset (unresolved_of p) = mset (unresolved_of q)" using assms by (rule tips_perm)
  have sel: "select_version xs = (if \<exists>v\<in>set xs. \<not> version_authoritative v
      then resolution_result NOT_ESTABLISHED ''QUALIFYING_VERSION_NOT_AUTHORITATIVE''
      else if \<exists>v. unresolved_of xs = [v]
      then ResolutionResult_init ESTABLISHED (Some (hd (unresolved_of xs))) ''UNIQUE_AUTHORITATIVE_VERSION''
      else if 1 < card ((\<lambda>v. rv_content_digest (common v)) ` set (unresolved_of xs))
      then resolution_result CONFLICTING ''MATERIAL_QUALIFYING_CONFLICT''
      else resolution_result AMBIGUOUS ''MULTIPLE_PLAUSIBLE_VERSIONS'')" for xs
    unfolding select_version_def tips_def [symmetric] Let_def by (auto split: list.split)
  have su: "set (unresolved_of p) = set (unresolved_of q)" using u by (rule mset_eq_setD)
  have single: "unresolved_of p = [v] \<longleftrightarrow> unresolved_of q = [v]" for v using u by (rule mset_singleton_iff)
  show ?thesis
  proof (cases "\<exists>v. unresolved_of q = [v]")
    case True
    then obtain v where "unresolved_of q = [v]" ..
    moreover from this single have "unresolved_of p = [v]" by simp
    ultimately show ?thesis unfolding sel s by simp
  next
    case False
    then show ?thesis unfolding sel s su single by simp
  qed
qed

section \<open>A sample lineage\<close>

definition sample_digest :: EvidenceContentDigest where
  "sample_digest = EvidenceContentDigest (''sha256:'' @ replicate 64 CHR ''d'')"

definition sample_evidence :: "string \<Rightarrow> EvidenceRef" where
  "sample_evidence e = \<lparr>er_source_id = SourceId ''source:x/s'', er_dataset_id = DatasetId ''dataset:x/d'',
     er_evidence_id = EvidenceId e, er_content_digest = sample_digest\<rparr>"

definition sample_reference :: "uuid \<Rightarrow> int \<Rightarrow> ReferenceVersionId option \<Rightarrow> ReferenceVersion" where
  "sample_reference i known previous = InstrumentVersion \<lparr>rv_reference_version_id = ReferenceVersionId i,
     rv_instrument_id = InstrumentId 1, rv_effective_from = Timestamp 0, rv_effective_to = None,
     rv_knowledge_from = Timestamp known, rv_evidence_refs = [sample_evidence ''evidence:x/e''],
     rv_validation_policy_id = ValidationPolicyId ''validation-policy:x/p'', rv_validation_state = V_VALID,
     rv_content_digest = ReferenceContentDigest ''c'', rv_supersedes_version_id = previous,
     rv_currency = None, rv_external_identifiers = [], rv_source_observed_at = None,
     rv_correction_reason = None, iv_security_type = None\<rparr>"

definition sample_lineage :: "ReferenceVersion list" where
  "sample_lineage = [sample_reference 1 10 None, sample_reference 2 20 (Some (ReferenceVersionId 1)),
     sample_reference 3 90 (Some (ReferenceVersionId 2))]"

definition sample_coverage :: CandidateSetCoverage where
  "sample_coverage = \<lparr>cs_record_kind = INSTRUMENT, cs_instrument_id = InstrumentId 1, cs_listing_id = None,
     cs_effective_as_of = Timestamp 5, cs_knowledge_cutoff = Timestamp 50,
     cs_candidate_version_ids = [ReferenceVersionId 1, ReferenceVersionId 2, ReferenceVersionId 3],
     cs_evidence_refs = [sample_evidence ''evidence:x/c''],
     cs_validation_policy_id = ValidationPolicyId ''validation-policy:x/p'', cs_validation_state = V_VALID,
     cs_content_digest = ''sha256:''\<rparr>"

section \<open>Properties\<close>

text \<open>C16: The validation of a lineage returns exactly for the valid lineages, sorted by identity: nonempty and
  within the limit, unique identities, one kind and subject, every superseded version present and
  superseded only once, by a version that became known strictly later, and no version with more
  than 256 predecessors.  The walk along the predecessors ends on every input, cyclic ones included.\<close>

theorem lineage_accepted_iff:
  "validate_lineage vs = Inr ws \<longleftrightarrow>
     lineage_ok vs \<and> ws = sort_key (\<lambda>v. ReferenceVersionId_to_string (version_id v)) vs"
  by (rule validate_lineage_Inr)

text \<open>C15: Resolution always returns, and when it establishes a version, that version is one of the
  candidates, authoritative, effective at the queried time and known by the cutoff; every other
  candidate that applies is authoritative too and became known strictly earlier; nothing is
  established without valid coverage evidence for exactly these candidates that shares no evidence
  with them.\<close>

theorem resolution_establishes_newest:
  "\<exists>r. resolve kind ins lst as_of cutoff cands cov neg = Inr r
     \<and> (rs_disposition r = ESTABLISHED \<longleftrightarrow> rs_value r \<noteq> None)
     \<and> (\<forall>v. rs_value r = Some v \<longrightarrow> v \<in> set cands \<and> version_authoritative v
          \<and> contains_effective v as_of \<and> known_from v \<le> instant cutoff
          \<and> rv_instrument_id (common v) = ins
          \<and> (\<forall>u\<in>set cands. qualifies as_of cutoff u \<longrightarrow>
               version_authoritative u \<and> (u = v \<or> known_from u < known_from v))
          \<and> (\<exists>c. cov = Some c \<and> cs_validation_state c = V_VALID
               \<and> set (cs_candidate_version_ids c) = version_id ` set cands
               \<and> candidate_evidence cands \<inter> evidence_key ` set (cs_evidence_refs c) = {}))"
  using resolve_cases [of kind ins lst as_of cutoff cands cov neg]
proof (elim disjE exE conjE)
  fix c v
  let ?q = "filter (qualifies as_of cutoff) cands"
  assume cov: "cov = Some c" and g: "resolution_guards kind ins lst as_of cutoff cands c"
    and res: "resolve kind ins lst as_of cutoff cands cov neg = Inr \<lparr>rs_disposition = ESTABLISHED,
      rs_value = Some v, rs_reason = ''UNIQUE_AUTHORITATIVE_VERSION''\<rparr>"
    and un: "unresolved_of ?q = [v]"
    and auth: "\<forall>u\<in>set cands. qualifies as_of cutoff u \<longrightarrow> version_authoritative u"
  have "v \<in> set (unresolved_of ?q)" using un by simp
  then have "v \<in> set ?q" by (simp add: tips_def)
  then have "lineage_ok cands" using g unfolding resolution_guards_def by (metis empty_iff filter.simps(1) list.set(1))
  then have "chains_ok version_id supersedes known_from MAX_LINEAGE_DEPTH cands" by (simp add: lineage_ok_def)
  then have later: "known_from u < known_from w"
    if "u \<in> set ?q" "w \<in> set ?q" "supersedes w = Some (version_id u)" for u w
    using that by (auto intro: chains_ok_later)
  have newest: "v \<in> set ?q \<and> (\<forall>u\<in>set ?q. u = v \<or> known_from u < known_from v)"
    using single_tip_newest [where known = known_from, OF later un] by blast
  have "set (cs_candidate_version_ids c) = version_id ` set cands"
    using g unfolding resolution_guards_def by (metis image_set set_sort)
  with newest auth g cov res show ?thesis
    by (auto simp: qualifies_def resolution_guards_def)
qed auto

text \<open>Resolution does not depend on the order in which the candidates are given: any permutation of
  them gives the same disposition, value and reason.\<close>

theorem resolution_order_independent:
  assumes "mset cands = mset cands'"
  shows "resolve kind ins lst as_of cutoff cands cov neg = resolve kind ins lst as_of cutoff cands' cov neg"
proof -
  have s: "set cands = set cands'" "length cands = length cands'" "cands = [] \<longleftrightarrow> cands' = []"
    using assms by (auto dest: mset_eq_setD mset_eq_length)
  have d: "distinct (map version_id cands) \<longleftrightarrow> distinct (map version_id cands')"
    using assms by (metis mset_map mset_eq_imp_distinct_iff)
  have "mset (map version_id cands) = mset (map version_id cands')" using assms by simp
  then have sorted: "sort_key ReferenceVersionId_to_string (map version_id cands) =
      sort_key ReferenceVersionId_to_string (map version_id cands')"
    by (rule sort_key_perm) (rule ReferenceVersionId_to_string_inj)
  have ev: "candidate_evidence cands = candidate_evidence cands'" by (simp add: candidate_evidence_def s)
  have ok: "lineage_ok cands \<longleftrightarrow> lineage_ok cands'" using assms lineage_ok_perm by metis
  have "mset (filter (qualifies as_of cutoff) cands) = mset (filter (qualifies as_of cutoff) cands')"
    using assms by (simp add: mset_filter)
  then have sel: "select_version (filter (qualifies as_of cutoff) cands) =
      select_version (filter (qualifies as_of cutoff) cands')"
    and q: "filter (qualifies as_of cutoff) cands = [] \<longleftrightarrow> filter (qualifies as_of cutoff) cands' = []"
    by (rule select_version_perm) (simp add: filter_empty_conv s)
  have 1: "candidate_problem kind ins lst cands = candidate_problem kind ins lst cands'"
    unfolding candidate_problem_def s d ..
  have 2: "coverage_problem kind ins lst as_of cutoff cands c = coverage_problem kind ins lst as_of cutoff cands' c" for c
    by (simp add: coverage_problem_def sorted ev)
  have 3: "lineage_problem cands = lineage_problem cands'" by (simp add: lineage_problem_eq s ok)
  show ?thesis unfolding resolve_def 1 2 3 ev sel q Let_def ..
qed

theorem resolution_order_independent_witness:
  "resolve INSTRUMENT (InstrumentId 1) None (Timestamp 5) (Timestamp 50) sample_lineage (Some sample_coverage) None
   = resolve INSTRUMENT (InstrumentId 1) None (Timestamp 5) (Timestamp 50) (rev sample_lineage) (Some sample_coverage) None"
  by (rule resolution_order_independent) simp

lemma sample_lineage_ok: "lineage_ok sample_lineage"
proof -
  have "ancestor version_id supersedes sample_lineage (3 + 254) (version_id v) = None" if "v \<in> set sample_lineage" for v
    using that by (intro ancestor_None_mono)
      (auto simp: sample_lineage_def sample_reference_def pred_of_def dict_get_def eval_nat_numeral
        ReferenceCommon.defs)
  then show ?thesis
    by (auto simp: lineage_ok_def chains_ok_def MAX_LINEAGE_VERSIONS_def MAX_LINEAGE_DEPTH_def subject_def
        sample_lineage_def sample_reference_def ReferenceCommon.defs)
qed

lemma sample_resolved:
  "resolve INSTRUMENT (InstrumentId 1) None (Timestamp 5) (Timestamp 50) sample_lineage (Some sample_coverage) None
     = Inr \<lparr>rs_disposition = ESTABLISHED, rs_value = Some (sample_reference 2 20 (Some (ReferenceVersionId 1))),
         rs_reason = ''UNIQUE_AUTHORITATIVE_VERSION''\<rparr>"
proof -
  have "sort_key ReferenceVersionId_to_string (map version_id sample_lineage)
      = cs_candidate_version_ids sample_coverage" by code_simp
  then have "coverage_problem INSTRUMENT (InstrumentId 1) None (Timestamp 5) (Timestamp 50) sample_lineage
      sample_coverage = None"
    unfolding coverage_problem_None
    by (simp add: coverage_matches_def sample_coverage_def candidate_evidence_def sample_lineage_def
        sample_reference_def sample_evidence_def evidence_key_def ReferenceCommon.defs)
  moreover have "candidate_problem INSTRUMENT (InstrumentId 1) None sample_lineage = None"
    unfolding candidate_problem_None
    by (simp add: sample_lineage_def sample_reference_def MAX_LINEAGE_VERSIONS_def ReferenceCommon.defs)
  moreover have "filter (qualifies (Timestamp 5) (Timestamp 50)) sample_lineage =
      [sample_reference 1 10 None, sample_reference 2 20 (Some (ReferenceVersionId 1))]" by code_simp
  moreover have "select_version [sample_reference 1 10 None, sample_reference 2 20 (Some (ReferenceVersionId 1))]
      = Inr \<lparr>rs_disposition = ESTABLISHED, rs_value = Some (sample_reference 2 20 (Some (ReferenceVersionId 1))),
          rs_reason = ''UNIQUE_AUTHORITATIVE_VERSION''\<rparr>" by code_simp
  ultimately show ?thesis
    using sample_lineage_ok by (simp add: resolve_def lineage_problem_eq)
qed

theorem resolution_establishes_newest_witness:
  "\<exists>r. resolve INSTRUMENT (InstrumentId 1) None (Timestamp 5) (Timestamp 50) sample_lineage
         (Some sample_coverage) None = Inr r
     \<and> rs_value r = Some (sample_reference 2 20 (Some (ReferenceVersionId 1)))
     \<and> known_from (sample_reference 1 10 None) < known_from (sample_reference 2 20 (Some (ReferenceVersionId 1)))"
proof -
  have "qualifies (Timestamp 5) (Timestamp 50) (sample_reference 1 10 None)" by code_simp
  moreover have "sample_reference 1 10 None \<in> set sample_lineage" by (simp add: sample_lineage_def)
  moreover have "sample_reference 1 10 None \<noteq> sample_reference 2 20 (Some (ReferenceVersionId 1))"
    by (simp add: sample_reference_def)
  ultimately show ?thesis
    using resolution_establishes_newest [of INSTRUMENT "InstrumentId 1" None "Timestamp 5" "Timestamp 50"
        sample_lineage "Some sample_coverage" None] sample_resolved by auto
qed

end
