(* ===== verification/Calendars.thy ===== *)
theory Calendars
  imports Instruments Civil "HOL-Library.Product_Lexorder"
begin

text \<open>
  Trading calendars (\<^verbatim>\<open>calendars/model.py\<close>, \<^verbatim>\<open>calendars/resolution.py\<close>): versions of a calendar with
  their historical coverage, trading days and sessions, the lineage of corrections, and the
  point-in-time resolution of the session of a date.

  The digest of a record's semantic content is the parameter \<open>dg\<close> (the hexadecimal SHA-256 of the
  canonical JSON of the body, one constructor of \<open>CalendarBody\<close> per record kind), that of a timezone
  rule corpus the parameter \<open>sha\<close>.  Strings hold code points below 256, which are stable under NFC
  normalisation.  A reason code is its text.

  Shown here: the resolver returns a result for every query, except that a session whose UTC
  boundary lies outside the range of \<open>datetime\<close> makes it raise \<open>OverflowError\<close>; an established
  session rests on a current, authoritative version known by the cutoff whose corrections were
  authorised by independent evidence, and its boundaries are the local times shifted by the
  recorded offset; and nothing that became known after the cutoff matters.
\<close>

section \<open>Identities and vocabulary\<close>

datatype CalendarId = CalendarId (calendar_uuid: uuid)
datatype CalendarVersionId = CalendarVersionId (calendar_version_uuid: uuid)
datatype TimezoneId = TimezoneId (timezone_text: string)
datatype TimezoneRuleId = TimezoneRuleId (timezone_rule_text: string)
datatype CalendarContentDigest = CalendarContentDigest (calendar_digest_text: string)

definition calendar_prefix :: string where
  "calendar_prefix = ''atis:calendar:v1:''"

definition calendar_version_prefix :: string where
  "calendar_version_prefix = ''atis:calendar-version:v1:''"

definition CalendarId_init :: "uuid \<Rightarrow> CalendarId result" where
  "CalendarId_init u = rbind (require_uuid4 u) (\<lambda>_. Inr (CalendarId u))"

definition CalendarId_parse :: "string \<Rightarrow> CalendarId result" where
  "CalendarId_parse value = rbind (parse_uuid4 value calendar_prefix) CalendarId_init"

definition CalendarId_to_string :: "CalendarId \<Rightarrow> string" where
  "CalendarId_to_string i = calendar_prefix @ uuid_str (calendar_uuid i)"

definition CalendarVersionId_init :: "uuid \<Rightarrow> CalendarVersionId result" where
  "CalendarVersionId_init u = rbind (require_uuid4 u) (\<lambda>_. Inr (CalendarVersionId u))"

definition CalendarVersionId_parse :: "string \<Rightarrow> CalendarVersionId result" where
  "CalendarVersionId_parse value = rbind (parse_uuid4 value calendar_version_prefix) CalendarVersionId_init"

definition CalendarVersionId_to_string :: "CalendarVersionId \<Rightarrow> string" where
  "CalendarVersionId_to_string i = calendar_version_prefix @ uuid_str (calendar_version_uuid i)"

text \<open>\<open>[A-Za-z][A-Za-z0-9._+-]*(?:/[A-Za-z0-9._+-]+)+\<close>: at least two parts separated by slashes.\<close>

definition timezone_char :: "char \<Rightarrow> bool" where
  "timezone_char c \<longleftrightarrow> ascii_alnum c \<or> c \<in> set ''._+-''"

definition ascii_letter :: "char \<Rightarrow> bool" where
  "ascii_letter c \<longleftrightarrow> in_range CHR ''A'' CHR ''Z'' c \<or> in_range CHR ''a'' CHR ''z'' c"

fun timezone_parts :: "bool \<Rightarrow> string \<Rightarrow> bool" where
  "timezone_parts fresh [] = (\<not> fresh)"
| "timezone_parts fresh (c # cs) =
     (if c = CHR ''/'' then \<not> fresh \<and> timezone_parts True cs else timezone_char c \<and> timezone_parts False cs)"

definition timezone_id_text :: "string \<Rightarrow> bool" where
  "timezone_id_text s = (case s of [] \<Rightarrow> False
     | c # cs \<Rightarrow> ascii_letter c \<and> CHR ''/'' \<in> set cs \<and> timezone_parts False cs)"

definition TimezoneId_init :: "string \<Rightarrow> TimezoneId result" where
  "TimezoneId_init v = raise_if (\<not> timezone_id_text v) ValueError
     ''value must be a canonical IANA-style timezone identity'' (Inr (TimezoneId v))"

definition timezone_rule_id_text :: "string \<Rightarrow> bool" where
  "timezone_rule_id_text v \<longleftrightarrow> prefix ''timezone-rule:'' v
     \<and> (let t = drop 14 v in
        authority_text (takeWhile (\<lambda>c. c \<noteq> CHR ''/'') t)
        \<and> (case dropWhile (\<lambda>c. c \<noteq> CHR ''/'') t of [] \<Rightarrow> False | _ # l \<Rightarrow> local_text l))"

definition TimezoneRuleId_init :: "string \<Rightarrow> TimezoneRuleId result" where
  "TimezoneRuleId_init v = raise_if (\<not> timezone_rule_id_text v) ValueError
     ''value must be a canonical timezone-rule identity'' (Inr (TimezoneRuleId v))"

definition CalendarContentDigest_init :: "string \<Rightarrow> CalendarContentDigest result" where
  "CalendarContentDigest_init v = raise_if (\<not> sha256_text v) ValueError
     ''value must be a canonical SHA-256 digest'' (Inr (CalendarContentDigest v))"

datatype CalendarCoverageState = COVERED | INCOMPLETE | COVERAGE_CONFLICTING
datatype TradingDayKind = REGULAR_TRADING_DAY | EXCHANGE_HOLIDAY | SPECIAL_NON_TRADING_DAY
datatype SessionKind = REGULAR
datatype SessionScheduleVariation = STANDARD | EARLY_CLOSE
datatype CalendarCurrentness = CURRENT | STALE | UNKNOWN_CURRENTNESS

text \<open>\<open>[A-Z0-9][A-Z0-9._-]{0,31}\<close>\<close>

definition upper_alnum :: "char \<Rightarrow> bool" where
  "upper_alnum c \<longleftrightarrow> in_range CHR ''A'' CHR ''Z'' c \<or> in_range CHR ''0'' CHR ''9'' c"

definition scope_code :: "string \<Rightarrow> string \<Rightarrow> string result" where
  "scope_code v name = raise_if (\<not> (case v of [] \<Rightarrow> False
       | c # cs \<Rightarrow> upper_alnum c \<and> length cs \<le> 31 \<and> list_all (\<lambda>c. upper_alnum c \<or> c \<in> set ''._-'') cs))
     ValueError (name @ '' must use canonical descriptive scope syntax'') (Inr v)"

text \<open>\<open>_evidence(values, optional=True)\<close>\<close>

definition optional_evidence :: "EvidenceRef list \<Rightarrow> EvidenceRef list result" where
  "optional_evidence values = (if values = [] then Inr [] else canonicalize_evidence_refs values)"

section \<open>Timezone rules and wall times\<close>

record TimezoneRuleRef =
  tz_timezone_id :: TimezoneId
  tz_timezone_rule_id :: TimezoneRuleId
  tz_rule_content_digest :: EvidenceContentDigest
  tz_evidence_refs :: "EvidenceRef list"
  tz_validation_policy_id :: ValidationPolicyId
  tz_validation_state :: ValidationState

definition TimezoneRuleRef_init :: "TimezoneRuleRef \<Rightarrow> TimezoneRuleRef result" where
  "TimezoneRuleRef_init a = rbind (canonicalize_evidence_refs (tz_evidence_refs a)) (\<lambda>refs.
     Inr (a\<lparr>tz_evidence_refs := refs\<rparr>))"

definition rule_authoritative :: "TimezoneRuleRef \<Rightarrow> bool" where
  "rule_authoritative r \<longleftrightarrow> tz_validation_state r = V_VALID"

type_synonym corpus_digest = "string \<Rightarrow> EvidenceContentDigest"

definition verify_rule_corpus :: "corpus_digest \<Rightarrow> TimezoneRuleRef \<Rightarrow> string \<Rightarrow> unit result" where
  "verify_rule_corpus sha r corpus = raise_if (sha corpus \<noteq> tz_rule_content_digest r) ValueError
     ''TIMEZONE_RULE_CORPUS_DIGEST_MISMATCH'' (Inr ())"

record LocalWallTime =
  wt_hour :: int
  wt_minute :: int
  wt_second :: int
  wt_microsecond :: int
  wt_utc_offset_minutes :: "int option"
  wt_ambiguous :: bool
  wt_nonexistent :: bool
  wt_fold :: "int option"

definition LocalWallTime_init :: "LocalWallTime \<Rightarrow> LocalWallTime result" where
  "LocalWallTime_init a =
     raise_if (\<not> (0 \<le> wt_hour a \<and> wt_hour a \<le> 23)) ValueError ''hour is outside its canonical range''
     (raise_if (\<not> (0 \<le> wt_minute a \<and> wt_minute a \<le> 59)) ValueError ''minute is outside its canonical range''
     (raise_if (\<not> (0 \<le> wt_second a \<and> wt_second a \<le> 59)) ValueError ''second is outside its canonical range''
     (raise_if (\<not> (0 \<le> wt_microsecond a \<and> wt_microsecond a \<le> 999999)) ValueError
       ''microsecond is outside its canonical range''
     (raise_if (case wt_utc_offset_minutes a of None \<Rightarrow> False | Some m \<Rightarrow> \<not> (- 1440 < m \<and> m < 1440)) ValueError
       ''utc_offset_minutes is outside its canonical range''
     (raise_if (wt_ambiguous a \<and> wt_nonexistent a) ValueError
       ''a local time cannot be both ambiguous and nonexistent''
     (raise_if (case wt_fold a of None \<Rightarrow> False | Some f \<Rightarrow> f \<notin> {0, 1}) ValueError ''fold must be 0, 1, or None''
     (raise_if (\<not> wt_ambiguous a \<and> wt_fold a \<noteq> None) ValueError
       ''fold is only valid for an ambiguous local time'' (Inr a))))))))"

definition wall_micros :: "LocalWallTime \<Rightarrow> int" where
  "wall_micros w = ((wt_hour w * 60 + wt_minute w) * 60 + wt_second w) * 1000000 + wt_microsecond w"

text \<open>Subtracting the offset from the naive local time may leave the range of \<open>datetime\<close>.\<close>

definition to_utc ::
  "corpus_digest \<Rightarrow> LocalWallTime \<Rightarrow> int \<Rightarrow> TimezoneRuleRef \<Rightarrow> string \<Rightarrow> Timestamp result" where
  "to_utc sha w local_date r corpus =
     rbind (verify_rule_corpus sha r corpus) (\<lambda>_.
     raise_if (\<not> rule_authoritative r) ValueError ''TIMEZONE_RULE_NOT_AUTHORITATIVE''
     (case wt_utc_offset_minutes w of
        None \<Rightarrow> Inl (Err ValueError ''NONEXISTENT_OR_UNBOUND_LOCAL_TIME'')
      | Some off \<Rightarrow>
          raise_if (wt_nonexistent w) ValueError ''NONEXISTENT_OR_UNBOUND_LOCAL_TIME''
          (raise_if (wt_ambiguous w \<and> wt_fold w = None) ValueError ''AMBIGUOUS_LOCAL_TIME''
          (let utc = local_date * day_micros + wall_micros w - off * 60000000 in
           raise_if (utc < datetime_min \<or> datetime_max < utc) OverflowError ''date value out of range''
             (Inr (Timestamp utc))))))"

section \<open>Calendar records\<close>

record CalendarVersion =
  cv_calendar_version_id :: CalendarVersionId
  cv_calendar_id :: CalendarId
  cv_market_code :: string
  cv_venue_code :: string
  cv_effective_from :: Timestamp
  cv_effective_to :: "Timestamp option"
  cv_knowledge_from :: Timestamp
  cv_timezone_rule_ref :: TimezoneRuleRef
  cv_evidence_refs :: "EvidenceRef list"
  cv_validation_policy_id :: ValidationPolicyId
  cv_validation_state :: ValidationState
  cv_supersedes_version_id :: "CalendarVersionId option"
  cv_correction_reason :: "string option"
  cv_correction_evidence_refs :: "EvidenceRef list"
  cv_content_digest :: CalendarContentDigest

record HistoricalCoverage =
  hc_calendar_id :: CalendarId
  hc_calendar_version_id :: CalendarVersionId
  hc_local_date_from :: int
  hc_local_date_to :: int
  hc_coverage_state :: CalendarCoverageState
  hc_coverage_knowledge_from :: "Timestamp option"
  hc_evidence_refs :: "EvidenceRef list"
  hc_validation_policy_id :: ValidationPolicyId
  hc_validation_state :: ValidationState
  hc_content_digest :: CalendarContentDigest

record TradingDayDefinition =
  td_calendar_id :: CalendarId
  td_calendar_version_id :: CalendarVersionId
  td_local_date :: int
  td_day_kind :: TradingDayKind
  td_evidence_refs :: "EvidenceRef list"
  td_validation_policy_id :: ValidationPolicyId
  td_validation_state :: ValidationState
  td_content_digest :: CalendarContentDigest

record SessionDefinition =
  sd_calendar_id :: CalendarId
  sd_calendar_version_id :: CalendarVersionId
  sd_local_date :: int
  sd_session_kind :: SessionKind
  sd_schedule_variation :: SessionScheduleVariation
  sd_local_open :: LocalWallTime
  sd_local_close :: LocalWallTime
  sd_utc_open :: Timestamp
  sd_utc_close :: Timestamp
  sd_timezone_rule_ref :: TimezoneRuleRef
  sd_evidence_refs :: "EvidenceRef list"
  sd_validation_policy_id :: ValidationPolicyId
  sd_validation_state :: ValidationState
  sd_content_digest :: CalendarContentDigest

datatype CalendarFact =
  CoverageFact HistoricalCoverage | DayFact TradingDayDefinition | SessionFact SessionDefinition

section \<open>Semantic content\<close>

datatype CalendarCorrectionAuthorityDecision = AUTHORIZED | NOT_AUTHORIZED
datatype CalendarNegativeFact = NO_SUPPORTED_SESSION

record CalendarFactDescriptor =
  fd_fact_kind :: string
  fd_calendar_version_id :: CalendarVersionId
  fd_date_or_range_identity :: string
  fd_session_kind :: "SessionKind option"
  fd_fact_content_digest :: CalendarContentDigest

text \<open>The mappings that are digested, one constructor per record kind: identities as texts, every field
  in the order of the code.  A calendar version's own identity is not part of its content.\<close>

datatype CalendarBody =
    CALENDAR_VERSION string string string Timestamp "Timestamp option" Timestamp TimezoneRuleRef
      "EvidenceRef list" string ValidationState "string option" "string option" "EvidenceRef list"
  | HISTORICAL_COVERAGE string string string string CalendarCoverageState "Timestamp option"
      "EvidenceRef list" string ValidationState
  | TRADING_DAY_DEFINITION string string string TradingDayKind "EvidenceRef list" string ValidationState
  | SESSION_DEFINITION string string string SessionKind SessionScheduleVariation LocalWallTime LocalWallTime
      Timestamp Timestamp TimezoneRuleRef "EvidenceRef list" string ValidationState
  | CORRECTION_AUTHORITY_ASSESSMENT string string string Timestamp Timestamp string
      CalendarCorrectionAuthorityDecision "EvidenceRef list" ValidationState
  | CURRENTNESS_ASSESSMENT string string Timestamp Timestamp Timestamp "Timestamp option" CalendarCurrentness
      string "EvidenceRef list" ValidationState
  | CANDIDATE_SET_COVERAGE string string SessionKind Timestamp Timestamp Timestamp Timestamp "string list"
      "CalendarFactDescriptor list" "EvidenceRef list" string ValidationState
  | NEGATIVE_COVERAGE_EVIDENCE string string SessionKind Timestamp Timestamp Timestamp string
      CalendarNegativeFact Timestamp "EvidenceRef list" string ValidationState

type_synonym body_digest = "CalendarBody \<Rightarrow> string"

definition calendar_digest :: "body_digest \<Rightarrow> CalendarBody \<Rightarrow> CalendarContentDigest result" where
  "calendar_digest dg body = CalendarContentDigest_init (''sha256:'' @ dg body)"

definition calendar_version_semantics :: "CalendarVersion \<Rightarrow> CalendarBody" where
  "calendar_version_semantics v = CALENDAR_VERSION (CalendarId_to_string (cv_calendar_id v))
     (cv_market_code v) (cv_venue_code v) (cv_effective_from v) (cv_effective_to v) (cv_knowledge_from v)
     (cv_timezone_rule_ref v) (cv_evidence_refs v) (validation_policy_text (cv_validation_policy_id v))
     (cv_validation_state v) (map_option CalendarVersionId_to_string (cv_supersedes_version_id v))
     (cv_correction_reason v) (cv_correction_evidence_refs v)"

definition coverage_semantics :: "HistoricalCoverage \<Rightarrow> CalendarBody" where
  "coverage_semantics v = HISTORICAL_COVERAGE (CalendarId_to_string (hc_calendar_id v))
     (CalendarVersionId_to_string (hc_calendar_version_id v)) (iso_date (hc_local_date_from v))
     (iso_date (hc_local_date_to v)) (hc_coverage_state v) (hc_coverage_knowledge_from v)
     (hc_evidence_refs v) (validation_policy_text (hc_validation_policy_id v)) (hc_validation_state v)"

definition day_semantics :: "TradingDayDefinition \<Rightarrow> CalendarBody" where
  "day_semantics v = TRADING_DAY_DEFINITION (CalendarId_to_string (td_calendar_id v))
     (CalendarVersionId_to_string (td_calendar_version_id v)) (iso_date (td_local_date v)) (td_day_kind v)
     (td_evidence_refs v) (validation_policy_text (td_validation_policy_id v)) (td_validation_state v)"

definition session_semantics :: "SessionDefinition \<Rightarrow> CalendarBody" where
  "session_semantics v = SESSION_DEFINITION (CalendarId_to_string (sd_calendar_id v))
     (CalendarVersionId_to_string (sd_calendar_version_id v)) (iso_date (sd_local_date v)) (sd_session_kind v)
     (sd_schedule_variation v) (sd_local_open v) (sd_local_close v) (sd_utc_open v) (sd_utc_close v)
     (sd_timezone_rule_ref v) (sd_evidence_refs v) (validation_policy_text (sd_validation_policy_id v))
     (sd_validation_state v)"

section \<open>Construction\<close>

definition check_correction :: "CalendarVersion \<Rightarrow> EvidenceRef list \<Rightarrow> unit result" where
  "check_correction a correction_refs = (case cv_supersedes_version_id a of
     None \<Rightarrow> raise_if (cv_correction_reason a \<noteq> None \<or> correction_refs \<noteq> []) CalendarLineageValidationError
       ''ROOT_HAS_CORRECTION_METADATA'' (Inr ())
   | Some _ \<Rightarrow> (case cv_correction_reason a of
       None \<Rightarrow> Inl (Err TypeError ''correction_reason must be a str'')
     | Some reason \<Rightarrow> raise_if (reason = [] \<or> reason \<noteq> strip reason) ValueError
         ''correction_reason must be nonempty, unpadded, and NFC-normalized''
         (raise_if (correction_refs = []) CalendarLineageValidationError ''CORRECTION_EVIDENCE_REQUIRED'' (Inr ()))))"

definition CalendarVersion_init :: "body_digest \<Rightarrow> CalendarVersion \<Rightarrow> CalendarVersion result" where
  "CalendarVersion_init dg a =
     rbind (scope_code (cv_market_code a) ''market_code'') (\<lambda>_.
     rbind (scope_code (cv_venue_code a) ''venue_code'') (\<lambda>_.
     raise_if (case cv_effective_to a of None \<Rightarrow> False | Some t \<Rightarrow> instant t \<le> instant (cv_effective_from a))
       ValueError ''effective interval must have a positive duration''
     (rbind (canonicalize_evidence_refs (cv_evidence_refs a)) (\<lambda>refs.
      raise_if (cv_supersedes_version_id a = Some (cv_calendar_version_id a)) CalendarLineageValidationError
        ''SELF_SUPERSESSION''
      (rbind (optional_evidence (cv_correction_evidence_refs a)) (\<lambda>crefs.
       rbind (check_correction a crefs) (\<lambda>_.
       let v = a\<lparr>cv_evidence_refs := refs, cv_correction_evidence_refs := crefs\<rparr> in
       rbind (calendar_digest dg (calendar_version_semantics v)) (\<lambda>d. Inr (v\<lparr>cv_content_digest := d\<rparr>)))))))))"

definition calendar_authoritative :: "CalendarVersion \<Rightarrow> bool" where
  "calendar_authoritative v \<longleftrightarrow> cv_validation_state v = V_VALID \<and> rule_authoritative (cv_timezone_rule_ref v)"

definition version_effective :: "CalendarVersion \<Rightarrow> Timestamp \<Rightarrow> bool" where
  "version_effective v t \<longleftrightarrow> instant (cv_effective_from v) \<le> instant t
     \<and> (case cv_effective_to v of None \<Rightarrow> True | Some e \<Rightarrow> instant t < instant e)"

definition is_known_at :: "CalendarVersion \<Rightarrow> Timestamp \<Rightarrow> bool" where
  "is_known_at v t \<longleftrightarrow> instant (cv_knowledge_from v) \<le> instant t"

definition HistoricalCoverage_init :: "body_digest \<Rightarrow> HistoricalCoverage \<Rightarrow> HistoricalCoverage result" where
  "HistoricalCoverage_init dg a =
     raise_if (hc_local_date_to a \<le> hc_local_date_from a) ValueError ''coverage interval must have a positive duration''
     (rbind (canonicalize_evidence_refs (hc_evidence_refs a)) (\<lambda>refs.
      let v = a\<lparr>hc_evidence_refs := refs\<rparr> in
      rbind (calendar_digest dg (coverage_semantics v)) (\<lambda>d. Inr (v\<lparr>hc_content_digest := d\<rparr>))))"

definition coverage_contains :: "HistoricalCoverage \<Rightarrow> int \<Rightarrow> bool" where
  "coverage_contains h d \<longleftrightarrow> hc_local_date_from h \<le> d \<and> d < hc_local_date_to h"

definition require_version_binding :: "CalendarId \<Rightarrow> CalendarVersionId \<Rightarrow> CalendarVersion \<Rightarrow> unit result" where
  "require_version_binding cid vid v =
     raise_if (cv_calendar_id v \<noteq> cid \<or> cv_calendar_version_id v \<noteq> vid) CalendarFactConflict
       ''CHILD_BOUND_TO_WRONG_CALENDAR_VERSION'' (Inr ())"

definition coverage_knowledge_from :: "HistoricalCoverage \<Rightarrow> CalendarVersion \<Rightarrow> bool \<Rightarrow> Timestamp result" where
  "coverage_knowledge_from h v same_atomic_publication = (case hc_coverage_knowledge_from h of
     Some t \<Rightarrow> Inr t
   | None \<Rightarrow> rbind (require_version_binding (hc_calendar_id h) (hc_calendar_version_id h) v) (\<lambda>_.
       raise_if (\<not> same_atomic_publication) CalendarCoverageError ''COVERAGE_KNOWLEDGE_NOT_ATTRIBUTABLE''
         (Inr (cv_knowledge_from v))))"

definition TradingDayDefinition_init :: "body_digest \<Rightarrow> TradingDayDefinition \<Rightarrow> TradingDayDefinition result" where
  "TradingDayDefinition_init dg a =
     rbind (canonicalize_evidence_refs (td_evidence_refs a)) (\<lambda>refs.
     let v = a\<lparr>td_evidence_refs := refs\<rparr> in
     rbind (calendar_digest dg (day_semantics v)) (\<lambda>d. Inr (v\<lparr>td_content_digest := d\<rparr>)))"

definition wall_tuple :: "LocalWallTime \<Rightarrow> int \<times> int \<times> int \<times> int" where
  "wall_tuple w = (wt_hour w, wt_minute w, wt_second w, wt_microsecond w)"

definition SessionDefinition_init :: "body_digest \<Rightarrow> SessionDefinition \<Rightarrow> SessionDefinition result" where
  "SessionDefinition_init dg a =
     raise_if (wt_nonexistent (sd_local_open a) \<or> wt_nonexistent (sd_local_close a)) ValueError ''NONEXISTENT_LOCAL_TIME''
     (raise_if (wt_ambiguous (sd_local_open a) \<and> wt_fold (sd_local_open a) = None
         \<or> wt_ambiguous (sd_local_close a) \<and> wt_fold (sd_local_close a) = None) ValueError ''AMBIGUOUS_LOCAL_TIME''
     (raise_if (sd_local_close a = sd_local_open a \<or> wall_tuple (sd_local_close a) \<le> wall_tuple (sd_local_open a))
       ValueError ''local_close must be after local_open for REGULAR V1 sessions''
     (raise_if (instant (sd_utc_close a) \<le> instant (sd_utc_open a)) ValueError ''utc_close must be after utc_open''
     (rbind (canonicalize_evidence_refs (sd_evidence_refs a)) (\<lambda>refs.
      let v = a\<lparr>sd_evidence_refs := refs\<rparr> in
      rbind (calendar_digest dg (session_semantics v)) (\<lambda>d. Inr (v\<lparr>sd_content_digest := d\<rparr>)))))))"

definition verify_utc_boundaries :: "corpus_digest \<Rightarrow> SessionDefinition \<Rightarrow> string \<Rightarrow> unit result" where
  "verify_utc_boundaries sha s corpus =
     rbind (to_utc sha (sd_local_open s) (sd_local_date s) (sd_timezone_rule_ref s) corpus) (\<lambda>expected_open.
     rbind (to_utc sha (sd_local_close s) (sd_local_date s) (sd_timezone_rule_ref s) corpus) (\<lambda>expected_close.
     raise_if (expected_open \<noteq> sd_utc_open s \<or> expected_close \<noteq> sd_utc_close s) ValueError
       ''UTC_CONVERSION_DISAGREEMENT'' (Inr ())))"

definition session_authoritative :: "SessionDefinition \<Rightarrow> bool" where
  "session_authoritative s \<longleftrightarrow> sd_validation_state s = V_VALID \<and> rule_authoritative (sd_timezone_rule_ref s)"

section \<open>Facts\<close>

fun fact_calendar_id :: "CalendarFact \<Rightarrow> CalendarId" where
  "fact_calendar_id (CoverageFact v) = hc_calendar_id v"
| "fact_calendar_id (DayFact v) = td_calendar_id v"
| "fact_calendar_id (SessionFact v) = sd_calendar_id v"

fun fact_version_id :: "CalendarFact \<Rightarrow> CalendarVersionId" where
  "fact_version_id (CoverageFact v) = hc_calendar_version_id v"
| "fact_version_id (DayFact v) = td_calendar_version_id v"
| "fact_version_id (SessionFact v) = sd_calendar_version_id v"

fun fact_evidence_refs :: "CalendarFact \<Rightarrow> EvidenceRef list" where
  "fact_evidence_refs (CoverageFact v) = hc_evidence_refs v"
| "fact_evidence_refs (DayFact v) = td_evidence_refs v"
| "fact_evidence_refs (SessionFact v) = sd_evidence_refs v"

fun fact_content_digest :: "CalendarFact \<Rightarrow> CalendarContentDigest" where
  "fact_content_digest (CoverageFact v) = hc_content_digest v"
| "fact_content_digest (DayFact v) = td_content_digest v"
| "fact_content_digest (SessionFact v) = sd_content_digest v"

fun fact_semantics :: "CalendarFact \<Rightarrow> CalendarBody" where
  "fact_semantics (CoverageFact v) = coverage_semantics v"
| "fact_semantics (DayFact v) = day_semantics v"
| "fact_semantics (SessionFact v) = session_semantics v"

fun session_kind_text :: "SessionKind \<Rightarrow> string" where
  "session_kind_text REGULAR = ''REGULAR''"

fun fact_identity :: "CalendarFact \<Rightarrow> string list" where
  "fact_identity (CoverageFact v) = [''COVERAGE'', iso_date (hc_local_date_from v), iso_date (hc_local_date_to v)]"
| "fact_identity (DayFact v) = [''DAY'', iso_date (td_local_date v)]"
| "fact_identity (SessionFact v) = [''SESSION'', iso_date (sd_local_date v), session_kind_text (sd_session_kind v)]"

fun rule_mismatch :: "CalendarVersion \<Rightarrow> CalendarFact \<Rightarrow> bool" where
  "rule_mismatch version (SessionFact v) = (sd_timezone_rule_ref v \<noteq> cv_timezone_rule_ref version)"
| "rule_mismatch version _ = False"

text \<open>One round of the loop of \<open>validate_fact_bindings\<close>; \<open>seen\<close> maps identities to digests.\<close>

definition bind_fact ::
  "CalendarVersion \<Rightarrow> (string list \<times> CalendarContentDigest) list \<Rightarrow> CalendarFact \<Rightarrow>
   (string list \<times> CalendarContentDigest) list result" where
  "bind_fact version seen item =
     rbind (require_version_binding (fact_calendar_id item) (fact_version_id item) version) (\<lambda>_.
     raise_if (rule_mismatch version item) CalendarFactConflict ''TIMEZONE_RULE_MISMATCH''
     (raise_if (case dict_get fst seen (fact_identity item) of None \<Rightarrow> False
         | Some (_, previous) \<Rightarrow> previous \<noteq> fact_content_digest item)
       CalendarFactConflict ''DUPLICATE_FACT_IDENTITY_DIFFERENT_CONTENT''
       (Inr (dict_put fst (fact_identity item, fact_content_digest item) seen))))"

definition validate_fact_bindings :: "CalendarVersion \<Rightarrow> CalendarFact list \<Rightarrow> CalendarFact list result" where
  "validate_fact_bindings version facts =
     raise_if (MAX_LINEAGE_VERSIONS < length facts) CalendarFactConflict ''FACT_RESOURCE_LIMIT_EXCEEDED''
     (rbind (rfold (bind_fact version) [] facts) (\<lambda>_.
       Inr (sort_key (\<lambda>v. (fact_identity v, calendar_digest_text (fact_content_digest v))) facts)))"

definition evidence_keys :: "EvidenceRef list \<Rightarrow> (SourceId \<times> DatasetId \<times> EvidenceId) set" where
  "evidence_keys refs = evidence_key ` set refs"

definition validate_coverage_independence :: "HistoricalCoverage \<Rightarrow> CalendarFact list \<Rightarrow> unit result" where
  "validate_coverage_independence coverage facts =
     raise_if (\<forall>e\<in>set (hc_evidence_refs coverage). evidence_key e \<in> evidence_keys (concat (map fact_evidence_refs facts)))
       CalendarCoverageError ''COVERAGE_SELF_CERTIFICATION'' (Inr ())"

definition coverage_disposition :: "HistoricalCoverage option \<Rightarrow> int \<Rightarrow> CalendarFact list \<Rightarrow> ResolutionDisposition" where
  "coverage_disposition coverage d facts = (case coverage of None \<Rightarrow> NOT_ESTABLISHED
   | Some h \<Rightarrow>
       if \<not> coverage_contains h d then NOT_ESTABLISHED
       else if hc_validation_state h \<noteq> V_VALID then NOT_ESTABLISHED
       else if hc_coverage_state h = COVERAGE_CONFLICTING then CONFLICTING
       else if hc_coverage_state h = INCOMPLETE then NOT_ESTABLISHED
       else case validate_coverage_independence h facts of Inl _ \<Rightarrow> NOT_ESTABLISHED | Inr _ \<Rightarrow> ESTABLISHED)"

section \<open>Lineage\<close>

abbreviation calendar_known :: "CalendarVersion \<Rightarrow> int" where
  "calendar_known v \<equiv> instant (cv_knowledge_from v)"

definition calendar_successor_step ::
  "CalendarVersion list \<Rightarrow> CalendarVersionId list \<Rightarrow> CalendarVersion \<Rightarrow> CalendarVersionId list result" where
  "calendar_successor_step values superseded item = (case cv_supersedes_version_id item of
     None \<Rightarrow> Inr superseded
   | Some p \<Rightarrow>
       raise_if (dict_get cv_calendar_version_id values p = None) CalendarLineageValidationError ''MISSING_PREDECESSOR''
       (raise_if (p \<in> set superseded) CalendarLineageValidationError ''BRANCHING_SUCCESSOR_CONFLICT''
         (Inr (superseded @ [p]))))"

function calendar_walk ::
  "CalendarVersion list \<Rightarrow> CalendarVersionId \<Rightarrow> CalendarVersionId \<Rightarrow> CalendarVersionId list \<Rightarrow> nat \<Rightarrow> unit result" where
  "calendar_walk values start current seen depth = (case dict_get cv_calendar_version_id values current of
     None \<Rightarrow> Inl (Err KeyError [])
   | Some item \<Rightarrow> (case cv_supersedes_version_id item of
       None \<Rightarrow> Inr ()
     | Some p \<Rightarrow>
         if p \<in> set seen \<or> p = start then Inl (Err CalendarLineageValidationError ''LINEAGE_CYCLE'')
         else if MAX_LINEAGE_DEPTH < depth + 1
         then Inl (Err CalendarLineageValidationError ''LINEAGE_RESOURCE_LIMIT_EXCEEDED'')
         else calendar_walk values start p (p # seen) (depth + 1)))"
  by pat_completeness auto
termination
  by (relation "measure (\<lambda>(_, _, _, _, depth). MAX_LINEAGE_DEPTH + 1 - depth)") auto

declare calendar_walk.simps [simp del]

definition calendar_knowledge_step :: "CalendarVersion list \<Rightarrow> CalendarVersion \<Rightarrow> unit result" where
  "calendar_knowledge_step values item = (case cv_supersedes_version_id item of
     None \<Rightarrow> Inr ()
   | Some p \<Rightarrow> (case dict_get cv_calendar_version_id values p of
       None \<Rightarrow> Inl (Err KeyError [])
     | Some previous \<Rightarrow> raise_if (calendar_known item \<le> calendar_known previous) CalendarLineageValidationError
         ''SUCCESSOR_KNOWLEDGE_NOT_GREATER'' (Inr ())))"

abbreviation calendar_scope :: "CalendarVersion \<Rightarrow> string \<times> string" where
  "calendar_scope v \<equiv> (cv_market_code v, cv_venue_code v)"

definition validate_calendar_lineage :: "CalendarVersion list \<Rightarrow> CalendarVersion list result" where
  "validate_calendar_lineage values =
     raise_if (values = []) CalendarLineageValidationError ''lineage must not be empty''
     (raise_if (MAX_LINEAGE_VERSIONS < length values) CalendarLineageValidationError ''LINEAGE_RESOURCE_LIMIT_EXCEEDED''
     (raise_if (\<not> distinct (map cv_calendar_version_id values)) CalendarLineageValidationError
       ''DUPLICATE_CALENDAR_VERSION_ID''
     (raise_if (\<exists>v\<in>set values. cv_calendar_id v \<noteq> cv_calendar_id (hd values)) CalendarLineageValidationError
       ''CROSS_CALENDAR_EDGE''
     (raise_if (\<exists>v\<in>set values. calendar_scope v \<noteq> calendar_scope (hd values)) CalendarLineageValidationError
       ''CONFLICTING_SCOPE''
     (rbind (rfold (calendar_successor_step values) [] values) (\<lambda>_.
      rbind (rmap (\<lambda>start. calendar_walk values start start [] 0) (map cv_calendar_version_id values)) (\<lambda>_.
      rbind (rmap (calendar_knowledge_step values) values) (\<lambda>_.
        Inr (sort_key (\<lambda>v. CalendarVersionId_to_string (cv_calendar_version_id v)) values)))))))))"

definition verify_calendar_content_digest ::
  "body_digest \<Rightarrow> CalendarBody \<Rightarrow> CalendarContentDigest \<Rightarrow> unit result" where
  "verify_calendar_content_digest dg body claimed = rbind (calendar_digest dg body) (\<lambda>expected.
     raise_if (claimed \<noteq> expected) ValueError ''content_digest does not match canonical semantic content'' (Inr ()))"

section \<open>Queries, assessments and candidates\<close>

record CalendarSessionResolutionQuery =
  cq_calendar_id :: CalendarId
  cq_local_date :: int
  cq_session_kind :: SessionKind
  cq_effective_as_of :: Timestamp
  cq_knowledge_cutoff :: Timestamp
  cq_evaluation_at :: Timestamp

definition CalendarSessionResolutionQuery_init ::
  "CalendarSessionResolutionQuery \<Rightarrow> CalendarSessionResolutionQuery result" where
  "CalendarSessionResolutionQuery_init a =
     raise_if (instant (cq_evaluation_at a) < instant (cq_knowledge_cutoff a)) ValueError
       ''knowledge_cutoff must not be after evaluation_at'' (Inr a)"

record CalendarCorrectionAuthorityAssessment =
  ca_calendar_id :: CalendarId
  ca_successor_version_id :: CalendarVersionId
  ca_predecessor_version_id :: CalendarVersionId
  ca_knowledge_from :: Timestamp
  ca_evaluated_at :: Timestamp
  ca_authority_policy_id :: ValidationPolicyId
  ca_decision :: CalendarCorrectionAuthorityDecision
  ca_evidence_refs :: "EvidenceRef list"
  ca_validation_state :: ValidationState
  ca_content_digest :: CalendarContentDigest

definition CalendarCorrectionAuthorityAssessment_init ::
  "body_digest \<Rightarrow> CalendarCorrectionAuthorityAssessment \<Rightarrow> CalendarCorrectionAuthorityAssessment result" where
  "CalendarCorrectionAuthorityAssessment_init dg a =
     raise_if (ca_successor_version_id a = ca_predecessor_version_id a) ValueError
       ''correction assessment cannot bind a self-supersession''
     (rbind (canonicalize_evidence_refs (ca_evidence_refs a)) (\<lambda>refs.
      let v = a\<lparr>ca_evidence_refs := refs\<rparr> in
      rbind (calendar_digest dg (CORRECTION_AUTHORITY_ASSESSMENT (CalendarId_to_string (ca_calendar_id v))
        (CalendarVersionId_to_string (ca_successor_version_id v))
        (CalendarVersionId_to_string (ca_predecessor_version_id v)) (ca_knowledge_from v) (ca_evaluated_at v)
        (validation_policy_text (ca_authority_policy_id v)) (ca_decision v) (ca_evidence_refs v)
        (ca_validation_state v))) (\<lambda>d. Inr (v\<lparr>ca_content_digest := d\<rparr>))))"

record CalendarCurrentnessAssessment =
  cu_calendar_id :: CalendarId
  cu_calendar_version_id :: CalendarVersionId
  cu_knowledge_from :: Timestamp
  cu_evaluation_at :: Timestamp
  cu_valid_from :: Timestamp
  cu_valid_to :: "Timestamp option"
  cu_state :: CalendarCurrentness
  cu_validation_policy_id :: ValidationPolicyId
  cu_evidence_refs :: "EvidenceRef list"
  cu_validation_state :: ValidationState
  cu_content_digest :: CalendarContentDigest

definition CalendarCurrentnessAssessment_init ::
  "body_digest \<Rightarrow> CalendarCurrentnessAssessment \<Rightarrow> CalendarCurrentnessAssessment result" where
  "CalendarCurrentnessAssessment_init dg a =
     raise_if (case cu_valid_to a of None \<Rightarrow> False | Some t \<Rightarrow> instant t \<le> instant (cu_valid_from a)) ValueError
       ''currentness validity interval must have positive duration''
     (rbind (canonicalize_evidence_refs (cu_evidence_refs a)) (\<lambda>refs.
      let v = a\<lparr>cu_evidence_refs := refs\<rparr> in
      rbind (calendar_digest dg (CURRENTNESS_ASSESSMENT (CalendarId_to_string (cu_calendar_id v))
        (CalendarVersionId_to_string (cu_calendar_version_id v)) (cu_knowledge_from v) (cu_evaluation_at v)
        (cu_valid_from v) (cu_valid_to v) (cu_state v) (validation_policy_text (cu_validation_policy_id v))
        (cu_evidence_refs v) (cu_validation_state v))) (\<lambda>d. Inr (v\<lparr>cu_content_digest := d\<rparr>))))"

definition currentness_applies :: "CalendarCurrentnessAssessment \<Rightarrow> CalendarSessionResolutionQuery \<Rightarrow> bool" where
  "currentness_applies a q \<longleftrightarrow> instant (cu_knowledge_from a) \<le> instant (cq_knowledge_cutoff q)
     \<and> instant (cu_valid_from a) \<le> instant (cq_evaluation_at q)
     \<and> (case cu_valid_to a of None \<Rightarrow> True | Some t \<Rightarrow> instant (cq_evaluation_at q) < instant t)"

definition CalendarFactDescriptor_init :: "CalendarFactDescriptor \<Rightarrow> CalendarFactDescriptor result" where
  "CalendarFactDescriptor_init a =
     raise_if (fd_fact_kind a \<notin> {''HISTORICAL_COVERAGE'', ''TRADING_DAY'', ''SESSION''}) ValueError ''fact_kind is unsupported''
     (raise_if (fd_date_or_range_identity a = []) ValueError ''date_or_range_identity must be a nonempty str''
     (raise_if ((fd_fact_kind a = ''SESSION'') \<noteq> (fd_session_kind a \<noteq> None)) ValueError
       ''only SESSION descriptors bind session_kind'' (Inr a)))"

fun from_fact :: "CalendarFact \<Rightarrow> CalendarFactDescriptor" where
  "from_fact (CoverageFact v) = \<lparr>fd_fact_kind = ''HISTORICAL_COVERAGE'',
     fd_calendar_version_id = hc_calendar_version_id v,
     fd_date_or_range_identity = iso_date (hc_local_date_from v) @ ''/'' @ iso_date (hc_local_date_to v),
     fd_session_kind = None, fd_fact_content_digest = hc_content_digest v\<rparr>"
| "from_fact (DayFact v) = \<lparr>fd_fact_kind = ''TRADING_DAY'', fd_calendar_version_id = td_calendar_version_id v,
     fd_date_or_range_identity = iso_date (td_local_date v), fd_session_kind = None,
     fd_fact_content_digest = td_content_digest v\<rparr>"
| "from_fact (SessionFact v) = \<lparr>fd_fact_kind = ''SESSION'', fd_calendar_version_id = sd_calendar_version_id v,
     fd_date_or_range_identity = iso_date (sd_local_date v), fd_session_kind = Some (sd_session_kind v),
     fd_fact_content_digest = sd_content_digest v\<rparr>"

text \<open>\<open>_canonical_bytes(item.semantic_mapping())\<close>; the texts of a constructed descriptor need no escapes.\<close>

definition descriptor_bytes :: "CalendarFactDescriptor \<Rightarrow> string" where
  "descriptor_bytes d =
     ''{\"calendar_version_id\":\"'' @ CalendarVersionId_to_string (fd_calendar_version_id d)
     @ ''\",\"date_or_range_identity\":\"'' @ fd_date_or_range_identity d
     @ ''\",\"fact_content_digest\":\"'' @ calendar_digest_text (fd_fact_content_digest d)
     @ ''\",\"fact_kind\":\"'' @ fd_fact_kind d
     @ ''\",\"session_kind\":'' @ (case fd_session_kind d of None \<Rightarrow> ''null''
         | Some k \<Rightarrow> ''\"'' @ session_kind_text k @ ''\"'') @ ''}''"

record CalendarCandidateSetCoverage =
  ck_calendar_id :: CalendarId
  ck_local_date :: int
  ck_session_kind :: SessionKind
  ck_effective_as_of :: Timestamp
  ck_knowledge_cutoff :: Timestamp
  ck_evaluation_at :: Timestamp
  ck_knowledge_from :: Timestamp
  ck_candidate_version_ids :: "CalendarVersionId list"
  ck_candidate_fact_descriptors :: "CalendarFactDescriptor list"
  ck_evidence_refs :: "EvidenceRef list"
  ck_validation_policy_id :: ValidationPolicyId
  ck_validation_state :: ValidationState
  ck_content_digest :: CalendarContentDigest

definition CalendarCandidateSetCoverage_init ::
  "body_digest \<Rightarrow> CalendarCandidateSetCoverage \<Rightarrow> CalendarCandidateSetCoverage result" where
  "CalendarCandidateSetCoverage_init dg a =
     raise_if (MAX_LINEAGE_VERSIONS < length (ck_candidate_version_ids a)
         \<or> MAX_LINEAGE_VERSIONS < length (ck_candidate_fact_descriptors a)) ValueError
       ''candidate-set resource limit exceeded''
     (raise_if (\<not> distinct (ck_candidate_version_ids a)) ValueError ''candidate_version_ids must be distinct''
     (raise_if (\<not> distinct (map descriptor_bytes (ck_candidate_fact_descriptors a))) ValueError
       ''candidate_fact_descriptors must be distinct''
     (rbind (canonicalize_evidence_refs (ck_evidence_refs a)) (\<lambda>refs.
      let v = a\<lparr>ck_candidate_version_ids := sort_key CalendarVersionId_to_string (ck_candidate_version_ids a),
            ck_candidate_fact_descriptors := sort_key descriptor_bytes (ck_candidate_fact_descriptors a),
            ck_evidence_refs := refs\<rparr> in
      rbind (calendar_digest dg (CANDIDATE_SET_COVERAGE (CalendarId_to_string (ck_calendar_id v))
        (iso_date (ck_local_date v)) (ck_session_kind v) (ck_effective_as_of v) (ck_knowledge_cutoff v)
        (ck_evaluation_at v) (ck_knowledge_from v) (map CalendarVersionId_to_string (ck_candidate_version_ids v))
        (ck_candidate_fact_descriptors v) (ck_evidence_refs v)
        (validation_policy_text (ck_validation_policy_id v)) (ck_validation_state v)))
        (\<lambda>d. Inr (v\<lparr>ck_content_digest := d\<rparr>))))))"

record CalendarNegativeCoverageEvidence =
  cn_calendar_id :: CalendarId
  cn_local_date :: int
  cn_session_kind :: SessionKind
  cn_effective_as_of :: Timestamp
  cn_knowledge_cutoff :: Timestamp
  cn_evaluation_at :: Timestamp
  cn_candidate_set_digest :: CalendarContentDigest
  cn_negative_fact :: CalendarNegativeFact
  cn_knowledge_from :: Timestamp
  cn_evidence_refs :: "EvidenceRef list"
  cn_validation_policy_id :: ValidationPolicyId
  cn_validation_state :: ValidationState
  cn_content_digest :: CalendarContentDigest

definition CalendarNegativeCoverageEvidence_init ::
  "body_digest \<Rightarrow> CalendarNegativeCoverageEvidence \<Rightarrow> CalendarNegativeCoverageEvidence result" where
  "CalendarNegativeCoverageEvidence_init dg a =
     rbind (canonicalize_evidence_refs (cn_evidence_refs a)) (\<lambda>refs.
     let v = a\<lparr>cn_evidence_refs := refs\<rparr> in
     rbind (calendar_digest dg (NEGATIVE_COVERAGE_EVIDENCE (CalendarId_to_string (cn_calendar_id v))
       (iso_date (cn_local_date v)) (cn_session_kind v) (cn_effective_as_of v) (cn_knowledge_cutoff v)
       (cn_evaluation_at v) (calendar_digest_text (cn_candidate_set_digest v)) (cn_negative_fact v)
       (cn_knowledge_from v) (cn_evidence_refs v) (validation_policy_text (cn_validation_policy_id v))
       (cn_validation_state v))) (\<lambda>d. Inr (v\<lparr>cn_content_digest := d\<rparr>)))"

record TimezoneRuleCorpusInput =
  tzc_timezone_rule_id :: TimezoneRuleId
  tzc_corpus :: string

definition corpus_content_digest :: "corpus_digest \<Rightarrow> TimezoneRuleCorpusInput \<Rightarrow> EvidenceContentDigest" where
  "corpus_content_digest sha i = sha (tzc_corpus i)"

record CalendarSessionResolutionCandidates =
  cc_calendar_versions :: "CalendarVersion list"
  cc_historical_coverages :: "HistoricalCoverage list"
  cc_trading_day_definitions :: "TradingDayDefinition list"
  cc_session_definitions :: "SessionDefinition list"
  cc_timezone_rule_corpora :: "TimezoneRuleCorpusInput list"
  cc_candidate_set_coverage :: "CalendarCandidateSetCoverage option"
  cc_negative_coverage :: "CalendarNegativeCoverageEvidence option"
  cc_currentness_assessments :: "CalendarCurrentnessAssessment list"
  cc_correction_authority_assessments :: "CalendarCorrectionAuthorityAssessment list"

record CalendarSessionResolutionResult =
  csr_disposition :: ResolutionDisposition
  csr_calendar_id :: CalendarId
  csr_local_date :: int
  csr_session_kind :: SessionKind
  csr_effective_as_of :: Timestamp
  csr_knowledge_cutoff :: Timestamp
  csr_evaluation_at :: Timestamp
  csr_selected_calendar_version_id :: "CalendarVersionId option"
  csr_trading_day :: "TradingDayDefinition option"
  csr_session :: "SessionDefinition option"
  csr_utc_open :: "Timestamp option"
  csr_utc_close :: "Timestamp option"
  csr_timezone_rule_id :: "TimezoneRuleId option"
  csr_timezone_rule_content_digest :: "EvidenceContentDigest option"
  csr_currentness_assessment_digest :: "CalendarContentDigest option"
  csr_correction_authority_assessment_digests :: "CalendarContentDigest list"
  csr_evidence_refs :: "EvidenceRef list"
  csr_reason_code :: string

text \<open>The fields of a session: session, UTC open, UTC close, timezone rule and its digest.\<close>

definition session_fields :: "CalendarSessionResolutionResult \<Rightarrow> bool list" where
  "session_fields r = [csr_session r = None, csr_utc_open r = None, csr_utc_close r = None,
     csr_timezone_rule_id r = None, csr_timezone_rule_content_digest r = None]"

definition check_established :: "CalendarSessionResolutionResult \<Rightarrow> unit result" where
  "check_established r = (case csr_trading_day r of
     None \<Rightarrow> Inl (Err ValueError ''ESTABLISHED results require a selected version and trading day'')
   | Some day \<Rightarrow>
       raise_if (csr_selected_calendar_version_id r = None) ValueError
         ''ESTABLISHED results require a selected version and trading day''
       (if td_day_kind day = REGULAR_TRADING_DAY
        then raise_if (True \<in> set (session_fields r) \<or> csr_currentness_assessment_digest r = None) ValueError
          ''ESTABLISHED regular sessions require complete value fields'' (Inr ())
        else raise_if (False \<in> set (session_fields r)) ValueError
          ''ESTABLISHED non-trading days must not contain a session'' (Inr ())))"

definition CalendarSessionResolutionResult_init ::
  "CalendarSessionResolutionResult \<Rightarrow> CalendarSessionResolutionResult result" where
  "CalendarSessionResolutionResult_init a =
     rbind (optional_evidence (csr_evidence_refs a)) (\<lambda>refs.
     let r = a\<lparr>csr_evidence_refs := refs\<rparr> in
     raise_if (MAX_EVIDENCE_REFS < length refs) ValueError ''result evidence exceeds MAX_EVIDENCE_REFS''
     (raise_if (csr_disposition r \<noteq> ESTABLISHED
         \<and> (csr_selected_calendar_version_id r \<noteq> None \<or> csr_trading_day r \<noteq> None \<or> False \<in> set (session_fields r)
            \<or> csr_currentness_assessment_digest r \<noteq> None \<or> csr_correction_authority_assessment_digests r \<noteq> []))
       ValueError ''non-ESTABLISHED results must not contain authoritative values''
     (rbind (if csr_disposition r = ESTABLISHED then check_established r else Inr ()) (\<lambda>_. Inr r))))"

section \<open>Resolution\<close>

text \<open>An early return of the resolver: disposition, reason and evidence.\<close>

type_synonym stop = "ResolutionDisposition \<times> string \<times> EvidenceRef list"

fun andthen :: "stop + 'a \<Rightarrow> ('a \<Rightarrow> stop + 'b) \<Rightarrow> stop + 'b" where
  "andthen (Inl s) f = Inl s"
| "andthen (Inr x) f = f x"

abbreviation not_established :: "string \<Rightarrow> stop + 'a" where
  "not_established reason \<equiv> Inl (NOT_ESTABLISHED, reason, [])"

abbreviation conflicting :: "string \<Rightarrow> stop + 'a" where
  "conflicting reason \<equiv> Inl (CONFLICTING, reason, [])"

definition collect_minimal :: "EvidenceRef list \<Rightarrow> EvidenceRef \<Rightarrow> EvidenceRef list" where
  "collect_minimal by_key item = (case dict_get evidence_key by_key (evidence_key item) of
     Some previous \<Rightarrow> if er_content_digest previous \<noteq> er_content_digest item then by_key
       else dict_put evidence_key item by_key
   | None \<Rightarrow> dict_put evidence_key item by_key)"

definition minimal_evidence :: "EvidenceRef list list \<Rightarrow> EvidenceRef list result" where
  "minimal_evidence groups =
     (let ordered = sort_key evidence_canonical_bytes (foldl collect_minimal [] (concat groups)) in
      raise_if (MAX_EVIDENCE_REFS < length ordered) ValueError ''result evidence resource limit exceeded'' (Inr ordered))"

definition empty_result :: "CalendarSessionResolutionQuery \<Rightarrow> stop \<Rightarrow> CalendarSessionResolutionResult result" where
  "empty_result q s = (case s of (d, reason, evidence) \<Rightarrow> CalendarSessionResolutionResult_init
     \<lparr>csr_disposition = d, csr_calendar_id = cq_calendar_id q, csr_local_date = cq_local_date q,
      csr_session_kind = cq_session_kind q, csr_effective_as_of = cq_effective_as_of q,
      csr_knowledge_cutoff = cq_knowledge_cutoff q, csr_evaluation_at = cq_evaluation_at q,
      csr_selected_calendar_version_id = None, csr_trading_day = None, csr_session = None,
      csr_utc_open = None, csr_utc_close = None, csr_timezone_rule_id = None,
      csr_timezone_rule_content_digest = None, csr_currentness_assessment_digest = None,
      csr_correction_authority_assessment_digests = [], csr_evidence_refs = evidence, csr_reason_code = reason\<rparr>)"

text \<open>What the knowledge cutoff lets through.\<close>

definition visible_versions ::
  "CalendarSessionResolutionQuery \<Rightarrow> CalendarSessionResolutionCandidates \<Rightarrow> CalendarVersion list" where
  "visible_versions q c = filter (\<lambda>v. calendar_known v \<le> instant (cq_knowledge_cutoff q)) (cc_calendar_versions c)"

definition visible_ids ::
  "CalendarSessionResolutionQuery \<Rightarrow> CalendarSessionResolutionCandidates \<Rightarrow> CalendarVersionId set" where
  "visible_ids q c = cv_calendar_version_id ` set (visible_versions q c)"

definition visible_coverages ::
  "CalendarSessionResolutionQuery \<Rightarrow> CalendarSessionResolutionCandidates \<Rightarrow> HistoricalCoverage list" where
  "visible_coverages q c = filter (\<lambda>v. hc_calendar_version_id v \<in> visible_ids q c) (cc_historical_coverages c)"

definition visible_days ::
  "CalendarSessionResolutionQuery \<Rightarrow> CalendarSessionResolutionCandidates \<Rightarrow> TradingDayDefinition list" where
  "visible_days q c = filter (\<lambda>v. td_calendar_version_id v \<in> visible_ids q c) (cc_trading_day_definitions c)"

definition visible_sessions ::
  "CalendarSessionResolutionQuery \<Rightarrow> CalendarSessionResolutionCandidates \<Rightarrow> SessionDefinition list" where
  "visible_sessions q c = filter (\<lambda>v. sd_calendar_version_id v \<in> visible_ids q c) (cc_session_definitions c)"

definition visible_facts ::
  "CalendarSessionResolutionQuery \<Rightarrow> CalendarSessionResolutionCandidates \<Rightarrow> CalendarFact list" where
  "visible_facts q c = map CoverageFact (visible_coverages q c) @ map DayFact (visible_days q c)
     @ map SessionFact (visible_sessions q c)"

definition visible_evidence ::
  "CalendarSessionResolutionQuery \<Rightarrow> CalendarSessionResolutionCandidates \<Rightarrow> (SourceId \<times> DatasetId \<times> EvidenceId) set" where
  "visible_evidence q c = evidence_keys (concat (map cv_evidence_refs (visible_versions q c)))
     \<union> evidence_keys (concat (map fact_evidence_refs (visible_facts q c)))"

definition coverage_query_matches :: "CalendarSessionResolutionQuery \<Rightarrow> CalendarCandidateSetCoverage \<Rightarrow> bool" where
  "coverage_query_matches q v \<longleftrightarrow> ck_calendar_id v = cq_calendar_id q \<and> ck_local_date v = cq_local_date q
     \<and> ck_session_kind v = cq_session_kind q \<and> ck_effective_as_of v = cq_effective_as_of q
     \<and> ck_knowledge_cutoff v = cq_knowledge_cutoff q \<and> ck_evaluation_at v = cq_evaluation_at q"

definition negative_query_matches :: "CalendarSessionResolutionQuery \<Rightarrow> CalendarNegativeCoverageEvidence \<Rightarrow> bool" where
  "negative_query_matches q v \<longleftrightarrow> cn_calendar_id v = cq_calendar_id q \<and> cn_local_date v = cq_local_date q
     \<and> cn_session_kind v = cq_session_kind q \<and> cn_effective_as_of v = cq_effective_as_of q
     \<and> cn_knowledge_cutoff v = cq_knowledge_cutoff q \<and> cn_evaluation_at v = cq_evaluation_at q"

definition within_limits :: "CalendarSessionResolutionCandidates \<Rightarrow> bool" where
  "within_limits c \<longleftrightarrow> length (cc_calendar_versions c) \<le> MAX_LINEAGE_VERSIONS
     \<and> length (cc_historical_coverages c) \<le> MAX_LINEAGE_VERSIONS
     \<and> length (cc_trading_day_definitions c) \<le> MAX_LINEAGE_VERSIONS
     \<and> length (cc_session_definitions c) \<le> MAX_LINEAGE_VERSIONS
     \<and> length (cc_timezone_rule_corpora c) \<le> MAX_LINEAGE_VERSIONS
     \<and> length (cc_currentness_assessments c) \<le> MAX_LINEAGE_VERSIONS
     \<and> length (cc_correction_authority_assessments c) \<le> MAX_LINEAGE_VERSIONS"

text \<open>The candidate set and the evidence that it is complete.\<close>

definition candidate_set_stage ::
  "CalendarSessionResolutionQuery \<Rightarrow> CalendarSessionResolutionCandidates \<Rightarrow> stop + CalendarCandidateSetCoverage" where
  "candidate_set_stage q c =
     (if cq_session_kind q \<noteq> REGULAR then not_established ''UNSUPPORTED_SESSION_KIND''
      else if \<not> within_limits c then not_established ''RESOURCE_LIMIT_EXCEEDED''
      else case cc_candidate_set_coverage c of
        None \<Rightarrow> not_established ''CANDIDATE_SET_COVERAGE_MISSING''
      | Some k \<Rightarrow>
          let expected_ids = sort_key CalendarVersionId_to_string (remdups (map cv_calendar_version_id (visible_versions q c)));
              expected_descriptors = sort_key descriptor_bytes (map from_fact (visible_facts q c)) in
          if \<not> coverage_query_matches q k then not_established ''CANDIDATE_SET_COVERAGE_MISMATCH''
          else if instant (cq_knowledge_cutoff q) < instant (ck_knowledge_from k)
          then not_established ''CANDIDATE_SET_COVERAGE_FUTURE''
          else if ck_validation_state k \<noteq> V_VALID then not_established ''CANDIDATE_SET_COVERAGE_NOT_AUTHORITATIVE''
          else if ck_candidate_version_ids k \<noteq> expected_ids
          then not_established (if \<exists>i\<in>set (ck_candidate_version_ids k). i \<notin> set expected_ids
            then ''CANDIDATE_SET_SURPLUS'' else ''CANDIDATE_SET_INCOMPLETE'')
          else if ck_candidate_fact_descriptors k \<noteq> expected_descriptors
          then not_established (if \<exists>d\<in>set (ck_candidate_fact_descriptors k).
              descriptor_bytes d \<notin> descriptor_bytes ` set expected_descriptors
            then ''CANDIDATE_SET_SURPLUS'' else ''CANDIDATE_SET_INCOMPLETE'')
          else if evidence_keys (ck_evidence_refs k) \<inter> visible_evidence q c \<noteq> {}
          then not_established ''CANDIDATE_SELF_CERTIFIED_COVERAGE''
          else if (\<exists>v\<in>set (visible_versions q c). cv_calendar_id v \<noteq> cq_calendar_id q)
              \<or> (\<exists>f\<in>set (visible_facts q c). fact_calendar_id f \<noteq> cq_calendar_id q)
          then conflicting ''WRONG_CALENDAR_SUBJECT''
          else Inr k)"

text \<open>The body of the \<open>try\<close> statement; every exception it can raise is caught.\<close>

definition check_version_facts :: "body_digest \<Rightarrow> CalendarFact list \<Rightarrow> CalendarVersion \<Rightarrow> unit result" where
  "check_version_facts dg facts version =
     (let own = filter (\<lambda>f. fact_version_id f = cv_calendar_version_id version) facts in
      rbind (validate_fact_bindings version own) (\<lambda>_.
      rbind (verify_calendar_content_digest dg (calendar_version_semantics version) (cv_content_digest version)) (\<lambda>_.
      rbind (rmap (\<lambda>f. verify_calendar_content_digest dg (fact_semantics f) (fact_content_digest f)) own) (\<lambda>_. Inr ()))))"

definition check_lineage :: "body_digest \<Rightarrow> CalendarVersion list \<Rightarrow> CalendarFact list \<Rightarrow> unit result" where
  "check_lineage dg versions facts = rbind (validate_calendar_lineage versions) (\<lambda>ordered.
     rbind (rmap (check_version_facts dg facts) ordered) (\<lambda>_. Inr ()))"

definition lineage_conflict :: "error \<Rightarrow> bool" where
  "lineage_conflict e = (case e of Err x _ \<Rightarrow>
     x \<in> {CalendarLineageValidationError, CalendarFactConflict, ValueError, TypeError})"

text \<open>The corrections among the effective versions.  \<open>lineage\<close> is the validated one.\<close>

definition applicable_authority ::
  "CalendarSessionResolutionQuery \<Rightarrow> CalendarVersion \<Rightarrow> CalendarVersionId \<Rightarrow> CalendarCorrectionAuthorityAssessment \<Rightarrow> bool" where
  "applicable_authority q v p a \<longleftrightarrow> ca_calendar_id a = cq_calendar_id q
     \<and> ca_successor_version_id a = cv_calendar_version_id v \<and> ca_predecessor_version_id a = p
     \<and> instant (ca_knowledge_from a) \<le> instant (cq_knowledge_cutoff q)
     \<and> instant (ca_evaluated_at a) \<le> instant (cq_evaluation_at q)"

definition correction_excluded ::
  "CalendarVersion list \<Rightarrow> CalendarFact list \<Rightarrow> CalendarVersion \<Rightarrow> CalendarVersionId \<Rightarrow> (SourceId \<times> DatasetId \<times> EvidenceId) set" where
  "correction_excluded lineage facts v p =
     evidence_keys (cv_evidence_refs v @ cv_correction_evidence_refs v)
     \<union> (case dict_get cv_calendar_version_id lineage p of None \<Rightarrow> {}
        | Some w \<Rightarrow> evidence_keys (cv_evidence_refs w @ cv_correction_evidence_refs w))
     \<union> evidence_keys (concat (map fact_evidence_refs
         (filter (\<lambda>f. fact_version_id f = cv_calendar_version_id v) facts)))"

text \<open>The verdict on one correction: the assessments that authorise it, or nothing when it is refused.\<close>

definition correction_verdict ::
  "CalendarSessionResolutionQuery \<Rightarrow> CalendarSessionResolutionCandidates \<Rightarrow> CalendarVersion \<Rightarrow> CalendarVersionId \<Rightarrow>
   stop + CalendarCorrectionAuthorityAssessment list option" where
  "correction_verdict q c v p =
     (let assessments = filter (applicable_authority q v p) (cc_correction_authority_assessments c);
          valid = filter (\<lambda>a. ca_validation_state a = V_VALID) assessments;
          excluded = correction_excluded (visible_versions q c) (visible_facts q c) v p in
      if assessments = [] then not_established ''CORRECTION_AUTHORITY_MISSING''
      else if valid = [] then not_established ''CORRECTION_AUTHORITY_NOT_ESTABLISHED''
      else if \<exists>a\<in>set valid. evidence_keys (ca_evidence_refs a) \<subseteq> excluded
      then not_established ''CORRECTION_AUTHORITY_SELF_CERTIFIED''
      else if card (ca_decision ` set valid) \<noteq> 1 then conflicting ''CORRECTION_AUTHORITY_CONFLICT''
      else Inr (if ca_decision (hd valid) = AUTHORIZED then Some valid else None))"

fun admit_versions ::
  "CalendarSessionResolutionQuery \<Rightarrow> CalendarSessionResolutionCandidates \<Rightarrow> CalendarVersion list \<Rightarrow>
   stop + CalendarVersion list \<times> CalendarCorrectionAuthorityAssessment list" where
  "admit_versions q c [] = Inr ([], [])"
| "admit_versions q c (v # vs) = (case cv_supersedes_version_id v of
     None \<Rightarrow> andthen (admit_versions q c vs) (\<lambda>(adm, auth). Inr (v # adm, auth))
   | Some p \<Rightarrow> andthen (correction_verdict q c v p) (\<lambda>verdict.
       andthen (admit_versions q c vs) (\<lambda>(adm, auth).
         case verdict of None \<Rightarrow> Inr (adm, auth) | Some used \<Rightarrow> Inr (v # adm, used @ auth))))"

definition valid_negative ::
  "CalendarSessionResolutionQuery \<Rightarrow> CalendarSessionResolutionCandidates \<Rightarrow> CalendarCandidateSetCoverage \<Rightarrow>
   CalendarNegativeCoverageEvidence option" where
  "valid_negative q c k = (case cc_negative_coverage c of
     None \<Rightarrow> None
   | Some v \<Rightarrow>
       if \<not> negative_query_matches q v then None
       else if instant (cq_knowledge_cutoff q) < instant (cn_knowledge_from v) then None
       else if cn_validation_state v \<noteq> V_VALID then None
       else if cn_candidate_set_digest v \<noteq> ck_content_digest k then None
       else if evidence_keys (cn_evidence_refs v) \<inter> visible_evidence q c \<noteq> {} then None
       else Some v)"

definition negative_or_missing ::
  "CalendarSessionResolutionQuery \<Rightarrow> CalendarSessionResolutionCandidates \<Rightarrow> CalendarCandidateSetCoverage \<Rightarrow> stop" where
  "negative_or_missing q c k = (case valid_negative q c k of
     Some v \<Rightarrow> (ABSENT, ''AUTHORITATIVE_NEGATIVE_COVERAGE'', cn_evidence_refs v)
   | None \<Rightarrow> (NOT_ESTABLISHED, ''NO_APPLICABLE_VERSION'', []))"

text \<open>The selected version: the only admissible one that no admissible one supersedes.\<close>

definition select_tip :: "CalendarVersion list \<Rightarrow> stop + CalendarVersion" where
  "select_tip admissible =
     (let superseded = List.map_filter cv_supersedes_version_id admissible;
          ts = filter (\<lambda>v. cv_calendar_version_id v \<notin> set superseded) admissible in
      case ts of [v] \<Rightarrow> Inr v
      | _ \<Rightarrow> if 1 < card (cv_content_digest ` set ts) then conflicting ''MATERIAL_QUALIFYING_CONFLICT''
            else Inl (AMBIGUOUS, ''MULTIPLE_PLAUSIBLE_VERSIONS'', []))"

definition version_stage ::
  "CalendarSessionResolutionQuery \<Rightarrow> CalendarSessionResolutionCandidates \<Rightarrow> CalendarCandidateSetCoverage \<Rightarrow>
   stop + CalendarVersion \<times> CalendarCorrectionAuthorityAssessment list" where
  "version_stage q c k =
     (let effective = filter (\<lambda>v. version_effective v (cq_effective_as_of q)) (visible_versions q c) in
      if visible_versions q c \<noteq> [] \<and> effective = [] then not_established ''EFFECTIVE_BOUNDARY_MISMATCH''
      else if effective = [] then Inl (negative_or_missing q c k)
      else if \<exists>v\<in>set effective. \<not> calendar_authoritative v then not_established ''NO_APPLICABLE_VERSION''
      else andthen (admit_versions q c effective) (\<lambda>(admissible, authorities).
        andthen (select_tip admissible) (\<lambda>selected. Inr (selected, authorities))))"

definition bound_currentness ::
  "CalendarSessionResolutionQuery \<Rightarrow> CalendarVersion \<Rightarrow> CalendarCurrentnessAssessment \<Rightarrow> bool" where
  "bound_currentness q v a \<longleftrightarrow> cu_calendar_id a = cq_calendar_id q
     \<and> cu_calendar_version_id a = cv_calendar_version_id v"

definition currentness_stage ::
  "CalendarSessionResolutionQuery \<Rightarrow> CalendarSessionResolutionCandidates \<Rightarrow> CalendarVersion \<Rightarrow>
   stop + CalendarCurrentnessAssessment" where
  "currentness_stage q c v =
     (let bound = filter (bound_currentness q v) (cc_currentness_assessments c);
          applicable = filter (\<lambda>a. instant (cu_knowledge_from a) \<le> instant (cq_knowledge_cutoff q)) bound;
          valid_time = filter (\<lambda>a. currentness_applies a q) applicable;
          authoritative = filter (\<lambda>a. cu_validation_state a = V_VALID) valid_time in
      if applicable = [] then
        not_established (if \<exists>a\<in>set bound. instant (cq_knowledge_cutoff q) < instant (cu_knowledge_from a)
          then ''CURRENTNESS_ASSESSMENT_FUTURE'' else ''CURRENTNESS_ASSESSMENT_MISSING'')
      else if valid_time = [] then not_established ''CURRENTNESS_ASSESSMENT_OUTSIDE_VALIDITY''
      else case authoritative of [] \<Rightarrow> not_established ''CURRENTNESS_ASSESSMENT_NOT_AUTHORITATIVE''
      | a # _ \<Rightarrow>
          if card (cu_state ` set authoritative) \<noteq> 1 then conflicting ''CURRENTNESS_ASSESSMENT_CONFLICT''
          else if cu_state a = STALE then not_established ''CALENDAR_VERSION_STALE''
          else if cu_state a = UNKNOWN_CURRENTNESS then not_established ''CALENDAR_CURRENTNESS_UNKNOWN''
          else Inr a)"

definition coverage_stage ::
  "CalendarSessionResolutionQuery \<Rightarrow> CalendarSessionResolutionCandidates \<Rightarrow> CalendarVersion \<Rightarrow> stop + HistoricalCoverage" where
  "coverage_stage q c v =
     (let covs = filter (\<lambda>h. hc_calendar_version_id h = cv_calendar_version_id v
            \<and> coverage_contains h (cq_local_date q)) (visible_coverages q c);
          related = filter (\<lambda>f. fact_version_id f = cv_calendar_version_id v)
            (map DayFact (visible_days q c) @ map SessionFact (visible_sessions q c)) in
      case covs of
        [h] \<Rightarrow>
          if (case hc_coverage_knowledge_from h of None \<Rightarrow> False | Some t \<Rightarrow> instant (cq_knowledge_cutoff q) < instant t)
          then not_established ''COVERAGE_NOT_ESTABLISHED''
          else (case coverage_disposition (Some h) (cq_local_date q) related of
              CONFLICTING \<Rightarrow> conflicting ''COVERAGE_CONFLICT''
            | ESTABLISHED \<Rightarrow> Inr h
            | _ \<Rightarrow> not_established ''COVERAGE_NOT_ESTABLISHED'')
      | [] \<Rightarrow> not_established ''COVERAGE_NOT_ESTABLISHED''
      | _ \<Rightarrow> conflicting ''COVERAGE_CONFLICT'')"

definition day_stage ::
  "CalendarSessionResolutionQuery \<Rightarrow> CalendarSessionResolutionCandidates \<Rightarrow> CalendarCandidateSetCoverage \<Rightarrow>
   CalendarVersion \<Rightarrow> stop + TradingDayDefinition" where
  "day_stage q c k v =
     (let days = filter (\<lambda>d. td_calendar_version_id d = cv_calendar_version_id v \<and> td_local_date d = cq_local_date q)
        (visible_days q c) in
      case days of [] \<Rightarrow> Inl (negative_or_missing q c k)
      | day # _ \<Rightarrow>
          if card (td_content_digest ` set days) \<noteq> 1 then conflicting ''TRADING_DAY_CONFLICT''
          else if td_validation_state day \<noteq> V_VALID then not_established ''TRADING_DAY_NOT_ESTABLISHED''
          else Inr day)"

text \<open>The session of a regular day: unique, bound to the version's timezone rule, and with UTC boundaries
  that agree with its wall times.  Only \<open>ValueError\<close> is caught; the text tested is that of the one
  exception that carries it.\<close>

definition check_session ::
  "corpus_digest \<Rightarrow> CalendarSessionResolutionCandidates \<Rightarrow> CalendarVersion \<Rightarrow> SessionDefinition \<Rightarrow>
   (stop + SessionDefinition) result" where
  "check_session sha c v s =
     (if \<not> session_authoritative s \<or> sd_timezone_rule_ref s \<noteq> cv_timezone_rule_ref v
      then Inr (not_established ''TIMEZONE_RULE_NOT_ESTABLISHED'')
      else
        let corpora = filter (\<lambda>i. tzc_timezone_rule_id i = tz_timezone_rule_id (cv_timezone_rule_ref v))
              (cc_timezone_rule_corpora c) in
        case corpora of
          [i] \<Rightarrow>
            if corpus_content_digest sha i \<noteq> tz_rule_content_digest (cv_timezone_rule_ref v)
            then Inr (not_established ''TIMEZONE_RULE_CORPUS_DIGEST_MISMATCH'')
            else (case verify_utc_boundaries sha s (tzc_corpus i) of
                Inr _ \<Rightarrow> Inr (Inr s)
              | Inl (Err x m) \<Rightarrow>
                  if x = ValueError
                  then Inr (if m = ''UTC_CONVERSION_DISAGREEMENT'' then conflicting ''UTC_BOUNDARY_CONFLICT''
                    else not_established ''LOCAL_TIME_NOT_ESTABLISHED'')
                  else Inl (Err x m))
        | [] \<Rightarrow> Inr (not_established ''TIMEZONE_RULE_NOT_ESTABLISHED'')
        | _ \<Rightarrow> Inr (conflicting ''TIMEZONE_RULE_NOT_ESTABLISHED''))"

definition session_stage ::
  "corpus_digest \<Rightarrow> CalendarSessionResolutionQuery \<Rightarrow> CalendarSessionResolutionCandidates \<Rightarrow>
   CalendarCandidateSetCoverage \<Rightarrow> CalendarVersion \<Rightarrow> TradingDayDefinition \<Rightarrow> (stop + SessionDefinition option) result" where
  "session_stage sha q c k v day =
     (let sessions = filter (\<lambda>s. sd_calendar_version_id s = cv_calendar_version_id v
            \<and> sd_local_date s = cq_local_date q \<and> sd_session_kind s = cq_session_kind q) (visible_sessions q c) in
      if td_day_kind day \<noteq> REGULAR_TRADING_DAY
      then Inr (if sessions \<noteq> [] then conflicting ''SESSION_CONFLICT'' else Inr None)
      else case valid_negative q c k of
        Some n \<Rightarrow> Inr (case minimal_evidence [td_evidence_refs day, cn_evidence_refs n] of
            Inl _ \<Rightarrow> not_established ''RESOURCE_LIMIT_EXCEEDED''
          | Inr ev \<Rightarrow> Inl (CONFLICTING, ''POSITIVE_NEGATIVE_SESSION_CONFLICT'', ev))
      | None \<Rightarrow> (case sessions of
            [] \<Rightarrow> Inr (not_established ''SESSION_NOT_ESTABLISHED'')
          | s # _ \<Rightarrow>
              if card (sd_content_digest ` set sessions) \<noteq> 1 then Inr (conflicting ''SESSION_CONFLICT'')
              else rbind (check_session sha c v s) (\<lambda>r. Inr (andthen r (\<lambda>x. Inr (Some x))))))"

definition established_result ::
  "CalendarSessionResolutionQuery \<Rightarrow> CalendarVersion \<Rightarrow> HistoricalCoverage \<Rightarrow> TradingDayDefinition \<Rightarrow> SessionDefinition option \<Rightarrow>
   CalendarCurrentnessAssessment \<Rightarrow> CalendarCorrectionAuthorityAssessment list \<Rightarrow> CalendarSessionResolutionResult result" where
  "established_result q v h day session currentness authorities =
     (let evidence = hc_evidence_refs h @ td_evidence_refs day
            @ (case session of None \<Rightarrow> [] | Some s \<Rightarrow> sd_evidence_refs s @ tz_evidence_refs (cv_timezone_rule_ref v)) in
      case minimal_evidence (evidence # cu_evidence_refs currentness # map ca_evidence_refs authorities) of
        Inl _ \<Rightarrow> empty_result q (NOT_ESTABLISHED, ''RESOURCE_LIMIT_EXCEEDED'', [])
      | Inr supporting \<Rightarrow> CalendarSessionResolutionResult_init
          \<lparr>csr_disposition = ESTABLISHED, csr_calendar_id = cq_calendar_id q, csr_local_date = cq_local_date q,
           csr_session_kind = cq_session_kind q, csr_effective_as_of = cq_effective_as_of q,
           csr_knowledge_cutoff = cq_knowledge_cutoff q, csr_evaluation_at = cq_evaluation_at q,
           csr_selected_calendar_version_id = Some (cv_calendar_version_id v), csr_trading_day = Some day,
           csr_session = session, csr_utc_open = map_option sd_utc_open session,
           csr_utc_close = map_option sd_utc_close session,
           csr_timezone_rule_id = map_option (\<lambda>_. tz_timezone_rule_id (cv_timezone_rule_ref v)) session,
           csr_timezone_rule_content_digest = map_option (\<lambda>_. tz_rule_content_digest (cv_timezone_rule_ref v)) session,
           csr_currentness_assessment_digest = Some (cu_content_digest currentness),
           csr_correction_authority_assessment_digests =
             sort_key calendar_digest_text (map ca_content_digest authorities),
           csr_evidence_refs = supporting,
           csr_reason_code = (if session = None then ''AUTHORITATIVE_NON_TRADING_DAY'' else ''UNIQUE_AUTHORITATIVE_SESSION'')\<rparr>)"

text \<open>Everything between the candidate set and the trading day.\<close>

definition selection ::
  "CalendarSessionResolutionQuery \<Rightarrow> CalendarSessionResolutionCandidates \<Rightarrow> CalendarCandidateSetCoverage \<Rightarrow>
   stop + CalendarVersion \<times> CalendarCorrectionAuthorityAssessment list \<times> CalendarCurrentnessAssessment
     \<times> HistoricalCoverage \<times> TradingDayDefinition" where
  "selection q c k = andthen (version_stage q c k) (\<lambda>(v, authorities).
     andthen (currentness_stage q c v) (\<lambda>currentness.
     andthen (coverage_stage q c v) (\<lambda>h.
     andthen (day_stage q c k v) (\<lambda>day. Inr (v, authorities, currentness, h, day)))))"

definition resolve_calendar_session ::
  "corpus_digest \<Rightarrow> body_digest \<Rightarrow> CalendarSessionResolutionQuery \<Rightarrow> CalendarSessionResolutionCandidates \<Rightarrow>
   CalendarSessionResolutionResult result" where
  "resolve_calendar_session sha dg q c = (case candidate_set_stage q c of
     Inl s \<Rightarrow> empty_result q s
   | Inr k \<Rightarrow>
     (case (if visible_versions q c = [] then Inr () else check_lineage dg (visible_versions q c) (visible_facts q c)) of
        Inl e \<Rightarrow> if lineage_conflict e then empty_result q (CONFLICTING, ''INVALID_OR_CONFLICTING_LINEAGE'', [])
          else Inl e
      | Inr _ \<Rightarrow>
        (case selection q c k of
           Inl s \<Rightarrow> empty_result q s
         | Inr (v, authorities, currentness, h, day) \<Rightarrow>
             rbind (session_stage sha q c k v day) (\<lambda>r. case r of
                 Inl s \<Rightarrow> empty_result q s
               | Inr session \<Rightarrow> established_result q v h day session currentness authorities))))"

end
