(* ===== verification/CalendarResolution.thy ===== *)
theory CalendarResolution
  imports Calendars
begin

text \<open>
  The properties of calendar lineages and of the session resolver of \<open>Calendars\<close>.  Each stage of the
  resolver has one lemma that says what it established and one that says it stops with a
  disposition other than ESTABLISHED; the properties of the whole resolver combine them.
\<close>

section \<open>Lineages\<close>

interpretation calendar_lineage: supersession cv_calendar_version_id cv_supersedes_version_id calendar_known
    MAX_LINEAGE_DEPTH CalendarLineageValidationError calendar_successor_step calendar_walk calendar_knowledge_step
  by unfold_locales
     (simp_all add: calendar_successor_step_def calendar_knowledge_step_def calendar_walk.simps split: option.split)

abbreviation calendar_chains :: "CalendarVersion list \<Rightarrow> bool" where
  "calendar_chains \<equiv> chains_ok cv_calendar_version_id cv_supersedes_version_id calendar_known MAX_LINEAGE_DEPTH"

definition calendar_lineage_ok :: "CalendarVersion list \<Rightarrow> bool" where
  "calendar_lineage_ok vs \<longleftrightarrow> vs \<noteq> [] \<and> length vs \<le> MAX_LINEAGE_VERSIONS
     \<and> (\<forall>v\<in>set vs. \<forall>w\<in>set vs. cv_calendar_id v = cv_calendar_id w \<and> calendar_scope v = calendar_scope w)
     \<and> calendar_chains vs"

lemma validate_calendar_lineage_Inr:
  "validate_calendar_lineage vs = Inr ws \<longleftrightarrow> calendar_lineage_ok vs
     \<and> ws = sort_key (\<lambda>v. CalendarVersionId_to_string (cv_calendar_version_id v)) vs"
proof (cases "vs \<noteq> [] \<and> distinct (map cv_calendar_version_id vs)")
  case True
  then have ne: "vs \<noteq> []" and d: "distinct (map cv_calendar_version_id vs)" by auto
  have "validate_calendar_lineage vs = Inr ws \<longleftrightarrow> length vs \<le> MAX_LINEAGE_VERSIONS
      \<and> (\<forall>v\<in>set vs. \<forall>w\<in>set vs. cv_calendar_id v = cv_calendar_id w)
      \<and> (\<forall>v\<in>set vs. \<forall>w\<in>set vs. calendar_scope v = calendar_scope w) \<and> calendar_chains vs
      \<and> ws = sort_key (\<lambda>v. CalendarVersionId_to_string (cv_calendar_version_id v)) vs"
    unfolding validate_calendar_lineage_def raise_if_eq_Inr calendar_lineage.checks_Inr [OF d]
      one_subject [OF ne, of cv_calendar_id] one_subject [OF ne, of "\<lambda>v. calendar_scope v"]
    using ne d by (simp only: not_less not_not sum.inject) blast
  then show ?thesis using True unfolding calendar_lineage_ok_def by blast
next
  case False
  then show ?thesis by (auto simp: validate_calendar_lineage_def calendar_lineage_ok_def chains_ok_def)
qed

lemma validate_calendar_lineage_error:
  assumes "validate_calendar_lineage vs = Inl (Err x m)"
  shows "x = CalendarLineageValidationError"
proof -
  let ?checks = "rbind (rfold (calendar_successor_step vs) [] vs) (\<lambda>_.
      rbind (rmap (\<lambda>start. calendar_walk vs start start [] 0) (map cv_calendar_version_id vs)) (\<lambda>_.
      rbind (rmap (calendar_knowledge_step vs) vs) (\<lambda>_.
        Inr (sort_key (\<lambda>v. CalendarVersionId_to_string (cv_calendar_version_id v)) vs))))"
  have "x = CalendarLineageValidationError \<or> ?checks = Inl (Err x m)"
    using assms unfolding validate_calendar_lineage_def raise_if_def by (simp split: if_splits del: rbind_eq_Inl)
  then show ?thesis by (rule disjE) (assumption, rule calendar_lineage.checks_Inl)
qed

text \<open>Whatever the body of the \<open>try\<close> statement raises is caught.\<close>

lemma bind_fact_error: "bind_fact v seen f = Inl (Err x m) \<Longrightarrow> x = CalendarFactConflict"
  by (auto simp: bind_fact_def require_version_binding_def)

lemma validate_fact_bindings_error: "validate_fact_bindings v fs = Inl (Err x m) \<Longrightarrow> x = CalendarFactConflict"
  unfolding validate_fact_bindings_def by (auto dest!: rfold_Inl bind_fact_error)

lemma verify_calendar_error: "verify_calendar_content_digest dg b d = Inl (Err x m) \<Longrightarrow> x = ValueError"
  by (auto simp: verify_calendar_content_digest_def calendar_digest_def CalendarContentDigest_init_def)

lemma check_lineage_caught:
  assumes "check_lineage dg vs fs = Inl e"
  shows "lineage_conflict e"
proof -
  obtain x m where e: "e = Err x m" by (cases e)
  have facts: "x \<in> {CalendarFactConflict, ValueError}" if "check_version_facts dg fs v = Inl (Err x m)" for v
    using that unfolding check_version_facts_def Let_def
    by (auto dest: validate_fact_bindings_error verify_calendar_error dest!: rmap_Inl)
  from assms have "x = CalendarLineageValidationError \<or> (\<exists>v. check_version_facts dg fs v = Inl (Err x m))"
    unfolding check_lineage_def e by (auto dest: validate_calendar_lineage_error dest!: rmap_Inl)
  with facts show ?thesis unfolding lineage_conflict_def e by auto
qed

lemma check_lineage_Inr: "check_lineage dg vs fs = Inr u \<Longrightarrow> calendar_lineage_ok vs"
  unfolding check_lineage_def by (auto simp: validate_calendar_lineage_Inr)

section \<open>Evidence\<close>

lemma dict_put_nonempty: "dict_put key x d \<noteq> []"
proof (cases "\<exists>y\<in>set d. key y = key x")
  case True
  then have "length (dict_put key x d) = length d" "d \<noteq> []" by (auto simp: dict_put_def)
  then show ?thesis by auto
qed (simp add: dict_put_def)

lemma collect_evidence_nonempty:
  "rfold collect_evidence acc refs = Inr acc' \<Longrightarrow> acc \<noteq> [] \<or> refs \<noteq> [] \<Longrightarrow> acc' \<noteq> []"
proof (induction refs arbitrary: acc)
  case (Cons r refs)
  then obtain a where a: "collect_evidence acc r = Inr a" "rfold collect_evidence a refs = Inr acc'" by auto
  then have "a \<noteq> []" by (auto simp: collect_evidence_def dict_put_nonempty)
  with Cons.IH [OF a(2)] show ?case by simp
qed simp

lemma collect_evidence_fresh:
  "distinct (map evidence_key (acc @ refs)) \<Longrightarrow> rfold collect_evidence acc refs = Inr (acc @ refs)"
proof (induction refs arbitrary: acc)
  case (Cons r refs)
  then have "evidence_key r \<notin> evidence_key ` set acc" by simp
  then have new: "\<forall>y\<in>set acc. evidence_key y \<noteq> evidence_key r" by (metis image_eqI)
  then have none: "dict_get evidence_key acc (evidence_key r) = None"
    and "dict_put evidence_key r acc = acc @ [r]" by (auto simp: dict_put_def dict_get_None)
  with none Cons.IH [of "acc @ [r]"] Cons.prems show ?case by (simp add: collect_evidence_def)
qed simp

lemma canonicalize_distinct:
  assumes "refs \<noteq> []" and "length refs \<le> MAX_EVIDENCE_REFS" and "distinct (map evidence_key refs)"
  shows "canonicalize_evidence_refs refs = Inr (sort_key evidence_canonical_bytes refs)"
  using assms collect_evidence_fresh [of "[]" refs] by (simp add: canonicalize_evidence_refs_def raise_if_def)

lemma collect_evidence_distinct:
  assumes "rfold collect_evidence acc refs = Inr acc'" and "distinct (map evidence_key acc)"
  shows "distinct (map evidence_key acc') \<and> length acc' \<le> length acc + length refs"
  using assms
proof (induction refs arbitrary: acc)
  case (Cons r refs)
  then obtain a where a: "collect_evidence acc r = Inr a" "rfold collect_evidence a refs = Inr acc'" by auto
  then have "a = dict_put evidence_key r acc" by (simp add: collect_evidence_def)
  then have "distinct (map evidence_key a)" "length a \<le> Suc (length acc)"
    using Cons.prems(2) by (simp_all add: dict_put_distinct) (simp add: dict_put_def)
  with Cons.IH [OF a(2)] show ?case by simp
qed simp

lemma canonicalize_again:
  assumes "canonicalize_evidence_refs refs = Inr refs'"
  shows "canonicalize_evidence_refs refs' = Inr refs'"
proof -
  obtain d where d: "refs \<noteq> []" "length refs \<le> MAX_EVIDENCE_REFS" "rfold collect_evidence [] refs = Inr d"
      "refs' = sort_key evidence_canonical_bytes d"
    using assms unfolding canonicalize_evidence_refs_def by auto
  from collect_evidence_distinct [OF d(3)] have dist: "distinct (map evidence_key d)" and
      len: "length d \<le> length refs" by auto
  have "refs' \<noteq> []" using collect_evidence_nonempty [OF d(3)] d(1)
    unfolding d(4) by (metis mset_sort mset_zero_iff)
  moreover have "distinct (map evidence_key refs')"
    using dist unfolding d(4) by (metis distinct_map distinct_sort mset_sort set_sort)
  moreover have "sort_key evidence_canonical_bytes refs' = refs'"
    unfolding d(4) by (simp add: sort_key_id_if_sorted)
  ultimately show ?thesis
    using canonicalize_distinct [of refs'] d(2,4) len by simp
qed

lemma minimal_evidence_distinct:
  assumes "minimal_evidence groups = Inr refs"
  shows "distinct (map evidence_key refs) \<and> length refs \<le> MAX_EVIDENCE_REFS \<and> sorted (map evidence_canonical_bytes refs)
    \<and> set refs \<subseteq> \<Union> (set ` set groups)"
proof -
  let ?d = "foldl collect_minimal [] (concat groups)"
  have step: "distinct (map evidence_key (foldl collect_minimal acc xs)) \<and> set (foldl collect_minimal acc xs) \<subseteq> set acc \<union> set xs"
    if "distinct (map evidence_key acc)" for acc xs
    using that
  proof (induction xs arbitrary: acc)
    case (Cons x xs)
    have "distinct (map evidence_key (collect_minimal acc x)) \<and> set (collect_minimal acc x) \<subseteq> insert x (set acc)"
      using Cons.prems dict_put_distinct [OF Cons.prems, of x] set_dict_put [OF Cons.prems, of x]
      by (auto simp: collect_minimal_def split: option.split)
    with Cons.IH [of "collect_minimal acc x"] show ?case by auto
  qed simp
  have refs: "refs = sort_key evidence_canonical_bytes ?d" "length refs \<le> MAX_EVIDENCE_REFS"
    using assms by (auto simp: minimal_evidence_def Let_def)
  have "distinct (map evidence_key refs)"
    using step [of "[]" "concat groups"] unfolding refs(1) by (metis distinct_map distinct_sort list.map(1) distinct.simps(1) set_sort)
  moreover have "set refs \<subseteq> set (concat groups)" using step [of "[]" "concat groups"] unfolding refs(1) by simp
  ultimately show ?thesis using refs by auto
qed

lemma optional_evidence_minimal:
  "minimal_evidence groups = Inr refs \<Longrightarrow> optional_evidence refs = Inr refs"
  using minimal_evidence_distinct [of groups refs] canonicalize_distinct [of refs]
  by (auto simp: optional_evidence_def sort_key_id_if_sorted)

lemma optional_evidence_canonical:
  "canonicalize_evidence_refs a = Inr refs \<Longrightarrow> optional_evidence refs = Inr refs \<and> length refs \<le> MAX_EVIDENCE_REFS"
  using canonicalize_again [of a refs]
  by (auto simp: optional_evidence_def canonicalize_evidence_refs_def)

section \<open>The stages\<close>

lemma andthen_eq_Inr [simp]: "andthen r f = Inr y \<longleftrightarrow> (\<exists>x. r = Inr x \<and> f x = Inr y)"
  by (cases r) auto

lemma andthen_eq_Inl [simp]: "andthen r f = Inl s \<longleftrightarrow> r = Inl s \<or> (\<exists>x. r = Inr x \<and> f x = Inl s)"
  by (cases r) auto

text \<open>A stage stops with a proper disposition, and with no evidence or that of the negative coverage.\<close>

definition proper_stop :: "CalendarSessionResolutionCandidates \<Rightarrow> stop \<Rightarrow> bool" where
  "proper_stop c s \<longleftrightarrow> (case s of (d, _, ev) \<Rightarrow> d \<noteq> ESTABLISHED
     \<and> (ev = [] \<or> (\<exists>n. cc_negative_coverage c = Some n \<and> ev = cn_evidence_refs n) \<or> (\<exists>g. minimal_evidence g = Inr ev)))"

lemma candidate_set_stop: "candidate_set_stage q c = Inl s \<Longrightarrow> proper_stop c s"
  by (auto simp: candidate_set_stage_def proper_stop_def Let_def split: if_splits option.splits)

lemma candidate_set_Inr:
  assumes "candidate_set_stage q c = Inr k"
  shows "cc_candidate_set_coverage c = Some k \<and> coverage_query_matches q k \<and> ck_validation_state k = V_VALID
    \<and> instant (ck_knowledge_from k) \<le> instant (cq_knowledge_cutoff q)
    \<and> set (ck_candidate_version_ids k) = visible_ids q c
    \<and> set (ck_candidate_fact_descriptors k) = from_fact ` set (visible_facts q c)
    \<and> evidence_keys (ck_evidence_refs k) \<inter> visible_evidence q c = {}
    \<and> (\<forall>v\<in>set (visible_versions q c). cv_calendar_id v = cq_calendar_id q)
    \<and> (\<forall>f\<in>set (visible_facts q c). fact_calendar_id f = cq_calendar_id q)"
  using assms by (auto simp: candidate_set_stage_def Let_def visible_ids_def not_less split: if_splits option.splits)

lemma valid_negative_member: "valid_negative q c k = Some n \<Longrightarrow> cc_negative_coverage c = Some n"
  by (auto simp: valid_negative_def split: option.splits if_splits)

lemma negative_or_missing_stop: "proper_stop c (negative_or_missing q c k)"
  by (auto simp: negative_or_missing_def proper_stop_def dest: valid_negative_member split: option.split)

lemma correction_verdict_stop: "correction_verdict q c v p = Inl s \<Longrightarrow> proper_stop c s"
  by (auto simp: correction_verdict_def proper_stop_def Let_def split: if_splits)

lemma admit_versions_stop: "admit_versions q c vs = Inl s \<Longrightarrow> proper_stop c s"
  by (induction vs) (auto split: option.splits dest: correction_verdict_stop)

lemma select_tip_stop: "select_tip vs = Inl s \<Longrightarrow> proper_stop c s"
  by (auto simp: select_tip_def proper_stop_def Let_def split: list.splits if_splits)

lemma version_stage_stop: "version_stage q c k = Inl s \<Longrightarrow> proper_stop c s"
  unfolding version_stage_def Let_def
  by (auto simp: negative_or_missing_stop dest: admit_versions_stop select_tip_stop split: if_splits)
     (auto simp: proper_stop_def)

lemma currentness_stage_stop: "currentness_stage q c v = Inl s \<Longrightarrow> proper_stop c s"
  by (auto simp: currentness_stage_def proper_stop_def Let_def split: if_splits list.splits)

lemma coverage_stage_stop: "coverage_stage q c v = Inl s \<Longrightarrow> proper_stop c s"
  unfolding coverage_stage_def Let_def
  by (auto simp: proper_stop_def split: if_splits list.splits ResolutionDisposition.splits)

lemma day_stage_stop: "day_stage q c k v = Inl s \<Longrightarrow> proper_stop c s"
  unfolding day_stage_def Let_def
  by (auto simp: negative_or_missing_stop split: if_splits list.splits) (auto simp: proper_stop_def)

lemma selection_stop: "selection q c k = Inl s \<Longrightarrow> proper_stop c s"
  unfolding selection_def
  by (auto dest: version_stage_stop currentness_stage_stop coverage_stage_stop day_stage_stop)

lemma check_session_stop: "check_session sha c v s = Inr (Inl t) \<Longrightarrow> proper_stop c' t"
  unfolding check_session_def Let_def
  by (auto simp: proper_stop_def split: if_splits list.splits sum.splits error.splits)

lemma session_stage_stop: "session_stage sha q c k v day = Inr (Inl s) \<Longrightarrow> proper_stop c s"
  unfolding session_stage_def Let_def
  by (auto dest: check_session_stop split: if_splits list.splits option.splits sum.splits)
     (auto simp: proper_stop_def)

section \<open>What the stages establish\<close>

text \<open>A correction counts only with valid assessments that all authorise it, known and made in time,
  each with evidence beyond that of the versions and facts concerned.\<close>

definition correction_authorised ::
  "CalendarSessionResolutionQuery \<Rightarrow> CalendarSessionResolutionCandidates \<Rightarrow> CalendarVersion \<Rightarrow> bool" where
  "correction_authorised q c v \<longleftrightarrow> (\<forall>p. cv_supersedes_version_id v = Some p \<longrightarrow>
     (\<exists>a\<in>set (cc_correction_authority_assessments c). applicable_authority q v p a \<and> ca_validation_state a = V_VALID)
     \<and> (\<forall>a\<in>set (cc_correction_authority_assessments c). applicable_authority q v p a \<and> ca_validation_state a = V_VALID \<longrightarrow>
          ca_decision a = AUTHORIZED
          \<and> (\<exists>e\<in>set (ca_evidence_refs a). evidence_key e \<notin> correction_excluded (visible_versions q c) (visible_facts q c) v p)))"

lemma correction_verdict_Inr:
  assumes "correction_verdict q c v p = Inr w" and p: "cv_supersedes_version_id v = Some p"
  shows "w \<noteq> None \<longleftrightarrow> correction_authorised q c v"
proof -
  define valid where "valid = filter (\<lambda>a. ca_validation_state a = V_VALID)
      (filter (applicable_authority q v p) (cc_correction_authority_assessments c))"
  define ex where "ex = correction_excluded (visible_versions q c) (visible_facts q c) v p"
  have v: "valid \<noteq> []" "\<not> (\<exists>a\<in>set valid. evidence_keys (ca_evidence_refs a) \<subseteq> ex)" "card (ca_decision ` set valid) = 1"
      "w = (if ca_decision (hd valid) = AUTHORIZED then Some valid else None)"
    using assms(1) unfolding correction_verdict_def Let_def valid_def [symmetric] ex_def [symmetric]
    by (auto split: if_splits)
  obtain d where "ca_decision ` set valid = {d}" using v(3) by (auto simp: card_1_singleton_iff)
  then have "(w \<noteq> None) \<longleftrightarrow> (\<forall>a\<in>set valid. ca_decision a = AUTHORIZED)"
    unfolding v(4) using v(1) by (metis hd_in_set image_eqI option.distinct(1) singletonD)
  moreover have "set valid = {a \<in> set (cc_correction_authority_assessments c).
      applicable_authority q v p a \<and> ca_validation_state a = V_VALID}" by (auto simp: valid_def)
  moreover have "set valid \<noteq> {}" using v(1) by simp
  moreover have "\<forall>a\<in>set valid. \<exists>e\<in>set (ca_evidence_refs a). evidence_key e \<notin> ex"
    using v(2) by (auto simp: evidence_keys_def)
  ultimately show ?thesis unfolding correction_authorised_def p ex_def by auto
qed

lemma admit_versions_Inr:
  assumes "admit_versions q c vs = Inr (adm, auth)"
  shows "adm = filter (correction_authorised q c) vs"
  using assms
proof (induction vs arbitrary: adm auth)
  case (Cons v vs)
  show ?case
  proof (cases "cv_supersedes_version_id v")
    case None
    with Cons show ?thesis by (auto simp: correction_authorised_def)
  next
    case (Some p)
    with Cons.prems obtain w adm' auth' where w: "correction_verdict q c v p = Inr w"
        "admit_versions q c vs = Inr (adm', auth')"
        "adm = (if w = None then adm' else v # adm')" by (auto split: option.splits)
    with Cons.IH [OF w(2)] correction_verdict_Inr [OF w(1) Some] show ?thesis by auto
  qed
qed simp

lemma select_tip_Inr:
  "select_tip adm = Inr v \<longleftrightarrow> tips cv_calendar_version_id cv_supersedes_version_id adm = [v]"
  unfolding select_tip_def tips_def Let_def by (auto split: list.split)

lemma version_stage_Inr:
  assumes "version_stage q c k = Inr (v, auth)" and "calendar_chains (visible_versions q c)"
  shows "v \<in> set (visible_versions q c) \<and> version_effective v (cq_effective_as_of q) \<and> correction_authorised q c v
    \<and> (\<forall>u\<in>set (visible_versions q c). version_effective u (cq_effective_as_of q) \<longrightarrow> calendar_authoritative u
         \<and> (u = v \<or> calendar_known u < calendar_known v \<or> \<not> correction_authorised q c u))"
proof -
  define eff where "eff = filter (\<lambda>v. version_effective v (cq_effective_as_of q)) (visible_versions q c)"
  obtain adm where adm: "admit_versions q c eff = Inr (adm, auth)" "select_tip adm = Inr v"
      "\<forall>u\<in>set eff. calendar_authoritative u"
    using assms(1) unfolding version_stage_def Let_def eff_def [symmetric] by (auto split: if_splits)
  have adm_eq: "adm = filter (correction_authorised q c) eff" by (rule admit_versions_Inr [OF adm(1)])
  have later: "calendar_known u < calendar_known w"
    if "u \<in> set adm" "w \<in> set adm" "cv_supersedes_version_id w = Some (cv_calendar_version_id u)" for u w
    using that unfolding adm_eq eff_def by (auto intro: chains_ok_later [OF assms(2)])
  have tip: "tips cv_calendar_version_id cv_supersedes_version_id adm = [v]" using adm(2) unfolding select_tip_Inr .
  have "v \<in> set adm \<and> (\<forall>u\<in>set adm. u = v \<or> calendar_known u < calendar_known v)"
    using single_tip_newest [where known = calendar_known, OF later tip] by blast
  then show ?thesis using adm(3) unfolding adm_eq eff_def set_filter by blast
qed

lemma currentness_stage_Inr:
  assumes "currentness_stage q c v = Inr a"
  shows "a \<in> set (cc_currentness_assessments c) \<and> bound_currentness q v a \<and> currentness_applies a q
    \<and> cu_validation_state a = V_VALID \<and> cu_state a = CURRENT
    \<and> (\<forall>b\<in>set (cc_currentness_assessments c). bound_currentness q v b \<and> currentness_applies b q
         \<and> cu_validation_state b = V_VALID \<longrightarrow> cu_state b = CURRENT)"
proof -
  define au where "au = filter (\<lambda>a. cu_validation_state a = V_VALID) (filter (\<lambda>a. currentness_applies a q)
    (filter (\<lambda>a. instant (cu_knowledge_from a) \<le> instant (cq_knowledge_cutoff q))
      (filter (bound_currentness q v) (cc_currentness_assessments c))))"
  have a: "\<exists>as. au = a # as" "card (cu_state ` set au) = 1" "cu_state a \<noteq> STALE" "cu_state a \<noteq> UNKNOWN_CURRENTNESS"
    using assms unfolding currentness_stage_def Let_def au_def [symmetric] by (auto split: if_splits list.splits)
  then have a_in: "a \<in> set au" and cur: "cu_state a = CURRENT" by (auto intro: CalendarCurrentness.exhaust)
  have "cu_state b = CURRENT" if "b \<in> set au" for b
    using a(2) a_in that cur by (metis card_1_singletonE imageI singletonD)
  with a_in cur show ?thesis by (auto simp: au_def currentness_applies_def)
qed

lemma coverage_disposition_ESTABLISHED:
  "coverage_disposition (Some h) d fs = ESTABLISHED \<longleftrightarrow> coverage_contains h d \<and> hc_validation_state h = V_VALID
     \<and> hc_coverage_state h = COVERED
     \<and> (\<exists>e\<in>set (hc_evidence_refs h). evidence_key e \<notin> evidence_keys (concat (map fact_evidence_refs fs)))"
  unfolding coverage_disposition_def validate_coverage_independence_def raise_if_def
  by (cases "hc_coverage_state h") auto

abbreviation bound_coverages ::
  "CalendarSessionResolutionQuery \<Rightarrow> CalendarSessionResolutionCandidates \<Rightarrow> CalendarVersion \<Rightarrow> HistoricalCoverage list" where
  "bound_coverages q c v \<equiv> filter (\<lambda>h. hc_calendar_version_id h = cv_calendar_version_id v
     \<and> coverage_contains h (cq_local_date q)) (visible_coverages q c)"

lemma coverage_stage_Inr:
  assumes "coverage_stage q c v = Inr h"
  shows "bound_coverages q c v = [h] \<and> h \<in> set (visible_coverages q c) \<and> hc_calendar_version_id h = cv_calendar_version_id v
    \<and> coverage_contains h (cq_local_date q) \<and> hc_validation_state h = V_VALID \<and> hc_coverage_state h = COVERED
    \<and> (\<forall>t. hc_coverage_knowledge_from h = Some t \<longrightarrow> instant t \<le> instant (cq_knowledge_cutoff q))"
proof -
  define covs where "covs = bound_coverages q c v"
  have "covs = [h] \<and> hc_validation_state h = V_VALID \<and> hc_coverage_state h = COVERED
      \<and> (\<forall>t. hc_coverage_knowledge_from h = Some t \<longrightarrow> instant t \<le> instant (cq_knowledge_cutoff q))"
    using assms unfolding coverage_stage_def Let_def covs_def [symmetric]
    by (auto simp: coverage_disposition_ESTABLISHED split: list.splits if_splits ResolutionDisposition.splits option.splits)
  moreover from this have "h \<in> set covs" by simp
  then have "h \<in> set (visible_coverages q c)" "hc_calendar_version_id h = cv_calendar_version_id v"
      "coverage_contains h (cq_local_date q)" unfolding covs_def by simp_all
  ultimately show ?thesis unfolding covs_def by blast
qed

abbreviation bound_days ::
  "CalendarSessionResolutionQuery \<Rightarrow> CalendarSessionResolutionCandidates \<Rightarrow> CalendarVersion \<Rightarrow> TradingDayDefinition list" where
  "bound_days q c v \<equiv> filter (\<lambda>d. td_calendar_version_id d = cv_calendar_version_id v
     \<and> td_local_date d = cq_local_date q) (visible_days q c)"

lemma one_digest: "card (f ` set xs) = 1 \<Longrightarrow> x \<in> set xs \<Longrightarrow> \<forall>y\<in>set xs. f y = f x"
  by (metis card_1_singletonE imageI singletonD)

lemma day_stage_Inr:
  assumes "day_stage q c k v = Inr d"
  shows "d \<in> set (bound_days q c v) \<and> td_validation_state d = V_VALID
    \<and> (\<forall>e\<in>set (bound_days q c v). td_content_digest e = td_content_digest d)"
proof -
  define days where "days = bound_days q c v"
  have "d \<in> set days \<and> td_validation_state d = V_VALID \<and> card (td_content_digest ` set days) = 1"
    using assms unfolding day_stage_def Let_def days_def [symmetric] by (auto split: list.splits if_splits)
  then show ?thesis using one_digest [of td_content_digest days d] unfolding days_def by blast
qed

section \<open>Sessions\<close>

definition utc_of :: "int \<Rightarrow> LocalWallTime \<Rightarrow> int \<Rightarrow> int" where
  "utc_of d w off = d * day_micros + wall_micros w - off * 60000000"

lemma to_utc_Inr:
  "to_utc sha w d r corpus = Inr t \<Longrightarrow> sha corpus = tz_rule_content_digest r \<and> rule_authoritative r
     \<and> (\<exists>off. wt_utc_offset_minutes w = Some off \<and> t = Timestamp (utc_of d w off)
          \<and> datetime_min \<le> utc_of d w off \<and> utc_of d w off \<le> datetime_max)"
  by (auto simp: to_utc_def verify_rule_corpus_def utc_of_def Let_def split: option.splits)

lemma to_utc_error:
  "to_utc sha w d r corpus = Inl (Err x m) \<Longrightarrow> x = ValueError \<or> x = OverflowError
     \<and> (\<exists>off. wt_utc_offset_minutes w = Some off \<and> (utc_of d w off < datetime_min \<or> datetime_max < utc_of d w off))"
  by (auto simp: to_utc_def verify_rule_corpus_def utc_of_def Let_def split: option.splits)

text \<open>The boundaries of a session are its wall times shifted by the recorded offsets.\<close>

definition boundaries_agree :: "SessionDefinition \<Rightarrow> bool" where
  "boundaries_agree s \<longleftrightarrow>
     (\<exists>off. wt_utc_offset_minutes (sd_local_open s) = Some off
        \<and> instant (sd_utc_open s) = utc_of (sd_local_date s) (sd_local_open s) off)
     \<and> (\<exists>off. wt_utc_offset_minutes (sd_local_close s) = Some off
        \<and> instant (sd_utc_close s) = utc_of (sd_local_date s) (sd_local_close s) off)"

definition boundary_overflow :: "SessionDefinition \<Rightarrow> bool" where
  "boundary_overflow s \<longleftrightarrow> (\<exists>w\<in>{sd_local_open s, sd_local_close s}. \<exists>off. wt_utc_offset_minutes w = Some off
     \<and> (utc_of (sd_local_date s) w off < datetime_min \<or> datetime_max < utc_of (sd_local_date s) w off))"

lemma verify_utc_Inr: "verify_utc_boundaries sha s corpus = Inr u \<Longrightarrow> boundaries_agree s"
  unfolding verify_utc_boundaries_def boundaries_agree_def by (auto dest!: to_utc_Inr)

lemma verify_utc_error:
  "verify_utc_boundaries sha s corpus = Inl (Err x m) \<Longrightarrow> x = ValueError \<or> x = OverflowError \<and> boundary_overflow s"
  unfolding verify_utc_boundaries_def boundary_overflow_def by (auto dest: to_utc_error)

abbreviation rule_corpora :: "CalendarSessionResolutionCandidates \<Rightarrow> CalendarVersion \<Rightarrow> TimezoneRuleCorpusInput list" where
  "rule_corpora c v \<equiv> filter (\<lambda>i. tzc_timezone_rule_id i = tz_timezone_rule_id (cv_timezone_rule_ref v))
     (cc_timezone_rule_corpora c)"

lemma check_session_Inr:
  assumes "check_session sha c v s = Inr (Inr t)"
  shows "t = s \<and> session_authoritative s \<and> sd_timezone_rule_ref s = cv_timezone_rule_ref v \<and> boundaries_agree s
    \<and> (\<exists>i. rule_corpora c v = [i] \<and> sha (tzc_corpus i) = tz_rule_content_digest (cv_timezone_rule_ref v))"
  using assms unfolding check_session_def Let_def
  by (auto simp: corpus_content_digest_def split: if_splits list.splits sum.splits error.splits dest: verify_utc_Inr)

lemma check_session_error: "check_session sha c v s = Inl (Err x m) \<Longrightarrow> x = OverflowError \<and> boundary_overflow s"
  unfolding check_session_def Let_def
  by (auto split: if_splits list.splits sum.splits error.splits dest: verify_utc_error)

abbreviation bound_sessions ::
  "CalendarSessionResolutionQuery \<Rightarrow> CalendarSessionResolutionCandidates \<Rightarrow> CalendarVersion \<Rightarrow> SessionDefinition list" where
  "bound_sessions q c v \<equiv> filter (\<lambda>s. sd_calendar_version_id s = cv_calendar_version_id v
     \<and> sd_local_date s = cq_local_date q \<and> sd_session_kind s = cq_session_kind q) (visible_sessions q c)"

lemma session_stage_Inr:
  assumes "session_stage sha q c k v day = Inr (Inr sess)"
  shows "(sess = None \<longleftrightarrow> td_day_kind day \<noteq> REGULAR_TRADING_DAY) \<and> (sess = None \<longrightarrow> bound_sessions q c v = [])
    \<and> (\<forall>s. sess = Some s \<longrightarrow> s \<in> set (bound_sessions q c v)
         \<and> (\<forall>t\<in>set (bound_sessions q c v). sd_content_digest t = sd_content_digest s) \<and> session_authoritative s
         \<and> sd_timezone_rule_ref s = cv_timezone_rule_ref v \<and> boundaries_agree s \<and> valid_negative q c k = None
         \<and> (\<exists>i. rule_corpora c v = [i] \<and> sha (tzc_corpus i) = tz_rule_content_digest (cv_timezone_rule_ref v)))"
proof -
  define ss where "ss = bound_sessions q c v"
  have "(sess = None \<longleftrightarrow> td_day_kind day \<noteq> REGULAR_TRADING_DAY) \<and> (sess = None \<longrightarrow> ss = [])
    \<and> (\<forall>s. sess = Some s \<longrightarrow> s \<in> set ss \<and> card (sd_content_digest ` set ss) = 1 \<and> check_session sha c v s = Inr (Inr s)
         \<and> valid_negative q c k = None)"
    using assms unfolding session_stage_def Let_def ss_def [symmetric]
    by (auto split: if_splits list.splits option.splits sum.splits dest: check_session_Inr)
  then show ?thesis
    using check_session_Inr [of sha c v] one_digest [of sd_content_digest ss] unfolding ss_def by blast
qed

lemma session_stage_error:
  assumes "session_stage sha q c k v day = Inl (Err x m)"
  shows "x = OverflowError \<and> (\<exists>s\<in>set (cc_session_definitions c). boundary_overflow s)"
proof -
  define ss where "ss = bound_sessions q c v"
  have "x = OverflowError \<and> (\<exists>s\<in>set ss. boundary_overflow s)"
    using assms unfolding session_stage_def Let_def ss_def [symmetric]
    by (auto split: if_splits list.splits option.splits sum.splits dest!: check_session_error)
  moreover have "set ss \<subseteq> set (cc_session_definitions c)" by (auto simp: ss_def visible_sessions_def)
  ultimately show ?thesis by blast
qed

section \<open>Results\<close>

definition value_free :: "CalendarSessionResolutionResult \<Rightarrow> bool" where
  "value_free r \<longleftrightarrow> csr_selected_calendar_version_id r = None \<and> csr_trading_day r = None \<and> csr_session r = None
     \<and> csr_utc_open r = None \<and> csr_utc_close r = None \<and> csr_currentness_assessment_digest r = None
     \<and> csr_correction_authority_assessment_digests r = []"

definition negative_constructed :: "body_digest \<Rightarrow> CalendarSessionResolutionCandidates \<Rightarrow> bool" where
  "negative_constructed dg c \<longleftrightarrow> (\<forall>n. cc_negative_coverage c = Some n \<longrightarrow>
     (\<exists>a. CalendarNegativeCoverageEvidence_init dg a = Inr n))"

text \<open>A query and candidates the program can hold: every object is what its constructor returns for it, and
  dates and session bounds lie in the range of \<open>date\<close> and \<open>datetime\<close>.\<close>

definition in_datetime :: "int \<Rightarrow> bool" where
  "in_datetime t \<longleftrightarrow> datetime_min \<le> t \<and> t \<le> datetime_max"

definition session_constructed :: "body_digest \<Rightarrow> SessionDefinition \<Rightarrow> bool" where
  "session_constructed dg s \<longleftrightarrow> SessionDefinition_init dg s = Inr s
     \<and> LocalWallTime_init (sd_local_open s) = Inr (sd_local_open s)
     \<and> LocalWallTime_init (sd_local_close s) = Inr (sd_local_close s)
     \<and> TimezoneRuleRef_init (sd_timezone_rule_ref s) = Inr (sd_timezone_rule_ref s)
     \<and> in_datetime (sd_local_date s * day_micros)
     \<and> in_datetime (instant (sd_utc_open s)) \<and> in_datetime (instant (sd_utc_close s))"

definition calendar_constructed ::
  "body_digest \<Rightarrow> CalendarSessionResolutionQuery \<Rightarrow> CalendarSessionResolutionCandidates \<Rightarrow> bool" where
  "calendar_constructed dg q c \<longleftrightarrow> CalendarSessionResolutionQuery_init q = Inr q \<and> in_datetime (cq_local_date q * day_micros)
     \<and> list_all (\<lambda>v. CalendarVersion_init dg v = Inr v
         \<and> TimezoneRuleRef_init (cv_timezone_rule_ref v) = Inr (cv_timezone_rule_ref v)) (cc_calendar_versions c)
     \<and> list_all (\<lambda>h. HistoricalCoverage_init dg h = Inr h \<and> in_datetime (hc_local_date_from h * day_micros)
         \<and> in_datetime (hc_local_date_to h * day_micros)) (cc_historical_coverages c)
     \<and> list_all (\<lambda>d. TradingDayDefinition_init dg d = Inr d \<and> in_datetime (td_local_date d * day_micros))
         (cc_trading_day_definitions c)
     \<and> list_all (session_constructed dg) (cc_session_definitions c)
     \<and> list_all (\<lambda>a. CalendarCurrentnessAssessment_init dg a = Inr a) (cc_currentness_assessments c)
     \<and> list_all (\<lambda>a. CalendarCorrectionAuthorityAssessment_init dg a = Inr a) (cc_correction_authority_assessments c)
     \<and> (case cc_candidate_set_coverage c of None \<Rightarrow> True | Some k \<Rightarrow> CalendarCandidateSetCoverage_init dg k = Inr k)
     \<and> (case cc_negative_coverage c of None \<Rightarrow> True | Some n \<Rightarrow> CalendarNegativeCoverageEvidence_init dg n = Inr n)"

lemma calendar_constructed_negative: "calendar_constructed dg q c \<Longrightarrow> negative_constructed dg c"
  by (auto simp: calendar_constructed_def negative_constructed_def split: option.splits)

lemma proper_stop_evidence:
  assumes "proper_stop c (d, reason, ev)" and "negative_constructed dg c"
  shows "optional_evidence ev = Inr ev \<and> length ev \<le> MAX_EVIDENCE_REFS"
proof -
  consider "ev = []" | n where "cc_negative_coverage c = Some n" "ev = cn_evidence_refs n"
    | g where "minimal_evidence g = Inr ev" using assms(1) by (auto simp: proper_stop_def)
  then show ?thesis
  proof cases
    case 1
    then show ?thesis by (simp add: optional_evidence_def)
  next
    case 2
    then obtain a where "CalendarNegativeCoverageEvidence_init dg a = Inr n"
      using assms(2) by (auto simp: negative_constructed_def)
    then have "canonicalize_evidence_refs (cn_evidence_refs a) = Inr (cn_evidence_refs n)"
      by (auto simp: CalendarNegativeCoverageEvidence_init_def Let_def)
    with 2 show ?thesis using optional_evidence_canonical by blast
  next
    case 3
    then show ?thesis using optional_evidence_minimal minimal_evidence_distinct by blast
  qed
qed

lemma empty_result_Inr:
  assumes "proper_stop c s" and "negative_constructed dg c"
  shows "\<exists>r. empty_result q s = Inr r \<and> csr_disposition r \<noteq> ESTABLISHED \<and> value_free r"
proof -
  obtain d reason ev where s: "s = (d, reason, ev)" by (cases s) auto
  have "d \<noteq> ESTABLISHED" using assms(1) by (simp add: s proper_stop_def)
  then show ?thesis
    using proper_stop_evidence [OF assms(1) [unfolded s] assms(2)]
    by (simp add: s empty_result_def CalendarSessionResolutionResult_init_def session_fields_def value_free_def raise_if_def)
qed

lemma empty_result_disposition: "empty_result q (d, reason, ev) = Inr r \<Longrightarrow> csr_disposition r = d"
  by (auto simp: empty_result_def CalendarSessionResolutionResult_init_def Let_def)

lemma established_result_cases:
  assumes "session = None \<longleftrightarrow> td_day_kind day \<noteq> REGULAR_TRADING_DAY"
  shows "\<exists>r. established_result q v h day session cur auth = Inr r
    \<and> (csr_disposition r = ESTABLISHED \<and> csr_selected_calendar_version_id r = Some (cv_calendar_version_id v)
        \<and> csr_trading_day r = Some day \<and> csr_session r = session \<and> csr_utc_open r = map_option sd_utc_open session
        \<and> csr_utc_close r = map_option sd_utc_close session \<and> csr_local_date r = cq_local_date q
        \<and> csr_calendar_id r = cq_calendar_id q \<and> csr_currentness_assessment_digest r = Some (cu_content_digest cur)
        \<and> csr_timezone_rule_content_digest r = map_option (\<lambda>_. tz_rule_content_digest (cv_timezone_rule_ref v)) session
       \<or> csr_disposition r \<noteq> ESTABLISHED \<and> value_free r)"
proof -
  define g where "g = (hc_evidence_refs h @ td_evidence_refs day
      @ (case session of None \<Rightarrow> [] | Some s \<Rightarrow> sd_evidence_refs s @ tz_evidence_refs (cv_timezone_rule_ref v)))
    # cu_evidence_refs cur # map ca_evidence_refs auth"
  show ?thesis
  proof (cases "minimal_evidence g")
    case (Inl e)
    then have "established_result q v h day session cur auth = empty_result q (NOT_ESTABLISHED, ''RESOURCE_LIMIT_EXCEEDED'', [])"
      by (simp add: established_result_def g_def Let_def)
    moreover have "proper_stop c (NOT_ESTABLISHED, ''RESOURCE_LIMIT_EXCEEDED'', [])" for c by (simp add: proper_stop_def)
    moreover have "negative_constructed (\<lambda>_. []) (undefined\<lparr>cc_negative_coverage := None\<rparr>)" by (simp add: negative_constructed_def)
    ultimately show ?thesis using empty_result_Inr by metis
  next
    case (Inr ev)
    then have "optional_evidence ev = Inr ev" "length ev \<le> MAX_EVIDENCE_REFS"
      using optional_evidence_minimal minimal_evidence_distinct by blast+
    with assms show ?thesis
      unfolding established_result_def Let_def g_def [symmetric] Inr sum.case
      by (cases session) (auto simp: CalendarSessionResolutionResult_init_def check_established_def
          session_fields_def raise_if_def)
  qed
qed

text \<open>The run of the resolver: it stops with a proper disposition, overflows, or every stage succeeds.\<close>

lemma resolve_run:
  obtains (stopped) s where "resolve_calendar_session sha dg q c = empty_result q s" "proper_stop c s"
  | (overflow) m s where "resolve_calendar_session sha dg q c = Inl (Err OverflowError m)"
      "s \<in> set (cc_session_definitions c)" "boundary_overflow s"
  | (run) k v auth cur h day sess where "candidate_set_stage q c = Inr k" "calendar_chains (visible_versions q c)"
      "version_stage q c k = Inr (v, auth)" "currentness_stage q c v = Inr cur" "coverage_stage q c v = Inr h"
      "day_stage q c k v = Inr day" "session_stage sha q c k v day = Inr (Inr sess)"
      "resolve_calendar_session sha dg q c = established_result q v h day sess cur auth"
proof (cases "candidate_set_stage q c")
  case (Inl s)
  then show ?thesis using stopped [of s] candidate_set_stop by (simp add: resolve_calendar_session_def)
next
  case (Inr k)
  note k = this
  let ?check = "if visible_versions q c = [] then Inr () else check_lineage dg (visible_versions q c) (visible_facts q c)"
  show ?thesis
  proof (cases ?check)
    case (Inl e)
    then have "lineage_conflict e" by (auto split: if_splits dest: check_lineage_caught)
    with k Inl show ?thesis
      by (intro stopped [of "(CONFLICTING, ''INVALID_OR_CONFLICTING_LINEAGE'', [])"])
         (simp_all only: resolve_calendar_session_def sum.case if_True, simp add: proper_stop_def)
  next
    case (Inr u)
    note u = this
    show ?thesis
    proof (cases "selection q c k")
      case (Inl s)
      with k u show ?thesis
        by (intro stopped [of s]) (simp_all only: resolve_calendar_session_def sum.case, rule selection_stop)
    next
      case (Inr t)
      then obtain v auth cur h day where t: "t = (v, auth, cur, h, day)" "version_stage q c k = Inr (v, auth)"
          "currentness_stage q c v = Inr cur" "coverage_stage q c v = Inr h" "day_stage q c k v = Inr day"
        unfolding selection_def by auto
      have res: "resolve_calendar_session sha dg q c = rbind (session_stage sha q c k v day) (\<lambda>r. case r of
          Inl s \<Rightarrow> empty_result q s | Inr session \<Rightarrow> established_result q v h day session cur auth)"
        using k u Inr t(1) by (simp only: resolve_calendar_session_def sum.case prod.case)
      have "visible_versions q c \<noteq> []" using t(2) by (auto simp: version_stage_def Let_def split: if_splits)
      then have "calendar_lineage_ok (visible_versions q c)" using u check_lineage_Inr by (simp split: if_splits)
      then have chains: "calendar_chains (visible_versions q c)" by (simp add: calendar_lineage_ok_def)
      show ?thesis
      proof (cases "session_stage sha q c k v day")
        case (Inl e)
        obtain x m where e: "e = Err x m" by (cases e)
        with Inl session_stage_error [of sha q c k v day x m] obtain s where
            "x = OverflowError" "s \<in> set (cc_session_definitions c)" "boundary_overflow s" by auto
        with Inl res e show ?thesis by (intro overflow [of m s]) simp_all
      next
        case (Inr r)
        show ?thesis
        proof (cases r)
          case (Inl s)
          with Inr res session_stage_stop [of sha q c k v day s] show ?thesis by (intro stopped [of s]) simp_all
        next
          case Inr': (Inr sess)
          with Inr res show ?thesis using run [OF k chains t(2-5)] by simp
        qed
      qed
    qed
  qed
qed

section \<open>Restriction to what is known\<close>

text \<open>The candidates without the versions and corrections that became known after the cutoff and without
  the facts that belong to no version known by then.\<close>

definition known_only ::
  "CalendarSessionResolutionQuery \<Rightarrow> CalendarSessionResolutionCandidates \<Rightarrow> CalendarSessionResolutionCandidates" where
  "known_only q c =
     (let cutoff = instant (cq_knowledge_cutoff q);
          versions = filter (\<lambda>v. instant (cv_knowledge_from v) \<le> cutoff) (cc_calendar_versions c);
          ids = map cv_calendar_version_id versions in
      c\<lparr>cc_calendar_versions := versions,
        cc_historical_coverages := filter (\<lambda>h. hc_calendar_version_id h \<in> set ids) (cc_historical_coverages c),
        cc_trading_day_definitions := filter (\<lambda>d. td_calendar_version_id d \<in> set ids) (cc_trading_day_definitions c),
        cc_session_definitions := filter (\<lambda>s. sd_calendar_version_id s \<in> set ids) (cc_session_definitions c),
        cc_correction_authority_assessments := filter (\<lambda>a. instant (ca_knowledge_from a) \<le> cutoff)
          (cc_correction_authority_assessments c)\<rparr>)"

lemma known_only_lists:
  "cc_calendar_versions (known_only q c) = visible_versions q c"
  "cc_historical_coverages (known_only q c) = visible_coverages q c"
  "cc_trading_day_definitions (known_only q c) = visible_days q c"
  "cc_session_definitions (known_only q c) = visible_sessions q c"
  by (simp_all add: known_only_def Let_def visible_versions_def visible_coverages_def visible_days_def visible_sessions_def
      visible_ids_def)

lemma known_only_visible [simp]:
  "visible_versions q (known_only q c) = visible_versions q c"
  "visible_coverages q (known_only q c) = visible_coverages q c"
  "visible_days q (known_only q c) = visible_days q c"
  "visible_sessions q (known_only q c) = visible_sessions q c"
  "visible_facts q (known_only q c) = visible_facts q c"
  "visible_evidence q (known_only q c) = visible_evidence q c"
proof -
  show v: "visible_versions q (known_only q c) = visible_versions q c"
    unfolding visible_versions_def [of q "known_only q c"] known_only_lists by (simp add: visible_versions_def)
  then have i: "visible_ids q (known_only q c) = visible_ids q c" by (simp add: visible_ids_def)
  show h: "visible_coverages q (known_only q c) = visible_coverages q c"
    unfolding visible_coverages_def [of q "known_only q c"] known_only_lists i by (simp add: visible_coverages_def)
  show d: "visible_days q (known_only q c) = visible_days q c"
    unfolding visible_days_def [of q "known_only q c"] known_only_lists i by (simp add: visible_days_def)
  show s: "visible_sessions q (known_only q c) = visible_sessions q c"
    unfolding visible_sessions_def [of q "known_only q c"] known_only_lists i by (simp add: visible_sessions_def)
  show f: "visible_facts q (known_only q c) = visible_facts q c" by (simp add: visible_facts_def h d s)
  show "visible_evidence q (known_only q c) = visible_evidence q c" by (simp add: visible_evidence_def v f)
qed

lemma known_only_fields [simp]:
  "cc_candidate_set_coverage (known_only q c) = cc_candidate_set_coverage c"
  "cc_negative_coverage (known_only q c) = cc_negative_coverage c"
  "cc_currentness_assessments (known_only q c) = cc_currentness_assessments c"
  "cc_timezone_rule_corpora (known_only q c) = cc_timezone_rule_corpora c"
  by (simp_all add: known_only_def Let_def)

lemma known_only_limits: "within_limits c \<Longrightarrow> within_limits (known_only q c)"
  by (auto simp: within_limits_def known_only_def Let_def intro: le_trans [OF length_filter_le])

lemma known_only_verdict: "correction_verdict q (known_only q c) v p = correction_verdict q c v p"
proof -
  have "filter (applicable_authority q v p) (cc_correction_authority_assessments (known_only q c)) =
      filter (applicable_authority q v p) (cc_correction_authority_assessments c)"
    by (auto simp: known_only_def Let_def applicable_authority_def intro!: filter_cong)
  then show ?thesis by (simp add: correction_verdict_def)
qed

lemma known_only_admit: "admit_versions q (known_only q c) vs = admit_versions q c vs"
  by (induction vs) (simp_all add: known_only_verdict split: option.split)

text \<open>The candidates are further stripped of the currentness assessments, the candidate-set coverage and the
  negative evidence that became known after the cutoff.\<close>

definition known_strict ::
  "CalendarSessionResolutionQuery \<Rightarrow> CalendarSessionResolutionCandidates \<Rightarrow> CalendarSessionResolutionCandidates" where
  "known_strict q c = (known_only q c)\<lparr>
     cc_currentness_assessments := filter (\<lambda>a. instant (cu_knowledge_from a) \<le> instant (cq_knowledge_cutoff q))
       (cc_currentness_assessments c),
     cc_candidate_set_coverage := (case cc_candidate_set_coverage c of None \<Rightarrow> None
       | Some k \<Rightarrow> if instant (ck_knowledge_from k) \<le> instant (cq_knowledge_cutoff q) then Some k else None),
     cc_negative_coverage := (case cc_negative_coverage c of None \<Rightarrow> None
       | Some n \<Rightarrow> if instant (cn_knowledge_from n) \<le> instant (cq_knowledge_cutoff q) then Some n else None)\<rparr>"

text \<open>Two outcomes are the same, or both are not established and differ in the reason only.\<close>

definition same_but_reason ::
  "CalendarSessionResolutionResult result \<Rightarrow> CalendarSessionResolutionResult result \<Rightarrow> bool" where
  "same_but_reason x y \<longleftrightarrow> x = y \<or> (\<exists>r s. x = Inr r \<and> y = Inr s
     \<and> csr_disposition r = NOT_ESTABLISHED \<and> csr_disposition s = NOT_ESTABLISHED
     \<and> r\<lparr>csr_reason_code := csr_reason_code s\<rparr> = s)"

lemma same_but_reason_refl [simp]: "same_but_reason x x"
  by (simp add: same_but_reason_def)

lemma same_but_reason_empty:
  "same_but_reason (empty_result q (NOT_ESTABLISHED, m, [])) (empty_result q (NOT_ESTABLISHED, m', []))"
  by (simp add: same_but_reason_def empty_result_def CalendarSessionResolutionResult_init_def session_fields_def
      optional_evidence_def raise_if_def)

lemma known_strict_visible [simp]:
  "visible_versions q (known_strict q c) = visible_versions q c"
  "visible_coverages q (known_strict q c) = visible_coverages q c"
  "visible_days q (known_strict q c) = visible_days q c"
  "visible_sessions q (known_strict q c) = visible_sessions q c"
  "visible_facts q (known_strict q c) = visible_facts q c"
  "visible_evidence q (known_strict q c) = visible_evidence q c"
proof -
  have v: "visible_versions q (known_strict q c) = visible_versions q (known_only q c)"
    by (simp add: known_strict_def visible_versions_def)
  moreover from this have i: "visible_ids q (known_strict q c) = visible_ids q (known_only q c)" by (simp add: visible_ids_def)
  moreover from i have h: "visible_coverages q (known_strict q c) = visible_coverages q (known_only q c)"
    "visible_days q (known_strict q c) = visible_days q (known_only q c)"
    "visible_sessions q (known_strict q c) = visible_sessions q (known_only q c)"
    by (simp_all add: visible_coverages_def visible_days_def visible_sessions_def) (simp_all add: known_strict_def)
  moreover from h have f: "visible_facts q (known_strict q c) = visible_facts q (known_only q c)"
    by (simp add: visible_facts_def)
  moreover from v f have "visible_evidence q (known_strict q c) = visible_evidence q (known_only q c)"
    by (simp add: visible_evidence_def)
  ultimately show "visible_versions q (known_strict q c) = visible_versions q c"
    "visible_coverages q (known_strict q c) = visible_coverages q c"
    "visible_days q (known_strict q c) = visible_days q c"
    "visible_sessions q (known_strict q c) = visible_sessions q c"
    "visible_facts q (known_strict q c) = visible_facts q c"
    "visible_evidence q (known_strict q c) = visible_evidence q c" by simp_all
qed

lemma known_strict_limits: "within_limits c \<Longrightarrow> within_limits (known_strict q c)"
  using known_only_limits [of c q]
  by (auto simp: within_limits_def known_strict_def intro: le_trans [OF length_filter_le])

lemma known_strict_admit: "admit_versions q (known_strict q c) vs = admit_versions q c vs"
proof -
  have "correction_verdict q (known_strict q c) v p = correction_verdict q (known_only q c) v p" for v p
    unfolding correction_verdict_def known_strict_visible known_only_visible by (simp add: known_strict_def)
  then show ?thesis
    by (induction vs) (simp_all add: known_only_verdict split: option.split)
qed

lemma known_strict_negative: "valid_negative q (known_strict q c) k = valid_negative q c k"
  unfolding valid_negative_def known_strict_visible by (auto simp: known_strict_def split: option.split)

lemma known_strict_candidate_set:
  assumes "within_limits c"
  shows "candidate_set_stage q (known_strict q c) = candidate_set_stage q c
    \<or> (\<exists>m m'. candidate_set_stage q (known_strict q c) = not_established m \<and> candidate_set_stage q c = not_established m')"
proof (cases "\<exists>k. cc_candidate_set_coverage c = Some k \<and> instant (cq_knowledge_cutoff q) < instant (ck_knowledge_from k)")
  case True
  then have "cc_candidate_set_coverage (known_strict q c) = None" by (auto simp: known_strict_def)
  then have "\<exists>m. candidate_set_stage q (known_strict q c) = not_established m" by (simp add: candidate_set_stage_def)
  moreover have "\<exists>m. candidate_set_stage q c = not_established m" using True by (auto simp: candidate_set_stage_def Let_def)
  ultimately show ?thesis by blast
next
  case False
  then have "cc_candidate_set_coverage (known_strict q c) = cc_candidate_set_coverage c"
    by (auto simp: known_strict_def split: option.split)
  then show ?thesis
    unfolding candidate_set_stage_def known_strict_visible using assms known_strict_limits [OF assms, of q] by simp
qed

lemma known_strict_currentness:
  "currentness_stage q (known_strict q c) v = currentness_stage q c v
    \<or> (\<exists>m m'. currentness_stage q (known_strict q c) v = not_established m \<and> currentness_stage q c v = not_established m')"
proof -
  define known where "known = filter (\<lambda>a. instant (cu_knowledge_from a) \<le> instant (cq_knowledge_cutoff q))
    (filter (bound_currentness q v) (cc_currentness_assessments c))"
  have strict: "filter (\<lambda>a. instant (cu_knowledge_from a) \<le> instant (cq_knowledge_cutoff q))
      (filter (bound_currentness q v) (cc_currentness_assessments (known_strict q c))) = known"
    by (auto simp: known_strict_def known_def intro!: filter_cong)
  show ?thesis
    unfolding currentness_stage_def Let_def strict known_def [symmetric] by (cases "known = []") simp_all
qed

lemma known_strict_session:
  "session_stage sha q (known_strict q c) k v day = session_stage sha q c k v day"
proof -
  have corpora: "cc_timezone_rule_corpora (known_strict q c) = cc_timezone_rule_corpora c" by (simp add: known_strict_def)
  show ?thesis unfolding session_stage_def check_session_def known_strict_negative known_strict_visible corpora ..
qed

lemma known_strict_selection:
  "selection q (known_strict q c) k = selection q c k
    \<or> (\<exists>m m'. selection q (known_strict q c) k = not_established m \<and> selection q c k = not_established m')"
proof -
  have v: "version_stage q (known_strict q c) k = version_stage q c k"
    unfolding version_stage_def known_strict_visible known_strict_admit negative_or_missing_def known_strict_negative ..
  have h: "coverage_stage q (known_strict q c) w = coverage_stage q c w"
      "day_stage q (known_strict q c) k w = day_stage q c k w" for w
    unfolding coverage_stage_def day_stage_def known_strict_visible negative_or_missing_def known_strict_negative by simp_all
  show ?thesis
  proof (cases "version_stage q c k")
    case (Inr x)
    obtain w auth where x: "x = (w, auth)" by (cases x)
    from known_strict_currentness [of q c w] show ?thesis
      unfolding selection_def v h Inr x by (auto simp: h)
  qed (simp add: selection_def v)
qed

lemma known_strict_resolve:
  assumes "within_limits c"
  shows "same_but_reason (resolve_calendar_session sha dg q (known_strict q c)) (resolve_calendar_session sha dg q c)"
proof (cases "candidate_set_stage q (known_strict q c) = candidate_set_stage q c")
  case False
  with known_strict_candidate_set [OF assms, of q] obtain m m' where
    "candidate_set_stage q (known_strict q c) = not_established m" "candidate_set_stage q c = not_established m'" by blast
  then show ?thesis by (simp add: resolve_calendar_session_def same_but_reason_empty)
next
  case True
  show ?thesis
  proof (cases "candidate_set_stage q c")
    case (Inr k)
    from known_strict_selection [of q c k] show ?thesis
      unfolding resolve_calendar_session_def known_strict_visible known_strict_session True Inr sum.case
      by (elim disjE exE conjE) (simp_all add: same_but_reason_empty split: sum.split)
  qed (simp add: resolve_calendar_session_def True)
qed

section \<open>A sample calendar\<close>

definition calendar_hex :: body_digest where
  "calendar_hex b = replicate 64 CHR ''a''"

definition calendar_sha :: CalendarContentDigest where
  "calendar_sha = CalendarContentDigest (''sha256:'' @ replicate 64 CHR ''a'')"

definition sample_rule :: TimezoneRuleRef where
  "sample_rule = \<lparr>tz_timezone_id = TimezoneId ''America/New_York'', tz_timezone_rule_id = TimezoneRuleId ''timezone-rule:x/r'',
     tz_rule_content_digest = sample_digest, tz_evidence_refs = [sample_evidence ''evidence:x/t''],
     tz_validation_policy_id = ValidationPolicyId ''validation-policy:x/p'', tz_validation_state = V_VALID\<rparr>"

definition sample_wall :: "int \<Rightarrow> int \<Rightarrow> LocalWallTime" where
  "sample_wall h off = \<lparr>wt_hour = h, wt_minute = 0, wt_second = 0, wt_microsecond = 0,
     wt_utc_offset_minutes = Some off, wt_ambiguous = False, wt_nonexistent = False, wt_fold = None\<rparr>"

definition sample_version :: CalendarVersion where
  "sample_version = \<lparr>cv_calendar_version_id = CalendarVersionId 1, cv_calendar_id = CalendarId 1, cv_market_code = ''US'',
     cv_venue_code = ''XNYS'', cv_effective_from = Timestamp 0, cv_effective_to = None, cv_knowledge_from = Timestamp 10,
     cv_timezone_rule_ref = sample_rule, cv_evidence_refs = [sample_evidence ''evidence:x/v''],
     cv_validation_policy_id = ValidationPolicyId ''validation-policy:x/p'', cv_validation_state = V_VALID,
     cv_supersedes_version_id = None, cv_correction_reason = None, cv_correction_evidence_refs = [],
     cv_content_digest = calendar_sha\<rparr>"

definition sample_historical :: "int \<Rightarrow> HistoricalCoverage" where
  "sample_historical d = \<lparr>hc_calendar_id = CalendarId 1, hc_calendar_version_id = CalendarVersionId 1, hc_local_date_from = d,
     hc_local_date_to = d + 1, hc_coverage_state = COVERED, hc_coverage_knowledge_from = None,
     hc_evidence_refs = [sample_evidence ''evidence:x/h''],
     hc_validation_policy_id = ValidationPolicyId ''validation-policy:x/p'', hc_validation_state = V_VALID,
     hc_content_digest = calendar_sha\<rparr>"

definition sample_day :: "int \<Rightarrow> TradingDayDefinition" where
  "sample_day d = \<lparr>td_calendar_id = CalendarId 1, td_calendar_version_id = CalendarVersionId 1, td_local_date = d,
     td_day_kind = REGULAR_TRADING_DAY, td_evidence_refs = [sample_evidence ''evidence:x/d''],
     td_validation_policy_id = ValidationPolicyId ''validation-policy:x/p'', td_validation_state = V_VALID,
     td_content_digest = calendar_sha\<rparr>"

text \<open>The UTC bounds are the shifted wall times, cut off at the start of the range of \<open>datetime\<close>.\<close>

definition sample_session :: "int \<Rightarrow> int \<Rightarrow> SessionDefinition" where
  "sample_session d off = \<lparr>sd_calendar_id = CalendarId 1, sd_calendar_version_id = CalendarVersionId 1, sd_local_date = d,
     sd_session_kind = REGULAR, sd_schedule_variation = STANDARD, sd_local_open = sample_wall 9 off,
     sd_local_close = sample_wall 16 off, sd_utc_open = Timestamp (max datetime_min (d * 86400000000 + 32400000000 - off * 60000000)),
     sd_utc_close = Timestamp (max (datetime_min + 1) (d * 86400000000 + 57600000000 - off * 60000000)), sd_timezone_rule_ref = sample_rule,
     sd_evidence_refs = [sample_evidence ''evidence:x/s''],
     sd_validation_policy_id = ValidationPolicyId ''validation-policy:x/p'', sd_validation_state = V_VALID,
     sd_content_digest = calendar_sha\<rparr>"

definition sample_query :: "int \<Rightarrow> CalendarSessionResolutionQuery" where
  "sample_query d = \<lparr>cq_calendar_id = CalendarId 1, cq_local_date = d, cq_session_kind = REGULAR,
     cq_effective_as_of = Timestamp 5, cq_knowledge_cutoff = Timestamp 50, cq_evaluation_at = Timestamp 60\<rparr>"

definition sample_set :: "int \<Rightarrow> int \<Rightarrow> CalendarCandidateSetCoverage" where
  "sample_set d off = \<lparr>ck_calendar_id = CalendarId 1, ck_local_date = d, ck_session_kind = REGULAR,
       ck_effective_as_of = Timestamp 5, ck_knowledge_cutoff = Timestamp 50, ck_evaluation_at = Timestamp 60,
       ck_knowledge_from = Timestamp 40, ck_candidate_version_ids = [CalendarVersionId 1],
       ck_candidate_fact_descriptors = sort_key descriptor_bytes (map from_fact
         [CoverageFact (sample_historical d), DayFact (sample_day d), SessionFact (sample_session d off)]),
       ck_evidence_refs = [sample_evidence ''evidence:x/k''],
       ck_validation_policy_id = ValidationPolicyId ''validation-policy:x/p'', ck_validation_state = V_VALID,
       ck_content_digest = calendar_sha\<rparr>"

definition sample_candidates :: "int \<Rightarrow> int \<Rightarrow> CalendarSessionResolutionCandidates" where
  "sample_candidates d off = \<lparr>cc_calendar_versions = [sample_version], cc_historical_coverages = [sample_historical d],
     cc_trading_day_definitions = [sample_day d], cc_session_definitions = [sample_session d off],
     cc_timezone_rule_corpora = [\<lparr>tzc_timezone_rule_id = TimezoneRuleId ''timezone-rule:x/r'', tzc_corpus = ''c''\<rparr>],
     cc_candidate_set_coverage = Some (sample_set d off),
     cc_negative_coverage = None,
     cc_currentness_assessments = [\<lparr>cu_calendar_id = CalendarId 1, cu_calendar_version_id = CalendarVersionId 1,
       cu_knowledge_from = Timestamp 45, cu_evaluation_at = Timestamp 45, cu_valid_from = Timestamp 45, cu_valid_to = None,
       cu_state = CURRENT, cu_validation_policy_id = ValidationPolicyId ''validation-policy:x/p'',
       cu_evidence_refs = [sample_evidence ''evidence:x/u''], cu_validation_state = V_VALID,
       cu_content_digest = calendar_sha\<rparr>],
     cc_correction_authority_assessments = []\<rparr>"

definition sample_resolution :: "int \<Rightarrow> int \<Rightarrow> CalendarSessionResolutionResult result" where
  "sample_resolution d off = resolve_calendar_session (\<lambda>_. sample_digest) calendar_hex (sample_query d)
     (sample_candidates d off)"

lemma sample_visible:
  "visible_versions (sample_query d) (sample_candidates d off) = [sample_version]"
  "visible_coverages (sample_query d) (sample_candidates d off) = [sample_historical d]"
  "visible_days (sample_query d) (sample_candidates d off) = [sample_day d]"
  "visible_sessions (sample_query d) (sample_candidates d off) = [sample_session d off]"
  by (simp_all add: visible_versions_def visible_coverages_def visible_days_def visible_sessions_def visible_ids_def
      sample_query_def sample_candidates_def sample_version_def sample_historical_def sample_day_def sample_session_def)

lemma sample_day_kind: "td_day_kind (sample_day d) = REGULAR_TRADING_DAY"
  by (simp add: sample_day_def)

lemma sample_facts:
  "visible_facts (sample_query d) (sample_candidates d off) =
     [CoverageFact (sample_historical d), DayFact (sample_day d), SessionFact (sample_session d off)]"
  by (simp add: visible_facts_def sample_visible)

lemma sample_candidate_set:
  "candidate_set_stage (sample_query d) (sample_candidates d off) = Inr (sample_set d off)"
proof -
  have "within_limits (sample_candidates d off)"
    by (simp add: within_limits_def sample_candidates_def MAX_LINEAGE_VERSIONS_def)
  moreover have "cc_candidate_set_coverage (sample_candidates d off) = Some (sample_set d off)"
    by (simp add: sample_candidates_def)
  moreover have "evidence_keys (ck_evidence_refs (sample_set d off)) \<inter>
      visible_evidence (sample_query d) (sample_candidates d off) = {}"
    by (simp add: visible_evidence_def sample_visible sample_facts evidence_keys_def evidence_key_def sample_evidence_def
        sample_set_def sample_version_def sample_historical_def sample_day_def sample_session_def)
  moreover have "coverage_query_matches (sample_query d) (sample_set d off)" "cq_session_kind (sample_query d) = REGULAR"
      "instant (ck_knowledge_from (sample_set d off)) \<le> instant (cq_knowledge_cutoff (sample_query d))"
      "ck_validation_state (sample_set d off) = V_VALID"
      "ck_candidate_version_ids (sample_set d off) = [cv_calendar_version_id sample_version]"
      "cv_calendar_id sample_version = cq_calendar_id (sample_query d)"
      "hc_calendar_id (sample_historical d) = cq_calendar_id (sample_query d)"
      "td_calendar_id (sample_day d) = cq_calendar_id (sample_query d)"
      "sd_calendar_id (sample_session d off) = cq_calendar_id (sample_query d)"
    by (simp_all add: coverage_query_matches_def sample_query_def sample_set_def sample_version_def sample_historical_def
        sample_day_def sample_session_def)
  moreover have "ck_candidate_fact_descriptors (sample_set d off) = sort_key descriptor_bytes (map from_fact
      [CoverageFact (sample_historical d), DayFact (sample_day d), SessionFact (sample_session d off)])"
    by (simp add: sample_set_def)
  ultimately show ?thesis
    unfolding candidate_set_stage_def Let_def sample_visible sample_facts by simp
qed

lemma calendar_hex_digest: "calendar_digest calendar_hex b = Inr calendar_sha"
proof -
  have "sha256_text (''sha256:'' @ replicate 64 CHR ''a'')" by code_simp
  then show ?thesis by (simp add: calendar_digest_def CalendarContentDigest_init_def calendar_hex_def calendar_sha_def)
qed

lemma sample_check_lineage:
  "check_lineage calendar_hex [sample_version]
     [CoverageFact (sample_historical d), DayFact (sample_day d), SessionFact (sample_session d off)] = Inr ()"
proof -
  have "validate_calendar_lineage [sample_version] = Inr [sample_version]"
    by (simp add: validate_calendar_lineage_def MAX_LINEAGE_VERSIONS_def calendar_successor_step_def calendar_walk.simps
        calendar_knowledge_step_def dict_get_def raise_if_def) (simp add: sample_version_def)
  then show ?thesis
    by (simp add: check_lineage_def check_version_facts_def validate_fact_bindings_def MAX_LINEAGE_VERSIONS_def
        bind_fact_def require_version_binding_def dict_get_def dict_put_def raise_if_def verify_calendar_content_digest_def
        calendar_hex_digest sample_version_def sample_historical_def sample_day_def sample_session_def)
qed

lemma sample_selection:
  "\<exists>cur. selection (sample_query d) (sample_candidates d off) k = Inr (sample_version, [], cur, sample_historical d, sample_day d)
     \<and> cu_evidence_refs cur = [sample_evidence ''evidence:x/u'']"
proof -
  have "version_stage (sample_query d) (sample_candidates d off) k = Inr (sample_version, [])"
    unfolding version_stage_def Let_def sample_visible
    by (simp add: version_effective_def calendar_authoritative_def rule_authoritative_def select_tip_def map_filter_set_iff
        sample_version_def sample_query_def sample_rule_def)
  moreover have "\<exists>cur. currentness_stage (sample_query d) (sample_candidates d off) sample_version = Inr cur
      \<and> cu_evidence_refs cur = [sample_evidence ''evidence:x/u'']"
    by (simp add: currentness_stage_def bound_currentness_def currentness_applies_def sample_candidates_def
        sample_query_def sample_version_def)
  moreover have "coverage_stage (sample_query d) (sample_candidates d off) sample_version = Inr (sample_historical d)"
    unfolding coverage_stage_def Let_def sample_visible
    by (simp add: coverage_contains_def coverage_disposition_def validate_coverage_independence_def evidence_keys_def
        evidence_key_def sample_evidence_def sample_version_def sample_query_def sample_historical_def sample_day_def
        sample_session_def)
  moreover have "day_stage (sample_query d) (sample_candidates d off) k sample_version = Inr (sample_day d)"
    unfolding day_stage_def Let_def sample_visible
    by (simp add: sample_version_def sample_query_def sample_day_def)
  ultimately show ?thesis by (auto simp: selection_def)
qed

lemma sample_resolution_eq:
  "\<exists>cur k. sample_resolution d off = rbind (session_stage (\<lambda>_. sample_digest) (sample_query d)
       (sample_candidates d off) k sample_version (sample_day d)) (\<lambda>r. case r of
         Inl s \<Rightarrow> empty_result (sample_query d) s
       | Inr session \<Rightarrow> established_result (sample_query d) sample_version (sample_historical d) (sample_day d) session cur [])
     \<and> cu_evidence_refs cur = [sample_evidence ''evidence:x/u'']"
proof -
  let ?k = "sample_set d off"
  obtain cur where cur: "selection (sample_query d) (sample_candidates d off) ?k =
      Inr (sample_version, [], cur, sample_historical d, sample_day d)" "cu_evidence_refs cur = [sample_evidence ''evidence:x/u'']"
    using sample_selection by blast
  show ?thesis
    unfolding sample_resolution_def resolve_calendar_session_def sample_candidate_set sample_visible sample_facts sum.case
    by (intro exI [of _ cur] exI [of _ ?k]) (simp add: sample_check_lineage cur)
qed

lemma sample_session_stage:
  "session_stage (\<lambda>_. sample_digest) (sample_query d) (sample_candidates d off) k sample_version (sample_day d) =
     (case verify_utc_boundaries (\<lambda>_. sample_digest) (sample_session d off) ''c'' of
        Inr _ \<Rightarrow> Inr (Inr (Some (sample_session d off)))
      | Inl (Err x m) \<Rightarrow> if x = ValueError then Inr (if m = ''UTC_CONVERSION_DISAGREEMENT''
            then conflicting ''UTC_BOUNDARY_CONFLICT'' else not_established ''LOCAL_TIME_NOT_ESTABLISHED'')
          else Inl (Err x m))"
proof -
  have "valid_negative (sample_query d) (sample_candidates d off) k = None"
    by (simp add: valid_negative_def sample_candidates_def)
  moreover have "cc_timezone_rule_corpora (sample_candidates d off) =
      [\<lparr>tzc_timezone_rule_id = TimezoneRuleId ''timezone-rule:x/r'', tzc_corpus = ''c''\<rparr>]"
    by (simp add: sample_candidates_def)
  moreover have "td_day_kind (sample_day d) = REGULAR_TRADING_DAY" by (simp add: sample_day_def)
  moreover have "sd_calendar_version_id (sample_session d off) = cv_calendar_version_id sample_version"
      "sd_local_date (sample_session d off) = cq_local_date (sample_query d)"
      "sd_session_kind (sample_session d off) = cq_session_kind (sample_query d)"
      "session_authoritative (sample_session d off)"
      "sd_timezone_rule_ref (sample_session d off) = cv_timezone_rule_ref sample_version"
      "tz_timezone_rule_id (cv_timezone_rule_ref sample_version) = TimezoneRuleId ''timezone-rule:x/r''"
      "tz_rule_content_digest (cv_timezone_rule_ref sample_version) = sample_digest"
    by (simp_all add: sample_session_def sample_version_def sample_query_def session_authoritative_def
        rule_authoritative_def sample_rule_def)
  ultimately show ?thesis
    unfolding session_stage_def Let_def sample_visible
    by (simp add: check_session_def corpus_content_digest_def split: sum.split error.split)
qed

lemma sample_resolution_overflow:
  "sample_resolution (- 719162) 600 = Inl (Err OverflowError ''date value out of range'')"
proof -
  have "verify_utc_boundaries (\<lambda>_. sample_digest) (sample_session (- 719162) 600) ''c'' =
      Inl (Err OverflowError ''date value out of range'')" by code_simp
  then show ?thesis
    using sample_resolution_eq [of "- 719162" 600] by (auto simp: sample_session_stage)
qed

lemma sample_set_constructed:
  "CalendarCandidateSetCoverage_init calendar_hex (sample_set (- 719162) 600) = Inr (sample_set (- 719162) 600)"
proof -
  define facts where "facts = [CoverageFact (sample_historical (- 719162)), DayFact (sample_day (- 719162)),
      SessionFact (sample_session (- 719162) 600)]"
  have d: "distinct (map descriptor_bytes (map from_fact facts))" unfolding facts_def by code_simp
  have ev: "canonicalize_evidence_refs [sample_evidence ''evidence:x/k''] = Inr [sample_evidence ''evidence:x/k'']"
    by (simp add: canonicalize_distinct MAX_EVIDENCE_REFS_def)
  have idem: "sort_key f (sort_key f xs) = sort_key f xs" for f :: "CalendarFactDescriptor \<Rightarrow> string" and xs
    by (simp add: sort_key_id_if_sorted)
  have "distinct (map descriptor_bytes (sort_key descriptor_bytes (map from_fact facts)))"
    using d by (metis distinct_map distinct_sort set_sort)
  then show ?thesis
    by (simp add: CalendarCandidateSetCoverage_init_def sample_set_def facts_def [symmetric] MAX_LINEAGE_VERSIONS_def ev
        idem calendar_hex_digest raise_if_def Let_def) (simp add: facts_def)
qed

lemma sample_constructed: "calendar_constructed calendar_hex (sample_query (- 719162)) (sample_candidates (- 719162) 600)"
proof -
  have "session_constructed calendar_hex (sample_session (- 719162) 600)" by code_simp
  moreover have "CalendarVersion_init calendar_hex sample_version = Inr sample_version"
      "TimezoneRuleRef_init (cv_timezone_rule_ref sample_version) = Inr (cv_timezone_rule_ref sample_version)"
      "HistoricalCoverage_init calendar_hex (sample_historical (- 719162)) = Inr (sample_historical (- 719162))"
      "TradingDayDefinition_init calendar_hex (sample_day (- 719162)) = Inr (sample_day (- 719162))" by code_simp+
  moreover have "list_all (\<lambda>a. CalendarCurrentnessAssessment_init calendar_hex a = Inr a)
      (cc_currentness_assessments (sample_candidates (- 719162) 600))"
    by (simp add: sample_candidates_def CalendarCurrentnessAssessment_init_def canonicalize_distinct MAX_EVIDENCE_REFS_def
        calendar_hex_digest raise_if_def Let_def)
  moreover have "CalendarSessionResolutionQuery_init (sample_query (- 719162)) = Inr (sample_query (- 719162))"
      "in_datetime (cq_local_date (sample_query (- 719162)) * day_micros)"
      "in_datetime (hc_local_date_from (sample_historical (- 719162)) * day_micros)"
      "in_datetime (hc_local_date_to (sample_historical (- 719162)) * day_micros)"
      "in_datetime (td_local_date (sample_day (- 719162)) * day_micros)" by code_simp+
  ultimately show ?thesis
    using sample_set_constructed unfolding calendar_constructed_def by (simp add: sample_candidates_def)
qed
lemma sample_resolution_regular:
  assumes ok: "verify_utc_boundaries (\<lambda>_. sample_digest) (sample_session d (- 300)) ''c'' = Inr ()"
  shows "\<exists>r. sample_resolution d (- 300) = Inr r \<and> csr_disposition r = ESTABLISHED \<and> csr_local_date r = d
     \<and> csr_calendar_id r = CalendarId 1 \<and> csr_selected_calendar_version_id r = Some (CalendarVersionId 1)
     \<and> csr_trading_day r = Some (sample_day d) \<and> csr_session r = Some (sample_session d (- 300))
     \<and> csr_utc_open r = Some (sd_utc_open (sample_session d (- 300)))
     \<and> csr_utc_close r = Some (sd_utc_close (sample_session d (- 300)))"
proof -
  obtain cur k where res: "sample_resolution d (- 300) = rbind (session_stage (\<lambda>_. sample_digest)
      (sample_query d) (sample_candidates d (- 300)) k sample_version (sample_day d)) (\<lambda>r. case r of
         Inl s \<Rightarrow> empty_result (sample_query d) s
       | Inr session \<Rightarrow> established_result (sample_query d) sample_version (sample_historical d) (sample_day d)
           session cur [])" and cur: "cu_evidence_refs cur = [sample_evidence ''evidence:x/u'']"
    using sample_resolution_eq by blast
  have ids: "cq_calendar_id (sample_query d) = CalendarId 1" "cq_local_date (sample_query d) = d"
    "cv_calendar_version_id sample_version = CalendarVersionId 1" by (simp_all add: sample_query_def sample_version_def)
  have ev: "\<exists>e. minimal_evidence ((hc_evidence_refs (sample_historical d) @ td_evidence_refs (sample_day d)
      @ sd_evidence_refs (sample_session d (- 300)) @ tz_evidence_refs (cv_timezone_rule_ref sample_version))
      # [sample_evidence ''evidence:x/u''] # []) = Inr e"
    by (simp add: minimal_evidence_def raise_if_def collect_minimal_def dict_get_def dict_put_def MAX_EVIDENCE_REFS_def
        sample_historical_def sample_day_def sample_session_def sample_version_def sample_rule_def evidence_key_def
        sample_evidence_def)
  then obtain e where "minimal_evidence ((hc_evidence_refs (sample_historical d) @ td_evidence_refs (sample_day d)
      @ sd_evidence_refs (sample_session d (- 300)) @ tz_evidence_refs (cv_timezone_rule_ref sample_version))
      # [sample_evidence ''evidence:x/u''] # []) = Inr e" ..
  then show ?thesis
    using optional_evidence_minimal [of _ e] minimal_evidence_distinct [of _ e]
    unfolding res sample_session_stage ok
    by (auto simp: established_result_def cur ids Let_def CalendarSessionResolutionResult_init_def check_established_def
        session_fields_def raise_if_def sample_day_kind)
qed

lemma sample_resolution_established:
  "\<exists>r. sample_resolution 19723 (- 300) = Inr r \<and> csr_disposition r = ESTABLISHED
     \<and> csr_session r = Some (sample_session 19723 (- 300))"
proof -
  have "verify_utc_boundaries (\<lambda>_. sample_digest) (sample_session 19723 (- 300)) ''c'' = Inr ()"
    by code_simp
  from sample_resolution_regular [OF this] show ?thesis by blast
qed

section \<open>Properties\<close>

text \<open>C23: The resolver returns for every query, with one exception: when a candidate session's boundary, its
  wall time shifted by the recorded offset, lies outside the range of \<open>datetime\<close>, an
  \<open>OverflowError\<close> escapes.  A result that is not established carries no value: no version, no
  trading day, no session, no boundary and no assessment.\<close>

theorem calendar_resolution_total:
  assumes "negative_constructed dg c"
  shows "(\<exists>r. resolve_calendar_session sha dg q c = Inr r \<and> (csr_disposition r \<noteq> ESTABLISHED \<longrightarrow> value_free r))
    \<or> (\<exists>m. resolve_calendar_session sha dg q c = Inl (Err OverflowError m)
        \<and> (\<exists>s\<in>set (cc_session_definitions c). boundary_overflow s))"
proof (cases rule: resolve_run [of sha dg q c])
  case (stopped s)
  with empty_result_Inr [OF _ assms] show ?thesis by metis
next
  case (run k v auth cur h day sess)
  have "sess = None \<longleftrightarrow> td_day_kind day \<noteq> REGULAR_TRADING_DAY" using session_stage_Inr [OF run(7)] by blast
  from established_result_cases [OF this] run(8) show ?thesis by metis
qed auto

theorem calendar_resolution_total_witness:
  "negative_constructed calendar_hex (sample_candidates 19723 (- 300))
   \<and> ((\<exists>r. sample_resolution 19723 (- 300) = Inr r \<and> (csr_disposition r \<noteq> ESTABLISHED \<longrightarrow> value_free r))
     \<or> (\<exists>m. sample_resolution 19723 (- 300) = Inl (Err OverflowError m)
        \<and> (\<exists>s\<in>set (cc_session_definitions (sample_candidates 19723 (- 300))). boundary_overflow s)))"
proof -
  have n: "negative_constructed calendar_hex (sample_candidates 19723 (- 300))"
    by (simp add: negative_constructed_def sample_candidates_def)
  from calendar_resolution_total [OF n, of "\<lambda>_. sample_digest" "sample_query 19723"] n
  show ?thesis unfolding sample_resolution_def by (rule conjI [rotated])
qed

text \<open>C24: The exception is reachable with values the program can hold: on the first day of the calendar a
  session whose wall times lie ten hours ahead of UTC passes every other stage and makes the
  resolver raise \<open>OverflowError\<close> instead of returning a value-free result.  The query, every
  candidate and every assessment are accepted unchanged by their constructors, and the session's
  own UTC bounds lie in the range of \<open>datetime\<close>.\<close>

theorem calendar_overflow_escapes:
  "\<exists>sha dg q c s. resolve_calendar_session sha dg q c = Inl (Err OverflowError ''date value out of range'')
     \<and> calendar_constructed dg q c \<and> iso_date (cq_local_date q) = ''0001-01-01''
     \<and> cc_session_definitions c = [s] \<and> SessionDefinition_init dg s = Inr s
     \<and> in_datetime (instant (sd_utc_open s)) \<and> in_datetime (instant (sd_utc_close s))"
proof (intro exI conjI)
  show "resolve_calendar_session (\<lambda>_. sample_digest) calendar_hex (sample_query (- 719162))
      (sample_candidates (- 719162) 600) = Inl (Err OverflowError ''date value out of range'')"
    using sample_resolution_overflow by (simp add: sample_resolution_def)
  show "calendar_constructed calendar_hex (sample_query (- 719162)) (sample_candidates (- 719162) 600)"
    by (rule sample_constructed)
  show "iso_date (cq_local_date (sample_query (- 719162))) = ''0001-01-01''" by code_simp
  show "cc_session_definitions (sample_candidates (- 719162) 600) = [sample_session (- 719162) 600]"
    by (simp add: sample_candidates_def)
  show "SessionDefinition_init calendar_hex (sample_session (- 719162) 600) = Inr (sample_session (- 719162) 600)"
    "in_datetime (instant (sd_utc_open (sample_session (- 719162) 600)))"
    "in_datetime (instant (sd_utc_close (sample_session (- 719162) 600)))"
    by code_simp+
qed

text \<open>C21: An established session is point in time, unique and authoritative.  The selected version was known
  by the cutoff and effective; every other effective version is authoritative too and became known
  earlier or was a correction that was not authorised; a selected correction was authorised by
  every valid assessment, each with evidence beyond that of the versions and facts concerned.  All
  valid currentness assessments say CURRENT; exactly one coverage of the version covers the date, is
  valid and was known by the cutoff; the trading day is valid and all days of the version and date
  share its content digest; the candidate set, its versions and facts, was certified by
  valid evidence known by the cutoff and shared with no candidate.  On a regular day all sessions of the version, date and kind share the content digest of
  the established one, which carries the version's authoritative timezone rule; exactly one corpus
  of that rule was supplied and its digest is the one the rule records; no valid negative evidence
  speaks against the session, and its UTC boundaries are its wall times shifted by the recorded
  offsets.  On other days there is no session and no candidate for one.\<close>

theorem calendar_session_established:
  assumes "resolve_calendar_session sha dg q c = Inr r" and "csr_disposition r = ESTABLISHED"
  shows "\<exists>k v day cur h. csr_selected_calendar_version_id r = Some (cv_calendar_version_id v)
    \<and> v \<in> set (cc_calendar_versions c) \<and> calendar_known v \<le> instant (cq_knowledge_cutoff q)
    \<and> version_effective v (cq_effective_as_of q) \<and> calendar_authoritative v \<and> correction_authorised q c v
    \<and> cv_calendar_id v = cq_calendar_id q
    \<and> (\<forall>u\<in>set (visible_versions q c). version_effective u (cq_effective_as_of q) \<longrightarrow> calendar_authoritative u
         \<and> (u = v \<or> calendar_known u < calendar_known v \<or> \<not> correction_authorised q c u))
    \<and> csr_currentness_assessment_digest r = Some (cu_content_digest cur)
    \<and> cur \<in> set (cc_currentness_assessments c) \<and> bound_currentness q v cur \<and> currentness_applies cur q
    \<and> cu_validation_state cur = V_VALID \<and> cu_state cur = CURRENT
    \<and> (\<forall>b\<in>set (cc_currentness_assessments c). bound_currentness q v b \<and> currentness_applies b q
         \<and> cu_validation_state b = V_VALID \<longrightarrow> cu_state b = CURRENT)
    \<and> bound_coverages q c v = [h] \<and> hc_validation_state h = V_VALID \<and> hc_coverage_state h = COVERED
    \<and> (\<forall>t. hc_coverage_knowledge_from h = Some t \<longrightarrow> instant t \<le> instant (cq_knowledge_cutoff q))
    \<and> csr_trading_day r = Some day \<and> day \<in> set (bound_days q c v) \<and> td_validation_state day = V_VALID
    \<and> (\<forall>d\<in>set (bound_days q c v). td_content_digest d = td_content_digest day)
    \<and> cc_candidate_set_coverage c = Some k \<and> ck_validation_state k = V_VALID
    \<and> instant (ck_knowledge_from k) \<le> instant (cq_knowledge_cutoff q)
    \<and> set (ck_candidate_version_ids k) = visible_ids q c
    \<and> set (ck_candidate_fact_descriptors k) = from_fact ` set (visible_facts q c)
    \<and> evidence_keys (ck_evidence_refs k) \<inter> visible_evidence q c = {}
    \<and> (csr_session r = None \<longleftrightarrow> td_day_kind day \<noteq> REGULAR_TRADING_DAY)
    \<and> (csr_session r = None \<longrightarrow> bound_sessions q c v = [])
    \<and> (\<forall>s. csr_session r = Some s \<longrightarrow> s \<in> set (bound_sessions q c v)
         \<and> (\<forall>t\<in>set (bound_sessions q c v). sd_content_digest t = sd_content_digest s)
         \<and> session_authoritative s \<and> sd_timezone_rule_ref s = cv_timezone_rule_ref v \<and> boundaries_agree s
         \<and> (\<exists>i. rule_corpora c v = [i] \<and> sha (tzc_corpus i) = tz_rule_content_digest (cv_timezone_rule_ref v))
         \<and> csr_timezone_rule_content_digest r = Some (tz_rule_content_digest (cv_timezone_rule_ref v))
         \<and> valid_negative q c k = None
         \<and> csr_utc_open r = Some (sd_utc_open s) \<and> csr_utc_close r = Some (sd_utc_close s))"
proof (cases rule: resolve_run [of sha dg q c])
  case (stopped s)
  obtain d reason ev where s: "s = (d, reason, ev)" by (cases s) auto
  with stopped assms empty_result_disposition [of q d reason ev r] show ?thesis by (simp add: proper_stop_def)
next
  case (overflow m s)
  with assms show ?thesis by simp
next
  case (run k v auth cur h day sess)
  note sess = session_stage_Inr [OF run(7)]
  have "sess = None \<longleftrightarrow> td_day_kind day \<noteq> REGULAR_TRADING_DAY" using sess by (rule conjunct1)
  from established_result_cases [OF this, of q v h cur auth] run(8) assms
  have r: "csr_selected_calendar_version_id r = Some (cv_calendar_version_id v)" "csr_trading_day r = Some day"
      "csr_session r = sess" "csr_utc_open r = map_option sd_utc_open sess" "csr_utc_close r = map_option sd_utc_close sess"
      "csr_currentness_assessment_digest r = Some (cu_content_digest cur)"
      "csr_timezone_rule_content_digest r = map_option (\<lambda>_. tz_rule_content_digest (cv_timezone_rule_ref v)) sess"
    by auto
  note v = version_stage_Inr [OF run(3,2)] and k = candidate_set_Inr [OF run(1)] and cu = currentness_stage_Inr [OF run(4)]
    and h = coverage_stage_Inr [OF run(5)] and day = day_stage_Inr [OF run(6)]
  have "v \<in> set (visible_versions q c)" using v by (rule conjunct1)
  then have vis: "v \<in> set (cc_calendar_versions c)" "calendar_known v \<le> instant (cq_knowledge_cutoff q)"
    by (simp_all add: visible_versions_def)
  have auth: "calendar_authoritative v" "cv_calendar_id v = cq_calendar_id q" using v k by blast+
  have utc: "csr_utc_open r = Some (sd_utc_open s)" "csr_utc_close r = Some (sd_utc_close s)"
      "csr_timezone_rule_content_digest r = Some (tz_rule_content_digest (cv_timezone_rule_ref v))"
    if "sess = Some s" for s using that by (simp_all add: r)
  show ?thesis
    unfolding r(1,2,3,6) using v k vis auth cu h day sess utc
    by (intro exI [of _ k] exI [of _ v] exI [of _ day] exI [of _ cur] exI [of _ h]) (elim conjE, intro conjI, (assumption | blast)+)
qed

theorem calendar_session_established_witness:
  "\<exists>r s. sample_resolution 19723 (- 300) = Inr r \<and> csr_session r = Some s \<and> boundaries_agree s
     \<and> csr_utc_open r = Some (sd_utc_open s)"
proof -
  obtain r where r: "sample_resolution 19723 (- 300) = Inr r" "csr_disposition r = ESTABLISHED"
      "csr_session r = Some (sample_session 19723 (- 300))" using sample_resolution_established by blast
  from calendar_session_established [OF r(1) [unfolded sample_resolution_def] r(2)] r(1,3)
  show ?thesis by auto
qed

text \<open>C22: No look-ahead in calendars, for candidates within the resource limits.  Versions and corrections
  that became known after the query's cutoff, and the facts of such versions, do not change the
  answer at all.  Currentness assessments, candidate-set coverage and negative evidence known only
  after the cutoff can change nothing but the reason of an answer that is not established anyway: the
  code reports them as FUTURE instead of MISSING.  A historical coverage of a known version is not
  dropped when its own knowledge time is late; the code lets it block the answer.\<close>

theorem calendar_no_lookahead:
  assumes "within_limits c"
  shows "resolve_calendar_session sha dg q (known_only q c) = resolve_calendar_session sha dg q c
    \<and> same_but_reason (resolve_calendar_session sha dg q (known_strict q c)) (resolve_calendar_session sha dg q c)"
proof
  have cs: "candidate_set_stage q (known_only q c) = candidate_set_stage q c"
    unfolding candidate_set_stage_def known_only_visible known_only_fields
    using assms known_only_limits [OF assms, of q] by simp
  have neg: "valid_negative q (known_only q c) k = valid_negative q c k" for k
    unfolding valid_negative_def known_only_visible known_only_fields ..
  have "version_stage q (known_only q c) k = version_stage q c k" for k
    unfolding version_stage_def known_only_visible known_only_admit negative_or_missing_def neg ..
  then have sel: "selection q (known_only q c) k = selection q c k" for k
    unfolding selection_def currentness_stage_def coverage_stage_def day_stage_def negative_or_missing_def neg
      known_only_visible known_only_fields by simp
  have ses: "session_stage sha q (known_only q c) k v day = session_stage sha q c k v day" for k v day
    unfolding session_stage_def check_session_def neg known_only_visible known_only_fields ..
  show "resolve_calendar_session sha dg q (known_only q c) = resolve_calendar_session sha dg q c"
    unfolding resolve_calendar_session_def known_only_visible cs sel ses ..
  show "same_but_reason (resolve_calendar_session sha dg q (known_strict q c)) (resolve_calendar_session sha dg q c)"
    by (rule known_strict_resolve [OF assms])
qed

theorem calendar_no_lookahead_witness:
  "let future = sample_version\<lparr>cv_calendar_version_id := CalendarVersionId 2, cv_knowledge_from := Timestamp 70\<rparr>;
       c = sample_candidates 19723 (- 300);
       c' = c\<lparr>cc_calendar_versions := future # cc_calendar_versions c\<rparr> in
   resolve_calendar_session (\<lambda>_. sample_digest) calendar_hex (sample_query 19723) c' = sample_resolution 19723 (- 300)"
proof -
  define future where "future = sample_version\<lparr>cv_calendar_version_id := CalendarVersionId 2, cv_knowledge_from := Timestamp 70\<rparr>"
  define c where "c = sample_candidates 19723 (- 300)"
  define c' where "c' = c\<lparr>cc_calendar_versions := future # cc_calendar_versions c\<rparr>"
  have lim: "within_limits c'"
    by (simp add: within_limits_def c'_def c_def sample_candidates_def MAX_LINEAGE_VERSIONS_def)
  have "known_only (sample_query 19723) c' = c"
    by (simp add: known_only_def Let_def c'_def c_def future_def sample_candidates_def sample_query_def sample_version_def
        sample_historical_def sample_day_def sample_session_def)
  with calendar_no_lookahead [OF lim, of "\<lambda>_. sample_digest" calendar_hex "sample_query 19723"]
  show ?thesis unfolding future_def [symmetric] Let_def c_def [symmetric] c'_def [symmetric] sample_resolution_def by simp
qed

end
