(* ===== verification/Commitments.thy ===== *)
theory Commitments
  imports Portfolio CalendarResolution
begin

text \<open>
  Portfolio construction, second part (\<^verbatim>\<open>research/portfolio_construction.py\<close>): the commitment book,
  its reservations, their reconciliation with the order-management system and ledger, and the monthly
  rebalance schedules that carry a book forward.

  A schedule retains the book it was made from, and a request may retain a schedule, so books,
  records, requests and schedules are mutually recursive.  The constructor of a book re-derives every
  schedule it contains, which constructs the retained book again: \<open>CommitmentBook_init\<close> is a recursive
  function on that containment.  The body of the recursion is \<open>book_checks\<close>, whose argument \<open>rb\<close>
  stands for the construction of the retained books.  The properties are in \<open>CommitmentSafety\<close>.
\<close>

section \<open>Records\<close>

record PriceCostCeiling =
  pc_upper_price :: rat
  pc_available_at :: Timestamp
  pc_evidence_digest :: EvidenceContentDigest
  pc_currency :: Currency
  pc_current :: bool
  pc_cost_model :: ExecutionCostModel

definition PriceCostCeiling_init ::
  "decimal \<Rightarrow> Timestamp \<Rightarrow> EvidenceContentDigest \<Rightarrow> Currency \<Rightarrow> bool \<Rightarrow> ExecutionCostModel \<Rightarrow> PriceCostCeiling result" where
  "PriceCostCeiling_init upper available evidence currency current model =
     rbind (portfolio_positive upper ''upper_price'') (\<lambda>q.
     Inr \<lparr>pc_upper_price = q, pc_available_at = available, pc_evidence_digest = evidence, pc_currency = currency,
          pc_current = current, pc_cost_model = model\<rparr>)"

text \<open>The fields of a request, a record and a schedule that do not contain books.\<close>

record RequestFields =
  rq_strategy_id :: string
  rq_order :: SimulatedOrder
  rq_price_cost_ceiling :: "PriceCostCeiling option"
  rq_holdings_ledger :: "SimulationLedger option"
  rq_holdings_as_of :: "Timestamp option"
  rq_holdings_oms :: "SimulatedOms option"
  rq_holdings_reconciliation :: "ReconciliationResult option"
  rq_execution_cost_model :: "ExecutionCostModel option"

record RecordFields =
  ct_sequence :: nat
  ct_strategy_id :: string
  ct_research_run_id :: string
  ct_order_id :: OrderId
  ct_instrument_id :: InstrumentId
  ct_side :: CommitmentSide
  ct_quantity :: rat
  ct_filled_quantity :: rat
  ct_reserved_cash :: rat
  ct_reserved_holding :: rat
  ct_actual_cash_effect :: rat
  ct_state :: CommitmentState
  ct_upper_price :: "rat option"
  ct_unit_cash_ceiling :: "rat option"
  ct_cost_model_id :: "string option"
  ct_ceiling_evidence_digest :: "string option"
  ct_order_status :: OrderStatus
  ct_predecessor_digest :: "string option"
  ct_record_digest :: string
  ct_original_order :: SimulatedOrder
  ct_cost_model :: ExecutionCostModel
  ct_source_oms :: "SimulatedOms option"
  ct_source_ledger :: "SimulationLedger option"

type_synonym CalendarInput = "CalendarSessionResolutionQuery \<times> CalendarSessionResolutionCandidates"

record ScheduleFields =
  sf_source_oms :: SimulatedOms
  sf_source_ledger :: SimulationLedger
  sf_calendar_inputs :: "CalendarInput list"
  sf_final_session :: CalendarSessionResolutionResult
  sf_next_session :: CalendarSessionResolutionResult
  sf_decision_time :: Timestamp
  sf_release_time :: Timestamp
  sf_final_session_date :: string
  sf_next_session_date :: string
  sf_preserved_obligations :: "string list"
  sf_removed_strategies :: "string list"
  sf_evidence_digest :: string
  sf_authority :: string

datatype CommitmentBook = CommitmentBook (bk_allocation: PortfolioAllocation) (bk_admissions: "PortfolioAdmission list")
    (bk_records: "CommitmentRecord list") (bk_evidence_digest: string) (bk_authority: string)
    (bk_removed_strategies: "string list") (bk_rebalance_transitions: "RebalanceSchedule list")
  and CommitmentRecord = CommitmentRecord (ct: RecordFields) (ct_reservation_request: "CommitmentRequest option")
  and CommitmentRequest = CommitmentRequest (rq: RequestFields) (rq_schedule: "RebalanceSchedule option")
  and RebalanceSchedule = RebalanceSchedule (sch_retained_book: CommitmentBook) (sch: ScheduleFields)

text \<open>The selectors of records, requests and schedules, read through to their plain fields.\<close>

abbreviation r_order :: "CommitmentRecord \<Rightarrow> OrderId" where "r_order r \<equiv> ct_order_id (ct r)"
abbreviation r_strategy :: "CommitmentRecord \<Rightarrow> string" where "r_strategy r \<equiv> ct_strategy_id (ct r)"
abbreviation r_side :: "CommitmentRecord \<Rightarrow> CommitmentSide" where "r_side r \<equiv> ct_side (ct r)"
abbreviation r_state :: "CommitmentRecord \<Rightarrow> CommitmentState" where "r_state r \<equiv> ct_state (ct r)"

text \<open>The digests of this part, and those of the calendar resolver the schedules call.  The schedule
  digest is taken of the schedule and of the resolved sessions.\<close>

record CommitmentDigests = PortfolioDigests +
  cd_corpus :: corpus_digest
  cd_calendar :: body_digest
  cd_record :: "CommitmentRecord \<Rightarrow> string"
  cd_book :: "CommitmentBook \<Rightarrow> string"
  cd_schedule :: "RebalanceSchedule \<Rightarrow> CalendarSessionResolutionResult list \<Rightarrow> string"

definition commitment_side :: "OrderSide \<Rightarrow> CommitmentSide" where
  "commitment_side s = (case s of BUY \<Rightarrow> COMMIT_BUY | SELL \<Rightarrow> COMMIT_SELL)"

abbreviation portfolio_raise :: "bool \<Rightarrow> string \<Rightarrow> 'a result \<Rightarrow> 'a result" where
  "portfolio_raise c m k \<equiv> raise_if c PortfolioConstructionError m k"

definition make_record :: "CommitmentDigests \<Rightarrow> RecordFields \<Rightarrow> CommitmentRequest option \<Rightarrow> CommitmentRecord" where
  "make_record D f req = CommitmentRecord (f\<lparr>ct_record_digest := cd_record D (CommitmentRecord (f\<lparr>ct_record_digest := []\<rparr>) req)\<rparr>) req"

definition record_digest_of :: "CommitmentDigests \<Rightarrow> CommitmentRecord \<Rightarrow> string" where
  "record_digest_of D r = cd_record D (CommitmentRecord (ct r\<lparr>ct_record_digest := []\<rparr>) (ct_reservation_request r))"

section \<open>Views of a history\<close>

definition latest_records :: "CommitmentRecord list \<Rightarrow> CommitmentRecord list" where
  "latest_records rs = dict_of r_order rs"

definition active_records :: "CommitmentRecord list \<Rightarrow> CommitmentRecord list" where
  "active_records rs = filter (\<lambda>r. r_state r \<noteq> RELEASED) (latest_records rs)"

definition latest_record :: "CommitmentRecord list \<Rightarrow> OrderId \<Rightarrow> CommitmentRecord result" where
  "latest_record rs i = (case find_first (\<lambda>r. r_order r = i) (rev rs) of
     None \<Rightarrow> Inl (Err PortfolioConstructionError ''unknown commitment order'')
   | Some r \<Rightarrow> Inr r)"

definition holding_step :: "string \<Rightarrow> InstrumentId \<Rightarrow> Timestamp \<Rightarrow> rat \<Rightarrow> FinancialEvent \<Rightarrow> rat result" where
  "holding_step run i as_of holding e =
     (if instant as_of < instant (ev_occurred_at e) then Inr holding
      else if ev_instrument_id e \<noteq> Some i then Inr holding
      else if ev_kind e = TRADE \<and> run_text (ev_research_run_id e) = run
      then (case ev_quantity e of
          None \<Rightarrow> Inl (Err PortfolioConstructionError ''trade holding event lacks quantity'')
        | Some q \<Rightarrow> Inr (dadd holding q))
      else if ev_kind e = SPLIT
      then (case ev_quantity e of
          None \<Rightarrow> Inl (Err PortfolioConstructionError ''split holding event lacks valid factor'')
        | Some q \<Rightarrow> portfolio_raise (q \<le> 0) ''split holding event lacks valid factor'' (Inr (dmul holding q)))
      else Inr holding)"

definition holding_at :: "SimulationLedger \<Rightarrow> string \<Rightarrow> InstrumentId \<Rightarrow> Timestamp \<Rightarrow> rat result" where
  "holding_at ledger run i as_of =
     rbind (rfold (holding_step run i as_of) 0 (lg_events ledger)) (\<lambda>holding.
     portfolio_raise (holding < 0) ''authoritative ledger contains unsupported short holding'' (Inr holding))"

text \<open>\<open>ledger.events[:len(known.events)] != known.events\<close>\<close>

definition omits_history :: "SimulationLedger \<Rightarrow> CommitmentRecord \<Rightarrow> bool" where
  "omits_history ledger r \<longleftrightarrow> (case ct_source_ledger (ct r) of None \<Rightarrow> False
     | Some l \<Rightarrow> take (length (lg_events l)) (lg_events ledger) \<noteq> lg_events l)"

definition omits_fills :: "SimulatedOms \<Rightarrow> CommitmentRecord \<Rightarrow> bool" where
  "omits_fills oms r \<longleftrightarrow> (case ct_source_oms (ct r) of None \<Rightarrow> False
     | Some m \<Rightarrow> take (length (oms_fills m)) (oms_fills oms) \<noteq> oms_fills m)"

definition order_fills :: "SimulatedOms \<Rightarrow> OrderId \<Rightarrow> SimulatedFill list" where
  "order_fills oms i = filter (\<lambda>f. fi_order_id f = i) (oms_fills oms)"

definition fills_ordered :: "SimulatedFill list \<Rightarrow> bool" where
  "fills_ordered fs \<longleftrightarrow> sorted (map (\<lambda>f. instant (fi_execution_at f)) fs)"

definition known_step :: "SimulatedOms \<Rightarrow> SimulationLedger \<Rightarrow> CommitmentRecord \<Rightarrow> unit result" where
  "known_step oms ledger r =
     portfolio_raise (omits_history ledger r) ''stale holding ledger omits known financial history''
     (portfolio_raise (omits_fills oms r) ''immutable fill history truncated or substituted'' (Inr ()))"

definition validate_financial_extension ::
  "CommitmentRecord list \<Rightarrow> SimulatedOms \<Rightarrow> SimulationLedger \<Rightarrow> PortfolioAdmission list \<Rightarrow> Timestamp option \<Rightarrow> unit result" where
  "validate_financial_extension records oms ledger admissions cutoff =
     (let times = map (\<lambda>e. instant (ev_occurred_at e)) (lg_events ledger) in
      portfolio_raise (\<exists>e\<in>set (lg_events ledger). run_text (ev_research_run_id e) \<notin> set (map admitted_run admissions))
        ''foreign holding research run''
      (portfolio_raise (\<not> sorted times \<or> (case cutoff of None \<Rightarrow> False | Some c \<Rightarrow> \<exists>t\<in>set times. instant c < t))
        ''financial event chronology or cutoff mismatch''
      (rbind (rmap (known_step oms ledger) records) (\<lambda>_.
       portfolio_raise (\<exists>r\<in>set (oms_orders oms). \<not> fills_ordered (order_fills oms (rec_order_id r)))
         ''fill chronology is not monotone'' (Inr ())))))"

section \<open>Rebalance schedules\<close>

definition obligation_current :: "SimulatedOms \<Rightarrow> SimulationLedger \<Rightarrow> CommitmentRecord \<Rightarrow> unit result" where
  "obligation_current oms ledger r =
     portfolio_raise (case oms_order oms (r_order r) of None \<Rightarrow> True
       | Some c \<Rightarrow> rec_order c \<noteq> ct_original_order (ct r) \<or> rec_status c \<noteq> ct_order_status (ct r)
           \<or> rec_filled_quantity c \<noteq> ct_filled_quantity (ct r)) ''rebalance obligations not current''
     (portfolio_raise (omits_history ledger r) ''rebalance history is stale'' (Inr ()))"

definition foreign_calendar :: "CalendarVersion \<Rightarrow> bool" where
  "foreign_calendar v \<longleftrightarrow> cv_market_code v \<noteq> ''US'' \<or> cv_venue_code v \<noteq> ''XNYS''
     \<or> timezone_text (tz_timezone_id (cv_timezone_rule_ref v)) \<noteq> ''America/New_York''"

definition civil_dates :: "int \<Rightarrow> int \<Rightarrow> int list" where
  "civil_dates first until = map (\<lambda>i. first + int i) [0..<nat (until - first + 1)]"

definition regular_day :: "CalendarSessionResolutionResult \<Rightarrow> bool" where
  "regular_day r \<longleftrightarrow> (case csr_trading_day r of None \<Rightarrow> False | Some d \<Rightarrow> td_day_kind d = REGULAR_TRADING_DAY)"

text \<open>The checks on the resolved civil dates: the sessions are the two given, and every date between them
  is shown not to be a trading day.\<close>

definition resolved_dates_step ::
  "CalendarInput list \<Rightarrow> Timestamp \<Rightarrow> CalendarSessionResolutionResult \<Rightarrow> CalendarSessionResolutionResult \<Rightarrow>
   CalendarSessionResolutionResult list \<Rightarrow> CalendarSessionResolutionResult list \<Rightarrow> unit result" where
  "resolved_dates_step inputs decision final next sequence resolved =
     portfolio_raise (\<exists>q\<in>set (map fst inputs). instant decision < instant (cq_knowledge_cutoff q) \<or> cq_evaluation_at q \<noteq> decision)
       ''calendar cutoff or currentness mismatch''
     (portfolio_raise (\<exists>r\<in>set resolved. csr_trading_day r = None
         \<or> csr_selected_calendar_version_id r \<noteq> csr_selected_calendar_version_id final)
       ''calendar date is ambiguous or version mismatch''
     (let actual = filter (\<lambda>r. csr_utc_open r \<noteq> None) resolved in
      portfolio_raise (actual \<noteq> sequence \<or> actual \<noteq> [final, next]) ''next session is not immediately adjacent or month-end''
      (portfolio_raise (\<exists>r\<in>set resolved. csr_utc_open r = None \<and> (csr_trading_day r = None \<or> regular_day r))
        ''explicit non-trading evidence required'' (Inr ()))))"

definition eligible_session :: "CalendarSessionResolutionResult \<Rightarrow> bool" where
  "eligible_session r \<longleftrightarrow> csr_disposition r = ESTABLISHED \<and> regular_day r"

fun adjacent :: "'a \<Rightarrow> 'a \<Rightarrow> 'a list \<Rightarrow> bool" where
  "adjacent a b [] \<longleftrightarrow> False"
| "adjacent a b (x # xs) \<longleftrightarrow> (if x = a then (case xs of [] \<Rightarrow> False | y # _ \<Rightarrow> y = b) else adjacent a b xs)"

text \<open>The checks on the two sessions and the sequence; the result is the release time.\<close>

definition month_end_step ::
  "CalendarSessionResolutionResult \<Rightarrow> CalendarSessionResolutionResult \<Rightarrow> CalendarSessionResolutionResult list \<Rightarrow>
   Timestamp \<Rightarrow> Timestamp result" where
  "month_end_step final next sequence decision =
     portfolio_raise (\<exists>r\<in>{final, next}. \<not> eligible_session r \<or> csr_utc_close r = None \<or> csr_utc_open r = None)
       ''eligible established trading session required''
     (case (csr_utc_close final, csr_utc_open next) of
        (Some final_close, Some next_open) \<Rightarrow>
          portfolio_raise (length sequence < 2) ''authoritative calendar sequence required''
          (let eligible = filter eligible_session sequence in
           portfolio_raise (eligible \<noteq> sequence \<or> final \<notin> set eligible \<or> next \<notin> set eligible)
             ''calendar sequence contains missing or ambiguous sessions''
           (portfolio_raise (\<not> adjacent final next eligible) ''next session is not immediately adjacent''
           (portfolio_raise (\<exists>r\<in>set eligible. csr_calendar_id r \<noteq> csr_calendar_id final
               \<or> csr_selected_calendar_version_id r \<noteq> csr_selected_calendar_version_id final)
             ''calendar identity or version mismatch''
           (portfolio_raise (\<exists>r\<in>set eligible. month_of (csr_local_date r) = month_of (csr_local_date final)
               \<and> csr_local_date final < csr_local_date r)
             ''final session is not the final eligible monthly session''
           (portfolio_raise (month_of (csr_local_date final) = month_of (csr_local_date next))
             ''next session must follow the month-end boundary''
           (portfolio_raise (instant decision < instant final_close) ''rebalance decision precedes final completed session''
           (portfolio_raise (csr_local_date next \<le> csr_local_date final \<or> instant next_open \<le> instant decision)
             ''next-session release must be after decision'' (Inr next_open))))))))
      | _ \<Rightarrow> Inl (Err PortfolioConstructionError ''eligible session timestamps required''))"

definition preserved_texts :: "string list \<Rightarrow> string list \<Rightarrow> unit result" where
  "preserved_texts preserved removed =
     rbind (portfolio_texts preserved ''preserved_obligations'' False) (\<lambda>_.
     rbind (portfolio_texts removed ''removed_strategies'' False) (\<lambda>_.
     portfolio_raise (\<not> set removed \<subseteq> set preserved) ''removed strategy obligations must remain preserved'' (Inr ())))"

text \<open>The current obligations the schedule binds.  \<open>rebuilt\<close> is the outcome of constructing the given book
  again.\<close>

definition obligations_step ::
  "CommitmentBook result \<Rightarrow> CommitmentBook \<Rightarrow> SimulatedOms \<Rightarrow> SimulationLedger \<Rightarrow> Timestamp \<Rightarrow> string list \<Rightarrow> string list \<Rightarrow>
   unit result" where
  "obligations_step rebuilt kept oms ledger decision preserved removed =
     rbind rebuilt (\<lambda>again.
     portfolio_raise (kept \<noteq> again) ''rebalance commitment substitution''
     (rbind (verify_currency oms ledger (al_currency (bk_allocation kept))) (\<lambda>_.
      rbind (reconcile oms ledger) (\<lambda>rec.
      rbind (require_performance rec) (\<lambda>_.
      portfolio_raise (\<exists>e\<in>set (lg_events ledger). instant decision < instant (ev_occurred_at e))
        ''rebalance ledger is after decision''
      (rbind (rmap (obligation_current oms ledger) (latest_records (bk_records kept))) (\<lambda>_.
       portfolio_raise (\<not> r_strategy ` set (active_records (bk_records kept)) \<subseteq> set preserved)
         ''pending exit obligations omitted''
       (portfolio_raise (\<not> set removed \<subseteq> set (map admitted_strategy (bk_admissions kept)))
         ''unknown removed strategy'' (Inr ())))))))))"

definition schedule_with ::
  "CommitmentDigests \<Rightarrow> CommitmentBook result \<Rightarrow> CalendarSessionResolutionResult \<Rightarrow> CalendarSessionResolutionResult \<Rightarrow>
   CalendarSessionResolutionResult list \<Rightarrow> Timestamp \<Rightarrow> string list \<Rightarrow> string list \<Rightarrow> CalendarInput list \<Rightarrow>
   CommitmentBook option \<Rightarrow> SimulatedOms option \<Rightarrow> SimulationLedger option \<Rightarrow> RebalanceSchedule result" where
  "schedule_with D rebuilt final next sequence decision preserved removed inputs commitments oms_opt ledger_opt =
     raise_if (inputs = []) InsufficientEvidenceError ''INSUFFICIENT_EVIDENCE: complete calendar resolver inputs required''
     (case (commitments, oms_opt, ledger_opt) of
        (Some kept, Some oms, Some ledger) \<Rightarrow>
          rbind (obligations_step rebuilt kept oms ledger decision preserved removed) (\<lambda>_.
          portfolio_raise (\<exists>c\<in>set (map snd inputs). \<exists>v\<in>set (cc_calendar_versions c). foreign_calendar v)
            ''configured US XNYS calendar required''
          (portfolio_raise (map (\<lambda>i. cq_local_date (fst i)) inputs \<noteq> civil_dates (csr_local_date final) (csr_local_date next)
              \<or> 35 < length inputs) ''calendar coverage omits or reorders civil dates''
          (rbind (rmap (\<lambda>(q, c). resolve_calendar_session (cd_corpus D) (cd_calendar D) q c) inputs) (\<lambda>resolved.
           rbind (resolved_dates_step inputs decision final next sequence resolved) (\<lambda>_.
           rbind (month_end_step final next sequence decision) (\<lambda>release.
           rbind (preserved_texts preserved removed) (\<lambda>_.
           let f = \<lparr>sf_source_oms = oms, sf_source_ledger = ledger, sf_calendar_inputs = inputs, sf_final_session = final,
               sf_next_session = next, sf_decision_time = decision, sf_release_time = release,
               sf_final_session_date = iso_date (csr_local_date final), sf_next_session_date = iso_date (csr_local_date next),
               sf_preserved_obligations = preserved, sf_removed_strategies = removed, sf_evidence_digest = [],
               sf_authority = PORTFOLIO_AUTHORITY\<rparr> in
           Inr (RebalanceSchedule kept
             (f\<lparr>sf_evidence_digest := cd_schedule D (RebalanceSchedule kept f) resolved\<rparr>)))))))))
      | _ \<Rightarrow> Inl (Err InsufficientEvidenceError ''INSUFFICIENT_EVIDENCE: current obligations and reconciled holdings required''))"

text \<open>The call that rebuilds a schedule from its own fields.\<close>

definition replay_schedule :: "CommitmentDigests \<Rightarrow> CommitmentBook result \<Rightarrow> RebalanceSchedule \<Rightarrow> RebalanceSchedule result" where
  "replay_schedule D rebuilt s = schedule_with D rebuilt (sf_final_session (sch s)) (sf_next_session (sch s))
     [sf_final_session (sch s), sf_next_session (sch s)] (sf_decision_time (sch s)) (sf_preserved_obligations (sch s))
     (sf_removed_strategies (sch s)) (sf_calendar_inputs (sch s)) (Some (sch_retained_book s))
     (Some (sf_source_oms (sch s))) (Some (sf_source_ledger (sch s)))"

definition validate_scheduled_request ::
  "CommitmentDigests \<Rightarrow> (RebalanceSchedule \<Rightarrow> CommitmentBook result) \<Rightarrow> CommitmentRequest \<Rightarrow> PortfolioAllocation \<Rightarrow>
   PortfolioAdmission list \<Rightarrow> CommitmentRecord list \<Rightarrow> unit result" where
  "validate_scheduled_request D rb request allocation admissions records = (case rq_schedule request of
     None \<Rightarrow> Inr ()
   | Some s \<Rightarrow>
       rbind (replay_schedule D (rb s) s) (\<lambda>rebuilt.
       let retained = sch_retained_book s in
       portfolio_raise (rebuilt \<noteq> s \<or> allocation \<noteq> bk_allocation retained \<or> admissions \<noteq> bk_admissions retained
           \<or> take (length (bk_records retained)) records \<noteq> bk_records retained)
         ''schedule or pending obligations substituted''
       (portfolio_raise (so_decision_time (rq_order (rq request)) \<noteq> sf_decision_time (sch s)
           \<or> so_release_at (rq_order (rq request)) \<noteq> sf_release_time (sch s))
         ''order release does not match calendar schedule''
       (portfolio_raise (rq_strategy_id (rq request) \<in> set (sf_removed_strategies (sch s)))
         ''removed strategy cannot add obligations'' (Inr ())))))"

section \<open>Rebalance transitions of a book\<close>

text \<open>The scan of the records after a transition for new orders of removed strategies.\<close>

fun adds_removed :: "string set \<Rightarrow> OrderId set \<Rightarrow> CommitmentRecord list \<Rightarrow> bool" where
  "adds_removed removed known [] \<longleftrightarrow> False"
| "adds_removed removed known (r # rs) \<longleftrightarrow>
     (r_order r \<notin> known \<and> r_strategy r \<in> removed) \<or> adds_removed removed (insert (r_order r) known) rs"

record TransitionScan =
  ts_done :: "RebalanceSchedule list"
  ts_removed :: "string list"
  ts_time :: "Timestamp option"

definition transition_step ::
  "CommitmentDigests \<Rightarrow> (RebalanceSchedule \<Rightarrow> CommitmentBook result) \<Rightarrow> CommitmentBook \<Rightarrow> TransitionScan \<Rightarrow> RebalanceSchedule \<Rightarrow>
   TransitionScan result" where
  "transition_step D rb kept st s =
     (let prior = sch_retained_book s; n = length (bk_records prior) in
      portfolio_raise (bk_rebalance_transitions prior \<noteq> ts_done st \<or> set (bk_removed_strategies prior) \<noteq> set (ts_removed st))
        ''rebalance transition history is discontinuous''
      (portfolio_raise (bk_allocation prior \<noteq> bk_allocation kept \<or> bk_admissions prior \<noteq> bk_admissions kept
          \<or> take n (bk_records kept) \<noteq> bk_records prior) ''rebalance transition replaces retained obligations''
      (portfolio_raise (case ts_time st of None \<Rightarrow> False | Some t \<Rightarrow> instant (sf_decision_time (sch s)) \<le> instant t)
        ''rebalance effective time must increase''
      (rbind (replay_schedule D (rb s) s) (\<lambda>rebuilt.
       portfolio_raise (rebuilt \<noteq> s) ''rebalance transition content substitution''
       (let removed = ts_removed st @ sf_removed_strategies (sch s) in
        portfolio_raise (adds_removed (set removed) (r_order ` set (bk_records prior)) (drop n (bk_records kept)))
          ''removed strategy cannot add reconstructed obligations''
        (Inr \<lparr>ts_done = ts_done st @ [s], ts_removed = removed, ts_time = Some (sf_decision_time (sch s))\<rparr>)))))))"

definition validate_rebalance_transitions ::
  "CommitmentDigests \<Rightarrow> (RebalanceSchedule \<Rightarrow> CommitmentBook result) \<Rightarrow> CommitmentBook \<Rightarrow> unit result" where
  "validate_rebalance_transitions D rb kept =
     rbind (rfold (transition_step D rb kept) \<lparr>ts_done = [], ts_removed = [], ts_time = None\<rparr> (bk_rebalance_transitions kept))
       (\<lambda>st. portfolio_raise (sorted_set (ts_removed st) \<noteq> bk_removed_strategies kept)
          ''removed strategy state does not match retained rebalance transitions'' (Inr ()))"

section \<open>The history of a book\<close>

fun any_result :: "('a \<Rightarrow> bool result) \<Rightarrow> 'a list \<Rightarrow> bool result" where
  "any_result p [] = Inr False"
| "any_result p (x # xs) = rbind (p x) (\<lambda>b. if b then Inr True else any_result p xs)"

definition record_source :: "CommitmentDigests \<Rightarrow> CommitmentRecord list \<Rightarrow> CommitmentRecord \<Rightarrow> CommitmentRequest result" where
  "record_source D earlier item =
     (let order = ct_original_order (ct item) in
      portfolio_raise (ct_sequence (ct item) \<noteq> length earlier + 1
          \<or> ct_predecessor_digest (ct item) \<noteq> (if earlier = [] then None else Some (ct_record_digest (ct (last earlier)))))
        ''commitment history is reordered or discontinuous''
      (portfolio_raise (ct_record_digest (ct item) \<noteq> record_digest_of D item) ''commitment record digest mismatch''
      (case ct_reservation_request item of
         None \<Rightarrow> Inl (Err PortfolioConstructionError ''commitment reservation source missing or substituted'')
       | Some request \<Rightarrow>
           portfolio_raise (rq_order (rq request) \<noteq> order \<or> rq_strategy_id (rq request) \<noteq> ct_strategy_id (ct item))
             ''commitment reservation source missing or substituted'' (Inr request))))"

definition ceiling_matches :: "CommitmentRecord \<Rightarrow> SimulatedOrder \<Rightarrow> PriceCostCeiling \<Rightarrow> bool" where
  "ceiling_matches item order c \<longleftrightarrow> pc_current c \<and> pc_currency c = so_currency order
     \<and> instant (pc_available_at c) \<le> instant (so_decision_time order) \<and> pc_cost_model c = ct_cost_model (ct item)
     \<and> Some (pc_upper_price c) = ct_upper_price (ct item)
     \<and> Some (digest_text (pc_evidence_digest c)) = ct_ceiling_evidence_digest (ct item)"

definition record_terms :: "CommitmentRecord \<Rightarrow> CommitmentRequest \<Rightarrow> unit result" where
  "record_terms item request =
     (let order = ct_original_order (ct item) in
      portfolio_raise (r_side item = COMMIT_BUY \<and> (case rq_price_cost_ceiling (rq request) of None \<Rightarrow> True
          | Some c \<Rightarrow> \<not> ceiling_matches item order c)) ''commitment ceiling source substitution''
      (portfolio_raise (r_side item \<noteq> COMMIT_BUY \<and> rq_execution_cost_model (rq request) \<noteq> Some (ct_cost_model (ct item)))
        ''commitment sell cost source substitution''
      (portfolio_raise (r_order item \<noteq> so_order_id order \<or> ct_instrument_id (ct item) \<noteq> so_instrument_id order
          \<or> ct_research_run_id (ct item) \<noteq> run_text (so_research_run_id order)
          \<or> ct_quantity (ct item) \<noteq> so_quantity order \<or> r_side item \<noteq> commitment_side (so_side order))
        ''commitment original order identity mismatch''
      (portfolio_raise (\<not> (0 \<le> ct_filled_quantity (ct item) \<and> ct_filled_quantity (ct item) \<le> ct_quantity (ct item)))
        ''commitment quantity out of bounds'' (Inr ())))))"

definition terminal_status :: "CommitmentRecord \<Rightarrow> bool" where
  "terminal_status item \<longleftrightarrow> ct_order_status (ct item) \<in> {CANCELLED, REJECTED, UNFILLED, FULLY_FILLED}"

definition expected_state :: "bool \<Rightarrow> rat \<Rightarrow> CommitmentState" where
  "expected_state terminal filled = (if terminal then RELEASED else if filled \<noteq> 0 then COMMIT_PARTIALLY_FILLED else RESERVED)"

text \<open>\<open>(quantity * upper + costs.total)\<close>, the largest cash effect of a purchase.\<close>

definition largest_cost :: "ExecutionCostModel \<Rightarrow> rat \<Rightarrow> rat \<Rightarrow> rat result" where
  "largest_cost model quantity upper =
     rbind (calculate_costs model quantity upper) (\<lambda>c. Inr (dadd (dmul quantity upper) (cost_total c)))"

definition record_liability :: "CommitmentRecord \<Rightarrow> (rat \<times> rat) result" where
  "record_liability item =
     (let remaining = dsub (ct_quantity (ct item)) (ct_filled_quantity (ct item)) in
      if r_side item = COMMIT_BUY then
        (case ct_upper_price (ct item) of
           None \<Rightarrow> Inl (Err PortfolioConstructionError ''commitment cost model binding mismatch'')
         | Some upper \<Rightarrow>
             portfolio_raise (ct_cost_model_id (ct item) \<noteq> Some (cm_model_id (ct_cost_model (ct item))))
               ''commitment cost model binding mismatch''
             (rbind (largest_cost (ct_cost_model (ct item)) (ct_quantity (ct item)) upper) (\<lambda>largest.
              let unit = ddiv largest (ct_quantity (ct item)) in
              portfolio_raise (ct_unit_cash_ceiling (ct item) \<noteq> Some unit) ''commitment unit liability mismatch''
              (if terminal_status item then Inr (0, 0)
               else rbind (ceil_cents (dmul unit remaining)) (\<lambda>cash. Inr (cash, 0))))))
      else Inr (0, if terminal_status item then 0 else remaining))"

definition record_checked :: "PortfolioAllocation \<Rightarrow> CommitmentRecord \<Rightarrow> unit result" where
  "record_checked allocation item =
     rbind (record_liability item) (\<lambda>(cash, holding).
     portfolio_raise (r_state item \<noteq> expected_state (terminal_status item) (ct_filled_quantity (ct item))
         \<or> ct_reserved_cash (ct item) \<noteq> cash \<or> ct_reserved_holding (ct item) \<noteq> holding)
       ''commitment reservation liability mismatch''
     (portfolio_raise (so_currency (ct_original_order (ct item)) \<noteq> al_currency allocation
         \<or> instant (so_release_at (ct_original_order (ct item))) \<le> instant (so_decision_time (ct_original_order (ct item))))
       ''commitment currency or release chronology mismatch'' (Inr ())))"

definition already_reserved :: "CommitmentRecord list \<Rightarrow> string \<Rightarrow> InstrumentId \<Rightarrow> rat" where
  "already_reserved rs s i = dsum (map (\<lambda>r. ct_reserved_holding (ct r))
     (filter (\<lambda>r. r_strategy r = s \<and> ct_instrument_id (ct r) = i \<and> r_side r = COMMIT_SELL) rs))"

definition sell_source ::
  "CommitmentRecord list \<Rightarrow> PortfolioAllocation \<Rightarrow> PortfolioAdmission list \<Rightarrow> CommitmentRecord \<Rightarrow> CommitmentRequest \<Rightarrow> unit result" where
  "sell_source earlier allocation admissions item request =
     (let order = ct_original_order (ct item) in
      case (rq_holdings_ledger (rq request), rq_holdings_oms (rq request)) of
        (Some ledger, Some oms) \<Rightarrow>
          portfolio_raise (rq_holdings_as_of (rq request) \<noteq> Some (so_decision_time order))
            ''sell reservation holding source missing or inconsistent''
          (rbind (reconcile oms ledger) (\<lambda>rec.
           portfolio_raise (rq_holdings_reconciliation (rq request) \<noteq> Some rec)
             ''sell reservation holding source missing or inconsistent''
           (rbind (validate_financial_extension earlier oms ledger admissions (Some (so_decision_time order))) (\<lambda>_.
            rbind (verify_currency oms ledger (al_currency allocation)) (\<lambda>_.
            rbind (require_performance rec) (\<lambda>_.
            portfolio_raise (lg_currency ledger \<noteq> so_currency order) ''sell reservation ledger mismatch''
            (rbind (ledger_replay (lg_currency ledger) (lg_events ledger)) (\<lambda>again.
             portfolio_raise (again \<noteq> ledger) ''sell reservation ledger mismatch''
             (rbind (holding_at ledger (ct_research_run_id (ct item)) (ct_instrument_id (ct item)) (so_decision_time order)) (\<lambda>held.
              portfolio_raise (held < dadd (ct_quantity (ct item))
                  (already_reserved (latest_records earlier) (ct_strategy_id (ct item)) (ct_instrument_id (ct item))))
                ''sell reservation liability exceeds holdings'' (Inr ())))))))))))
      | _ \<Rightarrow> Inl (Err PortfolioConstructionError ''sell reservation holding source missing or inconsistent''))"

definition initial_record ::
  "CommitmentDigests \<Rightarrow> (RebalanceSchedule \<Rightarrow> CommitmentBook result) \<Rightarrow> CommitmentRecord list \<Rightarrow> PortfolioAllocation \<Rightarrow>
   PortfolioAdmission list \<Rightarrow> CommitmentRecord \<Rightarrow> CommitmentRequest \<Rightarrow> unit result" where
  "initial_record D rb earlier allocation admissions item request =
     rbind (validate_scheduled_request D rb request allocation admissions earlier) (\<lambda>_.
     rbind (if r_side item = COMMIT_SELL then sell_source earlier allocation admissions item request else Inr ()) (\<lambda>_.
     portfolio_raise (ct_filled_quantity (ct item) \<noteq> 0 \<or> ct_actual_cash_effect (ct item) \<noteq> 0
         \<or> ct_order_status (ct item) \<noteq> ACCEPTED \<or> terminal_status item) ''invalid initial commitment'' (Inr ())))"

definition cash_effect :: "CommitmentSide \<Rightarrow> SimulatedFill \<Rightarrow> rat" where
  "cash_effect side f = (let amount = dmul (fi_quantity f) (fi_execution_price f) in
     if side = COMMIT_BUY then dadd amount (cost_total (fi_costs f)) else dsub amount (cost_total (fi_costs f)))"

definition fill_mismatch :: "CommitmentRecord \<Rightarrow> SimulatedFill \<Rightarrow> bool result" where
  "fill_mismatch item f =
     (if fi_cost_model_id f \<noteq> cm_model_id (ct_cost_model (ct item)) then Inr True
      else rbind (calculate_costs (ct_cost_model (ct item)) (fi_quantity f) (fi_execution_price f)) (\<lambda>c.
        Inr (fi_costs f \<noteq> c \<or> (r_side item = COMMIT_BUY \<and> (case ct_upper_price (ct item) of None \<Rightarrow> True
          | Some upper \<Rightarrow> upper < fi_execution_price f)))))"

definition transition_sources ::
  "CommitmentRecord list \<Rightarrow> PortfolioAllocation \<Rightarrow> PortfolioAdmission list \<Rightarrow> CommitmentRecord \<Rightarrow> CommitmentRecord \<Rightarrow> unit result" where
  "transition_sources earlier allocation admissions prior item = (case (ct_source_oms (ct item), ct_source_ledger (ct item)) of
     (Some oms, Some ledger) \<Rightarrow>
       rbind (validate_financial_extension earlier oms ledger admissions None) (\<lambda>_.
       rbind (verify_currency oms ledger (al_currency allocation)) (\<lambda>_.
       rbind (reconcile oms ledger) (\<lambda>rec.
       rbind (require_performance rec) (\<lambda>_.
       portfolio_raise (case oms_order oms (r_order item) of None \<Rightarrow> True
         | Some c \<Rightarrow> rec_order c \<noteq> ct_original_order (ct item) \<or> rec_status c \<noteq> ct_order_status (ct item)
             \<or> rec_filled_quantity c \<noteq> ct_filled_quantity (ct item)) ''commitment transition OMS mismatch''
       (let fills = order_fills oms (r_order item) in
        portfolio_raise (dsum (map (cash_effect (r_side item)) fills) \<noteq> ct_actual_cash_effect (ct item))
          ''commitment fill costs or cash mismatch''
        (rbind (any_result (fill_mismatch item) fills) (\<lambda>bad.
         portfolio_raise bad ''commitment fill costs or cash mismatch''
         (portfolio_raise (omits_history ledger prior) ''commitment ledger history truncated or replaced'' (Inr ())))))))))
   | _ \<Rightarrow> Inl (Err PortfolioConstructionError ''commitment transition sources missing''))"

definition transition_terms :: "CommitmentRecord \<Rightarrow> CommitmentRecord \<Rightarrow> unit result" where
  "transition_terms prior item =
     portfolio_raise (r_state prior = RELEASED \<or> ct_original_order (ct item) \<noteq> ct_original_order (ct prior)
         \<or> ct_cost_model (ct item) \<noteq> ct_cost_model (ct prior) \<or> ct_reservation_request item \<noteq> ct_reservation_request prior)
       ''conflicting commitment transition''
     (portfolio_raise (r_strategy item \<noteq> r_strategy prior \<or> ct_research_run_id (ct item) \<noteq> ct_research_run_id (ct prior)
         \<or> ct_quantity (ct item) \<noteq> ct_quantity (ct prior) \<or> ct_upper_price (ct item) \<noteq> ct_upper_price (ct prior)
         \<or> ct_unit_cash_ceiling (ct item) \<noteq> ct_unit_cash_ceiling (ct prior)) ''immutable commitment terms changed''
     (portfolio_raise (ct_filled_quantity (ct item) < ct_filled_quantity (ct prior)) ''filled quantity cannot decrease'' (Inr ())))"

definition history_step ::
  "CommitmentDigests \<Rightarrow> (RebalanceSchedule \<Rightarrow> CommitmentBook result) \<Rightarrow> PortfolioAllocation \<Rightarrow> PortfolioAdmission list \<Rightarrow>
   CommitmentRecord list \<Rightarrow> CommitmentRecord \<Rightarrow> CommitmentRecord list result" where
  "history_step D rb allocation admissions earlier item =
     rbind (record_source D earlier item) (\<lambda>request.
     rbind (record_terms item request) (\<lambda>_.
     rbind (record_checked allocation item) (\<lambda>_.
     rbind (case dict_get r_order (latest_records earlier) (r_order item) of
         None \<Rightarrow> initial_record D rb earlier allocation admissions item request
       | Some prior \<Rightarrow> rbind (transition_sources earlier allocation admissions prior item) (\<lambda>_. transition_terms prior item)) (\<lambda>_.
     Inr (earlier @ [item])))))"

definition validate_history ::
  "CommitmentDigests \<Rightarrow> (RebalanceSchedule \<Rightarrow> CommitmentBook result) \<Rightarrow> CommitmentRecord list \<Rightarrow> PortfolioAllocation \<Rightarrow>
   PortfolioAdmission list \<Rightarrow> unit result" where
  "validate_history D rb records allocation admissions =
     rbind (rfold (history_step D rb allocation admissions) [] records) (\<lambda>_. Inr ())"

section \<open>The constructor of a book\<close>

definition budget_runs_mismatch :: "PortfolioAllocation \<Rightarrow> PortfolioAdmission list \<Rightarrow> bool" where
  "budget_runs_mismatch allocation admissions \<longleftrightarrow> (\<exists>b\<in>set (dict_of bg_strategy_id (al_budgets allocation)).
     case dict_get admitted_strategy (dict_of admitted_strategy admissions) (bg_strategy_id b) of None \<Rightarrow> True
     | Some a \<Rightarrow> admitted_run a \<noteq> bg_research_run_id b)"

definition used_cash :: "CommitmentRecord list \<Rightarrow> string \<Rightarrow> rat" where
  "used_cash latest s = dsum (map (\<lambda>r. dadd (ct_actual_cash_effect (ct r)) (ct_reserved_cash (ct r)))
     (filter (\<lambda>r. r_strategy r = s \<and> r_side r = COMMIT_BUY) latest))"

definition budgets_step :: "PortfolioAllocation \<Rightarrow> CommitmentRecord list \<Rightarrow> nat \<Rightarrow> unit result" where
  "budgets_step allocation records n =
     (let latest = latest_records (take n records) in
      portfolio_raise (\<exists>b\<in>set (al_budgets allocation). budget_amount b < used_cash latest (bg_strategy_id b))
        ''commitment history budget overcommitment''
      (portfolio_raise (\<exists>r\<in>set latest. case dict_get bg_strategy_id (dict_of bg_strategy_id (al_budgets allocation)) (r_strategy r) of
           None \<Rightarrow> True | Some b \<Rightarrow> bg_research_run_id b \<noteq> ct_research_run_id (ct r))
        ''commitment history strategy-run mismatch'' (Inr ())))"

definition book_checks ::
  "CommitmentDigests \<Rightarrow> (RebalanceSchedule \<Rightarrow> CommitmentBook result) \<Rightarrow> CommitmentBook \<Rightarrow> CommitmentBook result" where
  "book_checks D rb b =
     (let allocation = bk_allocation b; admissions = bk_admissions b; records = bk_records b in
      rbind (unique_admissions D admissions) (\<lambda>_.
      rbind (portfolio_texts (bk_removed_strategies b) ''removed_strategies'' False) (\<lambda>_.
      portfolio_raise (\<not> set (bk_removed_strategies b) \<subseteq> set (map admitted_strategy admissions)) ''unknown removed strategy''
      (rbind (allocate_equal_budgets D admissions (Finite (cents_amount (al_total_cents allocation)))
          (al_currency allocation) (al_hypothetical allocation)) (\<lambda>again.
       portfolio_raise (again \<noteq> allocation) ''allocation/admission strategy-run or content mismatch''
       (portfolio_raise (budget_runs_mismatch allocation admissions) ''allocation/admission strategy-run identity mismatch''
       (rbind (validate_rebalance_transitions D rb b) (\<lambda>_.
        rbind (validate_history D rb records allocation admissions) (\<lambda>_.
        rbind (rmap (budgets_step allocation records) [1..<length records + 1]) (\<lambda>_.
        let expected = cd_book D (CommitmentBook allocation admissions records [] (bk_authority b)
              (bk_removed_strategies b) (bk_rebalance_transitions b)) in
        portfolio_raise (bk_evidence_digest b \<noteq> [] \<and> bk_evidence_digest b \<noteq> expected) ''commitment book digest mismatch''
          (Inr (CommitmentBook allocation admissions records expected (bk_authority b)
            (bk_removed_strategies b) (bk_rebalance_transitions b)))))))))))))"

text \<open>\<open>CommitmentBook(book.allocation, book.admissions, book.records, removed_strategies=\<dots>,
  rebalance_transitions=\<dots>)\<close>: digest and authority take their defaults.\<close>

definition fresh_book :: "CommitmentBook \<Rightarrow> CommitmentBook" where
  "fresh_book b = CommitmentBook (bk_allocation b) (bk_admissions b) (bk_records b) [] PORTFOLIO_AUTHORITY
     (bk_removed_strategies b) (bk_rebalance_transitions b)"

text \<open>The schedules the checks replay.\<close>

definition book_schedules :: "CommitmentBook \<Rightarrow> RebalanceSchedule set" where
  "book_schedules b = set (bk_rebalance_transitions b)
     \<union> {s. \<exists>r\<in>set (bk_records b). \<exists>q. ct_reservation_request r = Some q \<and> rq_schedule q = Some s}"

lemma rfold_cong_set: "(\<And>s x. x \<in> set xs \<Longrightarrow> f s x = g s x) \<Longrightarrow> rfold f s xs = rfold g s xs"
  by (induction xs arbitrary: s) (auto intro: rbind_cong)

lemma book_checks_cong [fundef_cong]:
  assumes "D = D'" and "b = b'" and "\<And>s. s \<in> book_schedules b' \<Longrightarrow> rb s = rb' s"
  shows "book_checks D rb b = book_checks D' rb' b'"
proof -
  have s: "validate_scheduled_request D rb q al ad rs = validate_scheduled_request D rb' q al ad rs"
    if "r \<in> set (bk_records b)" "ct_reservation_request r = Some q" for r q al ad rs
  proof (cases "rq_schedule q")
    case (Some x)
    then have "rb x = rb' x" using assms(2) that by (intro assms(3)) (auto simp: book_schedules_def)
    then show ?thesis by (simp add: validate_scheduled_request_def Some)
  qed (simp add: validate_scheduled_request_def)
  have "validate_history D rb (bk_records b) al ad = validate_history D rb' (bk_records b) al ad" for al ad
    unfolding validate_history_def
  proof (intro rbind_cong [OF rfold_cong_set] refl)
    fix earlier item assume item: "item \<in> set (bk_records b)"
    show "history_step D rb al ad earlier item = history_step D rb' al ad earlier item"
    proof (cases "record_source D earlier item")
      case (Inr request)
      then have "ct_reservation_request item = Some request" by (auto simp: record_source_def Let_def split: option.splits)
      from s [OF item this] have eq: "initial_record D rb earlier al ad item request = initial_record D rb' earlier al ad item request"
        by (simp add: initial_record_def)
      show ?thesis unfolding history_step_def Inr rbind.simps eq ..
    qed (simp add: history_step_def)
  qed
  moreover have "validate_rebalance_transitions D rb b = validate_rebalance_transitions D rb' b"
    unfolding validate_rebalance_transitions_def
    by (intro rbind_cong [OF rfold_cong_set] refl) (use assms(2,3) in \<open>simp add: transition_step_def book_schedules_def\<close>)
  ultimately show ?thesis using assms(1,2) by (simp add: book_checks_def)
qed

lemma retained_smaller:
  assumes "s \<in> book_schedules b"
  shows "size (fresh_book (sch_retained_book s)) < size b"
proof -
  have fresh: "size (fresh_book x) = size x" for x by (cases x) (simp add: fresh_book_def)
  have s: "size (sch_retained_book s) < size s" by (cases s) simp
  consider "s \<in> set (bk_rebalance_transitions b)"
    | r q where "r \<in> set (bk_records b)" "ct_reservation_request r = Some q" "rq_schedule q = Some s"
    using assms by (auto simp: book_schedules_def)
  then have "size s < size b"
  proof cases
    case 1
    then have "size s \<le> size_list size (bk_rebalance_transitions b)" by (rule size_list_estimation') simp
    then show ?thesis by (cases b) simp
  next
    case 2
    have "size s < size r" by (cases r; cases q) (use 2(2,3) in auto)
    moreover from 2(1) have "size r \<le> size_list size (bk_records b)" by (rule size_list_estimation') simp
    ultimately show ?thesis by (cases b) simp
  qed
  with s show ?thesis by (simp add: fresh)
qed

function CommitmentBook_init :: "CommitmentDigests \<Rightarrow> CommitmentBook \<Rightarrow> CommitmentBook result" where
  "CommitmentBook_init D b = book_checks D (\<lambda>s. CommitmentBook_init D (fresh_book (sch_retained_book s))) b"
  by pat_completeness auto
termination
  by (relation "measure (\<lambda>(_, b). size b)") (simp_all add: retained_smaller)

declare CommitmentBook_init.simps [simp del]

definition rebuild_book :: "CommitmentDigests \<Rightarrow> CommitmentBook \<Rightarrow> CommitmentBook result" where
  "rebuild_book D b = CommitmentBook_init D (fresh_book b)"

definition retained :: "CommitmentDigests \<Rightarrow> RebalanceSchedule \<Rightarrow> CommitmentBook result" where
  "retained D s = rebuild_book D (sch_retained_book s)"

section \<open>Operations\<close>

definition create_commitment_book ::
  "CommitmentDigests \<Rightarrow> PortfolioAllocation \<Rightarrow> PortfolioAdmission list \<Rightarrow> CommitmentBook result" where
  "create_commitment_book D allocation admissions = CommitmentBook_init D
     (CommitmentBook allocation (sort_key admitted_strategy admissions) [] [] PORTFOLIO_AUTHORITY [] [])"

definition check_book :: "CommitmentDigests \<Rightarrow> CommitmentBook \<Rightarrow> unit result" where
  "check_book D b = rbind (rebuild_book D b) (\<lambda>again.
     portfolio_raise (b \<noteq> again) ''commitment book content substitution'' (Inr ()))"

text \<open>The book with one record more; digest and authority are computed anew.\<close>

definition extend_book :: "CommitmentDigests \<Rightarrow> CommitmentBook \<Rightarrow> CommitmentRecord \<Rightarrow> CommitmentBook result" where
  "extend_book D b r = CommitmentBook_init D (CommitmentBook (bk_allocation b) (bk_admissions b) (bk_records b @ [r]) []
     PORTFOLIO_AUTHORITY (bk_removed_strategies b) (bk_rebalance_transitions b))"

definition spent_or_reserved :: "CommitmentRecord \<Rightarrow> rat" where
  "spent_or_reserved r = dadd (ct_reserved_cash (ct r)) (if r_side r = COMMIT_BUY then ct_actual_cash_effect (ct r) else 0)"

definition reserve_fields ::
  "CommitmentBook \<Rightarrow> CommitmentRequest \<Rightarrow> CommitmentSide \<Rightarrow> rat \<Rightarrow> rat \<Rightarrow> rat option \<Rightarrow> rat option \<Rightarrow> string option \<Rightarrow>
   string option \<Rightarrow> ExecutionCostModel \<Rightarrow> RecordFields" where
  "reserve_fields b request side cash holding upper unit model evidence approved =
     (let order = rq_order (rq request) in
      \<lparr>ct_sequence = length (bk_records b) + 1, ct_strategy_id = rq_strategy_id (rq request),
       ct_research_run_id = run_text (so_research_run_id order), ct_order_id = so_order_id order,
       ct_instrument_id = so_instrument_id order, ct_side = side, ct_quantity = so_quantity order, ct_filled_quantity = 0,
       ct_reserved_cash = cash, ct_reserved_holding = holding, ct_actual_cash_effect = 0, ct_state = RESERVED,
       ct_upper_price = upper, ct_unit_cash_ceiling = unit, ct_cost_model_id = model, ct_ceiling_evidence_digest = evidence,
       ct_order_status = ACCEPTED,
       ct_predecessor_digest = (if bk_records b = [] then None else Some (ct_record_digest (ct (last (bk_records b))))),
       ct_record_digest = [], ct_original_order = order, ct_cost_model = approved,
       ct_source_oms = rq_holdings_oms (rq request), ct_source_ledger = rq_holdings_ledger (rq request)\<rparr>)"

definition reserve_buy :: "CommitmentBook \<Rightarrow> CommitmentRequest \<Rightarrow> StrategyBudget \<Rightarrow> RecordFields result" where
  "reserve_buy b request budget =
     (let order = rq_order (rq request); latest = latest_records (bk_records b) in
      case rq_price_cost_ceiling (rq request) of
        None \<Rightarrow> Inl (Err PortfolioConstructionError ''current qualified buy ceiling required'')
      | Some cap \<Rightarrow>
          portfolio_raise (\<not> pc_current cap) ''current qualified buy ceiling required''
          (portfolio_raise (pc_currency cap \<noteq> so_currency order
              \<or> instant (so_decision_time order) < instant (pc_available_at cap)) ''buy ceiling timing or currency mismatch''
          (rbind (largest_cost (pc_cost_model cap) (so_quantity order) (pc_upper_price cap)) (\<lambda>raw_maximum.
           rbind (ceil_cents raw_maximum) (\<lambda>maximum.
           let unit = ddiv raw_maximum (so_quantity order);
               strategy_used = dsum (map spent_or_reserved (filter (\<lambda>r. r_strategy r = rq_strategy_id (rq request)) latest));
               portfolio_used = dsum (map spent_or_reserved latest) in
           portfolio_raise (budget_amount budget < dadd strategy_used maximum) ''strategy budget overcommitment''
           (portfolio_raise (cents_amount (al_total_cents (bk_allocation b)) < dadd portfolio_used maximum)
             ''portfolio cash overcommitment''
           (Inr (reserve_fields b request COMMIT_BUY maximum 0 (Some (pc_upper_price cap)) (Some unit)
             (Some (cm_model_id (pc_cost_model cap))) (Some (digest_text (pc_evidence_digest cap)))
             (pc_cost_model cap)))))))))"

definition reserve_sell :: "CommitmentBook \<Rightarrow> CommitmentRequest \<Rightarrow> RecordFields result" where
  "reserve_sell b request =
     (let order = rq_order (rq request); records = bk_records b in
      case (rq_holdings_ledger (rq request), rq_holdings_as_of (rq request)) of
        (Some ledger, Some as_of) \<Rightarrow>
          rbind (case rq_holdings_oms (rq request) of None \<Rightarrow> Inr ()
            | Some oms \<Rightarrow> validate_financial_extension records oms ledger (bk_admissions b) (Some as_of)) (\<lambda>_.
          portfolio_raise (instant as_of \<noteq> instant (so_decision_time order)) ''sell holding evidence is stale''
          (case rq_execution_cost_model (rq request) of
             None \<Rightarrow> Inl (Err PortfolioConstructionError ''sell requires approved execution cost model'')
           | Some approved \<Rightarrow>
               portfolio_raise (lg_currency ledger \<noteq> al_currency (bk_allocation b)) ''holding currency mismatch''
               (case (rq_holdings_oms (rq request), rq_holdings_reconciliation (rq request)) of
                  (Some oms, Some given) \<Rightarrow>
                    rbind (reconcile oms ledger) (\<lambda>rec.
                    portfolio_raise (rec \<noteq> given) ''holding reconciliation substitution''
                    (rbind (require_performance given) (\<lambda>_.
                     rbind (ledger_replay (lg_currency ledger) (lg_events ledger)) (\<lambda>again.
                     portfolio_raise (again \<noteq> ledger) ''holding ledger replay mismatch''
                     (portfolio_raise (\<exists>e\<in>set (lg_events ledger). instant as_of < instant (ev_occurred_at e))
                       ''holding evidence is after decision cutoff''
                     (portfolio_raise (\<not> sorted (map (\<lambda>e. instant (ev_occurred_at e)) (lg_events ledger)))
                       ''holding event chronology mismatch''
                     (portfolio_raise (\<exists>r\<in>set records. omits_history ledger r)
                       ''stale holding ledger omits known financial history''
                     (portfolio_raise (\<exists>e\<in>set (lg_events ledger).
                         run_text (ev_research_run_id e) \<notin> set (map admitted_run (bk_admissions b)))
                       ''foreign holding research run''
                     (rbind (holding_at ledger (run_text (so_research_run_id order)) (so_instrument_id order) as_of) (\<lambda>held.
                      portfolio_raise (held < dadd (so_quantity order)
                          (already_reserved (active_records records) (rq_strategy_id (rq request)) (so_instrument_id order)))
                        ''unsupported short sale or sell overcommitment''
                      (Inr (reserve_fields b request COMMIT_SELL 0 (so_quantity order) None None None None approved))))))))))))
                | _ \<Rightarrow> Inl (Err PortfolioConstructionError ''sell requires reconciled OMS holding evidence''))))
      | _ \<Rightarrow> Inl (Err PortfolioConstructionError ''sell requires authoritative holding ledger and as-of time''))"

definition reserve_one :: "CommitmentDigests \<Rightarrow> CommitmentBook \<Rightarrow> CommitmentRequest \<Rightarrow> CommitmentBook result" where
  "reserve_one D b request =
     (let order = rq_order (rq request); strategy = rq_strategy_id (rq request);
          admission = find_first (\<lambda>a. admitted_strategy a = strategy) (bk_admissions b);
          budget = allocation_budget (bk_allocation b) strategy in
      rbind (portfolio_text strategy ''strategy_id'') (\<lambda>_.
      portfolio_raise (strategy \<in> set (bk_removed_strategies b)) ''removed strategy cannot add obligations''
      (rbind (validate_scheduled_request D (retained D) request (bk_allocation b) (bk_admissions b) (bk_records b)) (\<lambda>_.
       case (admission, budget) of
         (Some a, Some bg) \<Rightarrow>
           portfolio_raise (pa_admission_class a \<noteq> EVIDENCE_SUPPORTED_RESEARCH_ELIGIBILITY \<and> \<not> al_hypothetical (bk_allocation b))
             ''strategy is not allocated and evidence-supported''
           (portfolio_raise (run_text (so_research_run_id order) \<noteq> admitted_run a) ''order research-run attribution mismatch''
           (portfolio_raise (instant (so_release_at order) \<le> instant (so_decision_time order))
             ''same-close or retrospective order release''
           (portfolio_raise (\<exists>r\<in>set (bk_records b). r_order r = so_order_id order) ''duplicate commitment order identity''
           (portfolio_raise (so_currency order \<noteq> al_currency (bk_allocation b)) ''commitment currency mismatch''
           (rbind (case so_side order of BUY \<Rightarrow> reserve_buy b request bg | SELL \<Rightarrow> reserve_sell b request) (\<lambda>f.
            extend_book D b (make_record D f (Some request))))))))
       | _ \<Rightarrow> Inl (Err PortfolioConstructionError ''strategy is not allocated and evidence-supported'')))))"

definition request_key :: "CommitmentRequest \<Rightarrow> int \<times> string \<times> string" where
  "request_key q = (instant (so_release_at (rq_order (rq q))), rq_strategy_id (rq q), uuid_hex (order_uuid (so_order_id (rq_order (rq q)))))"

definition reserve_commitments :: "CommitmentDigests \<Rightarrow> CommitmentBook \<Rightarrow> CommitmentRequest list \<Rightarrow> CommitmentBook result" where
  "reserve_commitments D b requests = rbind (check_book D b) (\<lambda>_.
     rfold (reserve_one D) b (sort_key request_key requests))"

text \<open>The checks of one fill in \<open>reconcile_commitment\<close>.\<close>

definition commitment_fill_step ::
  "CommitmentBook \<Rightarrow> CommitmentRecord \<Rightarrow> OrderRecord \<Rightarrow> SimulatedFill \<Rightarrow> unit result" where
  "commitment_fill_step b prior order_record f =
     portfolio_raise (fi_cost_model_id f \<noteq> cm_model_id (ct_cost_model (ct prior)))
       ''fill exceeds approved price or cost model parameters''
     (rbind (calculate_costs (ct_cost_model (ct prior)) (fi_quantity f) (fi_execution_price f)) (\<lambda>costs.
      portfolio_raise (fi_costs f \<noteq> costs) ''fill exceeds approved price or cost model parameters''
      (portfolio_raise (fi_instrument_id f \<noteq> ct_instrument_id (ct prior)
          \<or> run_text (fi_research_run_id f) \<noteq> ct_research_run_id (ct prior)
          \<or> fi_currency f \<noteq> al_currency (bk_allocation b)
          \<or> instant (fi_execution_at f) \<le> instant (so_release_at (rec_order order_record)))
        ''fill identity, currency, or chronology mismatch''
      (portfolio_raise (r_side prior = COMMIT_BUY \<and> (case ct_upper_price (ct prior) of None \<Rightarrow> True
          | Some upper \<Rightarrow> upper < fi_execution_price f \<or> Some (fi_cost_model_id f) \<noteq> ct_cost_model_id (ct prior)))
        ''fill exceeds approved price or cost model'' (Inr ())))))"

text \<open>What stays reserved for an order: state, cash and holding.\<close>

definition remaining_liability ::
  "CommitmentBook \<Rightarrow> CommitmentRecord \<Rightarrow> OrderStatus \<Rightarrow> rat \<Rightarrow> rat \<Rightarrow> (CommitmentState \<times> rat \<times> rat) result" where
  "remaining_liability b prior status filled remaining =
     (if status \<in> {CANCELLED, REJECTED, UNFILLED, FULLY_FILLED} then Inr (RELEASED, 0, 0)
      else
        let state = (if filled \<noteq> 0 then COMMIT_PARTIALLY_FILLED else RESERVED) in
        if r_side prior = COMMIT_BUY then
          portfolio_raise (ct_upper_price (ct prior) = None \<or> ct_cost_model_id (ct prior) = None) ''buy commitment ceiling is incomplete''
          (portfolio_raise (find_first (\<lambda>r. r_order r = r_order prior \<and> ct_upper_price (ct r) \<noteq> None) (rev (bk_records b)) = None)
            ''buy commitment history is incomplete''
          (case ct_unit_cash_ceiling (ct prior) of
             None \<Rightarrow> Inl (Err PortfolioConstructionError ''buy unit cash ceiling is missing'')
           | Some unit \<Rightarrow> rbind (ceil_cents (dmul unit remaining)) (\<lambda>cash. Inr (state, cash, 0))))
        else Inr (state, 0, remaining))"

definition buy_totals :: "CommitmentBook \<Rightarrow> CommitmentRecord \<Rightarrow> rat \<Rightarrow> rat \<Rightarrow> unit result" where
  "buy_totals b prior actual cash =
     (let others = filter (\<lambda>r. r_order r \<noteq> r_order prior) (latest_records (bk_records b));
          liability = (\<lambda>r. dadd (if r_side r = COMMIT_BUY then ct_actual_cash_effect (ct r) else 0) (ct_reserved_cash (ct r)));
          strategy_total = dadd (dadd actual cash) (dsum (map liability (filter (\<lambda>r. r_strategy r = r_strategy prior) others)));
          portfolio_total = dadd (dadd actual cash) (dsum (map liability others)) in
      portfolio_raise (case allocation_budget (bk_allocation b) (r_strategy prior) of None \<Rightarrow> True
        | Some bg \<Rightarrow> budget_amount bg < strategy_total) ''partial-fill strategy liability exceeds budget''
      (portfolio_raise (cents_amount (al_total_cents (bk_allocation b)) < portfolio_total)
        ''partial-fill portfolio liability exceeds cash'' (Inr ())))"

definition reconcile_commitment ::
  "CommitmentDigests \<Rightarrow> CommitmentBook \<Rightarrow> OrderId \<Rightarrow> SimulatedOms \<Rightarrow> SimulationLedger \<Rightarrow> CommitmentBook result" where
  "reconcile_commitment D b i oms ledger =
     rbind (check_book D b) (\<lambda>_.
     rbind (verify_currency oms ledger (al_currency (bk_allocation b))) (\<lambda>_.
     portfolio_raise (\<exists>r\<in>set (bk_records b). omits_history ledger r) ''commitment ledger history is stale''
     (rbind (validate_financial_extension (bk_records b) oms ledger (bk_admissions b) None) (\<lambda>_.
      rbind (reconcile oms ledger) (\<lambda>rec.
      rbind (require_performance rec) (\<lambda>_.
      rbind (latest_record (bk_records b) i) (\<lambda>prior.
      portfolio_raise (r_state prior = RELEASED) ''released commitment cannot transition''
      (case oms_order oms i of
         None \<Rightarrow> Inl (Err PortfolioConstructionError ''OMS order attribution mismatch'')
       | Some order_record \<Rightarrow>
           portfolio_raise (rec_order order_record \<noteq> ct_original_order (ct prior)) ''OMS order attribution mismatch''
           (let fills = order_fills oms i in
            portfolio_raise (\<not> fills_ordered fills) ''fill chronology is not monotone''
            (rbind (rmap (commitment_fill_step b prior order_record) fills) (\<lambda>_.
             let filled = dsum (map fi_quantity fills);
                 actual = dsum (map (cash_effect (r_side prior)) fills);
                 remaining = dsub (ct_quantity (ct prior)) filled in
             portfolio_raise (remaining < 0) ''fills exceed committed quantity''
             (rbind (remaining_liability b prior (rec_status order_record) filled remaining) (\<lambda>(state, cash, holding).
              rbind (if r_side prior = COMMIT_BUY then buy_totals b prior actual cash else Inr ()) (\<lambda>_.
              extend_book D b (make_record D ((ct prior)\<lparr>ct_sequence := length (bk_records b) + 1,
                ct_filled_quantity := filled, ct_reserved_cash := cash, ct_reserved_holding := holding,
                ct_actual_cash_effect := actual, ct_state := state, ct_order_status := rec_status order_record,
                ct_predecessor_digest := Some (ct_record_digest (ct (last (bk_records b)))),
                ct_source_oms := Some oms, ct_source_ledger := Some ledger\<rparr>) (ct_reservation_request prior))))))))))))))))"

definition schedule_monthly_rebalance ::
  "CommitmentDigests \<Rightarrow> CalendarSessionResolutionResult \<Rightarrow> CalendarSessionResolutionResult \<Rightarrow>
   CalendarSessionResolutionResult list \<Rightarrow> Timestamp \<Rightarrow> string list \<Rightarrow> string list \<Rightarrow> CalendarInput list \<Rightarrow>
   CommitmentBook option \<Rightarrow> SimulatedOms option \<Rightarrow> SimulationLedger option \<Rightarrow> RebalanceSchedule result" where
  "schedule_monthly_rebalance D final next sequence decision preserved removed inputs commitments oms ledger =
     schedule_with D (case commitments of None \<Rightarrow> Inl (Err InsufficientEvidenceError []) | Some b \<Rightarrow> rebuild_book D b)
       final next sequence decision preserved removed inputs commitments oms ledger"

definition carry_forward_rebalance :: "CommitmentDigests \<Rightarrow> RebalanceSchedule \<Rightarrow> CommitmentBook result" where
  "carry_forward_rebalance D s =
     rbind (schedule_monthly_rebalance D (sf_final_session (sch s)) (sf_next_session (sch s))
       [sf_final_session (sch s), sf_next_session (sch s)] (sf_decision_time (sch s)) (sf_preserved_obligations (sch s))
       (sf_removed_strategies (sch s)) (sf_calendar_inputs (sch s)) (Some (sch_retained_book s))
       (Some (sf_source_oms (sch s))) (Some (sf_source_ledger (sch s)))) (\<lambda>rebuilt.
     portfolio_raise (rebuilt \<noteq> s) ''rebalance schedule substitution''
     (let b = sch_retained_book s in
      CommitmentBook_init D (CommitmentBook (bk_allocation b) (bk_admissions b) (bk_records b) [] PORTFOLIO_AUTHORITY
        (sorted_set (bk_removed_strategies b @ sf_removed_strategies (sch s))) (bk_rebalance_transitions b @ [s]))))"

section \<open>Feasibility of the reservations\<close>

definition total_up :: "('k \<times> rat) list \<Rightarrow> 'k \<times> rat \<Rightarrow> ('k \<times> rat) list" where
  "total_up d p = dict_put fst (fst p, dadd (case dict_get fst d (fst p) of None \<Rightarrow> 0 | Some e \<Rightarrow> snd e) (snd p)) d"

definition current_reservation_issues ::
  "CommitmentDigests \<Rightarrow> CommitmentBook \<Rightarrow> SimulatedOms \<Rightarrow> SimulationLedger \<Rightarrow> Timestamp \<Rightarrow> string list result" where
  "current_reservation_issues D b oms ledger cutoff =
     rbind (check_book D b) (\<lambda>_.
     rbind (verify_currency oms ledger (al_currency (bk_allocation b))) (\<lambda>_.
     rbind (reconcile oms ledger) (\<lambda>rec.
     rbind (require_performance rec) (\<lambda>_.
     rbind (if bk_admissions b = [] then Inr ()
       else validate_financial_extension (bk_records b) oms ledger (bk_admissions b) (Some cutoff)) (\<lambda>_.
     let active = active_records (bk_records b);
         sells = filter (\<lambda>r. r_side r = COMMIT_SELL) active;
         totals = foldl total_up [] (map (\<lambda>r. ((ct_research_run_id (ct r), ct_instrument_id (ct r)), ct_reserved_holding (ct r))) sells);
         aggregate = foldl total_up [] (map (\<lambda>r. (ct_instrument_id (ct r), ct_reserved_holding (ct r))) sells);
         reserved_cash = dsum (map (\<lambda>r. ct_reserved_cash (ct r)) (filter (\<lambda>r. r_side r = COMMIT_BUY) active));
         cash_issue = (if ls_cash (lg_state ledger) < reserved_cash then [''INFEASIBLE_RESERVATION:cash''] else []) in
     rbind (rmap (\<lambda>((run, i), reserved). rbind (holding_at ledger run i cutoff) (\<lambda>held.
         Inr (if held < reserved then [''INFEASIBLE_RESERVATION:'' @ run @ '':'' @ InstrumentId_to_string i] else []))) totals) (\<lambda>run_issues.
     let instrument_issues = map (\<lambda>(i, reserved).
           if (case position (lg_state ledger) i of None \<Rightarrow> 0 | Some p \<Rightarrow> pos_quantity p) < reserved
           then [''INFEASIBLE_RESERVATION:portfolio:'' @ InstrumentId_to_string i] else []) aggregate in
     Inr (sort (cash_issue @ concat run_issues @ concat instrument_issues))))))))"

end
