(* ===== verification/CommitmentSafety.thy ===== *)
theory CommitmentSafety
  imports Commitments
begin

text \<open>What the commitment book of \<open>research/portfolio_construction.py\<close> guarantees.  \<open>book_reach\<close> are the books
  reached from \<open>create_commitment_book\<close> by \<open>reserve_commitments\<close>, \<open>reconcile_commitment\<close> and
  \<open>carry_forward_rebalance\<close>; every reachable book is \<open>accepted\<close>, the outcome of the validating
  constructor, and the facts of \<open>validate_history\<close>, \<open>validate_rebalance_transitions\<close> and the budget scan
  hold of it at every prefix of its records.  The properties state that the book revalidates and only grows,
  that budgets are never overcommitted, how the records of an order continue one another, that sales are
  covered by holdings, that removed strategies stay out, when a rebalance is released, and that the order of
  the requests does not matter.  A sample book with a filled purchase, a reserved sale and a
  turn-of-the-month rebalance is reached step by step for the witnesses.\<close>

section \<open>What an accepted book satisfies\<close>

lemma init_unfold: "CommitmentBook_init D b = book_checks D (retained D) b"
  by (subst CommitmentBook_init.simps) (simp add: retained_def [abs_def] rebuild_book_def)

definition sealed :: "CommitmentDigests \<Rightarrow> CommitmentBook \<Rightarrow> CommitmentBook" where
  "sealed D b = CommitmentBook (bk_allocation b) (bk_admissions b) (bk_records b)
     (cd_book D (CommitmentBook (bk_allocation b) (bk_admissions b) (bk_records b) [] (bk_authority b)
       (bk_removed_strategies b) (bk_rebalance_transitions b))) (bk_authority b) (bk_removed_strategies b) (bk_rebalance_transitions b)"

lemma sealed_fields [simp]:
  "bk_allocation (sealed D b) = bk_allocation b" "bk_admissions (sealed D b) = bk_admissions b"
  "bk_records (sealed D b) = bk_records b" "bk_authority (sealed D b) = bk_authority b"
  "bk_removed_strategies (sealed D b) = bk_removed_strategies b"
  "bk_rebalance_transitions (sealed D b) = bk_rebalance_transitions b"
  by (simp_all add: sealed_def)

lemma init_Inr:
  assumes "CommitmentBook_init D b = Inr b'"
  shows "b' = sealed D b" and "unique_admissions D (bk_admissions b) = Inr ()"
    and "allocate_equal_budgets D (bk_admissions b) (Finite (cents_amount (al_total_cents (bk_allocation b))))
      (al_currency (bk_allocation b)) (al_hypothetical (bk_allocation b)) = Inr (bk_allocation b)"
    and "validate_rebalance_transitions D (retained D) b = Inr ()"
    and "validate_history D (retained D) (bk_records b) (bk_allocation b) (bk_admissions b) = Inr ()"
    and "\<And>n. 0 < n \<Longrightarrow> n \<le> length (bk_records b) \<Longrightarrow> budgets_step (bk_allocation b) (bk_records b) n = Inr ()"
proof -
  have run: "book_checks D (retained D) b = Inr b'" using assms by (simp add: init_unfold)
  then have "\<exists>ys. rmap (budgets_step (bk_allocation b) (bk_records b)) [1..<length (bk_records b) + 1] = Inr ys"
    by (auto simp: book_checks_def Let_def)
  then show "budgets_step (bk_allocation b) (bk_records b) n = Inr ()" if "0 < n" "n \<le> length (bk_records b)" for n
  proof -
    have "n \<in> set [1..<length (bk_records b) + 1]" using that by auto
    with \<open>\<exists>ys. rmap _ _ = Inr ys\<close> show ?thesis unfolding rmap_ok by (metis old.unit.exhaust)
  qed
  show "b' = sealed D b" "unique_admissions D (bk_admissions b) = Inr ()"
    "allocate_equal_budgets D (bk_admissions b) (Finite (cents_amount (al_total_cents (bk_allocation b))))
      (al_currency (bk_allocation b)) (al_hypothetical (bk_allocation b)) = Inr (bk_allocation b)"
    "validate_rebalance_transitions D (retained D) b = Inr ()"
    "validate_history D (retained D) (bk_records b) (bk_allocation b) (bk_admissions b) = Inr ()"
    using run by (auto simp: book_checks_def Let_def sealed_def)
qed

text \<open>An accepted book is accepted again, unchanged.\<close>

lemma transitions_fields:
  "bk_allocation b = bk_allocation c \<Longrightarrow> bk_admissions b = bk_admissions c \<Longrightarrow> bk_records b = bk_records c \<Longrightarrow>
   bk_removed_strategies b = bk_removed_strategies c \<Longrightarrow> bk_rebalance_transitions b = bk_rebalance_transitions c \<Longrightarrow>
   validate_rebalance_transitions D rb b = validate_rebalance_transitions D rb c"
  by (simp add: validate_rebalance_transitions_def transition_step_def [abs_def])

lemma fresh_book_fields [simp]:
  "bk_allocation (fresh_book b) = bk_allocation b" "bk_admissions (fresh_book b) = bk_admissions b"
  "bk_records (fresh_book b) = bk_records b" "bk_evidence_digest (fresh_book b) = []"
  "bk_authority (fresh_book b) = PORTFOLIO_AUTHORITY" "bk_removed_strategies (fresh_book b) = bk_removed_strategies b"
  "bk_rebalance_transitions (fresh_book b) = bk_rebalance_transitions b"
  by (simp_all add: fresh_book_def)

lemma init_again:
  assumes "CommitmentBook_init D b = Inr b'" and "bk_authority b = PORTFOLIO_AUTHORITY"
  shows "check_book D b' = Inr ()"
proof -
  have run: "book_checks D (retained D) b = Inr b'" and b': "b' = sealed D b"
    using assms(1) init_Inr(1) by (simp_all add: init_unfold)
  have "validate_rebalance_transitions D (retained D) (fresh_book b') = validate_rebalance_transitions D (retained D) b"
    by (rule transitions_fields) (simp_all add: b')
  then have "book_checks D (retained D) (fresh_book b') = Inr b'"
    using run unfolding book_checks_def Let_def by (auto simp: b' sealed_def assms(2))
  then show ?thesis by (simp add: check_book_def rebuild_book_def init_unfold)
qed

section \<open>Histories\<close>

lemma replace_first_last:
  "find_first (\<lambda>x. key x = k) (dict_put key x d) = (if key x = k then Some x else find_first (\<lambda>x. key x = k) d)"
proof (cases "\<exists>y\<in>set d. key y = key x")
  case True
  then show ?thesis
    using find_first_replace_same [of key x "key x" d] find_first_replace_other [of key x "key x" k d]
    by (auto simp: dict_put_def)
next
  case False
  then have none: "find_first (\<lambda>y. key y = key x) d = None" by (auto simp: find_first_None)
  then show ?thesis using False by (auto simp: dict_put_def find_first_append split: option.splits)
qed

lemma dict_get_last: "dict_get key (dict_of key xs) k = find_first (\<lambda>x. key x = k) (rev xs)"
proof (induction xs rule: rev_induct)
  case (snoc x xs)
  have "dict_of key (xs @ [x]) = dict_put key x (dict_of key xs)" by (simp add: dict_of_def)
  with snoc show ?case by (simp add: dict_get_def replace_first_last)
qed (simp add: dict_get_def dict_of_def)

text \<open>The last earlier occurrence of a key.\<close>

lemma find_last_index:
  assumes "find_first P (rev xs) = Some x"
  shows "\<exists>k<length xs. xs ! k = x \<and> P x \<and> (\<forall>i<length xs. P (xs ! i) \<longrightarrow> i \<le> k)"
  using assms
proof (induction xs rule: rev_induct)
  case (snoc y xs)
  show ?case
  proof (cases "P y")
    case True
    with snoc.prems show ?thesis by (intro exI [of _ "length xs"]) auto
  next
    case False
    with snoc obtain k where "k < length xs" "xs ! k = x" "P x" "\<forall>i<length xs. P (xs ! i) \<longrightarrow> i \<le> k" by auto
    with False show ?thesis by (intro exI [of _ k]) (auto simp: nth_append less_Suc_eq)
  qed
qed simp

lemma history_steps:
  assumes "rfold (history_step D rb al ad) earlier rs = Inr final" and "j < length rs"
  shows "final = earlier @ rs \<and> history_step D rb al ad (earlier @ take j rs) (rs ! j) = Inr (earlier @ take j rs @ [rs ! j])"
  using assms
proof (induction rs arbitrary: earlier j)
  case (Cons r rs)
  then obtain e where e: "history_step D rb al ad earlier r = Inr e" "rfold (history_step D rb al ad) e rs = Inr final" by auto
  have e': "e = earlier @ [r]" using e(1) by (auto simp: history_step_def)
  have final: "final = e @ rs"
  proof (cases rs)
    case (Cons a list)
    then show ?thesis using Cons.IH [OF e(2), of 0] by simp
  qed (use e in simp)
  show ?case
  proof (cases j)
    case 0
    then show ?thesis using e e' final by simp
  next
    case (Suc i)
    then show ?thesis using Cons.IH [OF e(2), of i] Cons.prems(2) by (simp add: e')
  qed
qed simp

lemma validate_history_step:
  assumes "validate_history D rb rs al ad = Inr ()" and "j < length rs"
  obtains request where "record_source D (take j rs) (rs ! j) = Inr request" "record_terms (rs ! j) request = Inr ()"
    "record_checked al (rs ! j) = Inr ()"
    "find_first (\<lambda>r. r_order r = r_order (rs ! j)) (rev (take j rs)) = None \<Longrightarrow>
       initial_record D rb (take j rs) al ad (rs ! j) request = Inr ()"
    "\<And>prior. find_first (\<lambda>r. r_order r = r_order (rs ! j)) (rev (take j rs)) = Some prior \<Longrightarrow>
       transition_sources (take j rs) al ad prior (rs ! j) = Inr () \<and> transition_terms prior (rs ! j) = Inr ()"
proof -
  obtain final where "rfold (history_step D rb al ad) [] rs = Inr final" using assms(1) by (auto simp: validate_history_def)
  from history_steps [OF this assms(2)]
  have step: "history_step D rb al ad (take j rs) (rs ! j) = Inr (take j rs @ [rs ! j])" by simp
  then obtain request where source: "record_source D (take j rs) (rs ! j) = Inr request" by (auto simp: history_step_def)
  show ?thesis
    by (rule that [OF source])
       (use step source in \<open>auto simp: history_step_def latest_records_def dict_get_last split: option.splits\<close>)
qed

text \<open>Two records of the same order, one after the other.\<close>

definition continues :: "CommitmentRecord \<Rightarrow> CommitmentRecord \<Rightarrow> bool" where
  "continues prior item \<longleftrightarrow> r_state prior \<noteq> RELEASED \<and> ct_original_order (ct item) = ct_original_order (ct prior)
     \<and> ct_cost_model (ct item) = ct_cost_model (ct prior) \<and> ct_reservation_request item = ct_reservation_request prior
     \<and> r_strategy item = r_strategy prior \<and> ct_research_run_id (ct item) = ct_research_run_id (ct prior)
     \<and> ct_quantity (ct item) = ct_quantity (ct prior) \<and> ct_upper_price (ct item) = ct_upper_price (ct prior)
     \<and> ct_unit_cash_ceiling (ct item) = ct_unit_cash_ceiling (ct prior)
     \<and> ct_filled_quantity (ct prior) \<le> ct_filled_quantity (ct item)"

lemma transition_terms_iff: "transition_terms prior item = Inr () \<longleftrightarrow> continues prior item"
  by (auto simp: transition_terms_def continues_def not_less)

lemma history_continues:
  assumes hist: "validate_history D rb rs al ad = Inr ()"
    and "j < length rs" and "i < j" and "r_order (rs ! i) = r_order (rs ! j)"
  shows "continues (rs ! i) (rs ! j)"
  using assms(2-)
proof (induction j rule: less_induct)
  case (less j)
  let ?P = "\<lambda>r. r_order r = r_order (rs ! j)"
  have "rs ! i \<in> set (take j rs)" using less.prems by (auto simp: in_set_conv_nth intro!: exI [of _ i])
  then have "find_first ?P (rev (take j rs)) \<noteq> None" using less.prems(3) by (auto simp: find_first_None)
  then obtain prior where prior: "find_first ?P (rev (take j rs)) = Some prior" by blast
  obtain k where k: "k < j" "rs ! k = prior" "?P prior" "\<forall>m<j. ?P (rs ! m) \<longrightarrow> m \<le> k"
    using find_last_index [OF prior] less.prems(1) by auto
  have step: "continues (rs ! k) (rs ! j)"
    using validate_history_step [OF hist less.prems(1)] prior k(2) by (metis transition_terms_iff)
  have "i \<le> k" using k(4) less.prems(2,3) by blast
  show ?case
  proof (cases "i = k")
    case False
    then have "continues (rs ! i) (rs ! k)" using less.IH [of k] k less.prems \<open>i \<le> k\<close> by auto
    with step show ?thesis by (auto simp: continues_def)
  qed (use step in simp)
qed

section \<open>Reachable books\<close>

inductive book_step :: "CommitmentDigests \<Rightarrow> CommitmentBook \<Rightarrow> CommitmentBook \<Rightarrow> bool" for D where
  step_reserve: "reserve_commitments D b requests = Inr b' \<Longrightarrow> book_step D b b'"
| step_reconcile: "reconcile_commitment D b i oms ledger = Inr b' \<Longrightarrow> book_step D b b'"
| step_rebalance: "sch_retained_book s = b \<Longrightarrow> carry_forward_rebalance D s = Inr b' \<Longrightarrow> book_step D b b'"

inductive book_reach :: "CommitmentDigests \<Rightarrow> CommitmentBook \<Rightarrow> bool" for D where
  reach_create: "create_commitment_book D allocation admissions = Inr b \<Longrightarrow> book_reach D b"
| reach_book_step: "book_reach D b \<Longrightarrow> book_step D b b' \<Longrightarrow> book_reach D b'"

definition accepted :: "CommitmentDigests \<Rightarrow> CommitmentBook \<Rightarrow> bool" where
  "accepted D b \<longleftrightarrow> (\<exists>a. CommitmentBook_init D a = Inr b \<and> bk_authority a = PORTFOLIO_AUTHORITY)"

lemma accepted_facts:
  assumes "accepted D b"
  shows "check_book D b = Inr ()" and "unique_admissions D (bk_admissions b) = Inr ()"
    and "allocate_equal_budgets D (bk_admissions b) (Finite (cents_amount (al_total_cents (bk_allocation b))))
      (al_currency (bk_allocation b)) (al_hypothetical (bk_allocation b)) = Inr (bk_allocation b)"
    and "validate_rebalance_transitions D (retained D) b = Inr ()"
    and "validate_history D (retained D) (bk_records b) (bk_allocation b) (bk_admissions b) = Inr ()"
    and "\<And>n. 0 < n \<Longrightarrow> n \<le> length (bk_records b) \<Longrightarrow> budgets_step (bk_allocation b) (bk_records b) n = Inr ()"
proof -
  obtain a where a: "CommitmentBook_init D a = Inr b" "bk_authority a = PORTFOLIO_AUTHORITY"
    using assms by (auto simp: accepted_def)
  note facts = init_Inr [OF a(1)]
  have b: "b = sealed D a" by (rule facts)
  show "check_book D b = Inr ()" by (rule init_again [OF a])
  show "validate_rebalance_transitions D (retained D) b = Inr ()"
    using facts(4) transitions_fields [of b a] by (simp add: b)
  show "unique_admissions D (bk_admissions b) = Inr ()"
    "allocate_equal_budgets D (bk_admissions b) (Finite (cents_amount (al_total_cents (bk_allocation b))))
      (al_currency (bk_allocation b)) (al_hypothetical (bk_allocation b)) = Inr (bk_allocation b)"
    "validate_history D (retained D) (bk_records b) (bk_allocation b) (bk_admissions b) = Inr ()"
    "\<And>n. 0 < n \<Longrightarrow> n \<le> length (bk_records b) \<Longrightarrow> budgets_step (bk_allocation b) (bk_records b) n = Inr ()"
    using facts unfolding b by simp_all
qed

text \<open>How an operation extends a book.\<close>

definition extends :: "CommitmentBook \<Rightarrow> CommitmentBook \<Rightarrow> bool" where
  "extends b b' \<longleftrightarrow> bk_allocation b' = bk_allocation b \<and> bk_admissions b' = bk_admissions b
     \<and> prefix (bk_records b) (bk_records b') \<and> set (bk_removed_strategies b) \<subseteq> set (bk_removed_strategies b')
     \<and> prefix (bk_rebalance_transitions b) (bk_rebalance_transitions b')"

lemma extends_refl [simp]: "extends b b" and extends_trans: "extends b c \<Longrightarrow> extends c d \<Longrightarrow> extends b d"
  by (auto simp: extends_def dest: prefix_order.trans)

lemma extend_book_Inr:
  assumes "extend_book D b r = Inr b'"
  shows "accepted D b' \<and> extends b b' \<and> bk_records b' = bk_records b @ [r]"
proof -
  from assms have "accepted D b'" unfolding extend_book_def accepted_def by (intro exI conjI) auto
  moreover have "b' = sealed D (CommitmentBook (bk_allocation b) (bk_admissions b) (bk_records b @ [r]) []
     PORTFOLIO_AUTHORITY (bk_removed_strategies b) (bk_rebalance_transitions b))"
    using init_Inr(1) [OF assms [unfolded extend_book_def]] .
  ultimately show ?thesis by (simp add: extends_def)
qed

lemma reserve_one_Inr:
  "reserve_one D b q = Inr b' \<Longrightarrow> accepted D b' \<and> extends b b'"
  using extend_book_Inr by (auto simp: reserve_one_def Let_def split: option.splits OrderSide.splits)

lemma reserve_all_Inr:
  "rfold (reserve_one D) b qs = Inr b' \<Longrightarrow> accepted D b \<Longrightarrow> accepted D b' \<and> extends b b'"
proof (induction qs arbitrary: b)
  case (Cons q qs)
  then obtain c where "reserve_one D b q = Inr c" "rfold (reserve_one D) c qs = Inr b'" by auto
  with Cons.IH [of c] reserve_one_Inr show ?case by (blast intro: extends_trans)
qed simp

lemma book_step_extends:
  assumes "book_step D b b'" and "accepted D b"
  shows "accepted D b' \<and> extends b b'"
  using assms(1)
proof cases
  case (step_reserve requests)
  then show ?thesis using reserve_all_Inr assms(2) by (auto simp: reserve_commitments_def)
next
  case (step_reconcile i oms ledger)
  then show ?thesis
    using extend_book_Inr by (auto simp: reconcile_commitment_def Let_def split: option.splits)
next
  case (step_rebalance s)
  define a where "a = CommitmentBook (bk_allocation b) (bk_admissions b) (bk_records b) [] PORTFOLIO_AUTHORITY
        (sorted_set (bk_removed_strategies b @ sf_removed_strategies (sch s))) (bk_rebalance_transitions b @ [s])"
  have init: "CommitmentBook_init D a = Inr b'"
    using step_rebalance by (auto simp: carry_forward_rebalance_def Let_def a_def)
  moreover have "bk_authority a = PORTFOLIO_AUTHORITY" by (simp add: a_def)
  ultimately have "accepted D b'" unfolding accepted_def by blast
  moreover have "extends b b'" unfolding init_Inr(1) [OF init] by (simp add: a_def extends_def)
  ultimately show ?thesis ..
qed

lemma book_reach_accepted: "book_reach D b \<Longrightarrow> accepted D b"
proof (induction rule: book_reach.induct)
  case (reach_create allocation admissions b)
  then show ?case unfolding create_commitment_book_def accepted_def by (intro exI conjI) auto
next
  case (reach_book_step b b')
  then show ?case using book_step_extends by blast
qed

lemma record_checked_buy:
  assumes "record_checked al r = Inr ()" and "r_side r = COMMIT_BUY" and "r_state r \<noteq> RELEASED"
  shows "\<exists>unit. ct_unit_cash_ceiling (ct r) = Some unit
    \<and> dmul unit (dsub (ct_quantity (ct r)) (ct_filled_quantity (ct r))) \<le> ct_reserved_cash (ct r)"
  using assms
  by (auto simp: record_checked_def record_liability_def Let_def expected_state_def split: option.splits if_splits
      dest!: ceil_cents_bounds)

section \<open>Rebalancing\<close>

lemma adds_removed_False:
  assumes "\<not> adds_removed R K rs" and "j < length rs" and "r_strategy (rs ! j) \<in> R"
  shows "r_order (rs ! j) \<in> K \<or> (\<exists>i<j. r_order (rs ! i) = r_order (rs ! j))"
  using assms
proof (induction rs arbitrary: K j)
  case (Cons r rs)
  show ?case
  proof (cases j)
    case 0
    with Cons.prems show ?thesis by auto
  next
    case (Suc k)
    with Cons.IH [of "insert (r_order r) K" k] Cons.prems
    have "r_order (rs ! k) \<in> insert (r_order r) K \<or> (\<exists>i<k. r_order (rs ! i) = r_order (rs ! k))" by auto
    then show ?thesis unfolding Suc by (metis insertE nth_Cons_0 nth_Cons_Suc Suc_mono zero_less_Suc)
  qed
qed simp

lemma transition_run:
  assumes "rfold (transition_step D rb b) st ss = Inr st'" and "s \<in> set ss"
  shows "set (sf_removed_strategies (sch s)) \<subseteq> set (ts_removed st')
    \<and> (\<exists>st1 st2. transition_step D rb b st1 s = Inr st2)"
proof -
  have grows: "set (ts_removed x) \<subseteq> set (ts_removed y)" if "rfold (transition_step D rb b) x xs = Inr y" for x y xs
    using that by (induction xs arbitrary: x) (fastforce simp: transition_step_def Let_def)+
  show ?thesis using assms
  proof (induction ss arbitrary: st)
    case (Cons x xs)
    then obtain m where m: "transition_step D rb b st x = Inr m" "rfold (transition_step D rb b) m xs = Inr st'" by auto
    have "set (sf_removed_strategies (sch x)) \<subseteq> set (ts_removed m)" using m(1) by (auto simp: transition_step_def Let_def)
    with grows [OF m(2)] m(1) Cons.IH [OF m(2)] Cons.prems(2) show ?case by auto
  qed simp
qed

lemma civil_dates_set: "d \<in> set (civil_dates a e) \<longleftrightarrow> a \<le> d \<and> d \<le> e"
  by (auto simp: civil_dates_def image_iff intro!: bexI [of _ "nat (d - a)"])

lemma schedule_with_Inr:
  assumes "schedule_with D rebuilt final next sequence decision preserved removed inputs commitments oms ledger = Inr s"
  obtains b m l resolved where "commitments = Some b" "oms = Some m" "ledger = Some l"
    "obligations_step rebuilt b m l decision preserved removed = Inr ()"
    "map (\<lambda>i. cq_local_date (fst i)) inputs = civil_dates (csr_local_date final) (csr_local_date next)"
    "rmap (\<lambda>(q, c). resolve_calendar_session (cd_corpus D) (cd_calendar D) q c) inputs = Inr resolved"
    "resolved_dates_step inputs decision final next sequence resolved = Inr ()"
    "month_end_step final next sequence decision = Inr (sf_release_time (sch s))"
    "sch_retained_book s = b" "sf_decision_time (sch s) = decision" "sf_removed_strategies (sch s) = removed"
    "set removed \<subseteq> set preserved"
  using assms by (auto simp: schedule_with_def preserved_texts_def Let_def split: option.splits)

lemma month_end_step_Inr:
  "month_end_step final next sequence decision = Inr release \<Longrightarrow>
     csr_utc_open next = Some release \<and> (\<exists>close. csr_utc_close final = Some close \<and> instant close \<le> instant decision)
     \<and> instant decision < instant release \<and> month_of (csr_local_date final) \<noteq> month_of (csr_local_date next)
     \<and> csr_local_date final < csr_local_date next \<and> eligible_session final \<and> eligible_session next"
  by (auto simp: month_end_step_def Let_def not_less not_le split: option.splits)

text \<open>Every civil date between the two sessions was resolved, to one of them or to a day without a session.\<close>

lemma dates_resolved:
  assumes dates: "map (\<lambda>i. cq_local_date (fst i)) inputs = civil_dates (csr_local_date final) (csr_local_date next)"
    and run: "rmap (\<lambda>(q, c). resolve_calendar_session (cd_corpus D) (cd_calendar D) q c) inputs = Inr resolved"
    and checks: "resolved_dates_step inputs decision final next sequence resolved = Inr ()"
    and d: "csr_local_date final \<le> d" "d \<le> csr_local_date next"
  shows "\<exists>q c r. (q, c) \<in> set inputs \<and> cq_local_date q = d \<and> instant (cq_knowledge_cutoff q) \<le> instant decision
        \<and> resolve_calendar_session (cd_corpus D) (cd_calendar D) q c = Inr r
        \<and> (r = final \<or> r = next \<or> (csr_utc_open r = None \<and> csr_trading_day r \<noteq> None \<and> \<not> regular_day r))"
proof -
  have "d \<in> set (map (\<lambda>i. cq_local_date (fst i)) inputs)" using d by (simp add: dates civil_dates_set)
  then obtain k where k: "k < length inputs" "cq_local_date (fst (inputs ! k)) = d" by (auto simp: in_set_conv_nth)
  obtain q c where qc: "inputs ! k = (q, c)" by (cases "inputs ! k")
  have mem: "(q, c) \<in> set inputs" using k(1) qc by (metis nth_mem)
  have r: "resolve_calendar_session (cd_corpus D) (cd_calendar D) q c = Inr (resolved ! k)"
    using rmap_nth [OF run k(1)] qc by simp
  have in_r: "resolved ! k \<in> set resolved" using rmap_length [OF run] k(1) by simp
  have "instant (cq_knowledge_cutoff q) \<le> instant decision"
    using checks mem by (force simp: resolved_dates_step_def Let_def not_less)
  moreover have "resolved ! k = final \<or> resolved ! k = next
      \<or> (csr_utc_open (resolved ! k) = None \<and> csr_trading_day (resolved ! k) \<noteq> None \<and> \<not> regular_day (resolved ! k))"
  proof (cases "csr_utc_open (resolved ! k) = None")
    case True
    with checks in_r show ?thesis by (auto simp: resolved_dates_step_def Let_def)
  next
    case False
    then have "resolved ! k \<in> set (filter (\<lambda>r. csr_utc_open r \<noteq> None) resolved)" using in_r by simp
    also have "filter (\<lambda>r. csr_utc_open r \<noteq> None) resolved = [final, next]" using checks by (auto simp: resolved_dates_step_def Let_def)
    finally show ?thesis by auto
  qed
  ultimately show ?thesis using mem r k(2) qc by (intro exI [of _ q] exI [of _ c] exI [of _ "resolved ! k"]) auto
qed

lemma reserve_one_order:
  "reserve_one D b q = Inr b' \<Longrightarrow> so_order_id (rq_order (rq q)) \<notin> r_order ` set (bk_records b)
     \<and> r_order ` set (bk_records b') = insert (so_order_id (rq_order (rq q))) (r_order ` set (bk_records b))"
  by (auto simp: reserve_one_def Let_def make_record_def reserve_buy_def reserve_sell_def reserve_fields_def
      dest!: extend_book_Inr split: option.splits OrderSide.splits)

lemma reserved_orders_distinct:
  "rfold (reserve_one D) b qs = Inr b' \<Longrightarrow>
     distinct (map (\<lambda>q. so_order_id (rq_order (rq q))) qs)
     \<and> (\<forall>q\<in>set qs. so_order_id (rq_order (rq q)) \<notin> r_order ` set (bk_records b))"
proof (induction qs arbitrary: b)
  case (Cons q qs)
  then obtain c where c: "reserve_one D b q = Inr c" "rfold (reserve_one D) c qs = Inr b'" by auto
  from Cons.IH [OF c(2)] reserve_one_order [OF c(1)] show ?case by auto
qed simp

lemma request_key_order: "request_key p = request_key q \<Longrightarrow> so_order_id (rq_order (rq p)) = so_order_id (rq_order (rq q))"
  by (cases "so_order_id (rq_order (rq p))"; cases "so_order_id (rq_order (rq q))") (simp add: request_key_def)

section \<open>A sample book\<close>

definition book_digests :: CommitmentDigests where
  "book_digests = \<lparr>pd_robustness = (\<lambda>_. ''r''), pd_admission = (\<lambda>_. ''a''), pd_allocation = (\<lambda>_. ''b''), pd_stress = (\<lambda>_. ''s''),
     pd_oms = (\<lambda>_. ''o''), pd_ledger = (\<lambda>_. ''l''), pd_cost_model = (\<lambda>_. ''c''), cd_corpus = (\<lambda>_. sample_digest),
     cd_calendar = calendar_hex, cd_record = (\<lambda>_. ''record''), cd_book = (\<lambda>_. ''book''), cd_schedule = (\<lambda>_ _. ''schedule'')\<rparr>"

definition book_context :: "string \<Rightarrow> string \<Rightarrow> AssuranceContext" where
  "book_context s run = (sample_context s)\<lparr>ac_strategy := \<lparr>sb_strategy_id = s, sb_research_run_id = run,
     sb_decision_time = Timestamp 0, sb_output_digest = ''out''\<rparr>\<rparr>"

definition book_admission :: "string \<Rightarrow> string \<Rightarrow> PortfolioAdmission" where
  "book_admission s run = \<lparr>pa_source_context = book_context s run, pa_source_robustness = None,
     pa_admission_class = HYPOTHETICAL_PARTICIPATION,
     pa_strategy = \<lparr>sb_strategy_id = s, sb_research_run_id = run, sb_decision_time = Timestamp 0, sb_output_digest = ''out''\<rparr>,
     pa_context_digest = ''ctx'', pa_plan_digest = ''plan'', pa_admission_event_id = ''adm'', pa_dataset_id = ''ds'',
     pa_dataset_version = ''1'', pa_qualification_id = ''q'', pa_robustness_evidence_digest = None,
     pa_limitations = [''HYPOTHETICAL_PARTICIPATION'', ''RESEARCH_ELIGIBILITY_NOT_ESTABLISHED''],
     pa_permitted_conclusions = hypothetical_permissions, pa_evidence_digest = ''a'', pa_authority = PORTFOLIO_AUTHORITY\<rparr>"

definition book_admissions :: "PortfolioAdmission list" where
  "book_admissions = [book_admission ''MOM-001'' (run_text rc_run), book_admission ''TREND-001'' ''run'']"

definition book_allocation :: PortfolioAllocation where
  "book_allocation = \<lparr>al_currency = USD, al_total_cents = 2000,
     al_budgets = [\<lparr>bg_strategy_id = ''MOM-001'', bg_research_run_id = run_text rc_run, bg_cents = 1000\<rparr>,
       \<lparr>bg_strategy_id = ''TREND-001'', bg_research_run_id = ''run'', bg_cents = 1000\<rparr>],
     al_unallocated_cents = 0, al_evidence_digest = ''b'', al_authority = PORTFOLIO_AUTHORITY, al_hypothetical = True\<rparr>"

definition book_of :: "CommitmentRecord list \<Rightarrow> CommitmentBook" where
  "book_of rs = CommitmentBook book_allocation book_admissions rs ''book'' PORTFOLIO_AUTHORITY [] []"

definition free_model :: ExecutionCostModel where
  "free_model = \<lparr>cm_model_id = ''atis:simulation-cost-model:v1:m'', cm_scenario = EC0,
     cm_rates = map (\<lambda>c. \<lparr>cr_component = c, cr_basis_points = 0, cr_provenance = MODELLED,
       cr_evidence_digest = EvidenceContentDigest ''d''\<rparr>) all_components, cm_diagnostic_only = True\<rparr>"

definition buy_request :: CommitmentRequest where
  "buy_request = CommitmentRequest \<lparr>rq_strategy_id = ''MOM-001'', rq_order = rc_order 1 BUY 2,
     rq_price_cost_ceiling = Some \<lparr>pc_upper_price = 2, pc_available_at = Timestamp 90,
       pc_evidence_digest = EvidenceContentDigest ''e'', pc_currency = USD, pc_current = True, pc_cost_model = free_model\<rparr>,
     rq_holdings_ledger = None, rq_holdings_as_of = None, rq_holdings_oms = None, rq_holdings_reconciliation = None,
     rq_execution_cost_model = None\<rparr> None"

definition rc_reconciliation :: ReconciliationResult where
  "rc_reconciliation = reconciliation_result RECONCILED [] (Some rc_performance)"

definition sell_request :: CommitmentRequest where
  "sell_request = CommitmentRequest \<lparr>rq_strategy_id = ''MOM-001'',
     rq_order = (rc_order 2 SELL 1)\<lparr>so_decision_time := Timestamp 310, so_release_at := Timestamp 320\<rparr>,
     rq_price_cost_ceiling = None, rq_holdings_ledger = Some rc_l2, rq_holdings_as_of = Some (Timestamp 310),
     rq_holdings_oms = Some rc_m2, rq_holdings_reconciliation = Some rc_reconciliation,
     rq_execution_cost_model = Some free_model\<rparr> None"

definition buy_record :: CommitmentRecord where
  "buy_record = make_record book_digests (reserve_fields (book_of []) buy_request COMMIT_BUY 4 0 (Some 2) (Some 2)
     (Some ''atis:simulation-cost-model:v1:m'') (Some ''e'') free_model) (Some buy_request)"

definition fill_record :: CommitmentRecord where
  "fill_record = make_record book_digests ((ct buy_record)\<lparr>ct_sequence := 2, ct_filled_quantity := 2, ct_reserved_cash := 0,
     ct_reserved_holding := 0, ct_actual_cash_effect := 2, ct_state := RELEASED, ct_order_status := FULLY_FILLED,
     ct_predecessor_digest := Some ''record'', ct_source_oms := Some rc_m2, ct_source_ledger := Some rc_l2\<rparr>) (Some buy_request)"

definition sell_record :: CommitmentRecord where
  "sell_record = make_record book_digests (reserve_fields (book_of [buy_record, fill_record]) sell_request COMMIT_SELL 0 1
     None None None None free_model) (Some sell_request)"

section \<open>The sample book is reached\<close>

lemma rc_reconciled: "reconcile rc_m2 rc_l2 = Inr rc_reconciliation"
  using reconcile_reachable [OF rc_sim(1) rc_valid(1,2)]
  by (auto simp: conclude_def clean_def rc_performance_m2 rc_reconciliation_def)

lemma book_parts:
  "unique_admissions book_digests book_admissions = Inr ()"
  "sort_key admitted_strategy book_admissions = book_admissions"
  "allocate_equal_budgets book_digests book_admissions (Finite (cents_amount 2000)) USD True = Inr book_allocation"
  "\<not> budget_runs_mismatch book_allocation book_admissions"
proof -
  have cents: "exact_cents (Finite (cents_amount 2000)) ''total_capital'' = Inr 2000"
    by (simp add: exact_cents_def cents_amount_def portfolio_finite_def quantize_cent_def int_of_decimal_def small_amounts)
  show u: "unique_admissions book_digests book_admissions = Inr ()" by code_simp
  have le: "''MOM-001'' \<le> ''TREND-001''" by code_simp
  have names: "map admitted_strategy book_admissions = [''MOM-001'', ''TREND-001'']" 
    by (simp add: book_admissions_def book_admission_def)
  show s: "sort_key admitted_strategy book_admissions = book_admissions"
    by (rule sort_key_id_if_sorted) (simp add: names le)
  have "filter (eligible_admission True) book_admissions = book_admissions"
    by (simp add: eligible_admission_def book_admissions_def book_admission_def)
  then show "allocate_equal_budgets book_digests book_admissions (Finite (cents_amount 2000)) USD True = Inr book_allocation"
    by (simp add: allocate_equal_budgets_def u cents s Let_def)
     (simp add: book_allocation_def equal_budgets_def book_admissions_def book_admission_def book_digests_def)
  show "\<not> budget_runs_mismatch book_allocation book_admissions"
    by (simp add: budget_runs_mismatch_def book_allocation_def book_admissions_def book_admission_def dict_of_def dict_put_def dict_get_def Let_def)
qed

lemma book_of_fields [simp]:
  "bk_allocation (book_of rs) = book_allocation" "bk_admissions (book_of rs) = book_admissions"
  "bk_records (book_of rs) = rs" "bk_removed_strategies (book_of rs) = []" "bk_rebalance_transitions (book_of rs) = []"
  by (simp_all add: book_of_def)

lemma book_of_init:
  assumes "validate_history book_digests (retained book_digests) rs book_allocation book_admissions = Inr ()"
    and "\<exists>u. rmap (budgets_step book_allocation rs) [1..<length rs + 1] = Inr u"
  shows "CommitmentBook_init book_digests (CommitmentBook book_allocation book_admissions rs [] PORTFOLIO_AUTHORITY [] []) = Inr (book_of rs)"
proof -
  have a: "al_total_cents book_allocation = 2000" "al_currency book_allocation = USD" "al_hypothetical book_allocation"
    by (simp_all add: book_allocation_def)
  have "cd_book book_digests b = ''book''" for b by (simp add: book_digests_def)
  with assms book_parts a show ?thesis
    by (auto simp: init_unfold book_checks_def portfolio_texts_def validate_rebalance_transitions_def book_of_def
        sorted_set_def Let_def)
qed

lemma book_of_checked:
  assumes "validate_history book_digests (retained book_digests) rs book_allocation book_admissions = Inr ()"
    and "\<exists>u. rmap (budgets_step book_allocation rs) [1..<length rs + 1] = Inr u"
  shows "check_book book_digests (book_of rs) = Inr ()"
  using init_again [OF book_of_init [OF assms]] by simp

lemma sample_record_digest: "cd_record book_digests r = ''record''"
  by (simp add: book_digests_def)

text \<open>The fields of the sample records.\<close>

lemma buy_record_eq:
  "ct_reservation_request buy_record = Some buy_request"
  "ct buy_record = (reserve_fields (book_of []) buy_request COMMIT_BUY 4 0 (Some 2) (Some 2)
     (Some ''atis:simulation-cost-model:v1:m'') (Some ''e'') free_model)\<lparr>ct_record_digest := ''record''\<rparr>"
  by (simp_all add: buy_record_def make_record_def sample_record_digest)

lemma fill_record_eq:
  "ct_reservation_request fill_record = Some buy_request"
  "ct fill_record = (ct buy_record)\<lparr>ct_sequence := 2, ct_filled_quantity := 2, ct_reserved_cash := 0,
     ct_reserved_holding := 0, ct_actual_cash_effect := 2, ct_state := RELEASED, ct_order_status := FULLY_FILLED,
     ct_predecessor_digest := Some ''record'', ct_source_oms := Some rc_m2, ct_source_ledger := Some rc_l2,
     ct_record_digest := ''record''\<rparr>"
  by (simp_all add: fill_record_def make_record_def sample_record_digest)

lemma rc_order_fields:
  "so_order_id (rc_order n s q) = OrderId n" "so_side (rc_order n s q) = s" "so_quantity (rc_order n s q) = q"
  "so_currency (rc_order n s q) = USD" "so_decision_time (rc_order n s q) = Timestamp 100"
  "so_release_at (rc_order n s q) = Timestamp 200" "so_instrument_id (rc_order n s q) = sample_instrument"
  "so_research_run_id (rc_order n s q) = rc_run"
  by (simp_all add: rc_order_def sample_order_def USD_def)

lemma buy_request_fields:
  "rq_order (rq buy_request) = rc_order 1 BUY 2" "rq_strategy_id (rq buy_request) = ''MOM-001''"
  "rq_price_cost_ceiling (rq buy_request) = Some \<lparr>pc_upper_price = 2, pc_available_at = Timestamp 90,
       pc_evidence_digest = EvidenceContentDigest ''e'', pc_currency = USD, pc_current = True, pc_cost_model = free_model\<rparr>"
  "rq_holdings_oms (rq buy_request) = None" "rq_holdings_ledger (rq buy_request) = None" "rq_schedule buy_request = None"
  "rq_execution_cost_model (rq buy_request) = None"
  by (simp_all add: buy_request_def)

lemmas sample_record_fields = buy_record_eq fill_record_eq reserve_fields_def Let_def buy_request_fields rc_order_fields

lemma free_costs:
  assumes "0 < q" and "0 < p"
  shows "calculate_costs free_model q p = Inr \<lparr>cb_commission_fees = 0, cb_bid_ask_spread = 0, cb_slippage = 0,
     cb_market_impact = 0, cb_additional_friction = 0\<rparr>"
proof -
  have "component_cost (cm_rates free_model) v c = Inr 0" for v c
    by (cases c) (simp_all add: component_cost_def free_model_def all_components_def dict_of_def dict_put_def dict_get_def
        ddiv_def dmul_def)
  with assms show ?thesis
    by (simp add: calculate_costs_def finite_positive_def validate_cost_breakdown_def cost_fields_def)
qed

lemma free_model_fields: "cm_model_id free_model = ''atis:simulation-cost-model:v1:m''
  \<and> largest_cost free_model 2 2 = Inr 4 \<and> ceil_cents 4 = Inr 4 \<and> ddiv 4 2 = 2 \<and> dsub 2 2 = 0 \<and> dsub 2 0 = 2 \<and> dmul 2 2 = 4"
  by (simp add: ceil_cents_def quantize_cent_def largest_cost_def free_costs cost_total_def small_amounts)
    (simp add: free_model_def)

lemma buy_checks:
  "record_source book_digests [] buy_record = Inr buy_request"
  "record_terms buy_record buy_request = Inr ()"
  "record_checked book_allocation buy_record = Inr ()"
  "initial_record book_digests rb [] book_allocation book_admissions buy_record buy_request = Inr ()"
  by (simp_all add: record_source_def record_digest_of_def sample_record_digest record_terms_def ceiling_matches_def
      commitment_side_def record_checked_def record_liability_def terminal_status_def expected_state_def initial_record_def
      validate_scheduled_request_def free_model_fields sample_record_fields)
   (simp_all add: book_allocation_def)

lemma fill_checks:
  "record_source book_digests [buy_record] fill_record = Inr buy_request"
  "record_terms fill_record buy_request = Inr ()"
  "record_checked book_allocation fill_record = Inr ()"
  "transition_terms buy_record fill_record = Inr ()"
  by (simp_all add: record_source_def record_digest_of_def sample_record_digest record_terms_def ceiling_matches_def
      commitment_side_def record_checked_def record_liability_def terminal_status_def expected_state_def transition_terms_def
      free_model_fields sample_record_fields)
   (simp_all add: book_allocation_def)

lemma rc_l2_events: "lg_events rc_l2 = [rc_opening, fill_event rc_l1 rc_buy]" "lg_currency rc_l2 = USD"
  by (simp_all add: rc_l2_def rc_ledger_def Let_def USD_def sample_usd_def)

lemma rc_event_fields:
  "instant (ev_occurred_at rc_opening) \<le> 300" "ev_occurred_at (fill_event l rc_buy) = Timestamp 300"
  "ev_instrument_id rc_opening = None" "ev_instrument_id (fill_event l rc_buy) = Some sample_instrument"
  "run_text (ev_research_run_id rc_opening) = ''run''" "ev_research_run_id (fill_event l rc_buy) = rc_run"
  "ev_kind (fill_event l rc_buy) = TRADE" "ev_quantity (fill_event l rc_buy) = Some 2"
  by (simp_all add: rc_opening_def sample_event_def fill_event_def rc_buy_def rc_fill_def sample_fill_def signed_quantity_def rc_run_def)

lemma rc_m2_fields: "oms_fills rc_m2 = [rc_buy]" "oms_orders rc_m2 = [rc_record (rc_order 1 BUY 2) FULLY_FILLED 2]"
  "oms_order rc_m2 (OrderId 1) = Some (rc_record (rc_order 1 BUY 2) FULLY_FILLED 2)" "order_fills rc_m2 (OrderId 1) = [rc_buy]"
  by (simp_all add: rc_m2_def rc_oms_def oms_order_def rc_record_def rc_order_fields order_fills_def rc_buy_def rc_fill_def)

lemma rc_admitted: "run_text rc_run \<in> set (map admitted_run book_admissions)"
  "''run'' \<in> set (map admitted_run book_admissions)"
  by (simp_all add: book_admissions_def book_admission_def)

lemma rc_known:
  "\<not> omits_history rc_l2 buy_record" "\<not> omits_history rc_l2 fill_record" "\<not> omits_fills rc_m2 buy_record" "\<not> omits_fills rc_m2 fill_record"
  by (simp_all add: omits_history_def omits_fills_def sample_record_fields)

lemma rc_extension:
  assumes "set rs \<subseteq> {buy_record, fill_record}" and "c = None \<or> c = Some (Timestamp 310)"
  shows "validate_financial_extension rs rc_m2 rc_l2 book_admissions c = Inr ()"
proof -
  have "known_step rc_m2 rc_l2 r = Inr ()" if "r \<in> set rs" for r
    using assms(1) that rc_known by (auto simp: known_step_def)
  then have "rmap (known_step rc_m2 rc_l2) rs = Inr (map (\<lambda>_. ()) rs)" by (induction rs) auto
  moreover have "instant (ev_occurred_at rc_opening) \<le> 310" using rc_event_fields(1) by simp
  ultimately show ?thesis
    using assms(2) rc_admitted rc_event_fields(1)
    by (auto simp: validate_financial_extension_def rc_l2_events rc_event_fields(2-) rc_m2_fields fills_ordered_def order_fills_def)
qed

lemma rc_sources:
  "verify_currency rc_m2 rc_l2 USD = Inr ()"
  "require_performance rc_reconciliation = Inr rc_performance"
  by (simp_all add: require_performance_def rc_reconciliation_def reconciliation_result_def verify_currency_def rc_l2_events
      rc_m2_fields rc_record_def rc_order_fields)
    (simp add: rc_l2_def rc_ledger_def Let_def rc_opening_def sample_event_def fill_event_def rc_buy_def rc_fill_def sample_fill_def
      sample_usd_def USD_def)

lemma rc_buy_terms:
  "fi_cost_model_id rc_buy = ''atis:simulation-cost-model:v1:m''" "fi_quantity rc_buy = 2" "fi_execution_price rc_buy = 1"
  "calculate_costs free_model 2 1 = Inr (fi_costs rc_buy)" "cash_effect COMMIT_BUY rc_buy = 2"
  by (simp_all add: rc_buy_def rc_fill_def sample_fill_def sample_costs_def free_costs cash_effect_def cost_total_def small_amounts)

lemma fill_sources: "transition_sources [buy_record] book_allocation book_admissions buy_record fill_record = Inr ()"
proof -
  have "dadd 0 2 = 2" by (simp add: small_amounts)
  then have sum: "dsum [2] = 2" by (simp add: dsum_def)
  have cur: "al_currency book_allocation = USD" by (simp add: book_allocation_def)
  have fields: "ct_source_oms (ct fill_record) = Some rc_m2" "ct_source_ledger (ct fill_record) = Some rc_l2"
      "r_order fill_record = OrderId 1" "r_side fill_record = COMMIT_BUY" "ct_original_order (ct fill_record) = rc_order 1 BUY 2"
      "ct_order_status (ct fill_record) = FULLY_FILLED" "ct_filled_quantity (ct fill_record) = 2" "ct_actual_cash_effect (ct fill_record) = 2"
      "ct_cost_model (ct fill_record) = free_model" "ct_upper_price (ct fill_record) = Some 2"
    by (simp_all add: sample_record_fields)
  show ?thesis
    unfolding transition_sources_def
    by (simp add: fields cur rc_extension rc_sources rc_reconciled rc_m2_fields rc_record_def Let_def rc_buy_terms sum fill_mismatch_def
        free_model_fields rc_known)
qed

lemma sell_holdings:
  "holding_at rc_l2 (run_text rc_run) sample_instrument (Timestamp 310) = Inr 2"
  "already_reserved (latest_records [buy_record, fill_record]) ''MOM-001'' sample_instrument = 0"
  "already_reserved (active_records [buy_record, fill_record]) ''MOM-001'' sample_instrument = 0"
  "dadd 1 0 = 1"
proof -
  have d: "dadd 0 2 = 2" "dround 2 = 2" by (simp_all add: small_amounts)
  show "holding_at rc_l2 (run_text rc_run) sample_instrument (Timestamp 310) = Inr 2"
    by (simp add: holding_at_def rc_l2_events holding_step_def rc_event_fields(2-) d)
  show "already_reserved (latest_records [buy_record, fill_record]) ''MOM-001'' sample_instrument = 0"
    "already_reserved (active_records [buy_record, fill_record]) ''MOM-001'' sample_instrument = 0"
    by (simp_all add: already_reserved_def latest_records_def active_records_def dict_of_def dict_put_def sample_record_fields dsum_def)
qed (simp add: small_amounts)

lemma sell_checks:
  "record_source book_digests [buy_record, fill_record] sell_record = Inr sell_request"
  "record_terms sell_record sell_request = Inr ()"
  "record_checked book_allocation sell_record = Inr ()"
proof -
  have last: "ct_record_digest (ct fill_record) = ''record''" by (simp add: fill_record_def make_record_def sample_record_digest)
  show "record_source book_digests [buy_record, fill_record] sell_record = Inr sell_request"
    by (simp add: record_source_def record_digest_of_def sell_record_def make_record_def sample_record_digest last
        reserve_fields_def Let_def)
  have ord: "so_order_id (rq_order (rq sell_request)) = OrderId 2" "so_side (rq_order (rq sell_request)) = SELL"
      "so_quantity (rq_order (rq sell_request)) = 1" "so_currency (rq_order (rq sell_request)) = USD"
      "so_decision_time (rq_order (rq sell_request)) = Timestamp 310" "so_release_at (rq_order (rq sell_request)) = Timestamp 320"
      "rq_execution_cost_model (rq sell_request) = Some free_model"
    by (simp_all add: sell_request_def rc_order_def sample_order_def USD_def)
  show "record_terms sell_record sell_request = Inr ()"
    by (simp add: record_terms_def sell_record_def make_record_def reserve_fields_def Let_def commitment_side_def ord)
  have "dsub 1 0 = 1" by (simp add: small_amounts)
  then show "record_checked book_allocation sell_record = Inr ()"
    by (simp add: record_checked_def record_liability_def sell_record_def make_record_def reserve_fields_def Let_def
        terminal_status_def expected_state_def ord) (simp add: book_allocation_def)
qed

lemma rc_replayed: "ledger_replay (lg_currency rc_l2) (lg_events rc_l2) = Inr rc_l2"
proof -
  have "ledger_apply rc_l1 (fill_event rc_l1 rc_buy) = Inr rc_l2" using rc_ledger_steps(2) by (simp add: post_fill_Inr)
  moreover have "lg_events rc_l2 = [rc_opening, fill_event rc_l1 rc_buy]" "lg_currency rc_l2 = sample_usd"
    by (simp_all add: rc_l2_def rc_ledger_def Let_def)
  ultimately show ?thesis using rc_ledger_steps(1) by (simp add: ledger_replay_def)
qed

lemma record_fields:
  "r_order buy_record = OrderId 1" "r_order fill_record = OrderId 1" "r_order sell_record = OrderId 2"
  "r_side buy_record = COMMIT_BUY" "r_side fill_record = COMMIT_BUY" "r_side sell_record = COMMIT_SELL"
  "r_strategy buy_record = ''MOM-001''" "r_strategy fill_record = ''MOM-001''" "r_strategy sell_record = ''MOM-001''"
  "r_state buy_record = RESERVED" "r_state fill_record = RELEASED" "r_state sell_record = RESERVED"
  "ct_research_run_id (ct buy_record) = run_text rc_run" "ct_research_run_id (ct fill_record) = run_text rc_run"
  "ct_research_run_id (ct sell_record) = run_text rc_run"
  "ct_reserved_cash (ct buy_record) = 4" "ct_reserved_cash (ct fill_record) = 0" "ct_reserved_cash (ct sell_record) = 0"
  "ct_actual_cash_effect (ct buy_record) = 0" "ct_actual_cash_effect (ct fill_record) = 2" "ct_actual_cash_effect (ct sell_record) = 0"
  "ct_quantity (ct sell_record) = 1" "ct_instrument_id (ct sell_record) = sample_instrument"
  "ct_original_order (ct sell_record) = rq_order (rq sell_request)"
  by (simp_all add: buy_record_def fill_record_def sell_record_def make_record_def reserve_fields_def buy_request_def sell_request_def
      rc_order_def sample_order_def Let_def)

lemma latest_sample:
  "latest_records [] = []" "latest_records [buy_record] = [buy_record]" "latest_records [buy_record, fill_record] = [fill_record]"
  "latest_records [buy_record, fill_record, sell_record] = [fill_record, sell_record]"
  by (simp_all add: latest_records_def dict_of_def dict_put_def record_fields)

lemma sell_order:
  "so_decision_time (rq_order (rq sell_request)) = Timestamp 310" "so_currency (rq_order (rq sell_request)) = USD"
  "rq_schedule sell_request = None" "rq_schedule buy_request = None"
  "rq_holdings_ledger (rq sell_request) = Some rc_l2" "rq_holdings_oms (rq sell_request) = Some rc_m2"
  "rq_holdings_as_of (rq sell_request) = Some (Timestamp 310)" "rq_holdings_reconciliation (rq sell_request) = Some rc_reconciliation"
  by (simp_all add: sell_request_def buy_request_def rc_order_def sample_order_def USD_def)

lemma rc_currency: "lg_currency rc_l2 = USD" "al_currency book_allocation = USD"
  by (simp_all add: rc_l2_def rc_ledger_def Let_def sample_usd_def USD_def book_allocation_def)

lemma sell_initial:
  "initial_record book_digests rb [buy_record, fill_record] book_allocation book_admissions sell_record sell_request = Inr ()"
proof -
  have "sell_source [buy_record, fill_record] book_allocation book_admissions sell_record sell_request = Inr ()"
    by (simp add: sell_source_def Let_def record_fields sell_order rc_reconciled sell_holdings rc_extension rc_sources rc_currency rc_replayed [unfolded rc_currency])
  moreover have "ct_filled_quantity (ct sell_record) = 0" "ct_order_status (ct sell_record) = ACCEPTED"
    by (simp_all add: sell_record_def make_record_def reserve_fields_def Let_def)
  ultimately show ?thesis
    by (simp add: initial_record_def validate_scheduled_request_def sell_order record_fields terminal_status_def)
qed

lemma sample_history:
  "validate_history book_digests rb [] book_allocation book_admissions = Inr ()"
  "validate_history book_digests rb [buy_record] book_allocation book_admissions = Inr ()"
  "validate_history book_digests rb [buy_record, fill_record] book_allocation book_admissions = Inr ()"
  "validate_history book_digests rb [buy_record, fill_record, sell_record] book_allocation book_admissions = Inr ()"
  by (simp_all add: validate_history_def history_step_def buy_checks fill_checks fill_sources sell_checks sell_initial
      latest_sample dict_get_def record_fields)

lemma sample_amounts:
  "dadd 0 4 = 4
   \<and> dadd 2 0 = 2
   \<and> dround 4 = 4
   \<and> dround 2 = 2
   \<and> dadd 4 0 = 4
   \<and> dadd 0 2 = 2
   \<and> budget_amount \<lparr>bg_strategy_id = s, bg_research_run_id = r, bg_cents = 1000\<rparr> = 10
   \<and> cents_amount 2000 = 20
   \<and> largest_cost free_model 2 2 = Inr 4
   \<and> ceil_cents 4 = Inr 4
   \<and> ddiv 4 2 = 2
   \<and> dsub 2 2 = 0"
  by (simp add: budget_amount_def cents_amount_def free_model_fields small_amounts)

lemma sample_budget_dict:
  "dict_get bg_strategy_id (dict_of bg_strategy_id (al_budgets book_allocation)) ''MOM-001''
     = Some \<lparr>bg_strategy_id = ''MOM-001'', bg_research_run_id = run_text rc_run, bg_cents = 1000\<rparr>"
  by (simp add: book_allocation_def dict_of_def dict_put_def dict_get_def)

lemma sample_used:
  "used_cash [buy_record] ''MOM-001'' = 4" "used_cash [fill_record] ''MOM-001'' = 2" "used_cash [fill_record, sell_record] ''MOM-001'' = 2"
  "used_cash [buy_record] ''TREND-001'' = 0" "used_cash [fill_record] ''TREND-001'' = 0" "used_cash [fill_record, sell_record] ''TREND-001'' = 0"
  by (simp_all add: used_cash_def record_fields dsum_def sample_amounts)

lemma sample_budgets:
  assumes "rs \<in> {[buy_record], [buy_record, fill_record], [buy_record, fill_record, sell_record]}"
  shows "budgets_step book_allocation rs (length rs) = Inr ()"
proof -
  have within: "(\<exists>b\<in>set (al_budgets book_allocation). budget_amount b < used_cash latest (bg_strategy_id b))
      \<longleftrightarrow> 10 < used_cash latest ''MOM-001'' \<or> 10 < used_cash latest ''TREND-001''" for latest
    by (simp add: book_allocation_def sample_amounts)
  have run: "\<not> (\<exists>r\<in>set latest. case dict_get bg_strategy_id (dict_of bg_strategy_id (al_budgets book_allocation)) (r_strategy r) of
           None \<Rightarrow> True | Some b \<Rightarrow> bg_research_run_id b \<noteq> ct_research_run_id (ct r))"
    if "set latest \<subseteq> {buy_record, fill_record, sell_record}" for latest
    using that by (auto simp: record_fields sample_budget_dict)
  from assms have facts: "set (latest_records rs) \<subseteq> {buy_record, fill_record, sell_record}"
      "used_cash (latest_records rs) ''MOM-001'' \<le> 10" "used_cash (latest_records rs) ''TREND-001'' \<le> 10"
    by (auto simp: latest_sample sample_used)
  show ?thesis
    unfolding budgets_step_def Let_def take_all [OF order_refl] within
    using run [OF facts(1)] facts(2,3) by (simp add: raise_if_def not_less)
qed

lemma sample_budget_steps:
  "\<exists>u. rmap (budgets_step book_allocation []) [1..<length [] + 1] = Inr u"
  "\<exists>u. rmap (budgets_step book_allocation [buy_record]) [1..<length [buy_record] + 1] = Inr u"
  "\<exists>u. rmap (budgets_step book_allocation [buy_record, fill_record]) [1..<length [buy_record, fill_record] + 1] = Inr u"
  "\<exists>u. rmap (budgets_step book_allocation [buy_record, fill_record, sell_record])
     [1..<length [buy_record, fill_record, sell_record] + 1] = Inr u"
proof -
  have t: "budgets_step book_allocation rs n = budgets_step book_allocation (take n rs) (length (take n rs))"
    if "n \<le> length rs" for rs n using that by (simp add: budgets_step_def)
  have "budgets_step book_allocation rs n = Inr ()"
    if "rs \<in> {[buy_record], [buy_record, fill_record], [buy_record, fill_record, sell_record]}" "0 < n" "n \<le> length rs" for rs n
    by (subst t [OF that(3)], rule sample_budgets) (use that in \<open>auto simp: le_Suc_eq take_Cons' numeral_3_eq_3\<close>)
  then show "\<exists>u. rmap (budgets_step book_allocation []) [1..<length [] + 1] = Inr u"
    "\<exists>u. rmap (budgets_step book_allocation [buy_record]) [1..<length [buy_record] + 1] = Inr u"
    "\<exists>u. rmap (budgets_step book_allocation [buy_record, fill_record]) [1..<length [buy_record, fill_record] + 1] = Inr u"
    "\<exists>u. rmap (budgets_step book_allocation [buy_record, fill_record, sell_record])
       [1..<length [buy_record, fill_record, sell_record] + 1] = Inr u"
    unfolding rmap_ok by (auto simp del: One_nat_def)
qed

lemmas sample_init = book_of_init [OF sample_history(1) sample_budget_steps(1)] book_of_init [OF sample_history(2) sample_budget_steps(2)]
  book_of_init [OF sample_history(3) sample_budget_steps(3)] book_of_init [OF sample_history(4) sample_budget_steps(4)]

lemmas sample_checked = book_of_checked [OF sample_history(1) sample_budget_steps(1)] book_of_checked [OF sample_history(2) sample_budget_steps(2)]
  book_of_checked [OF sample_history(3) sample_budget_steps(3)] book_of_checked [OF sample_history(4) sample_budget_steps(4)]

lemma sample_digest_record: "make_record book_digests f q = CommitmentRecord (f\<lparr>ct_record_digest := ''record''\<rparr>) q"
  by (simp add: make_record_def sample_record_digest)

lemma extend_sample:
  "CommitmentBook_init book_digests (CommitmentBook book_allocation book_admissions (rs @ [r]) [] PORTFOLIO_AUTHORITY [] []) = Inr b \<Longrightarrow>
   extend_book book_digests (book_of rs) r = Inr b"
  by (simp add: extend_book_def)

lemma buy_order:
  "so_side (rq_order (rq buy_request)) = BUY" "so_quantity (rq_order (rq buy_request)) = 2"
  "so_currency (rq_order (rq buy_request)) = USD" "rq_strategy_id (rq buy_request) = ''MOM-001''"
  "so_research_run_id (rq_order (rq buy_request)) = rc_run" "instant (so_decision_time (rq_order (rq buy_request))) = 100"
  "instant (so_release_at (rq_order (rq buy_request))) = 200" "so_order_id (rq_order (rq buy_request)) = OrderId 1"
  by (simp_all add: buy_request_def rc_order_def sample_order_def USD_def)

lemma sell_order2:
  "so_side (rq_order (rq sell_request)) = SELL" "so_quantity (rq_order (rq sell_request)) = 1"
  "rq_strategy_id (rq sell_request) = ''MOM-001''" "so_instrument_id (rq_order (rq sell_request)) = sample_instrument"
  "so_research_run_id (rq_order (rq sell_request)) = rc_run"
  "instant (so_release_at (rq_order (rq sell_request))) = 320" "so_order_id (rq_order (rq sell_request)) = OrderId 2"
  "rq_execution_cost_model (rq sell_request) = Some free_model"
  by (simp_all add: sell_request_def rc_order_def sample_order_def)

lemma sample_admitted:
  "find_first (\<lambda>a. admitted_strategy a = ''MOM-001'') book_admissions = Some (book_admission ''MOM-001'' (run_text rc_run))"
  "allocation_budget book_allocation ''MOM-001'' =
     Some \<lparr>bg_strategy_id = ''MOM-001'', bg_research_run_id = run_text rc_run, bg_cents = 1000\<rparr>"
  "portfolio_text ''MOM-001'' ''strategy_id'' = Inr ()" "al_hypothetical book_allocation" "al_total_cents book_allocation = 2000"
  "admitted_run (book_admission s run) = run"
  by (simp_all add: book_admissions_def book_admission_def allocation_budget_def book_allocation_def) code_simp

lemma sample_created: "create_commitment_book book_digests book_allocation book_admissions = Inr (book_of [])"
  using sample_init(1) by (simp add: create_commitment_book_def book_parts)

lemma sample_reserved: "reserve_commitments book_digests (book_of []) [buy_request] = Inr (book_of [buy_record])"
proof -
  have cap: "rq_price_cost_ceiling (rq buy_request) = Some \<lparr>pc_upper_price = 2, pc_available_at = Timestamp 90,
       pc_evidence_digest = EvidenceContentDigest ''e'', pc_currency = USD, pc_current = True, pc_cost_model = free_model\<rparr>"
    "cm_model_id free_model = ''atis:simulation-cost-model:v1:m''"
    by (simp_all add: buy_request_def free_model_def)
  have "reserve_buy (book_of []) buy_request \<lparr>bg_strategy_id = ''MOM-001'', bg_research_run_id = run_text rc_run, bg_cents = 1000\<rparr>
      = Inr (reserve_fields (book_of []) buy_request COMMIT_BUY 4 0 (Some 2) (Some 2)
          (Some ''atis:simulation-cost-model:v1:m'') (Some ''e'') free_model)"
    unfolding reserve_buy_def Let_def book_of_fields latest_sample cap(1) option.case
    by (simp add: buy_order sample_amounts sample_admitted cap(2) dsum_def)
  moreover have "extend_book book_digests (book_of []) buy_record = Inr (book_of [buy_record])"
    using sample_init(2) by (intro extend_sample) simp
  ultimately have "reserve_one book_digests (book_of []) buy_request = Inr (book_of [buy_record])"
    by (simp add: reserve_one_def Let_def buy_order sample_admitted validate_scheduled_request_def sell_order rc_currency buy_record_def)
  then show ?thesis by (simp add: reserve_commitments_def sample_checked)
qed

lemma sample_filled: "reconcile_commitment book_digests (book_of [buy_record]) (OrderId 1) rc_m2 rc_l2 = Inr (book_of [buy_record, fill_record])"
proof -
  have step: "commitment_fill_step (book_of [buy_record]) buy_record (rc_record (rc_order 1 BUY 2) FULLY_FILLED 2) rc_buy = Inr ()"
    by (simp add: commitment_fill_step_def sample_record_fields free_model_fields rc_buy_terms rc_record_def rc_currency)
      (simp add: rc_buy_def rc_fill_def sample_fill_def USD_def)
  have sums: "dsum [fi_quantity rc_buy] = 2" "dsum [cash_effect COMMIT_BUY rc_buy] = 2"
    by (simp_all add: rc_buy_terms dsum_def sample_amounts)
  have prior: "ct_original_order (ct buy_record) = rc_order 1 BUY 2" "ct_quantity (ct buy_record) = 2"
      "ct_record_digest (ct buy_record) = ''record''" "ct_reservation_request buy_record = Some buy_request"
    by (simp_all add: buy_record_def sample_digest_record reserve_fields_def buy_request_def rc_order_def Let_def)
  have total: "buy_totals (book_of [buy_record]) buy_record 2 0 = Inr ()" 
    by (simp add: buy_totals_def latest_sample sample_admitted sample_amounts Let_def record_fields dsum_def)
  have "extend_book book_digests (book_of [buy_record]) fill_record = Inr (book_of [buy_record, fill_record])"
    using sample_init(3) by (intro extend_sample) simp
  moreover have "rec_order (rc_record (rc_order 1 BUY 2) FULLY_FILLED 2) = rc_order 1 BUY 2"
    "rec_status (rc_record (rc_order 1 BUY 2) FULLY_FILLED 2) = FULLY_FILLED" by (simp_all add: rc_record_def)
  ultimately show ?thesis
    unfolding reconcile_commitment_def
    by (simp add: sample_checked rc_currency rc_extension rc_sources rc_known rc_reconciled latest_record_def record_fields rc_m2_fields prior fills_ordered_def
        step sums numeral_2_eq_2 sample_amounts remaining_liability_def total Let_def fill_record_def)
qed

lemma sample_selling: "reserve_commitments book_digests (book_of [buy_record, fill_record]) [sell_request]
    = Inr (book_of [buy_record, fill_record, sell_record])"
proof -
  have known: "sorted (map (\<lambda>e. instant (ev_occurred_at e)) (lg_events rc_l2))"
    "\<not> (\<exists>e\<in>set (lg_events rc_l2). instant (Timestamp 310) < instant (ev_occurred_at e))"
    "\<not> (\<exists>e\<in>set (lg_events rc_l2). run_text (ev_research_run_id e) \<notin> set (map admitted_run book_admissions))"
    using rc_event_fields(1) rc_admitted by (auto simp: rc_l2_events rc_event_fields(2-))
  have "reserve_sell (book_of [buy_record, fill_record]) sell_request = Inr (reserve_fields (book_of [buy_record, fill_record])
      sell_request COMMIT_SELL 0 1 None None None None free_model)"
    unfolding reserve_sell_def Let_def book_of_fields sell_order sell_order2 rc_currency prod.case option.case
    using known by (simp add: sell_holdings rc_known rc_extension rc_sources rc_reconciled rc_replayed [unfolded rc_currency] sell_order2)
  moreover have "extend_book book_digests (book_of [buy_record, fill_record]) sell_record = Inr (book_of [buy_record, fill_record, sell_record])"
    using sample_init(4) by (intro extend_sample) simp
  ultimately have "reserve_one book_digests (book_of [buy_record, fill_record]) sell_request = Inr (book_of [buy_record, fill_record, sell_record])"
    by (simp add: reserve_one_def Let_def sell_order sell_order2 sample_admitted validate_scheduled_request_def record_fields rc_currency sell_record_def)
  then show ?thesis by (simp add: reserve_commitments_def sample_checked)
qed

lemma sample_book_reach:
  "book_reach book_digests (book_of [])" "book_reach book_digests (book_of [buy_record, fill_record, sell_record])"
proof -
  show 0: "book_reach book_digests (book_of [])" by (rule reach_create [OF sample_created])
  have 1: "book_reach book_digests (book_of [buy_record])" by (rule reach_book_step [OF 0 step_reserve [OF sample_reserved]])
  have 2: "book_reach book_digests (book_of [buy_record, fill_record])" by (rule reach_book_step [OF 1 step_reconcile [OF sample_filled]])
  show "book_reach book_digests (book_of [buy_record, fill_record, sell_record])" by (rule reach_book_step [OF 2 step_reserve [OF sample_selling]])
qed

text \<open>The sessions of the last day of 1969 and the first day of 1970.\<close>

definition turn_session :: "int \<Rightarrow> CalendarSessionResolutionResult" where
  "turn_session d = projr (sample_resolution d (- 300))"

lemma turn_sessions:
  assumes "d = - 1 \<or> d = 0"
  shows "resolve_calendar_session (cd_corpus book_digests) (cd_calendar book_digests) (sample_query d)
       (sample_candidates d (- 300)) = Inr (turn_session d)"
    and "csr_disposition (turn_session d) = ESTABLISHED" and "csr_local_date (turn_session d) = d"
    and "csr_calendar_id (turn_session d) = CalendarId 1"
    and "csr_selected_calendar_version_id (turn_session d) = Some (CalendarVersionId 1)"
    and "csr_trading_day (turn_session d) = Some (sample_day d)"
    and "csr_utc_open (turn_session d) = Some (Timestamp (d * 86400000000 + 50400000000))"
    and "csr_utc_close (turn_session d) = Some (Timestamp (d * 86400000000 + 75600000000))"
proof -
  have "verify_utc_boundaries (\<lambda>_. sample_digest) (sample_session (- 1) (- 300)) ''c'' = Inr ()"
    "verify_utc_boundaries (\<lambda>_. sample_digest) (sample_session 0 (- 300)) ''c'' = Inr ()" by code_simp+
  with assms have "verify_utc_boundaries (\<lambda>_. sample_digest) (sample_session d (- 300)) ''c'' = Inr ()" by auto
  from sample_resolution_regular [OF this]
  have r: "sample_resolution d (- 300) = Inr (turn_session d) \<and> csr_disposition (turn_session d) = ESTABLISHED
     \<and> csr_local_date (turn_session d) = d
     \<and> csr_calendar_id (turn_session d) = CalendarId 1 \<and> csr_selected_calendar_version_id (turn_session d) = Some (CalendarVersionId 1)
     \<and> csr_trading_day (turn_session d) = Some (sample_day d)
     \<and> csr_utc_open (turn_session d) = Some (sd_utc_open (sample_session d (- 300)))
     \<and> csr_utc_close (turn_session d) = Some (sd_utc_close (sample_session d (- 300)))"
    unfolding turn_session_def by auto
  then show "resolve_calendar_session (cd_corpus book_digests) (cd_calendar book_digests) (sample_query d)
       (sample_candidates d (- 300)) = Inr (turn_session d)" by (simp add: sample_resolution_def book_digests_def)
  from r show "csr_utc_open (turn_session d) = Some (Timestamp (d * 86400000000 + 50400000000))"
    "csr_utc_close (turn_session d) = Some (Timestamp (d * 86400000000 + 75600000000))"
    using assms by (auto simp: sample_session_def datetime_min_def)
  from r show "csr_disposition (turn_session d) = ESTABLISHED" "csr_local_date (turn_session d) = d"
    "csr_calendar_id (turn_session d) = CalendarId 1"
    "csr_selected_calendar_version_id (turn_session d) = Some (CalendarVersionId 1)"
    "csr_trading_day (turn_session d) = Some (sample_day d)" by blast+
qed

lemmas final_session = turn_sessions [of "- 1", simplified]

lemmas next_session = turn_sessions [of 0, simplified]

definition turn_inputs :: "CalendarInput list" where
  "turn_inputs = [(sample_query (- 1), sample_candidates (- 1) (- 300)), (sample_query 0, sample_candidates 0 (- 300))]"

definition turn_schedule :: RebalanceSchedule where
  "turn_schedule = RebalanceSchedule (book_of []) \<lparr>sf_source_oms = oms_empty, sf_source_ledger = ledger_empty USD,
     sf_calendar_inputs = turn_inputs, sf_final_session = turn_session (- 1), sf_next_session = turn_session 0,
     sf_decision_time = Timestamp 60, sf_release_time = Timestamp 50400000000,
     sf_final_session_date = iso_date (- 1), sf_next_session_date = iso_date 0,
     sf_preserved_obligations = [''MOM-001''], sf_removed_strategies = [''MOM-001''], sf_evidence_digest = ''schedule'',
     sf_authority = PORTFOLIO_AUTHORITY\<rparr>"

definition turn_book :: CommitmentBook where
  "turn_book = CommitmentBook book_allocation book_admissions [] ''book'' PORTFOLIO_AUTHORITY [''MOM-001''] [turn_schedule]"

lemma turn_distinct: "turn_session (- 1) \<noteq> turn_session 0"
  using final_session(3) next_session(3) by force

lemma turn_months: "month_of (- 1) \<noteq> month_of 0" by code_simp

lemma turn_eligible: "eligible_session (turn_session (- 1))" "eligible_session (turn_session 0)"
  by (simp_all add: eligible_session_def regular_day_def final_session next_session sample_day_kind)

lemma turn_month_end:
  "month_end_step (turn_session (- 1)) (turn_session 0) [turn_session (- 1), turn_session 0] (Timestamp 60) = Inr (Timestamp 50400000000)"
  using turn_months by (simp add: month_end_step_def turn_eligible final_session next_session turn_distinct)

lemma turn_dates:
  "resolved_dates_step turn_inputs (Timestamp 60) (turn_session (- 1)) (turn_session 0) [turn_session (- 1), turn_session 0]
     [turn_session (- 1), turn_session 0] = Inr ()"
  by (simp add: resolved_dates_step_def turn_inputs_def final_session next_session) (simp add: sample_query_def)

lemma turn_resolved:
  "rmap (\<lambda>(q, c). resolve_calendar_session (cd_corpus book_digests) (cd_calendar book_digests) q c) turn_inputs
     = Inr [turn_session (- 1), turn_session 0]"
  by (simp add: turn_inputs_def final_session next_session)

lemma turn_coverage:
  "\<not> (\<exists>c\<in>set (map snd turn_inputs). \<exists>v\<in>set (cc_calendar_versions c). foreign_calendar v)"
  "map (\<lambda>i. cq_local_date (fst i)) turn_inputs = civil_dates (- 1) 0" "length turn_inputs \<le> 35" "turn_inputs \<noteq> []"
  by (simp_all add: turn_inputs_def sample_candidates_def foreign_calendar_def sample_version_def sample_rule_def civil_dates_def
      sample_query_def numeral_2_eq_2)

lemma turn_obligations:
  "obligations_step (Inr (book_of [])) (book_of []) oms_empty (ledger_empty USD) (Timestamp 60) [''MOM-001''] [''MOM-001''] = Inr ()"
proof -
  have "verify_currency oms_empty (ledger_empty USD) USD = Inr ()" by code_simp
  moreover have "\<exists>rec perf. reconcile oms_empty (ledger_empty USD) = Inr rec \<and> require_performance rec = Inr perf"
  proof -
    have "case reconcile oms_empty (ledger_empty USD) of Inl _ \<Rightarrow> False | Inr rec \<Rightarrow> (case require_performance rec of Inl _ \<Rightarrow> False | Inr _ \<Rightarrow> True)"
      by code_simp
    then show ?thesis by (auto split: sum.splits)
  qed
  moreover have "lg_events (ledger_empty USD) = []" by (simp add: ledger_empty_def)
  moreover have "''MOM-001'' \<in> set (map admitted_strategy book_admissions)" by (simp add: book_admissions_def book_admission_def)
  ultimately show ?thesis
    by (auto simp: obligations_step_def latest_sample rc_currency active_records_def)
qed

lemma turn_rebuilt: "rebuild_book book_digests (book_of []) = Inr (book_of [])"
  using sample_checked(1) by (auto simp: check_book_def)

lemma turn_scheduled:
  "schedule_with book_digests (Inr (book_of [])) (turn_session (- 1)) (turn_session 0) [turn_session (- 1), turn_session 0]
     (Timestamp 60) [''MOM-001''] [''MOM-001''] turn_inputs (Some (book_of [])) (Some oms_empty) (Some (ledger_empty USD))
   = Inr turn_schedule"
proof -
  have "cd_schedule book_digests s r = ''schedule''" for s r by (simp add: book_digests_def)
  moreover have "preserved_texts [''MOM-001''] [''MOM-001''] = Inr ()" by code_simp
  ultimately show ?thesis
    using turn_coverage
    by (simp add: schedule_with_def turn_obligations final_session(3) next_session(3) turn_resolved turn_dates turn_month_end
        turn_schedule_def Let_def)
qed

lemma turn_carried: "carry_forward_rebalance book_digests turn_schedule = Inr turn_book" 
proof -
  have s: "sch_retained_book turn_schedule = book_of []" "replay_schedule book_digests (Inr (book_of [])) turn_schedule = Inr turn_schedule"
    "sf_removed_strategies (sch turn_schedule) = [''MOM-001'']"
    using turn_scheduled unfolding replay_schedule_def by (simp_all add: turn_schedule_def)
  have texts: "portfolio_texts [''MOM-001''] ''removed_strategies'' False = Inr ()" "sorted_set [''MOM-001''] = [''MOM-001'']"
    "set [''MOM-001''] \<subseteq> set (map admitted_strategy book_admissions)" by code_simp+
  let ?b = "CommitmentBook book_allocation book_admissions [] [] PORTFOLIO_AUTHORITY [''MOM-001''] [turn_schedule]"
  have "validate_rebalance_transitions book_digests (retained book_digests) ?b = Inr ()"
    by (simp add: validate_rebalance_transitions_def transition_step_def s retained_def turn_rebuilt texts Let_def)
  moreover have "cd_book book_digests x = ''book''" for x by (simp add: book_digests_def)
  moreover have "al_total_cents book_allocation = 2000" "al_hypothetical book_allocation" by (simp_all add: book_allocation_def)
  ultimately have "CommitmentBook_init book_digests ?b = Inr turn_book"
    using sample_history(1) book_parts texts unfolding init_unfold
    by (simp add: book_checks_def turn_book_def Let_def rc_currency)
  moreover have "schedule_monthly_rebalance book_digests (sf_final_session (sch turn_schedule)) (sf_next_session (sch turn_schedule))
       [sf_final_session (sch turn_schedule), sf_next_session (sch turn_schedule)] (sf_decision_time (sch turn_schedule))
       (sf_preserved_obligations (sch turn_schedule)) (sf_removed_strategies (sch turn_schedule))
       (sf_calendar_inputs (sch turn_schedule)) (Some (sch_retained_book turn_schedule))
       (Some (sf_source_oms (sch turn_schedule))) (Some (sf_source_ledger (sch turn_schedule))) = Inr turn_schedule"
    using s(2) by (simp add: schedule_monthly_rebalance_def replay_schedule_def s(1) turn_rebuilt)
  ultimately show ?thesis by (simp add: carry_forward_rebalance_def s texts Let_def)
qed

lemma turn_reach: "book_reach book_digests turn_book"
proof (rule reach_book_step [OF sample_book_reach(1) step_rebalance [OF _ turn_carried]])
  show "sch_retained_book turn_schedule = book_of []" by (simp add: turn_schedule_def)
qed

definition second_request :: CommitmentRequest where
  "second_request = CommitmentRequest ((rq buy_request)\<lparr>rq_order := rc_order 2 BUY 2\<rparr>) None"

definition second_record :: CommitmentRecord where
  "second_record = make_record book_digests (reserve_fields (book_of [buy_record]) second_request COMMIT_BUY 4 0 (Some 2) (Some 2)
     (Some ''atis:simulation-cost-model:v1:m'') (Some ''e'') free_model) (Some second_request)"

lemma second_record_eq:
  "ct_reservation_request second_record = Some second_request"
  "ct second_record = (reserve_fields (book_of [buy_record]) second_request COMMIT_BUY 4 0 (Some 2) (Some 2)
     (Some ''atis:simulation-cost-model:v1:m'') (Some ''e'') free_model)\<lparr>ct_record_digest := ''record''\<rparr>"
  "rq second_request = (rq buy_request)\<lparr>rq_order := rc_order 2 BUY 2\<rparr>" "rq_schedule second_request = None"
  by (simp_all add: second_record_def make_record_def sample_record_digest second_request_def)

lemma second_checks:
  "record_source book_digests [buy_record] second_record = Inr second_request"
  "record_terms second_record second_request = Inr ()"
  "record_checked book_allocation second_record = Inr ()"
  "initial_record book_digests rb [buy_record] book_allocation book_admissions second_record second_request = Inr ()"
  by (simp_all add: record_source_def record_digest_of_def sample_record_digest record_terms_def ceiling_matches_def
      commitment_side_def record_checked_def record_liability_def terminal_status_def expected_state_def initial_record_def
      validate_scheduled_request_def free_model_fields second_record_eq sample_record_fields)
   (simp_all add: book_allocation_def)

lemma second_fields:
  "r_order second_record = OrderId 2" "r_side second_record = COMMIT_BUY" "r_strategy second_record = ''MOM-001''"
  "ct_research_run_id (ct second_record) = run_text rc_run" "ct_reserved_cash (ct second_record) = 4"
  "ct_actual_cash_effect (ct second_record) = 0"
  by (simp_all add: second_record_eq sample_record_fields)

lemma second_latest: "latest_records [buy_record, second_record] = [buy_record, second_record]"
  by (simp add: latest_records_def dict_of_def dict_put_def record_fields second_fields)

lemma second_init:
  "CommitmentBook_init book_digests (CommitmentBook book_allocation book_admissions [buy_record, second_record] []
     PORTFOLIO_AUTHORITY [] []) = Inr (book_of [buy_record, second_record])"
proof (rule book_of_init)
  show "validate_history book_digests (retained book_digests) [buy_record, second_record] book_allocation book_admissions = Inr ()"
    by (simp add: validate_history_def history_step_def buy_checks second_checks latest_sample dict_get_def record_fields second_fields)
  have "budgets_step book_allocation [buy_record, second_record] 2 = Inr ()"
    using sample_budget_dict
    by (simp add: budgets_step_def second_latest book_allocation_def used_cash_def record_fields second_fields
        dsum_def budget_amount_def cents_amount_def small_amounts)
  moreover have "budgets_step book_allocation [buy_record, second_record] 1 = budgets_step book_allocation [buy_record] 1"
    by (simp add: budgets_step_def)
  moreover have "budgets_step book_allocation [buy_record] 1 = Inr ()" using sample_budgets [of "[buy_record]"] by simp
  ultimately show "\<exists>u. rmap (budgets_step book_allocation [buy_record, second_record]) [1..<length [buy_record, second_record] + 1] = Inr u"
    by (simp add: numeral_2_eq_2)
qed

lemma second_reserved:
  "reserve_commitments book_digests (book_of []) [second_request, buy_request] = Inr (book_of [buy_record, second_record])"
proof -
  have "reserve_buy (book_of [buy_record]) second_request
      \<lparr>bg_strategy_id = ''MOM-001'', bg_research_run_id = run_text rc_run, bg_cents = 1000\<rparr>
      = Inr (reserve_fields (book_of [buy_record]) second_request COMMIT_BUY 4 0 (Some 2) (Some 2)
          (Some ''atis:simulation-cost-model:v1:m'') (Some ''e'') free_model)"
    by (simp add: reserve_buy_def Let_def latest_sample second_record_eq buy_request_fields rc_order_fields sample_amounts sample_admitted
        free_model_fields dsum_def spent_or_reserved_def record_fields small_amounts)
  moreover have "extend_book book_digests (book_of [buy_record]) second_record = Inr (book_of [buy_record, second_record])"
    using second_init by (intro extend_sample) simp
  ultimately have two: "reserve_one book_digests (book_of [buy_record]) second_request = Inr (book_of [buy_record, second_record])"
    by (simp add: reserve_one_def Let_def second_record_eq buy_request_fields rc_order_fields sample_admitted
        validate_scheduled_request_def record_fields rc_currency second_record_def)
  have one: "reserve_one book_digests (book_of []) buy_request = Inr (book_of [buy_record])"
    using sample_reserved by (simp add: reserve_commitments_def sample_checked)
  have "uuid_hex 1 \<le> uuid_hex 2" "uuid_hex 1 \<noteq> uuid_hex 2" by code_simp+
  then have "sort_key request_key [second_request, buy_request] = [buy_request, second_request]"
    by (simp add: request_key_def second_record_eq buy_request_fields rc_order_fields)
  with one two show ?thesis by (simp add: reserve_commitments_def sample_checked)
qed

abbreviation full_book :: CommitmentBook where
  "full_book \<equiv> book_of [buy_record, fill_record, sell_record]"

section \<open>Properties\<close>

text \<open>C9: Every reachable commitment book is well formed: it passes the content check that guards each operation
  (rebuilding it from its parts gives the same book), and every operation only extends it: allocation and
  admissions stay, records and rebalance transitions are appended, and removed strategies stay removed.\<close>

theorem reachable_books_revalidate:
  assumes "book_reach D b"
  shows "check_book D b = Inr () \<and> (\<forall>b'. book_step D b b' \<longrightarrow> check_book D b' = Inr () \<and> extends b b')"
  using accepted_facts(1) book_reach_accepted [OF assms] book_step_extends by blast

theorem reachable_books_revalidate_witness:
  "book_reach book_digests (book_of []) \<and> book_step book_digests (book_of []) (book_of [buy_record])
   \<and> check_book book_digests (book_of [buy_record]) = Inr () \<and> extends (book_of []) (book_of [buy_record])"
  using reachable_books_revalidate [OF sample_book_reach(1)] sample_book_reach(1) step_reserve [OF sample_reserved] by blast

text \<open>C8: No strategy is overcommitted: at every point of the history of a reachable book, the cash its purchases have
  spent and keep reserved stays within the budget, and every open purchase keeps at least the approved unit
  ceiling for each unit that is still to be filled.\<close>

theorem budgets_never_overcommitted:
  assumes "book_reach D b" and "0 < n" and "n \<le> length (bk_records b)"
  shows "(\<forall>bg\<in>set (al_budgets (bk_allocation b)).
      used_cash (latest_records (take n (bk_records b))) (bg_strategy_id bg) \<le> budget_amount bg)
    \<and> (\<forall>r\<in>set (take n (bk_records b)). r_side r = COMMIT_BUY \<and> r_state r \<noteq> RELEASED \<longrightarrow>
        (\<exists>unit. ct_unit_cash_ceiling (ct r) = Some unit
          \<and> dmul unit (dsub (ct_quantity (ct r)) (ct_filled_quantity (ct r))) \<le> ct_reserved_cash (ct r)))"
proof (intro conjI ballI impI)
  note acc = accepted_facts [OF book_reach_accepted [OF assms(1)]]
  show "used_cash (latest_records (take n (bk_records b))) (bg_strategy_id bg) \<le> budget_amount bg"
    if "bg \<in> set (al_budgets (bk_allocation b))" for bg
    using acc(6) [OF assms(2,3)] that by (auto simp: budgets_step_def Let_def not_less)
  fix r assume "r \<in> set (take n (bk_records b))" and open_buy: "r_side r = COMMIT_BUY \<and> r_state r \<noteq> RELEASED"
  then obtain j where "j < length (bk_records b)" "r = bk_records b ! j" by (auto simp: in_set_conv_nth)
  with validate_history_step [OF acc(5)] have "record_checked (bk_allocation b) r = Inr ()" by metis
  from record_checked_buy [OF this] open_buy
  show "\<exists>unit. ct_unit_cash_ceiling (ct r) = Some unit
      \<and> dmul unit (dsub (ct_quantity (ct r)) (ct_filled_quantity (ct r))) \<le> ct_reserved_cash (ct r)" by blast
qed

theorem budgets_never_overcommitted_witness:
  "book_reach book_digests full_book \<and> (0::nat) < 1 \<and> 1 \<le> length (bk_records full_book)
   \<and> used_cash (latest_records (take 1 (bk_records full_book))) ''MOM-001''
       \<le> budget_amount \<lparr>bg_strategy_id = ''MOM-001'', bg_research_run_id = run_text rc_run, bg_cents = 1000\<rparr>
   \<and> (\<exists>unit. ct_unit_cash_ceiling (ct buy_record) = Some unit
        \<and> dmul unit (dsub (ct_quantity (ct buy_record)) (ct_filled_quantity (ct buy_record))) \<le> ct_reserved_cash (ct buy_record))"
proof -
  have "\<lparr>bg_strategy_id = ''MOM-001'', bg_research_run_id = run_text rc_run, bg_cents = 1000\<rparr>
      \<in> set (al_budgets (bk_allocation full_book))" by (simp add: book_allocation_def)
  with budgets_never_overcommitted [OF sample_book_reach(2), of 1] sample_book_reach(2)
  show ?thesis by (auto simp: record_fields)
qed

text \<open>C10: The life of a commitment: of two records of the same order in a reachable book, the earlier one is not
  released, the later one has the same order, request, cost model and terms, and its filled quantity is at
  least as large and within the order.\<close>

theorem commitment_lifecycle:
  assumes "book_reach D b" and "i < j" and "j < length (bk_records b)"
    and "r_order (bk_records b ! i) = r_order (bk_records b ! j)"
  shows "continues (bk_records b ! i) (bk_records b ! j)
    \<and> 0 \<le> ct_filled_quantity (ct (bk_records b ! i))
    \<and> ct_filled_quantity (ct (bk_records b ! j)) \<le> ct_quantity (ct (bk_records b ! j))"
proof -
  note hist = accepted_facts(5) [OF book_reach_accepted [OF assms(1)]]
  have "0 \<le> ct_filled_quantity (ct (bk_records b ! k)) \<and> ct_filled_quantity (ct (bk_records b ! k)) \<le> ct_quantity (ct (bk_records b ! k))"
    if "k < length (bk_records b)" for k
    by (rule validate_history_step [OF hist that]) (auto simp: record_terms_def Let_def)
  with history_continues [OF hist assms(3,2,4)] assms(2,3) show ?thesis by simp
qed

theorem commitment_lifecycle_witness:
  "book_reach book_digests full_book \<and> r_order (bk_records full_book ! 0) = r_order (bk_records full_book ! 1)
   \<and> continues buy_record fill_record \<and> 0 \<le> ct_filled_quantity (ct buy_record)
   \<and> ct_filled_quantity (ct fill_record) \<le> ct_quantity (ct fill_record)"
  using commitment_lifecycle [OF sample_book_reach(2), of 0 1] sample_book_reach(2) by (simp add: record_fields)

text \<open>C11: A sale is reserved only against holdings that exist: the first record of a sale in a reachable book names
  a reconciled order-management system and ledger as of the decision, whose attributable holding covers the
  quantity on top of what the strategy had already reserved for sale.\<close>

theorem sales_covered_by_holdings:
  assumes "book_reach D b" and "j < length (bk_records b)"
    and "\<forall>i<j. r_order (bk_records b ! i) \<noteq> r_order (bk_records b ! j)"
    and "r_side (bk_records b ! j) = COMMIT_SELL"
  shows "\<exists>request ledger oms rec perf held. ct_reservation_request (bk_records b ! j) = Some request
    \<and> rq_holdings_ledger (rq request) = Some ledger \<and> rq_holdings_oms (rq request) = Some oms
    \<and> reconcile oms ledger = Inr rec \<and> rr_performance rec = Some perf
    \<and> ledger_replay (lg_currency ledger) (lg_events ledger) = Inr ledger
    \<and> (\<forall>e\<in>set (lg_events ledger). instant (ev_occurred_at e)
         \<le> instant (so_decision_time (ct_original_order (ct (bk_records b ! j)))))
    \<and> holding_at ledger (ct_research_run_id (ct (bk_records b ! j))) (ct_instrument_id (ct (bk_records b ! j)))
        (so_decision_time (ct_original_order (ct (bk_records b ! j)))) = Inr held
    \<and> dadd (ct_quantity (ct (bk_records b ! j))) (already_reserved (latest_records (take j (bk_records b)))
        (r_strategy (bk_records b ! j)) (ct_instrument_id (ct (bk_records b ! j)))) \<le> held"
proof -
  note hist = accepted_facts(5) [OF book_reach_accepted [OF assms(1)]]
  let ?r = "bk_records b ! j"
  have none: "find_first (\<lambda>r. r_order r = r_order ?r) (rev (take j (bk_records b))) = None"
    using assms(2,3) by (auto simp: find_first_None in_set_conv_nth)
  obtain request where source: "record_source D (take j (bk_records b)) ?r = Inr request"
      and "initial_record D (retained D) (take j (bk_records b)) (bk_allocation b) (bk_admissions b) ?r request = Inr ()"
    using validate_history_step [OF hist assms(2)] none by metis
  then have sell: "sell_source (take j (bk_records b)) (bk_allocation b) (bk_admissions b) ?r request = Inr ()"
    using assms(4) by (auto simp: initial_record_def)
  have "ct_reservation_request ?r = Some request" using source by (auto simp: record_source_def Let_def split: option.splits)
  with sell show ?thesis
    by (auto simp: sell_source_def Let_def validate_financial_extension_def require_performance_def not_less split: option.splits)
qed

theorem sales_covered_by_holdings_witness:
  "book_reach book_digests full_book \<and> r_side (bk_records full_book ! 2) = COMMIT_SELL
   \<and> (\<exists>request ledger oms rec perf held. ct_reservation_request sell_record = Some request
    \<and> rq_holdings_ledger (rq request) = Some ledger \<and> rq_holdings_oms (rq request) = Some oms
    \<and> reconcile oms ledger = Inr rec \<and> rr_performance rec = Some perf
    \<and> ledger_replay (lg_currency ledger) (lg_events ledger) = Inr ledger
    \<and> holding_at ledger (run_text rc_run) sample_instrument (Timestamp 310) = Inr held
    \<and> dadd 1 (already_reserved [fill_record] ''MOM-001'' sample_instrument) \<le> held)"
proof -
  have "\<forall>i<2. r_order (bk_records full_book ! i) \<noteq> r_order (bk_records full_book ! 2)"
    by (auto simp: record_fields less_2_cases_iff)
  from sales_covered_by_holdings [OF sample_book_reach(2) _ this]
  show ?thesis using sample_book_reach(2)
    by (simp add: record_fields sell_order latest_sample) blast
qed

text \<open>C13: Strategies that a rebalance removes stay out: in a reachable book, the strategies removed by any of its
  rebalance transitions are still listed as removed, and every later record of such a strategy belongs to an
  order the book already had, so that only pending obligations are wound down.\<close>

theorem removed_strategies_stay_out:
  assumes "book_reach D b" and "s \<in> set (bk_rebalance_transitions b)"
  shows "set (sf_removed_strategies (sch s)) \<subseteq> set (bk_removed_strategies b)
    \<and> (\<forall>j. length (bk_records (sch_retained_book s)) \<le> j \<and> j < length (bk_records b)
          \<and> r_strategy (bk_records b ! j) \<in> set (sf_removed_strategies (sch s))
        \<longrightarrow> (\<exists>i<j. r_order (bk_records b ! i) = r_order (bk_records b ! j)))"
proof -
  let ?n = "length (bk_records (sch_retained_book s))"
  obtain st where run: "rfold (transition_step D (retained D) b) \<lparr>ts_done = [], ts_removed = [], ts_time = None\<rparr>
        (bk_rebalance_transitions b) = Inr st" and final: "sorted_set (ts_removed st) = bk_removed_strategies b"
    using accepted_facts(4) [OF book_reach_accepted [OF assms(1)]] by (auto simp: validate_rebalance_transitions_def)
  from transition_run [OF run assms(2)] obtain st1 st2
    where sub: "set (sf_removed_strategies (sch s)) \<subseteq> set (ts_removed st)"
      and step: "transition_step D (retained D) b st1 s = Inr st2" by blast
  from step have kept: "take ?n (bk_records b) = bk_records (sch_retained_book s)"
    and none: "\<not> adds_removed (set (ts_removed st1 @ sf_removed_strategies (sch s)))
        (r_order ` set (bk_records (sch_retained_book s))) (drop ?n (bk_records b))"
    by (auto simp: transition_step_def Let_def)
  have "\<exists>i<j. r_order (bk_records b ! i) = r_order (bk_records b ! j)"
    if j: "?n \<le> j" "j < length (bk_records b)" "r_strategy (bk_records b ! j) \<in> set (sf_removed_strategies (sch s))" for j
  proof -
    have at: "drop ?n (bk_records b) ! (j - ?n) = bk_records b ! j" using j by simp
    have lt: "j - ?n < length (drop ?n (bk_records b))" using j by (simp add: diff_less_mono)
    from adds_removed_False [OF none lt] j(3)
    consider "r_order (bk_records b ! j) \<in> r_order ` set (take ?n (bk_records b))"
      | i where "i < j - ?n" "r_order (drop ?n (bk_records b) ! i) = r_order (bk_records b ! j)"
      unfolding at kept by auto
    then show ?thesis
    proof cases
      case 1
      then obtain i where "i < length (take ?n (bk_records b))" "r_order (take ?n (bk_records b) ! i) = r_order (bk_records b ! j)"
        by (auto simp: in_set_conv_nth)
      with j show ?thesis by (intro exI [of _ i]) auto
    next
      case 2
      with j show ?thesis by (intro exI [of _ "?n + i"]) auto
    qed
  qed
  moreover have "set (sf_removed_strategies (sch s)) \<subseteq> set (bk_removed_strategies b)" using sub by (simp add: final [symmetric])
  ultimately show ?thesis by blast
qed

theorem removed_strategies_stay_out_witness:
  "book_reach book_digests turn_book \<and> turn_schedule \<in> set (bk_rebalance_transitions turn_book)
   \<and> set (sf_removed_strategies (sch turn_schedule)) \<subseteq> set (bk_removed_strategies turn_book)"
proof -
  have s: "turn_schedule \<in> set (bk_rebalance_transitions turn_book)" by (simp add: turn_book_def)
  from removed_strategies_stay_out [OF turn_reach s] turn_reach s show ?thesis by blast
qed

text \<open>C12: A monthly rebalance is decided after the close of the last session of its month and released at the
  open of the next session: every civil date between the two was resolved with evidence known by the decision,
  to one of the two sessions or to a day without a trading session, the book the schedule retains passes its
  content check, and the strategies with active commitments, like the removed ones, stay among the preserved
  obligations.\<close>

theorem schedule_releases_next_session:
  assumes "schedule_monthly_rebalance D final next sequence decision preserved removed inputs commitments oms ledger = Inr s"
  shows "csr_utc_open next = Some (sf_release_time (sch s)) \<and> instant decision < instant (sf_release_time (sch s))
    \<and> (\<exists>close. csr_utc_close final = Some close \<and> instant close \<le> instant decision)
    \<and> csr_local_date final < csr_local_date next \<and> month_of (csr_local_date final) \<noteq> month_of (csr_local_date next)
    \<and> (\<forall>d\<in>{csr_local_date final..csr_local_date next}. \<exists>q c r. (q, c) \<in> set inputs \<and> cq_local_date q = d
        \<and> instant (cq_knowledge_cutoff q) \<le> instant decision
        \<and> resolve_calendar_session (cd_corpus D) (cd_calendar D) q c = Inr r
        \<and> (r = final \<or> r = next \<or> (csr_utc_open r = None \<and> csr_trading_day r \<noteq> None \<and> \<not> regular_day r)))
    \<and> check_book D (sch_retained_book s) = Inr () \<and> commitments = Some (sch_retained_book s)
    \<and> r_strategy ` set (active_records (bk_records (sch_retained_book s))) \<subseteq> set preserved \<and> set removed \<subseteq> set preserved"
proof -
  obtain b m l resolved where s: "commitments = Some b" "sch_retained_book s = b"
    "obligations_step (case commitments of None \<Rightarrow> Inl (Err InsufficientEvidenceError []) | Some b \<Rightarrow> rebuild_book D b)
       b m l decision preserved removed = Inr ()"
    "map (\<lambda>i. cq_local_date (fst i)) inputs = civil_dates (csr_local_date final) (csr_local_date next)"
    "rmap (\<lambda>(q, c). resolve_calendar_session (cd_corpus D) (cd_calendar D) q c) inputs = Inr resolved"
    "resolved_dates_step inputs decision final next sequence resolved = Inr ()"
    "month_end_step final next sequence decision = Inr (sf_release_time (sch s))" "set removed \<subseteq> set preserved"
    using assms unfolding schedule_monthly_rebalance_def by (rule schedule_with_Inr)
  have oblig: "check_book D b = Inr ()" "r_strategy ` set (active_records (bk_records b)) \<subseteq> set preserved"
    using s(3) by (auto simp: s(1) obligations_step_def check_book_def)
  have dates: "\<exists>q c r. (q, c) \<in> set inputs \<and> cq_local_date q = d \<and> instant (cq_knowledge_cutoff q) \<le> instant decision
        \<and> resolve_calendar_session (cd_corpus D) (cd_calendar D) q c = Inr r
        \<and> (r = final \<or> r = next \<or> (csr_utc_open r = None \<and> csr_trading_day r \<noteq> None \<and> \<not> regular_day r))"
    if "csr_local_date final \<le> d" "d \<le> csr_local_date next" for d by (rule dates_resolved [OF s(4-6) that])
  with month_end_step_Inr [OF s(7)] oblig s(1,2,8) show ?thesis by auto
qed

theorem schedule_releases_next_session_witness:
  "schedule_monthly_rebalance book_digests (turn_session (- 1)) (turn_session 0) [turn_session (- 1), turn_session 0] (Timestamp 60)
     [''MOM-001''] [''MOM-001''] turn_inputs (Some (book_of [])) (Some oms_empty) (Some (ledger_empty USD)) = Inr turn_schedule
   \<and> csr_utc_open (turn_session 0) = Some (sf_release_time (sch turn_schedule))
   \<and> instant (Timestamp 60) < instant (sf_release_time (sch turn_schedule))"
proof -
  have "schedule_monthly_rebalance book_digests (turn_session (- 1)) (turn_session 0) [turn_session (- 1), turn_session 0] (Timestamp 60)
     [''MOM-001''] [''MOM-001''] turn_inputs (Some (book_of [])) (Some oms_empty) (Some (ledger_empty USD)) = Inr turn_schedule"
    using turn_scheduled by (simp add: schedule_monthly_rebalance_def turn_rebuilt)
  from schedule_releases_next_session [OF this] this show ?thesis by blast
qed

text \<open>C14: Reservations do not depend on the order in which the requests are given: when
  \<open>reserve_commitments\<close> accepts a list of requests, it accepts every permutation of it with the same book.
  Requests that tie in the sort key name the same order, and no such pair is ever accepted.\<close>

theorem reservation_order_irrelevant:
  assumes "mset requests = mset requests'" and "reserve_commitments D b requests = Inr b'"
  shows "reserve_commitments D b requests' = Inr b'"
proof -
  let ?order = "\<lambda>q. so_order_id (rq_order (rq q))"
  have "distinct (map ?order (sort_key request_key requests))"
    using assms(2) reserved_orders_distinct by (auto simp: reserve_commitments_def)
  then have "distinct requests" "inj_on ?order (set requests)" by (simp_all add: distinct_map)
  then have "inj_on request_key (set requests)" by (meson inj_onD inj_onI request_key_order)
  with sort_key_perm [OF assms(1), of request_key]
  have "sort_key request_key requests = sort_key request_key requests'" by blast
  with assms(2) show ?thesis by (simp add: reserve_commitments_def)
qed

theorem reservation_order_irrelevant_witness:
  "mset [second_request, buy_request] = mset [buy_request, second_request]
   \<and> reserve_commitments book_digests (book_of []) [second_request, buy_request] = Inr (book_of [buy_record, second_record])
   \<and> reserve_commitments book_digests (book_of []) [buy_request, second_request] = Inr (book_of [buy_record, second_record])"
proof -
  have m: "mset [second_request, buy_request] = mset [buy_request, second_request]" by simp
  from reservation_order_irrelevant [OF m second_reserved] m second_reserved show ?thesis by blast
qed

end
