(* ===== verification/Spec2Isabelle.thy ===== *)
theory Spec2Isabelle
  imports Admission Strategies SimState CommitmentSafety
begin

text \<open>
  A verification library for the research-simulation core of the automated trading bot
  (Python package \<^verbatim>\<open>src/src/automated_trading_bot\<close>).

  \<^bold>\<open>The program.\<close>  Datasets are qualified on a ladder of evidence levels
  (\<^verbatim>\<open>research/dataset_qualification.py\<close>); features observed on them are assessed for use at a decision
  time (\<^verbatim>\<open>research/pit_features.py\<close>); research strategies turn month-end closes into target
  portfolios and order intents (\<^verbatim>\<open>research/momentum_strategy.py\<close>, \<^verbatim>\<open>research/trend_strategy.py\<close>);
  orders go through a simulated order-management system that fills them against execution
  snapshots and cost models (\<^verbatim>\<open>research/simulated_execution.py\<close>); each fill is posted as a financial
  event to an immutable ledger (\<^verbatim>\<open>research/simulation_ledger.py\<close>); reconciliation compares the order,
  fill and ledger histories and only then releases performance figures
  (\<^verbatim>\<open>research/reconciliation_performance.py\<close>); a durable journal stores the commands and rebuilds the
  whole state from them (\<^verbatim>\<open>research/simulation_state.py\<close>).  Strategies are admitted to a research
  portfolio on the strength of statistical and robustness reports
  (\<^verbatim>\<open>research/statistical_assurance.py\<close>, \<^verbatim>\<open>research/robustness_assurance.py\<close>) and share its capital
  (\<^verbatim>\<open>research/portfolio_construction.py\<close>); trading sessions and instrument references are resolved
  point in time from versioned records (\<^verbatim>\<open>calendars/\<close>, \<^verbatim>\<open>instruments/\<close>).  Underneath lie the contracts of
  \<^verbatim>\<open>domain/\<close>: value types, versioned codecs, envelopes, idempotency, concurrency and delivery.

  \<^bold>\<open>The theories.\<close>  Every definition keeps the name of the code where HOL allows it; record fields
  carry a short prefix per record; \<open>C_init\<close> is the constructor of a class \<open>C\<close> with the checks of its
  \<open>__post_init__\<close>.
  \<^item> \<open>Prelude\<close>: exceptions as values (\<open>'a result\<close>, \<open>rbind\<close>, \<open>raise_if\<close>, \<open>rmap\<close>, \<open>rfold\<close>), Python's
    text predicates, dictionaries as association lists, and the interfaces as locales:
    \<open>append_log\<close> (a history that grows at its end and is idempotent under an identity),
    \<open>absorbing\<close> (a machine with final states), \<open>codec\<close> and \<open>strict_codec\<close> (round trips).
  \<^item> \<open>Decimal\<close>: \<open>decimal.Decimal\<close> as exact rationals with rounding to 28 significant digits, half to
    even, after every arithmetic operation, as the default context does; the locale \<open>rounding\<close> has the
    laws of rounding the other theories use (monotone, idempotent, odd).
  \<^item> \<open>Identity\<close>: UUIDs as 128-bit words, identifiers, currency, money, quantity, timestamps (in
    microseconds), clocks, operational modes.
  \<^item> \<open>Versioning\<close>: \<^verbatim>\<open>domain/versioning.py\<close>, the registry of codecs and upcasts and the search for an
    upcast path, with fuel \<open>path_bound\<close> (one round per version between source and target, and one more),
    shown to be enough: the search returns on every registry the constructor accepts.
  \<^item> \<open>Contracts\<close>: \<^verbatim>\<open>domain/state_transitions.py\<close>, \<^verbatim>\<open>persistence.py\<close>, \<^verbatim>\<open>concurrency.py\<close>, \<^verbatim>\<open>delivery.py\<close>.
  \<^item> \<open>Ledger\<close>, \<open>Qualification\<close>, \<open>Execution\<close>, \<open>Reconcile\<close>, \<open>SimState\<close>, \<open>Strategies\<close>: the research
    modules named above, each with its state record, one definition per operation, an invariant and
    the step relation of its reachable states.
  \<^item> \<open>Admission\<close>: event and command envelopes with their canonical JSON codecs (Base64 included),
    idempotent admission, and the transaction intents that bind inbox, outbox and events.
  \<^item> \<open>Civil\<close>: the proleptic Gregorian calendar of \<open>datetime.date\<close> (dates are day numbers, texts are ISO).
  \<^item> \<open>Lineage\<close>: supersession of versioned records in general; the locale \<open>supersession\<close> states the three
    checks every lineage validation makes and proves once that they accept exactly the closed,
    unbranched, acyclic lineages of bounded depth.  It is interpreted on instrument reference versions
    (\<open>Instruments\<close>) and on calendar versions (\<open>CalendarResolution\<close>).
  \<^item> \<open>Instruments\<close>: \<^verbatim>\<open>instruments/model.py\<close> and \<^verbatim>\<open>resolution.py\<close>.
  \<^item> \<open>Calendars\<close> and \<open>CalendarResolution\<close>: \<^verbatim>\<open>calendars/model.py\<close> and \<^verbatim>\<open>resolution.py\<close>, definitions and
    properties; the resolver is split into the stages its early returns separate.
  \<^item> \<open>Assurance\<close>: the statistical and robustness assurance modules.
  \<^item> \<open>Portfolio\<close>: admission, budgets, shared adjustments and stress evidence of
    \<^verbatim>\<open>research/portfolio_construction.py\<close>.
  \<^item> \<open>Commitments\<close> and \<open>CommitmentSafety\<close>: the commitment book of the same module, with reservations,
    reconciliation and monthly rebalance schedules; definitions, and properties of its reachable books.
    Books contain the schedules they were carried forward by, and schedules the books they retain: the
    constructor that revalidates all of them is a recursive function, which ends because a retained
    book is smaller than the book that contains it.
  \<^item> this theory: the properties that span components.

  \<^bold>\<open>What is shown.\<close>
  \<^item> Ledger: every reachable ledger is consistent (no short positions, totals that add up), its
    history is contiguous and replays to the same ledger, re-applying an event changes nothing, and
    with exact arithmetic the books balance.
  \<^item> Execution: filled quantities are the sums of the fills and never exceed the order, terminal
    orders are final, histories only grow, attempts account for every fill, a fill posts to the
    ledger once, and an executable order is filled.
  \<^item> Reconciliation: performance is released only for matched histories; histories produced by the
    system itself do match and are rejected only when the figures fail their own rounding check; the
    figures are what they should be; and rounding alone may reject.
  \<^item> Journal: what it recovers is a reachable, reconciled simulation; publication advances it by one
    record; an interrupted publication leaves the old or the new state or a journal that refuses;
    checkpoints pin the history; records round-trip; the lock is respected and released.
  \<^item> Qualification and features: issued qualifications refine the abstract ladder, claims are bounded
    by it, and eligibility is exactly the point-in-time condition.
  \<^item> Strategies: the momentum portfolio is the top fifth by signal, inputs are point in time, and the
    transition intents lead to the targets.
  \<^item> Domain contracts: path search, faithful interpretation, canonical envelopes, single application
    of an inbox record along a serialized history, settlement of deliveries, sound concurrency outcomes, identity text.
  \<^item> Instruments and calendars: lineage validation accepts exactly the valid lineages, resolution
    returns on every input, what it establishes was unique, authoritative and known at the cutoff, later
    knowledge cannot change more than the reason of an unestablished result, and one overflow escapes
    the resolver.
  \<^item> Assurance: Holm's adjustment is the step-down procedure up to rounding (and rounding can
    contradict it), bootstrap intervals come from the resampled means, a robustness report
    has the worst outcome of its cases.
  \<^item> Portfolio: budgets and shared adjustments conserve every cent, admissions are hypothetical and
    pass their own revalidation, and the correlation test depends on the order of the strategies.
  \<^item> Commitment book: every reachable book revalidates and operations only extend it, strategies stay
    within their budgets at every point of the history, the records of an order continue one another
    until release, sales are covered by reconciled holdings, removed strategies take on no new orders,
    a rebalance is released at the next session after a month-end close, and the order in which
    requests are submitted does not matter.
  \<^item> Across components: a fill never looks ahead of its decision input, release and price.

  \<^bold>\<open>Assumptions and bounds.\<close>  Code outside the repository and primitives of the platform are
  parameters: the digests (\<open>order_digest\<close>, \<open>fill_digest\<close>, \<open>digest\<close>, of canonical JSON under SHA-256), the
  JSON and ISO-8601 text of the journal, the pseudo-random generator of the bootstrap, codecs
  registered by clients, and the trust context of a checkpoint.  Where a property needs more of them than being functions (injective text, no digest
  collision on the given records) that is a named hypothesis of the property.  Decimals carry no
  sign of zero, no trailing-zero exponent and no exponent bounds: values stay below the default
  context's \<open>Emax\<close>.  Two concrete limits of the code are kept: record files are named with eight
  digits, so the journal theorems speak of fewer than \<open>10 ^ 8\<close> records, and timestamps end at
  \<open>datetime.max\<close>.  Dynamic type checks (\<open>isinstance\<close>) are the types of the model.

  \<^bold>\<open>Not modelled.\<close>  Of portfolio construction, attribution and the evidence bundle, and with them
  the engineering portfolio controller; the mean-reversion strategy; decision
  records, monitoring and replay; the research governance registry; evidence and reproducibility
  manifests, whose digests are parameters here; market data, datasets and corporate actions, which
  lie upstream of the qualified data the model starts from; the operator console, the stage 3
  acceptance harness and the stage 5 authority service and commit boundary, whose behaviour is that
  of files, the operating system, a database and cryptographic libraries.
\<close>

section \<open>From an assessed input to a fill\<close>

text \<open>The fill that \<open>execute\<close> adds comes from the snapshot: its price was published by the time of
  execution.\<close>

lemma executed_fill_snapshot:
  assumes run: "oms_execute dg m i req s model = Inr m'"
    and new: "f \<in> set (oms_fills m')" "f \<notin> set (oms_fills m)"
  shows "fi_order_id f = i \<and> sn_price s = Some (fi_execution_price f)
    \<and> fi_execution_at f = sn_execution_at s
    \<and> (\<exists>u. sn_price_available_at s = Some u \<and> instant u \<le> instant (fi_execution_at f))"
  using run
proof (cases rule: oms_execute_cases)
  case (unfilled r rq)
  then have "oms_fills m' = oms_fills m" by (simp add: oms_replace_order_def)
  with new show ?thesis by simp
next
  case marked
  then have "oms_fills m' = oms_fills m"
    by (auto simp: oms_mark_unfilled_def oms_replace_order_def Let_def)
  with new show ?thesis by simp
next
  case (fill r rq av price cur evd g)
  then have "f = g" using oms_apply_fill_cases [OF fill(10)] new
    by (auto simp: fill_recorded_history)
  with fill(9) have "fi_order_id f = i" "fi_execution_price f = price"
      "fi_execution_at f = sn_execution_at s"
    by (auto simp: execution_fill_def SimulatedFill_init_def Let_def)
  with fill(5,7) show ?thesis by (auto simp: execution_reasons_Nil)
qed

lemma create_order_fields:
  "create_order odg ins side q cur rel run ev el = Inr ord \<Longrightarrow>
     so_eligibility_state ord = el_state el \<and> so_decision_time ord = el_decision_time el
     \<and> so_release_at ord = rel \<and> so_instrument_id ord = ins \<and> so_side ord = side"
  by (auto simp: create_order_def SimulatedOrder_init_def Let_def)

text \<open>C4: There is no look-ahead from the data to the fill: when an order built from an assessed
  decision input is executed and a fill results, the decision input was eligible (its feature was
  available, every input valid and known, and the claim permitted by the dataset qualification at
  the decision time), the order was released strictly after the decision, the fill executed
  strictly after the release, and its price is the snapshot's, published by the execution time.\<close>

theorem fills_without_lookahead:
  assumes reach: "oms_reach m"
    and created: "create_order odg ins side q cur rel run ev
          (assess_decision_input fdef ob dq inputs t claim causal) = Inr (rec_order r)"
    and r: "r \<in> set (oms_orders m)"
    and exec: "oms_execute dg m (rec_order_id r) req s model = Inr m'"
    and new: "f \<in> set (oms_fills m')" "f \<notin> set (oms_fills m)"
  shows "permits_claim dq claim \<and> instant (fo_available_at ob) \<le> instant t
    \<and> (\<forall>v\<in>set inputs. pi_state v = VALID
         \<and> (\<exists>k. pi_knowledge_time v = Some k \<and> instant k \<le> instant t))
    \<and> instant t < instant rel \<and> instant rel < instant (fi_execution_at f)
    \<and> fi_instrument_id f = ins \<and> fi_side f = side
    \<and> sn_price s = Some (fi_execution_price f)
    \<and> (\<exists>u. sn_price_available_at s = Some u \<and> instant u \<le> instant (fi_execution_at f))"
proof -
  have reach': "oms_reach m'" by (rule reach_step [OF reach step_execute [OF exec]])
  obtain r' where r': "r' \<in> set (oms_orders m')" "fill_matches f (rec_order r')" "admitted r'"
      "rec_status r' \<noteq> REJECTED"
    using filled_order_admitted [OF reach' new(1)] by blast
  note snap = executed_fill_snapshot [OF exec new]
  have "prefix (map rec_order (oms_orders m)) (map rec_order (oms_orders m'))"
    using oms_step_history [OF step_execute [OF exec] oms_reach_ok [OF reach]] by (elim conjE)
  from set_mono_prefix [OF this] r obtain x where x: "x \<in> set (oms_orders m')" "rec_order x = rec_order r"
    by auto
  have "inj_on rec_order_id (set (oms_orders m'))"
    using oms_reach_ok [OF reach'] by (simp add: oms_ok_def distinct_map)
  moreover have "rec_order_id x = rec_order_id r'"
    using x(2) r'(2) snap by (simp add: fill_matches_def)
  ultimately have "x = r'" using x(1) r'(1) by (rule inj_onD)
  with x have same: "rec_order r' = rec_order r" by simp
  let ?el = "assess_decision_input fdef ob dq inputs t claim causal"
  have el: "so_eligibility_state (rec_order r) = el_state ?el" "so_decision_time (rec_order r) = t"
      "so_release_at (rec_order r) = rel" "so_instrument_id (rec_order r) = ins"
      "so_side (rec_order r) = side"
    using create_order_fields [OF created] by (simp_all add: assess_decision_input_def Let_def)
  then have "el_state ?el = ELIGIBLE" and "instant t < instant rel"
    using r'(3,4) same by (auto simp: admitted_def)
  then show ?thesis
    using r'(2) snap same el unfolding eligible_conditions by (auto simp: fill_matches_def)
qed

section \<open>A concrete flow\<close>

definition flow_created :: "SimulatedOrder result" where
  "flow_created = create_order (\<lambda>b. replicate 16 1) sample_instrument BUY (Finite 10)
     (Currency ''USD'') (Timestamp 200) (ResearchRunId ''run'') (EvidenceContentDigest ''d'')
     (assess_decision_input sample_feature sample_observation (sample_q G3) [sample_input]
       (Timestamp 40) ECONOMIC_VALIDATION False)"

definition flow_order :: SimulatedOrder where
  "flow_order = projr flow_created"

definition flow_record :: OrderRecord where
  "flow_record = \<lparr>rec_order = flow_order, rec_status = ACCEPTED, rec_filled_quantity = 0,
     rec_reasons = []\<rparr>"

definition flow_oms :: SimulatedOms where
  "flow_oms = oms_empty\<lparr>oms_orders := [flow_record]\<rparr>"

definition flow_result :: "SimulatedOms result" where
  "flow_result = oms_execute (\<lambda>b. replicate 16 1) flow_oms (so_order_id flow_order) (Finite 6)
     sample_snapshot sample_model"

theorem fills_without_lookahead_witness:
  "let f = hd (oms_fills (projr flow_result)) in
     instant (Timestamp 40) < instant (Timestamp 200) \<and> instant (Timestamp 200) < instant (fi_execution_at f)
     \<and> fi_instrument_id f = sample_instrument \<and> sn_price sample_snapshot = Some (fi_execution_price f)"
proof -
  have created: "flow_created = Inr (rec_order flow_record)"
    unfolding flow_record_def flow_order_def by code_simp
  have init: "SimulatedOrder_init flow_order = Inr flow_order" by code_simp
  have "oms_submit oms_empty flow_order = Inr flow_oms" by code_simp
  then have reach: "oms_reach flow_oms"
    by (rule reach_step [OF reach_empty step_submit [OF init]])
  have exec: "flow_result = Inr (projr flow_result)" by code_simp
  have new: "hd (oms_fills (projr flow_result)) \<in> set (oms_fills (projr flow_result))" by code_simp
  have old: "hd (oms_fills (projr flow_result)) \<notin> set (oms_fills flow_oms)" by code_simp
  have r: "flow_record \<in> set (oms_orders flow_oms)" by (simp add: flow_oms_def)
  have exec': "oms_execute (\<lambda>b. replicate 16 1) flow_oms (rec_order_id flow_record) (Finite 6)
     sample_snapshot sample_model = Inr (projr flow_result)"
    using exec by (simp add: flow_result_def flow_record_def)
  show ?thesis
    using fills_without_lookahead [OF reach created [unfolded flow_created_def] r exec' new old]
    by (simp add: Let_def)
qed

end
